(* ===== verification/Float64.thy ===== *)
theory Float64
  imports Main "HOL-Library.Log_Nat"
begin

text \<open>
  Go's \<open>float64\<close>: an IEEE 754 binary64 value is either a finite dyadic rational, one of the two
  infinities, or a NaN.  Comparisons follow IEEE 754 (every comparison with a NaN is false);
  products, sums and quotients are the exact rational result rounded to the nearest binary64
  value, ties to even (\<open>f64_round\<close>).  The sign of a zero is not kept, and the NaN payloads are
  identified: no code of the modelled packages depends on either.
  Conversions of an out-of-range or non-finite value to an integer type are left to the
  implementation by the Go specification and are a parameter here.
\<close>

section \<open>Values and comparisons\<close>

datatype f64 = Fin rat | PInf | NInf | NaN

fun f64_lt :: "f64 \<Rightarrow> f64 \<Rightarrow> bool" where
  "f64_lt NaN _ = False"
| "f64_lt _ NaN = False"
| "f64_lt (Fin a) (Fin b) = (a < b)"
| "f64_lt NInf NInf = False"
| "f64_lt NInf _ = True"
| "f64_lt _ NInf = False"
| "f64_lt PInf _ = False"
| "f64_lt (Fin _) PInf = True"

fun f64_eq :: "f64 \<Rightarrow> f64 \<Rightarrow> bool" where
  "f64_eq NaN _ = False"
| "f64_eq _ NaN = False"
| "f64_eq a b = (a = b)"

definition f64_gt :: "f64 \<Rightarrow> f64 \<Rightarrow> bool" where
  "f64_gt a b = f64_lt b a"

definition f64_le :: "f64 \<Rightarrow> f64 \<Rightarrow> bool" where
  "f64_le a b = (f64_lt a b \<or> f64_eq a b)"

definition f64_ge :: "f64 \<Rightarrow> f64 \<Rightarrow> bool" where
  "f64_ge a b = f64_le b a"

definition f64_zero :: f64 where
  "f64_zero = Fin 0"

lemma f64_gt_simps [simp]:
  "f64_gt (Fin a) (Fin b) = (a > b)"
  "\<not> f64_gt NaN x" "\<not> f64_gt x NaN"
  by (cases x; simp add: f64_gt_def)+

lemma f64_le_Fin [simp]: "f64_le (Fin a) (Fin b) = (a \<le> b)"
  by (auto simp: f64_le_def)

lemma f64_ge_Fin [simp]: "f64_ge (Fin a) (Fin b) = (a \<ge> b)"
  by (auto simp: f64_ge_def)

lemma f64_NaN_le [simp]: "\<not> f64_le NaN x" "\<not> f64_le x NaN"
  by (cases x; simp add: f64_le_def)+

lemma f64_not_lt_gt_iff:
  "(\<not> f64_lt x lo \<and> \<not> f64_gt x hi) = (x = NaN \<or> lo = NaN \<and> \<not> f64_gt x hi
     \<or> hi = NaN \<and> \<not> f64_lt x lo \<or> f64_le lo x \<and> f64_le x hi)"
  by (cases x; cases lo; cases hi) (auto simp: f64_gt_def f64_le_def)

section \<open>Rounding to binary64\<close>

text \<open>\<open>2 ^ e\<close> for an integer exponent.\<close>

definition pow2 :: "int \<Rightarrow> rat" where
  "pow2 e = (if 0 \<le> e then 2 ^ nat e else 1 / 2 ^ nat (- e))"

text \<open>The exponent of the leading bit of a positive rational.\<close>

definition floor_log2 :: "rat \<Rightarrow> int" where
  "floor_log2 q =
     (let (a, b) = quotient_of q; k = bitlen a - bitlen b
      in if pow2 k \<le> q then k else k - 1)"

definition round_half_even :: "rat \<Rightarrow> int" where
  "round_half_even q =
     (let n = \<lfloor>q\<rfloor>; r = q - of_int n
      in if r < 1 / 2 then n
         else if 1 / 2 < r then n + 1
         else if even n then n else n + 1)"

definition f64_round :: "rat \<Rightarrow> f64" where
  "f64_round q =
     (if q = 0 then Fin 0
      else let e = max (floor_log2 \<bar>q\<bar> - 52) (- 1074);
               r = of_int (round_half_even (q / pow2 e)) * pow2 e
           in if \<bar>r\<bar> < 2 ^ 1024 then Fin r else if 0 < r then PInf else NInf)"

fun f64_neg :: "f64 \<Rightarrow> f64" where
  "f64_neg (Fin a) = Fin (- a)"
| "f64_neg PInf = NInf"
| "f64_neg NInf = PInf"
| "f64_neg NaN = NaN"

fun f64_mul :: "f64 \<Rightarrow> f64 \<Rightarrow> f64" where
  "f64_mul NaN _ = NaN"
| "f64_mul _ NaN = NaN"
| "f64_mul (Fin a) (Fin b) = f64_round (a * b)"
| "f64_mul (Fin a) PInf = (if a = 0 then NaN else if 0 < a then PInf else NInf)"
| "f64_mul (Fin a) NInf = (if a = 0 then NaN else if 0 < a then NInf else PInf)"
| "f64_mul PInf (Fin a) = (if a = 0 then NaN else if 0 < a then PInf else NInf)"
| "f64_mul NInf (Fin a) = (if a = 0 then NaN else if 0 < a then NInf else PInf)"
| "f64_mul PInf PInf = PInf"
| "f64_mul PInf NInf = NInf"
| "f64_mul NInf PInf = NInf"
| "f64_mul NInf NInf = PInf"

text \<open>Division by a nonzero finite constant, the only division of the modelled packages.\<close>

fun f64_div_const :: "f64 \<Rightarrow> rat \<Rightarrow> f64" where
  "f64_div_const (Fin a) c = f64_round (a / c)"
| "f64_div_const PInf c = (if 0 < c then PInf else NInf)"
| "f64_div_const NInf c = (if 0 < c then NInf else PInf)"
| "f64_div_const NaN c = NaN"

text \<open>Conversion of an integer constant or variable to \<open>float64\<close>.\<close>

definition f64_of_int :: "int \<Rightarrow> f64" where
  "f64_of_int n = f64_round (of_int n)"

text \<open>
  Conversion to an integer type whose values are \<open>lo..hi\<close>: the fraction is discarded; outside
  the range the result is implementation-specific (\<open>oob\<close>).
\<close>

definition rat_trunc :: "rat \<Rightarrow> int" where
  "rat_trunc q = (if 0 \<le> q then \<lfloor>q\<rfloor> else - \<lfloor>- q\<rfloor>)"

definition f64_to_int :: "(f64 \<Rightarrow> int) \<Rightarrow> int \<Rightarrow> int \<Rightarrow> f64 \<Rightarrow> int" where
  "f64_to_int oob lo hi x =
     (case x of Fin q \<Rightarrow> (if lo \<le> rat_trunc q \<and> rat_trunc q \<le> hi then rat_trunc q else oob x)
              | _ \<Rightarrow> oob x)"

section \<open>Exactness of rounding\<close>

lemma pow2_pos [simp]: "0 < pow2 e"
  by (simp add: pow2_def)

lemma round_half_even_of_int [simp]: "round_half_even (of_int n) = n"
  by (simp add: round_half_even_def Let_def)

lemma floor_log2_less:
  assumes "0 < q" "q < 2 ^ n"
  shows "floor_log2 q < int n"
proof -
  obtain a b where ab: "quotient_of q = (a, b)" by fastforce
  have le: "pow2 (floor_log2 q) \<le> q"
    if "pow2 (bitlen a - bitlen b) \<le> q"
    using that by (simp add: floor_log2_def ab Let_def)
  have b: "0 < b" using quotient_of_denom_pos[OF ab] .
  have q: "q = of_int a / of_int b" using quotient_of_div[OF ab] .
  have a: "0 < a" using assms(1) b by (simp add: q zero_less_divide_iff)
  define k where "k = bitlen a - bitlen b"
  have A: "2 ^ nat (bitlen a - 1) \<le> a" using bitlen_bounds[OF a] by simp
  have B: "b < 2 ^ nat (bitlen b)" using bitlen_bounds[OF b] by simp
  have A': "2 ^ nat (bitlen a - 1) \<le> (of_int a :: rat)"
    using A by (metis of_int_le_iff of_int_numeral of_int_power)
  have B': "(of_int b :: rat) < 2 ^ nat (bitlen b)"
    using B by (metis of_int_less_iff of_int_numeral of_int_power)
  have pos: "1 \<le> bitlen a" "1 \<le> bitlen b"
    using a b by (simp_all add: bitlen_def floorlog_def)
  have low: "pow2 (k - 1) < q"
  proof -
    have "pow2 (k - 1) * of_int b < pow2 (k - 1) * 2 ^ nat (bitlen b)"
      using B' by simp
    also have "\<dots> = 2 ^ nat (bitlen a - 1)"
    proof (cases "0 \<le> k - 1")
      case True
      then have "nat (k - 1) + nat (bitlen b) = nat (bitlen a - 1)"
        using pos by (simp add: k_def nat_add_distrib[symmetric])
      with True show ?thesis by (simp add: pow2_def power_add[symmetric])
    next
      case False
      then have "nat (bitlen b) = nat (bitlen a - 1) + nat (- (k - 1))"
        using pos by (simp add: k_def nat_add_distrib[symmetric])
      with False show ?thesis by (simp add: pow2_def power_add)
    qed
    also have "\<dots> \<le> of_int a"
      by (rule A')
    finally show ?thesis using b by (simp add: q field_simps)
  qed
  have "pow2 (floor_log2 q) \<le> q"
    using low by (simp add: floor_log2_def ab Let_def k_def)
  then have lt: "pow2 (floor_log2 q) < 2 ^ n" using assms(2) by simp
  show ?thesis
  proof (rule ccontr)
    assume "\<not> ?thesis"
    then have "(2::rat) ^ n \<le> 2 ^ nat (floor_log2 q)" and "0 \<le> floor_log2 q"
      by (auto intro!: power_increasing)
    with lt show False by (simp add: pow2_def)
  qed
qed

text \<open>Integers of at most 53 bits are exact.\<close>

lemma f64_round_int:
  assumes "\<bar>n\<bar> < 2 ^ 53"
  shows "f64_round (of_int n) = Fin (of_int n)"
proof (cases "n = 0")
  case True
  then show ?thesis by (simp add: f64_round_def)
next
  case False
  define e where "e = max (floor_log2 \<bar>of_int n\<bar> - 52) (- 1074)"
  have q: "0 < \<bar>of_int n :: rat\<bar>" "\<bar>of_int n :: rat\<bar> < 2 ^ 53"
    using False assms by (simp, metis of_int_abs of_int_less_iff of_int_numeral of_int_power)
  have "floor_log2 \<bar>of_int n\<bar> < int 53"
    using floor_log2_less[OF q] .
  then have e: "e \<le> 0" by (simp add: e_def)
  have scaled: "of_int n / pow2 e = of_int (n * 2 ^ nat (- e))"
    using e by (cases "e = 0") (simp_all add: pow2_def)
  have unscaled: "of_int (n * 2 ^ nat (- e)) * pow2 e = (of_int n :: rat)"
    using e by (cases "e = 0") (simp_all add: pow2_def)
  have small: "\<bar>of_int n :: rat\<bar> < 2 ^ 1024"
    using q(2) by (rule less_le_trans) simp
  show ?thesis
    using False small
    by (simp add: f64_round_def Let_def e_def[symmetric] scaled unscaled del: of_int_mult of_int_power)
qed

end
