(* ===== verification/GoPrelude.thy ===== *)
theory GoPrelude
  imports Main "HOL-Library.Word" "HOL-Library.AList" Float64
begin

text \<open>
  What every component of the model shares: Go's error values, the outcomes of a call (it returns,
  it panics, it blocks for ever on a lock), read-write mutexes, maps, decimal rendering of
  integers, and the lemma collections the component theories feed.

  Conventions.  A function of the source that mutates a structure takes it and returns it updated;
  \<open>time.Now()\<close> is an argument (an \<open>int\<close> of nanoseconds) supplied at the call; calls to the logger
  are dropped.  A string is the list of its bytes.
\<close>

named_theorems locked_simps \<open>unfolding of critical sections\<close>
named_theorems map_simps \<open>lookups in updated maps\<close>
named_theorems wf_intros \<open>preservation of the components' invariants\<close>

section \<open>Errors\<close>

text \<open>
  \<open>Errorf f args\<close> is the value of \<open>fmt.Errorf(f, args...)\<close> (\<open>%w\<close> wraps an error argument).  Code
  outside the repository yields arbitrary values of this type.
\<close>

datatype goerr =
    Errorf string "farg list"
  | CtxCanceled
  | CtxDeadlineExceeded
and farg = AStr string | AInt int | AFloat f64 | AErr goerr | AErrs "goerr list"

datatype 'a result = Ok 'a | Err goerr

text \<open>A call returns, panics, or never returns because it waits for a lock its own goroutine holds.\<close>

datatype 'a exec = Ret 'a | Panic string | Blocked

fun returns :: "'a exec \<Rightarrow> bool" where
  "returns (Ret _) = True"
| "returns _ = False"

text \<open>Sequencing of pure computations that may panic.\<close>

fun ebind :: "'a exec \<Rightarrow> ('a \<Rightarrow> 'b exec) \<Rightarrow> 'b exec" where
  "ebind (Ret x) f = f x"
| "ebind (Panic m) f = Panic m"
| "ebind Blocked f = Blocked"

lemma ebind_Ret: "ebind e f = Ret y \<longleftrightarrow> (\<exists>x. e = Ret x \<and> f x = Ret y)"
  by (cases e) auto

text \<open>A loop that returns at the first error.\<close>

fun first_error :: "('a \<Rightarrow> goerr option) \<Rightarrow> 'a list \<Rightarrow> goerr option" where
  "first_error f [] = None"
| "first_error f (x # xs) = (case f x of Some e \<Rightarrow> Some e | None \<Rightarrow> first_error f xs)"

lemma first_error_None: "first_error f xs = None \<longleftrightarrow> (\<forall>x \<in> set xs. f x = None)"
  by (induction xs) (auto split: option.split)

text \<open>A cancellable context as seen at one instant.\<close>

datatype ctx = CtxLive | CtxDone goerr

section \<open>Read-write mutexes\<close>

datatype rwmutex = Unlocked | RLocked nat | WLocked

fun mu_lock :: "rwmutex \<Rightarrow> rwmutex option" where
  "mu_lock Unlocked = Some WLocked"
| "mu_lock _ = None"

fun mu_unlock :: "rwmutex \<Rightarrow> rwmutex" where
  "mu_unlock _ = Unlocked"

fun mu_rlock :: "rwmutex \<Rightarrow> rwmutex option" where
  "mu_rlock Unlocked = Some (RLocked 1)"
| "mu_rlock (RLocked n) = Some (RLocked (Suc n))"
| "mu_rlock WLocked = None"

fun mu_runlock :: "rwmutex \<Rightarrow> rwmutex" where
  "mu_runlock (RLocked n) = (if n \<le> 1 then Unlocked else RLocked (n - 1))"
| "mu_runlock m = m"

text \<open>
  \<open>mu.Lock(); defer mu.Unlock(); body\<close> for the mutex that \<open>get\<close> reads and \<open>put\<close> writes: the body
  runs with the lock held; the lock is released when it returns or panics.  A mutex that is not
  free blocks the caller.
\<close>

definition with_lock ::
  "('s \<Rightarrow> rwmutex) \<Rightarrow> ((rwmutex \<Rightarrow> rwmutex) \<Rightarrow> 's \<Rightarrow> 's) \<Rightarrow> ('s \<Rightarrow> 's \<times> 'a exec) \<Rightarrow> 's \<Rightarrow> 's \<times> 'a exec"
where
  "with_lock get put body s =
     (case mu_lock (get s) of
        None \<Rightarrow> (s, Blocked)
      | Some l \<Rightarrow>
          (let (s', r) = body (put (\<lambda>_. l) s)
           in if r = Blocked then (s', Blocked) else (put mu_unlock s', r)))"

text \<open>\<open>mu.RLock(); defer mu.RUnlock(); body\<close>.\<close>

definition with_rlock ::
  "('s \<Rightarrow> rwmutex) \<Rightarrow> ((rwmutex \<Rightarrow> rwmutex) \<Rightarrow> 's \<Rightarrow> 's) \<Rightarrow> ('s \<Rightarrow> 's \<times> 'a exec) \<Rightarrow> 's \<Rightarrow> 's \<times> 'a exec"
where
  "with_rlock get put body s =
     (case mu_rlock (get s) of
        None \<Rightarrow> (s, Blocked)
      | Some l \<Rightarrow>
          (let (s', r) = body (put (\<lambda>_. l) s)
           in if r = Blocked then (s', Blocked) else (put mu_runlock s', r)))"

text \<open>Sequencing of two calls on the same state: the second runs only when the first returned.\<close>

definition and_then :: "('s \<Rightarrow> 's \<times> 'a exec) \<Rightarrow> ('a \<Rightarrow> 's \<Rightarrow> 's \<times> 'b exec) \<Rightarrow> 's \<Rightarrow> 's \<times> 'b exec" where
  "and_then f g s =
     (case f s of
        (s', Ret a) \<Rightarrow> g a s'
      | (s', Panic m) \<Rightarrow> (s', Panic m)
      | (s', Blocked) \<Rightarrow> (s', Blocked))"

text \<open>A call on one part of a structure.\<close>

definition on_part :: "('s \<Rightarrow> 'c) \<Rightarrow> (('c \<Rightarrow> 'c) \<Rightarrow> 's \<Rightarrow> 's) \<Rightarrow> ('c \<Rightarrow> 'c \<times> 'a) \<Rightarrow> 's \<Rightarrow> 's \<times> 'a" where
  "on_part get put f s = (let (c, r) = f (get s) in (put (\<lambda>_. c) s, r))"

lemma with_lock_held [locked_simps]:
  "get s \<noteq> Unlocked \<Longrightarrow> with_lock get put body s = (s, Blocked)"
  by (cases "get s") (auto simp: with_lock_def)

lemma with_rlock_held [locked_simps]:
  "get s = WLocked \<Longrightarrow> with_rlock get put body s = (s, Blocked)"
  by (simp add: with_rlock_def)

lemma with_lock_free [locked_simps]:
  "get s = Unlocked \<Longrightarrow> with_lock get put body s =
     (let (s', r) = body (put (\<lambda>_. WLocked) s)
      in if r = Blocked then (s', Blocked) else (put mu_unlock s', r))"
  by (simp add: with_lock_def)

lemma with_rlock_free [locked_simps]:
  "get s = Unlocked \<Longrightarrow> with_rlock get put body s =
     (let (s', r) = body (put (\<lambda>_. RLocked 1) s)
      in if r = Blocked then (s', Blocked) else (put mu_runlock s', r))"
  by (simp add: with_rlock_def)

lemma with_rlock_shared [locked_simps]:
  "get s = RLocked n \<Longrightarrow> with_rlock get put body s =
     (let (s', r) = body (put (\<lambda>_. RLocked (Suc n)) s)
      in if r = Blocked then (s', Blocked) else (put mu_runlock s', r))"
  by (simp add: with_rlock_def)

lemma and_then_simps [simp]:
  "f s = (s', Ret a) \<Longrightarrow> and_then f g s = g a s'"
  "f s = (s', Panic m) \<Longrightarrow> and_then f g s = (s', Panic m)"
  "f s = (s', Blocked) \<Longrightarrow> and_then f g s = (s', Blocked)"
  by (simp_all add: and_then_def)

text \<open>Invariants that do not mention the mutex pass through critical sections and sequencing.\<close>

lemma with_lock_inv [wf_intros]:
  assumes "\<And>f s. P (put f s) \<longleftrightarrow> P s" "\<And>s. P s \<Longrightarrow> P (fst (body s))" "P s"
  shows "P (fst (with_lock get put body s))"
proof (cases "mu_lock (get s)")
  case None
  then show ?thesis using assms(3) by (simp add: with_lock_def)
next
  case (Some l)
  have "P (fst (body (put (\<lambda>_. l) s)))" using assms by blast
  then show ?thesis using Some assms(1) by (auto simp: with_lock_def split: prod.split)
qed

lemma with_rlock_inv [wf_intros]:
  assumes "\<And>f s. P (put f s) \<longleftrightarrow> P s" "\<And>s. P s \<Longrightarrow> P (fst (body s))" "P s"
  shows "P (fst (with_rlock get put body s))"
proof (cases "mu_rlock (get s)")
  case None
  then show ?thesis using assms(3) by (simp add: with_rlock_def)
next
  case (Some l)
  have "P (fst (body (put (\<lambda>_. l) s)))" using assms by blast
  then show ?thesis using Some assms(1) by (auto simp: with_rlock_def split: prod.split)
qed

lemma and_then_inv [wf_intros]:
  assumes "P (fst (f s))" "\<And>a s'. P s' \<Longrightarrow> P (fst (g a s'))"
  shows "P (fst (and_then f g s))"
proof -
  obtain s' r where fs: "f s = (s', r)" by (cases "f s")
  then have "P s'" using assms(1) by simp
  then show ?thesis using assms(2) fs by (cases r) (simp_all add: and_then_def)
qed

section \<open>Maps\<close>

text \<open>
  A Go map is an association list with distinct keys.  The order of the list is one of the orders
  in which \<open>range\<close> may deliver the entries: Go fixes none, so a statement about every association
  list covers every order.
\<close>

type_synonym ('k, 'v) gomap = "('k \<times> 'v) list"

definition gm_get :: "('k, 'v) gomap \<Rightarrow> 'k \<Rightarrow> 'v option" where
  "gm_get m k = map_of m k"

definition gm_set :: "'k \<Rightarrow> 'v \<Rightarrow> ('k, 'v) gomap \<Rightarrow> ('k, 'v) gomap" where
  "gm_set k v m = AList.update k v m"

definition gm_del :: "'k \<Rightarrow> ('k, 'v) gomap \<Rightarrow> ('k, 'v) gomap" where
  "gm_del k m = AList.delete k m"

definition gm_has :: "('k, 'v) gomap \<Rightarrow> 'k \<Rightarrow> bool" where
  "gm_has m k = (gm_get m k \<noteq> None)"

definition gm_keys :: "('k, 'v) gomap \<Rightarrow> 'k list" where
  "gm_keys m = map fst m"

definition gm_wf :: "('k, 'v) gomap \<Rightarrow> bool" where
  "gm_wf m = distinct (map fst m)"

lemma gm_get_Nil [simp]: "gm_get [] k = None"
  by (simp add: gm_get_def)

lemma gm_get_set [simp, map_simps]: "gm_get (gm_set k v m) k' = (if k' = k then Some v else gm_get m k')"
  by (simp add: gm_get_def gm_set_def update_conv')

lemma gm_get_del [simp, map_simps]: "gm_get (gm_del k m) k' = (if k' = k then None else gm_get m k')"
  by (simp add: gm_get_def gm_del_def delete_conv')

lemma gm_wf_Nil [simp]: "gm_wf []"
  by (simp add: gm_wf_def)

lemma gm_wf_set [simp, wf_intros]: "gm_wf m \<Longrightarrow> gm_wf (gm_set k v m)"
  by (simp add: gm_wf_def gm_set_def distinct_update)

lemma gm_wf_del [simp, wf_intros]: "gm_wf m \<Longrightarrow> gm_wf (gm_del k m)"
  by (simp add: gm_wf_def gm_del_def distinct_delete)

lemma gm_has_iff: "gm_has m k \<longleftrightarrow> k \<in> fst ` set m"
  by (simp add: gm_has_def gm_get_def map_of_eq_None_iff)

lemma gm_get_in_set: "gm_get m k = Some v \<Longrightarrow> (k, v) \<in> set m"
  by (simp add: gm_get_def map_of_SomeD)

lemma gm_in_set_get: "gm_wf m \<Longrightarrow> (k, v) \<in> set m \<Longrightarrow> gm_get m k = Some v"
  by (simp add: gm_wf_def gm_get_def)

lemma gm_get_iff: "gm_wf m \<Longrightarrow> gm_get m k = Some v \<longleftrightarrow> (k, v) \<in> set m"
  by (auto intro: gm_in_set_get gm_get_in_set)

lemma length_gm_set: "length (gm_set k v m) = (if gm_has m k then length m else Suc (length m))"
proof -
  have "length (AList.update k v m) = (if k \<in> fst ` set m then length m else Suc (length m))"
    by (induction m) auto
  then show ?thesis by (simp add: gm_set_def gm_has_iff)
qed

lemma length_gm_del: "length (gm_del k m) \<le> length m"
  by (simp add: gm_del_def length_delete_le)

lemma gm_del_absent [simp]: "gm_get m k = None \<Longrightarrow> gm_del k m = m"
  by (simp add: gm_del_def gm_get_def map_of_eq_None_iff)

lemma length_gm_del_present:
  assumes "gm_wf m" "gm_get m k \<noteq> None"
  shows "Suc (length (gm_del k m)) = length m"
proof -
  have "distinct (map fst m) \<Longrightarrow> k \<in> fst ` set m \<Longrightarrow> Suc (length (AList.delete k m)) = length m"
    by (induction m) force+
  then show ?thesis
    using assms by (auto simp: gm_wf_def gm_del_def gm_get_def map_of_eq_None_iff)
qed

text \<open>Removing the first occurrence of a value: \<open>append(xs[:i], xs[i+1:]...)\<close> at the first match.\<close>

lemma set_remove1_other: "x \<noteq> y \<Longrightarrow> x \<in> set (remove1 y xs) \<longleftrightarrow> x \<in> set xs"
  by (induction xs) auto

section \<open>Decimal rendering\<close>

definition digit_char :: "nat \<Rightarrow> char" where
  "digit_char d = char_of (48 + d)"

fun nat_dec :: "nat \<Rightarrow> string" where
  "nat_dec n = (if n < 10 then [digit_char n] else nat_dec (n div 10) @ [digit_char (n mod 10)])"

declare nat_dec.simps [simp del]

text \<open>\<open>%d\<close>, \<open>strconv.Itoa\<close>.\<close>

definition int_dec :: "int \<Rightarrow> string" where
  "int_dec i = (if i < 0 then ''-'' @ nat_dec (nat (- i)) else nat_dec (nat i))"

fun dec_value :: "nat \<Rightarrow> string \<Rightarrow> nat" where
  "dec_value acc [] = acc"
| "dec_value acc (c # cs) = dec_value (10 * acc + (of_char c - 48)) cs"

lemma of_char_digit [simp]: "d < 10 \<Longrightarrow> (of_char (digit_char d) :: nat) = 48 + d"
  by (simp add: digit_char_def)

lemma dec_value_append: "dec_value acc (xs @ ys) = dec_value (dec_value acc xs) ys"
  by (induction xs arbitrary: acc) auto

lemma dec_value_nat_dec: "dec_value 0 (nat_dec n) = n"
proof (induction n rule: nat_dec.induct)
  case (1 n)
  then show ?case
    by (subst nat_dec.simps) (auto simp: dec_value_append)
qed

lemma nat_dec_inject [simp]: "nat_dec m = nat_dec n \<longleftrightarrow> m = n"
  using dec_value_nat_dec by metis

lemma nat_dec_digits: "c \<in> set (nat_dec n) \<Longrightarrow> \<exists>d<10. c = digit_char d"
proof (induction n rule: nat_dec.induct)
  case (1 n)
  show ?case
  proof (cases "n < 10")
    case True
    with "1.prems" show ?thesis by (auto simp: nat_dec.simps[of n])
  next
    case False
    with "1.prems" have "c \<in> set (nat_dec (n div 10)) \<or> c = digit_char (n mod 10)"
      by (auto simp: nat_dec.simps[of n])
    with "1.IH" False show ?thesis by (auto intro: exI[of _ "n mod 10"])
  qed
qed

lemma dash_notin_nat_dec [simp]: "CHR ''-'' \<notin> set (nat_dec n)"
proof
  assume "CHR ''-'' \<in> set (nat_dec n)"
  then obtain d where d: "d < 10" "CHR ''-'' = digit_char d" by (auto dest: nat_dec_digits)
  then have "(of_char (CHR ''-'') :: nat) = 48 + d" by (metis of_char_digit)
  then show False by simp
qed

end
