(* ===== verification/GoTypes.thy ===== *)
theory GoTypes
  imports GoPrelude
begin

text \<open>
  The data of package \<open>types\<close> (\<open>pkg/types/types.go\<close>) and the struct layout of task nodes
  (\<open>pkg/types/tasknode.go\<close>).  Field names carry a short prefix for the struct they belong to.
  A task node is a tree: nodes refer to their children by value, and to the parent by its ID, which
  is all the code reads of it.  A \<open>SequenceTaskNode\<close> keeps its children in \<open>command.Nodes\<close> and in
  the base node's \<open>children\<close>; the two slices hold the same pointers in every node the repository
  builds, and the tree has one list for both.
\<close>

section \<open>Enumerations\<close>

datatype TaskPriority =
    PriorityEmergency | PriorityHigh | PriorityMedium | PriorityLow
  | PriorityOther int

datatype TaskStatus =
    StatusPending | StatusRunning | StatusPaused | StatusCompleted | StatusFailed | StatusCancelled

type_synonym CommandType = string

abbreviation CommandMoveTo :: CommandType where "CommandMoveTo \<equiv> ''move_to''"
abbreviation CommandMoveRelative :: CommandType where "CommandMoveRelative \<equiv> ''move_relative''"
abbreviation CommandHome :: CommandType where "CommandHome \<equiv> ''home''"
abbreviation CommandStop :: CommandType where "CommandStop \<equiv> ''stop''"
abbreviation CommandJog :: CommandType where "CommandJog \<equiv> ''jog''"
abbreviation CommandIO :: CommandType where "CommandIO \<equiv> ''io''"
abbreviation CommandMotorControl :: CommandType where "CommandMotorControl \<equiv> ''motor_control''"
abbreviation CommandMotorStatus :: CommandType where "CommandMotorStatus \<equiv> ''motor_status''"
abbreviation CommandDelay :: CommandType where "CommandDelay \<equiv> ''delay''"
abbreviation CommandSequence :: CommandType where "CommandSequence \<equiv> ''sequence''"
abbreviation CommandParallel :: CommandType where "CommandParallel \<equiv> ''parallel''"
abbreviation CommandCondition :: CommandType where "CommandCondition \<equiv> ''condition''"

type_synonym AxisID = string
type_synonym DeviceID = string

section \<open>Durations\<close>

text \<open>\<open>time.Duration\<close>: nanoseconds in an \<open>int64\<close>; products wrap.\<close>

type_synonym Duration = int

definition wrap64 :: "int \<Rightarrow> int" where
  "wrap64 n = (n + 2 ^ 63) mod 2 ^ 64 - 2 ^ 63"

abbreviation Millisecond :: Duration where "Millisecond \<equiv> 1000000"
abbreviation Second :: Duration where "Second \<equiv> 1000000000"

lemma wrap64_id: "- (2 ^ 63) \<le> n \<Longrightarrow> n < 2 ^ 63 \<Longrightarrow> wrap64 n = n"
  by (simp add: wrap64_def)

lemma wrap64_range: "- (2 ^ 63) \<le> wrap64 n \<and> wrap64 n < 2 ^ 63"
proof -
  have "0 \<le> (n + 2 ^ 63) mod 2 ^ 64" "(n + 2 ^ 63) mod 2 ^ 64 < (2 ^ 64 :: int)"
    by simp_all
  then show ?thesis by (simp add: wrap64_def)
qed

section \<open>Geometry\<close>

record Point =
  pt_X :: f64
  pt_Y :: f64
  pt_Z :: f64

record Velocity =
  vel_Linear :: f64
  vel_Angular :: f64

definition zero_point :: Point where
  "zero_point = \<lparr>pt_X = f64_zero, pt_Y = f64_zero, pt_Z = f64_zero\<rparr>"

definition zero_velocity :: Velocity where
  "zero_velocity = \<lparr>vel_Linear = f64_zero, vel_Angular = f64_zero\<rparr>"

section \<open>Values of type \<open>interface{}\<close>\<close>

text \<open>
  Each constructor is one dynamic type; a type assertion of the source is a match on it.
  \<open>VMap\<close> is \<open>map[string]interface{}\<close>, \<open>VList\<close> is \<open>[]interface{}\<close>, \<open>VStrings\<close> is \<open>[]string\<close>,
  and \<open>VOther\<close> stands for any type the code never asserts.
\<close>

datatype goval =
    VNil
  | VString string
  | VDeviceID DeviceID
  | VFloat f64
  | VInt int
  | VInt64 int
  | VDuration Duration
  | VBool bool
  | VTime int
  | VStatus TaskStatus
  | VPoint Point
  | VVelocity Velocity
  | VStrings "string list"
  | VBytes "8 word list"
  | VMap "(string \<times> goval) list"
  | VList "goval list"
  | VOther string

section \<open>Commands\<close>

record IOCommand =
  io_DeviceID :: DeviceID
  io_Channel :: string
  io_Action :: string
  io_Value :: f64
  io_Threshold :: f64
  io_Timeout :: Duration

record MotorCommand =
  mot_DeviceID :: DeviceID
  mot_MotorID :: string
  mot_Action :: string
  mot_Speed :: f64
  mot_Position :: Point
  mot_Acceleration :: f64
  mot_Torque :: f64
  mot_Direction :: int
  mot_Enable :: bool

record DelayCommand =
  dly_Duration :: Duration
  dly_Unit :: string

record ConditionCommand =
  cond_Condition :: string
  cond_DeviceID :: DeviceID
  cond_Channel :: string
  cond_TargetValue :: f64
  cond_Tolerance :: f64
  cond_Timeout :: Duration
  cond_PollInterval :: Duration

record MotionCommand =
  cmd_ID :: string
  cmd_DeviceID :: DeviceID
  cmd_CommandType :: CommandType
  cmd_Position :: Point
  cmd_Velocity :: Velocity
  cmd_Acceleration :: Velocity
  cmd_Data :: string
  cmd_Timestamp :: int
  cmd_Timeout :: Duration

text \<open>The zero value of \<open>MotionCommand\<close>, completed field by field where the code builds one.\<close>

definition zero_command :: MotionCommand where
  "zero_command =
     \<lparr>cmd_ID = [], cmd_DeviceID = [], cmd_CommandType = [], cmd_Position = zero_point,
      cmd_Velocity = zero_velocity, cmd_Acceleration = zero_velocity, cmd_Data = [],
      cmd_Timestamp = 0, cmd_Timeout = 0\<rparr>"

section \<open>Task nodes and tasks\<close>

record base_node =
  btn_id :: string
  btn_nodeType :: CommandType
  btn_status :: TaskStatus
  btn_parameters :: "(string, goval) gomap"
  btn_parent :: "string option"
  btn_metadata :: "(string, goval) gomap"
  btn_startTime :: int
  btn_endTime :: "int option"
  btn_cancelFunc :: bool

datatype node_kind =
    BaseTaskNode
  | IOTaskNode IOCommand
  | MotorTaskNode MotorCommand
  | DelayTaskNode DelayCommand
  | SequenceTaskNode string bool
  | ConditionTaskNode ConditionCommand

datatype tasknode = TaskNode (tn_base: base_node) (tn_kind: node_kind) (tn_children: "tasknode list")

record Task =
  task_ID :: string
  task_Type :: CommandType
  task_Priority :: TaskPriority
  task_Status :: TaskStatus
  task_RootNode :: "tasknode option"
  task_Target :: Point
  task_Velocity :: Velocity
  task_Axes :: "AxisID list"
  task_Parameters :: "(string, goval) gomap"
  task_CreatedAt :: int
  task_StartedAt :: "int option"
  task_CompletedAt :: "int option"
  task_Error :: string
  task_Timeout :: Duration
  task_CancelFunc :: bool

definition zero_task :: Task where
  "zero_task =
     \<lparr>task_ID = [], task_Type = [], task_Priority = PriorityEmergency, task_Status = StatusPending,
      task_RootNode = None, task_Target = zero_point, task_Velocity = zero_velocity, task_Axes = [],
      task_Parameters = [], task_CreatedAt = 0, task_StartedAt = None, task_CompletedAt = None,
      task_Error = [], task_Timeout = 0, task_CancelFunc = False\<rparr>"

section \<open>Device status and configuration\<close>

record DeviceStatus =
  ds_ID :: DeviceID
  ds_Connected :: bool
  ds_Error :: "goerr option"
  ds_LastSeen :: int
  ds_Position :: Point
  ds_Velocity :: Velocity

record DeviceConfig =
  dc_Type :: string
  dc_Protocol :: string
  dc_Endpoint :: string
  dc_Parameters :: "(string, string) gomap"
  dc_Timeout :: Duration
  dc_RetryCount :: int

record AxisConfig =
  ax_DeviceID :: DeviceID
  ax_MaxVelocity :: f64
  ax_MaxAcceleration :: f64
  ax_MinPosition :: f64
  ax_MaxPosition :: f64
  ax_HomePosition :: f64
  ax_Units :: string
  ax_InvertDirection :: bool

record SafetyConfig =
  sf_EnableLimits :: bool
  sf_EnableEmergency :: bool
  sf_MaxTemperature :: f64
  sf_MinVoltage :: f64
  sf_WatchdogTimeout :: Duration

record IPCConfig =
  ipc_Type :: string
  ipc_Address :: string
  ipc_Port :: int
  ipc_Timeout :: Duration
  ipc_BufferSize :: int

datatype TaskNodeConfig =
  TaskNodeConfig (tnc_ID: string) (tnc_Type: CommandType) (tnc_Parameters: "(string \<times> goval) list")
    (tnc_Children: "TaskNodeConfig list")

record TaskTemplate =
  tpl_Name :: string
  tpl_Description :: string
  tpl_Type :: CommandType
  tpl_Parameters :: "(string, goval) gomap"
  tpl_Nodes :: "TaskNodeConfig list"
  tpl_Timeout :: Duration
  tpl_Priority :: TaskPriority

record CommandMapping =
  cmap_CommandName :: string
  cmap_Description :: string
  cmap_Template :: string
  cmap_Nodes :: "TaskNodeConfig list"
  cmap_Parameters :: "(string, goval) gomap"
  cmap_Priority :: TaskPriority
  cmap_Timeout :: Duration

text \<open>A nil map of the configuration is \<open>None\<close>.\<close>

record SystemConfig =
  cfg_EventLoopInterval :: Duration
  cfg_QueueSize :: int
  cfg_Devices :: "(DeviceID, DeviceConfig) gomap"
  cfg_Axes :: "(AxisID, AxisConfig) gomap"
  cfg_Safety :: SafetyConfig
  cfg_IPC :: IPCConfig
  cfg_TaskTemplates :: "(string, TaskTemplate) gomap option"
  cfg_CommandMappings :: "(string, CommandMapping) gomap option"

section \<open>Business commands and messages\<close>

type_synonym BusinessCommand = string

abbreviation CmdQueryStatus :: BusinessCommand where "CmdQueryStatus \<equiv> ''query''"
abbreviation CmdInitialize :: BusinessCommand where "CmdInitialize \<equiv> ''initialize''"
abbreviation CmdEmergencyStop :: BusinessCommand where "CmdEmergencyStop \<equiv> ''stop''"
abbreviation CmdReset :: BusinessCommand where "CmdReset \<equiv> ''reset''"
abbreviation CmdMove :: BusinessCommand where "CmdMove \<equiv> ''move''"
abbreviation CmdMoveRelative :: BusinessCommand where "CmdMoveRelative \<equiv> ''move_relative''"
abbreviation CmdHome :: BusinessCommand where "CmdHome \<equiv> ''home''"
abbreviation CmdJog :: BusinessCommand where "CmdJog \<equiv> ''jog''"
abbreviation CmdStopMotion :: BusinessCommand where "CmdStopMotion \<equiv> ''stop_motion''"
abbreviation CmdSafetyCheck :: BusinessCommand where "CmdSafetyCheck \<equiv> ''safety''"
abbreviation CmdSelfCheck :: BusinessCommand where "CmdSelfCheck \<equiv> ''self_check''"
abbreviation CmdGetConfig :: BusinessCommand where "CmdGetConfig \<equiv> ''get_config''"
abbreviation CmdSetConfig :: BusinessCommand where "CmdSetConfig \<equiv> ''set_config''"
abbreviation CmdListTemplates :: BusinessCommand where "CmdListTemplates \<equiv> ''list_templates''"

text \<open>Every business command that \<open>types.go\<close> defines.\<close>

definition all_business_commands :: "BusinessCommand list" where
  "all_business_commands =
     [CmdQueryStatus, CmdInitialize, CmdEmergencyStop, CmdReset, CmdMove, CmdMoveRelative, CmdHome,
      CmdJog, CmdStopMotion, CmdSafetyCheck, CmdSelfCheck, CmdGetConfig, CmdSetConfig, CmdListTemplates]"

record IPCMessage =
  msg_Type :: string
  msg_Source :: string
  msg_Target :: string
  msg_Data :: "(string, goval) gomap"
  msg_Timestamp :: int
  msg_ID :: string

record BusinessMessage =
  bm_Command :: BusinessCommand
  bm_Params :: "(string, goval) gomap"
  bm_RequestID :: string
  bm_Source :: string
  bm_Target :: string
  bm_Timestamp :: int

record BusinessResponse =
  br_RequestID :: string
  br_Status :: string
  br_Data :: "(string, goval) gomap"
  br_Error :: string
  br_Timestamp :: int

section \<open>Channels\<close>

text \<open>
  A buffered channel.  \<open>ch_try_send\<close> is the send case of a \<open>select\<close> with a \<open>default\<close>: \<open>Ret True\<close>
  when the value went in, \<open>Ret False\<close> when the default case runs, a panic when the channel is closed.
\<close>

record 'a chan =
  ch_buf :: "'a list"
  ch_cap :: nat
  ch_closed :: bool

definition mk_chan :: "nat \<Rightarrow> 'a chan" where
  "mk_chan n = \<lparr>ch_buf = [], ch_cap = n, ch_closed = False\<rparr>"

definition ch_try_send :: "'a \<Rightarrow> 'a chan \<Rightarrow> 'a chan \<times> bool exec" where
  "ch_try_send x c =
     (if ch_closed c then (c, Panic ''send on closed channel'')
      else if length (ch_buf c) < ch_cap c then (c\<lparr>ch_buf := ch_buf c @ [x]\<rparr>, Ret True)
      else (c, Ret False))"

text \<open>A receive that is ready: \<open>None\<close> inside is the zero value a closed, drained channel delivers.\<close>

definition ch_recv :: "'a chan \<Rightarrow> ('a chan \<times> 'a option) option" where
  "ch_recv c =
     (case ch_buf c of
        x # xs \<Rightarrow> Some (c\<lparr>ch_buf := xs\<rparr>, Some x)
      | [] \<Rightarrow> (if ch_closed c then Some (c, None) else None))"

definition ch_close :: "'a chan \<Rightarrow> 'a chan \<times> unit exec" where
  "ch_close c =
     (if ch_closed c then (c, Panic ''close of closed channel'')
      else (c\<lparr>ch_closed := True\<rparr>, Ret ()))"

lemma ch_try_send_simps:
  "ch_closed c \<Longrightarrow> ch_try_send x c = (c, Panic ''send on closed channel'')"
  "\<not> ch_closed c \<Longrightarrow> length (ch_buf c) < ch_cap c \<Longrightarrow>
     ch_try_send x c = (c\<lparr>ch_buf := ch_buf c @ [x]\<rparr>, Ret True)"
  "\<not> ch_closed c \<Longrightarrow> ch_cap c \<le> length (ch_buf c) \<Longrightarrow> ch_try_send x c = (c, Ret False)"
  by (simp_all add: ch_try_send_def)

lemma ch_try_send_bounded:
  "length (ch_buf c) \<le> ch_cap c \<Longrightarrow> length (ch_buf (fst (ch_try_send x c))) \<le> ch_cap (fst (ch_try_send x c))"
  by (simp add: ch_try_send_def)

lemma mk_chan_simps [simp]:
  "ch_buf (mk_chan n) = []" "ch_cap (mk_chan n) = n" "\<not> ch_closed (mk_chan n)"
  by (simp_all add: mk_chan_def)

end
