(* ===== verification/Interfaces.thy ===== *)
theory Interfaces
  imports GoTypes
begin

text \<open>
  The contracts that several components of the program share, each a locale: maps, registries
  (modules, triggers and devices registered under a name), FIFO queues, components that are
  started and stopped, motion devices (\<open>core.Device\<close>), handlers of business commands
  (\<open>core.CommandHandler\<close>).  Each is interpreted, in the theory of the component that provides it,
  on that component's own operations.
\<close>

section \<open>Maps\<close>

locale kv_store =
  fixes get :: "'m \<Rightarrow> 'k \<Rightarrow> 'v option"
    and put :: "'k \<Rightarrow> 'v \<Rightarrow> 'm \<Rightarrow> 'm"
    and del :: "'k \<Rightarrow> 'm \<Rightarrow> 'm"
  assumes get_put: "get (put k v m) = (get m)(k := Some v)"
    and get_del: "get (del k m) = (get m)(k := None)"
begin

lemma put_twice: "get (put k v (put k u m)) = get (put k v m)"
  by (simp add: get_put)

lemma put_commute: "j \<noteq> k \<Longrightarrow> get (put j u (put k v m)) = get (put k v (put j u m))"
  by (simp add: get_put fun_upd_twist)

lemma del_put_fresh: "get m k = None \<Longrightarrow> get (del k (put k v m)) = get m"
  by (auto simp: get_put get_del)

lemma del_other: "j \<noteq> k \<Longrightarrow> get (del j m) k = get m k"
  by (simp add: get_del)

end

interpretation gm: kv_store gm_get gm_set gm_del
  by unfold_locales (auto simp: fun_eq_iff)

section \<open>Registries\<close>

text \<open>
  A registry refuses a key it already holds, leaves itself unchanged (as \<open>lookup\<close> sees it) when an
  operation fails, and changes no other key.  \<open>entry\<close> is what is stored for a registered value.
\<close>

locale registry =
  fixes lookup :: "'s \<Rightarrow> 'k \<Rightarrow> 'v option"
    and register :: "'k \<Rightarrow> 'a \<Rightarrow> 's \<Rightarrow> 's \<times> goerr option"
    and unregister :: "'k \<Rightarrow> 's \<Rightarrow> 's \<times> goerr option"
    and entry :: "'k \<Rightarrow> 'a \<Rightarrow> 'v"
  assumes register_dup: "lookup s k \<noteq> None \<Longrightarrow> snd (register k a s) \<noteq> None"
    and register_err: "snd (register k a s) = Some e \<Longrightarrow> lookup (fst (register k a s)) = lookup s"
    and register_ok: "snd (register k a s) = None \<Longrightarrow>
          lookup (fst (register k a s)) = (lookup s)(k := Some (entry k a))"
    and unregister_missing: "lookup s k = None \<Longrightarrow> snd (unregister k s) \<noteq> None"
    and unregister_err: "snd (unregister k s) = Some e \<Longrightarrow> lookup (fst (unregister k s)) = lookup s"
    and unregister_ok: "lookup s k \<noteq> None \<Longrightarrow> snd (unregister k s) = None \<and>
          lookup (fst (unregister k s)) = (lookup s)(k := None)"
begin

lemma register_fresh: "snd (register k a s) = None \<Longrightarrow> lookup s k = None"
  using register_dup by blast

lemma register_then_unregister:
  assumes "snd (register k a s) = None"
  shows "snd (unregister k (fst (register k a s))) = None \<and>
         lookup (fst (unregister k (fst (register k a s)))) = lookup s"
proof -
  have new: "lookup (fst (register k a s)) = (lookup s)(k := Some (entry k a))"
    using assms by (rule register_ok)
  then have "lookup (fst (register k a s)) k \<noteq> None" by simp
  from unregister_ok[OF this] new register_fresh[OF assms]
  show ?thesis by (auto simp: fun_upd_idem)
qed

lemma register_twice:
  "snd (register k a s) = None \<Longrightarrow> snd (register k b (fst (register k a s))) \<noteq> None"
  using register_ok by (intro register_dup) simp

lemma unregister_twice:
  "snd (unregister k s) = None \<Longrightarrow> snd (unregister k (fst (unregister k s))) \<noteq> None"
  by (metis fun_upd_same unregister_missing unregister_ok)

lemma register_frame: "j \<noteq> k \<Longrightarrow> lookup (fst (register k a s)) j = lookup s j"
  by (cases "snd (register k a s)") (simp_all add: register_ok register_err)

lemma unregister_frame: "j \<noteq> k \<Longrightarrow> lookup (fst (unregister k s)) j = lookup s j"
  by (metis fun_upd_other not_None_eq unregister_err unregister_missing unregister_ok)

end

section \<open>FIFO queues\<close>

locale fifo =
  fixes push :: "'a \<Rightarrow> 'q \<Rightarrow> 'q"
    and pop :: "'q \<Rightarrow> ('a \<times> 'q) option"
    and items :: "'q \<Rightarrow> 'a list"
  assumes items_push: "items (push x q) = items q @ [x]"
    and pop_empty: "items q = [] \<Longrightarrow> pop q = None"
    and pop_cons: "items q = x # xs \<Longrightarrow> \<exists>q'. pop q = Some (x, q') \<and> items q' = xs"
begin

text \<open>Popping as long as the queue holds something, at most \<open>n\<close> times.\<close>

fun drain :: "nat \<Rightarrow> 'q \<Rightarrow> 'a list" where
  "drain 0 q = []"
| "drain (Suc n) q = (case pop q of None \<Rightarrow> [] | Some (x, q') \<Rightarrow> x # drain n q')"

lemma drain_items: "length (items q) \<le> n \<Longrightarrow> drain n q = items q"
proof (induction n arbitrary: q)
  case 0
  then show ?case by simp
next
  case (Suc n)
  show ?case
  proof (cases "items q")
    case Nil
    then show ?thesis by (simp add: pop_empty)
  next
    case (Cons x xs)
    then obtain q' where "pop q = Some (x, q')" "items q' = xs" using pop_cons by blast
    with Suc Cons show ?thesis by simp
  qed
qed

lemma items_push_all: "items (fold push xs q) = items q @ xs"
  by (induction xs arbitrary: q) (simp_all add: items_push)

lemma first_in_first_out: "drain (length (items q) + length xs) (fold push xs q) = items q @ xs"
  by (simp add: drain_items items_push_all)

end

section \<open>Components that are started and stopped\<close>

text \<open>
  \<open>fresh\<close> says that the component's channels are still open.  They are made once, by the
  constructor, and \<open>Stop\<close> closes them.
\<close>

locale lifecycle =
  fixes inv :: "'s \<Rightarrow> bool"
    and running :: "'s \<Rightarrow> bool"
    and fresh :: "'s \<Rightarrow> bool"
    and start :: "'s \<Rightarrow> 's \<times> goerr option exec"
    and stop :: "'s \<Rightarrow> 's \<times> goerr option exec"
  assumes start_inv: "inv s \<Longrightarrow> inv (fst (start s))"
    and stop_inv: "inv s \<Longrightarrow> returns (snd (stop s)) \<Longrightarrow> inv (fst (stop s))"
    and start_idle: "inv s \<Longrightarrow> \<not> running s \<Longrightarrow>
        snd (start s) = Ret None \<and> running (fst (start s)) \<and> (fresh (fst (start s)) \<longleftrightarrow> fresh s)"
    and start_running: "running s \<Longrightarrow> \<exists>e. start s = (s, Ret (Some e))"
    and stop_idle: "\<not> running s \<Longrightarrow> \<exists>e. stop s = (s, Ret (Some e))"
    and stop_running: "inv s \<Longrightarrow> running s \<Longrightarrow> fresh s \<Longrightarrow>
        snd (stop s) = Ret None \<and> \<not> running (fst (stop s)) \<and> \<not> fresh (fst (stop s))"
    and stop_reopened: "inv s \<Longrightarrow> running s \<Longrightarrow> \<not> fresh s \<Longrightarrow> \<exists>m. snd (stop s) = Panic m"
begin

lemma start_then_stop:
  assumes "inv s" "\<not> running s" "fresh s"
  shows "snd (stop (fst (start s))) = Ret None \<and> \<not> running (fst (stop (fst (start s))))"
  using start_idle[OF assms(1,2)] assms(3) stop_running start_inv[OF assms(1)] by blast

lemma double_start:
  assumes "inv s" "\<not> running s"
  shows "\<exists>e. start (fst (start s)) = (fst (start s), Ret (Some e))"
  using start_idle[OF assms] start_running by blast

text \<open>A second run starts, but stopping it closes a closed channel.\<close>

lemma second_stop_panics:
  assumes "inv s" "\<not> running s" "fresh s"
  defines "s1 \<equiv> fst (stop (fst (start s)))"
  shows "snd (start s1) = Ret None \<and> (\<exists>m. snd (stop (fst (start s1))) = Panic m)"
proof -
  have r: "running (fst (start s))" "fresh (fst (start s))" and i: "inv (fst (start s))"
    using start_idle[OF assms(1,2)] assms(3) start_inv[OF assms(1)] by auto
  from stop_running[OF i r] have s1: "\<not> running s1" "\<not> fresh s1" and "inv s1"
    using stop_inv[OF i] by (simp_all add: s1_def)
  from start_idle[OF \<open>inv s1\<close> s1(1)] s1(2) start_inv[OF \<open>inv s1\<close>] show ?thesis
    using stop_reopened by blast
qed

end

section \<open>Motion devices\<close>

text \<open>The interface \<open>core.Device\<close> as the executor and the HAL use it.\<close>

locale motion_device =
  fixes dev_id :: "'d \<Rightarrow> DeviceID"
    and connected :: "'d \<Rightarrow> bool"
    and connect :: "int \<Rightarrow> 'd \<Rightarrow> 'd \<times> goerr option"
    and disconnect :: "int \<Rightarrow> 'd \<Rightarrow> 'd"
    and wr :: "int \<Rightarrow> MotionCommand \<Rightarrow> 'd \<Rightarrow> 'd \<times> goerr option"
  assumes connect_ok: "snd (connect t d) = None \<Longrightarrow> connected (fst (connect t d))"
    and connect_id: "dev_id (fst (connect t d)) = dev_id d"
    and disconnect_off: "\<not> connected (disconnect t d)"
    and disconnect_id: "dev_id (disconnect t d) = dev_id d"
    and write_off: "\<not> connected d \<Longrightarrow> \<exists>e. wr t c d = (d, Some e)"
    and write_keeps: "connected (fst (wr t c d)) \<longleftrightarrow> connected d"
    and write_id: "dev_id (fst (wr t c d)) = dev_id d"
begin

fun write_all :: "(int \<times> MotionCommand) list \<Rightarrow> 'd \<Rightarrow> 'd" where
  "write_all [] d = d"
| "write_all ((t, c) # cs) d = write_all cs (fst (wr t c d))"

lemma write_all_keeps: "connected (write_all cs d) \<longleftrightarrow> connected d"
  by (induction cs d rule: write_all.induct) (simp_all add: write_keeps)

lemma write_all_off: "\<not> connected d \<Longrightarrow> write_all cs d = d"
proof (induction cs d rule: write_all.induct)
  case (2 t c cs d)
  then show ?case using write_off[of d t c] by auto
qed simp

lemma writes_after_disconnect: "write_all cs (disconnect t d) = disconnect t d"
  by (simp add: write_all_off disconnect_off)

end

section \<open>Handlers of business commands\<close>

locale command_handler =
  fixes handled :: "BusinessCommand list"
    and handle :: "int \<Rightarrow> BusinessMessage \<Rightarrow> 's \<Rightarrow> 's \<times> BusinessResponse"
  assumes response_id: "br_RequestID (snd (handle t msg s)) = bm_RequestID msg"
    and response_status: "br_Status (snd (handle t msg s)) \<in> {''success'', ''error''}"
    and unhandled: "bm_Command msg \<notin> set handled \<Longrightarrow>
          fst (handle t msg s) = s \<and> br_Status (snd (handle t msg s)) = ''error''"
begin

lemma success_only_if_handled:
  "br_Status (snd (handle t msg s)) = ''success'' \<Longrightarrow> bm_Command msg \<in> set handled"
  using unhandled by fastforce

end

end
