(* ===== verification/EventLoop.thy ===== *)
theory EventLoop
  imports Interfaces "HOL-Library.Multiset"
begin

text \<open>
  Events (\<open>internal/core/events.go\<close>) and the event loop (\<open>internal/core/eventloop.go\<close>).  A module is a
  reference \<open>'m\<close>; what it does when started, stopped or given an event is a \<open>module_ops\<close> over the
  state \<open>'w\<close> of the rest of the program.  The loop delivers events asynchronously: the calls
  \<open>go h.HandleEvent(event)\<close> that have been spawned and not yet run are \<open>el_spawned\<close>, in no order that
  matters.
\<close>

section \<open>Events\<close>

type_synonym EventType = string

abbreviation EventTypeSystemStart :: EventType where "EventTypeSystemStart \<equiv> ''system_start''"
abbreviation EventTypeSystemStop :: EventType where "EventTypeSystemStop \<equiv> ''system_stop''"
abbreviation EventTypeSystemError :: EventType where "EventTypeSystemError \<equiv> ''system_error''"
abbreviation EventTypeTaskRequest :: EventType where "EventTypeTaskRequest \<equiv> ''task_request''"
abbreviation EventTypeTaskComplete :: EventType where "EventTypeTaskComplete \<equiv> ''task_complete''"
abbreviation EventTypeTaskError :: EventType where "EventTypeTaskError \<equiv> ''task_error''"
abbreviation EventTypeTaskCancel :: EventType where "EventTypeTaskCancel \<equiv> ''task_cancel''"
abbreviation EventTypeConfigReload :: EventType where "EventTypeConfigReload \<equiv> ''config_reload''"
abbreviation EventTypeConfigChange :: EventType where "EventTypeConfigChange \<equiv> ''config_change''"
abbreviation EventTypeTimerTick :: EventType where "EventTypeTimerTick \<equiv> ''timer_tick''"

record BaseEvent =
  ev_eventType :: EventType
  ev_source :: string
  ev_timestamp :: int

definition NewBaseEvent :: "int \<Rightarrow> EventType \<Rightarrow> string \<Rightarrow> BaseEvent" where
  "NewBaseEvent now ty src = \<lparr>ev_eventType = ty, ev_source = src, ev_timestamp = now\<rparr>"

text \<open>The event structs, with the \<open>BaseEvent\<close> each embeds; \<open>TaskEvent\<close> may carry a \<open>*types.Task\<close>.\<close>

datatype event_data = EvNoData | EvTask Task | EvValue goval

datatype Event =
    SystemEvent BaseEvent "goerr option"
  | TaskEvent BaseEvent string string event_data "goerr option"
  | DeviceEvent BaseEvent string goval "goerr option" goval
  | NetworkEvent BaseEvent string goval "goerr option"
  | ConfigEvent BaseEvent string goval "goerr option"
  | TimerEvent BaseEvent Duration int goval

fun ev_base :: "Event \<Rightarrow> BaseEvent" where
  "ev_base (SystemEvent b _) = b"
| "ev_base (TaskEvent b _ _ _ _) = b"
| "ev_base (DeviceEvent b _ _ _ _) = b"
| "ev_base (NetworkEvent b _ _ _) = b"
| "ev_base (ConfigEvent b _ _ _) = b"
| "ev_base (TimerEvent b _ _ _) = b"

definition ev_Type :: "Event \<Rightarrow> EventType" where
  "ev_Type e = ev_eventType (ev_base e)"

definition NewSystemEvent :: "int \<Rightarrow> EventType \<Rightarrow> string \<Rightarrow> goerr option \<Rightarrow> Event" where
  "NewSystemEvent now ty src err = SystemEvent (NewBaseEvent now ty src) err"

definition NewTaskEvent ::
  "int \<Rightarrow> EventType \<Rightarrow> string \<Rightarrow> string \<Rightarrow> string \<Rightarrow> event_data \<Rightarrow> goerr option \<Rightarrow> Event" where
  "NewTaskEvent now ty src tid tty d err = TaskEvent (NewBaseEvent now ty src) tid tty d err"

definition NewDeviceEvent ::
  "int \<Rightarrow> EventType \<Rightarrow> string \<Rightarrow> string \<Rightarrow> goval \<Rightarrow> goerr option \<Rightarrow> goval \<Rightarrow> Event" where
  "NewDeviceEvent now ty src did st err d = DeviceEvent (NewBaseEvent now ty src) did st err d"

definition NewNetworkEvent ::
  "int \<Rightarrow> EventType \<Rightarrow> string \<Rightarrow> string \<Rightarrow> goval \<Rightarrow> goerr option \<Rightarrow> Event" where
  "NewNetworkEvent now ty src cid msg err = NetworkEvent (NewBaseEvent now ty src) cid msg err"

definition NewConfigEvent ::
  "int \<Rightarrow> EventType \<Rightarrow> string \<Rightarrow> string \<Rightarrow> goval \<Rightarrow> goerr option \<Rightarrow> Event" where
  "NewConfigEvent now ty src p cfg err = ConfigEvent (NewBaseEvent now ty src) p cfg err"

definition NewTimerEvent :: "int \<Rightarrow> string \<Rightarrow> Duration \<Rightarrow> int \<Rightarrow> goval \<Rightarrow> Event" where
  "NewTimerEvent now src interval n d = TimerEvent (NewBaseEvent now EventTypeTimerTick src) interval n d"

section \<open>The loop's state\<close>

record ('m, 'w) module_ops =
  mod_Name :: "'m \<Rightarrow> string"
  mod_GetSubscribedEvents :: "'m \<Rightarrow> EventType list"
  mod_Start :: "'m \<Rightarrow> 'w \<Rightarrow> 'w \<times> goerr option exec"
  mod_Stop :: "'m \<Rightarrow> 'w \<Rightarrow> 'w \<times> goerr option exec"
  mod_HandleEvent :: "'m \<Rightarrow> Event \<Rightarrow> 'w \<Rightarrow> 'w \<times> goerr option exec"

record 'm EventLoop =
  el_modules :: "(string, 'm) gomap"
  el_handlers :: "(EventType, 'm list) gomap"
  el_eventQueue :: "Event chan"
  el_ctxDone :: bool
  el_running :: bool
  el_timer :: "bool option"
  el_timerInterval :: Duration
  el_spawned :: "('m \<times> Event) list"

definition NewEventLoop :: "Duration \<Rightarrow> 'm EventLoop" where
  "NewEventLoop interval =
     \<lparr>el_modules = [], el_handlers = [], el_eventQueue = mk_chan 1000, el_ctxDone = False,
      el_running = False, el_timer = None, el_timerInterval = interval, el_spawned = []\<rparr>"

section \<open>Events in and out\<close>

definition el_EmitEvent :: "Event \<Rightarrow> 'm EventLoop \<Rightarrow> 'm EventLoop \<times> goerr option" where
  "el_EmitEvent e el =
     (if \<not> el_running el then (el, Some (Errorf ''event loop is not running'' []))
      else if length (ch_buf (el_eventQueue el)) < ch_cap (el_eventQueue el)
      then (el\<lparr>el_eventQueue := (el_eventQueue el)\<lparr>ch_buf := ch_buf (el_eventQueue el) @ [e]\<rparr>\<rparr>, None)
      else (el, Some (Errorf ''event queue is full'' [])))"

definition el_handlers_of :: "EventType \<Rightarrow> 'm EventLoop \<Rightarrow> 'm list" where
  "el_handlers_of ty el = (case gm_get (el_handlers el) ty of None \<Rightarrow> [] | Some hs \<Rightarrow> hs)"

definition el_handleEvent :: "Event \<Rightarrow> 'm EventLoop \<Rightarrow> 'm EventLoop" where
  "el_handleEvent e el =
     (case gm_get (el_handlers el) (ev_Type e) of
        None \<Rightarrow> el
      | Some hs \<Rightarrow> el\<lparr>el_spawned := el_spawned el @ map (\<lambda>h. (h, e)) hs\<rparr>)"

text \<open>
  One turn of \<open>run\<close>, by the \<open>select\<close> case taken.  \<open>el.timer.C\<close> is evaluated whichever case is ready:
  without a timer it dereferences nil.
\<close>

datatype el_case = CaseDone | CaseEvent | CaseTick int

definition el_run_turn :: "el_case \<Rightarrow> 'm EventLoop \<Rightarrow> ('m EventLoop \<times> bool exec) option" where
  "el_run_turn c el =
     (case el_timer el of
        None \<Rightarrow> Some (el, Panic ''nil pointer dereference'')
      | Some ticking \<Rightarrow>
          (case c of
             CaseDone \<Rightarrow> (if el_ctxDone el then Some (el, Ret False) else None)
           | CaseEvent \<Rightarrow>
               (case ch_buf (el_eventQueue el) of
                  [] \<Rightarrow> None
                | e # es \<Rightarrow>
                    Some (el_handleEvent e (el\<lparr>el_eventQueue := (el_eventQueue el)\<lparr>ch_buf := es\<rparr>\<rparr>), Ret True))
           | CaseTick now \<Rightarrow>
               (if ticking
                then Some (el_handleEvent (NewTimerEvent now ''event_loop'' (el_timerInterval el) 0 VNil) el, Ret True)
                else None)))"

section \<open>Handlers and modules\<close>

definition el_RegisterHandler :: "EventType \<Rightarrow> 'm \<Rightarrow> 'm EventLoop \<Rightarrow> 'm EventLoop \<times> goerr option" where
  "el_RegisterHandler ty h el =
     (el\<lparr>el_handlers := gm_set ty (el_handlers_of ty el @ [h]) (el_handlers el)\<rparr>, None)"

fun remove_named :: "('m \<Rightarrow> string) \<Rightarrow> string \<Rightarrow> 'm list \<Rightarrow> 'm list option" where
  "remove_named nm n [] = None"
| "remove_named nm n (h # hs) = (if nm h = n then Some hs else map_option ((#) h) (remove_named nm n hs))"

definition el_UnregisterHandler ::
  "('m, 'w) module_ops \<Rightarrow> EventType \<Rightarrow> 'm \<Rightarrow> 'm EventLoop \<Rightarrow> 'm EventLoop \<times> goerr option" where
  "el_UnregisterHandler ops ty h el =
     (case gm_get (el_handlers el) ty of
        None \<Rightarrow> (el, Some (Errorf ''no handlers registered for event type %s'' [AStr ty]))
      | Some hs \<Rightarrow>
          (case remove_named (mod_Name ops) (mod_Name ops h) hs of
             None \<Rightarrow> (el, Some (Errorf ''handler %s not found for event type %s'' [AStr (mod_Name ops h), AStr ty]))
           | Some hs' \<Rightarrow> (el\<lparr>el_handlers := gm_set ty hs' (el_handlers el)\<rparr>, None)))"

definition el_RegisterModule ::
  "('m, 'w) module_ops \<Rightarrow> string \<Rightarrow> 'm \<Rightarrow> 'm EventLoop \<Rightarrow> 'w \<Rightarrow> ('m EventLoop \<times> 'w) \<times> goerr option exec" where
  "el_RegisterModule ops name m el w =
     (if gm_has (el_modules el) name
      then ((el, w), Ret (Some (Errorf ''module %s already registered'' [AStr name])))
      else
        let el1 = el\<lparr>el_modules := gm_set name m (el_modules el)\<rparr>;
            el2 = fold (\<lambda>ty el. fst (el_RegisterHandler ty m el)) (mod_GetSubscribedEvents ops m) el1
        in if el_running el then (let (w', r) = mod_Start ops m w in ((el2, w'), r))
           else ((el2, w), Ret None))"

definition el_UnregisterModule ::
  "('m, 'w) module_ops \<Rightarrow> string \<Rightarrow> 'm EventLoop \<Rightarrow> 'w \<Rightarrow> ('m EventLoop \<times> 'w) \<times> goerr option exec" where
  "el_UnregisterModule ops name el w =
     (case gm_get (el_modules el) name of
        None \<Rightarrow> ((el, w), Ret (Some (Errorf ''module %s not found'' [AStr name])))
      | Some m \<Rightarrow>
          (let (w', r) = (if el_running el then mod_Stop ops m w else (w, Ret None));
               gone = el\<lparr>el_modules := gm_del name (el_modules el)\<rparr>
           in case r of
                Ret _ \<Rightarrow> ((gone, w'), Ret None)
              | Panic p \<Rightarrow> ((el, w'), Panic p)
              | Blocked \<Rightarrow> ((el, w'), Blocked)))"

section \<open>Start and stop\<close>

definition el_Start :: "int \<Rightarrow> 'm EventLoop \<Rightarrow> 'm EventLoop \<times> goerr option" where
  "el_Start now el =
     (if el_running el then (el, Some (Errorf ''event loop is already running'' []))
      else
        let el1 = el\<lparr>el_ctxDone := False, el_running := True,
                     el_timer := (if 0 < el_timerInterval el then Some True else el_timer el)\<rparr>
        in (fst (el_EmitEvent (NewSystemEvent now EventTypeSystemStart ''event_loop'' None) el1), None))"

text \<open>Stopping every module, in the order the map delivers them; an error is logged and passed over.\<close>

fun el_stop_modules :: "('m, 'w) module_ops \<Rightarrow> 'm list \<Rightarrow> 'w \<Rightarrow> 'w \<times> unit exec" where
  "el_stop_modules ops [] w = (w, Ret ())"
| "el_stop_modules ops (m # ms) w =
     (case mod_Stop ops m w of
        (w', Ret _) \<Rightarrow> el_stop_modules ops ms w'
      | (w', Panic p) \<Rightarrow> (w', Panic p)
      | (w', Blocked) \<Rightarrow> (w', Blocked))"

text \<open>
  \<open>Stop\<close> up to the sleep, and after it.  In between, \<open>run\<close> takes turns of its own.
\<close>

definition el_Stop_begin :: "int \<Rightarrow> 'm EventLoop \<Rightarrow> 'm EventLoop \<times> goerr option" where
  "el_Stop_begin now el =
     (if \<not> el_running el then (el, Some (Errorf ''event loop is not running'' []))
      else (fst (el_EmitEvent (NewSystemEvent now EventTypeSystemStop ''event_loop'' None) el), None))"

definition el_Stop_finish ::
  "('m, 'w) module_ops \<Rightarrow> 'm EventLoop \<Rightarrow> 'w \<Rightarrow> ('m EventLoop \<times> 'w) \<times> goerr option exec" where
  "el_Stop_finish ops el w =
     (let el1 = el\<lparr>el_ctxDone := True, el_timer := map_option (\<lambda>_. False) (el_timer el)\<rparr>
      in case el_stop_modules ops (map snd (el_modules el1)) w of
           (w', Ret _) \<Rightarrow> ((el1\<lparr>el_running := False\<rparr>, w'), Ret None)
         | (w', Panic p) \<Rightarrow> ((el1, w'), Panic p)
         | (w', Blocked) \<Rightarrow> ((el1, w'), Blocked))"

definition el_GetHandlers :: "'m EventLoop \<Rightarrow> (string, nat) gomap" where
  "el_GetHandlers el = map (\<lambda>(ty, hs). (ty, length hs)) (el_handlers el)"

definition el_GetModuleStatus :: "('m \<Rightarrow> 'w \<Rightarrow> goval) \<Rightarrow> 'm EventLoop \<Rightarrow> 'w \<Rightarrow> (string, goval) gomap" where
  "el_GetModuleStatus status el w = map (\<lambda>(n, m). (n, status m w)) (el_modules el)"

section \<open>Runs\<close>



lemma el_handleEvent_fields [simp]:
  "el_handlers (el_handleEvent e el) = el_handlers el" "el_eventQueue (el_handleEvent e el) = el_eventQueue el"
  "el_running (el_handleEvent e el) = el_running el" "el_timer (el_handleEvent e el) = el_timer el"
  "el_modules (el_handleEvent e el) = el_modules el"
  "el_spawned (el_handleEvent e el) = el_spawned el @ map (\<lambda>h. (h, e)) (el_handlers_of (ev_Type e) el)"
  by (simp_all add: el_handleEvent_def el_handlers_of_def split: option.split)




text \<open>A loop built with a non-positive interval has no timer: its first turn dereferences nil.\<close>

lemma el_run_without_timer:
  assumes "interval \<le> 0"
  shows "el_run_turn c (fst (el_Start now (NewEventLoop interval :: 'm EventLoop))) =
    Some (fst (el_Start now (NewEventLoop interval)), Panic ''nil pointer dereference'')"
  using assms by (simp add: el_run_turn_def el_Start_def el_EmitEvent_def NewEventLoop_def mk_chan_def)

section \<open>Registration\<close>

lemma register_handlers_fold:
  "el_handlers_of ty (fold (\<lambda>ty el. fst (el_RegisterHandler ty m el)) tys el) =
     el_handlers_of ty el @ replicate (count_list tys ty) m"
proof (induction tys arbitrary: el)
  case (Cons t tys)
  show ?case by (simp add: Cons.IH) (auto simp: el_RegisterHandler_def el_handlers_of_def replicate_append_same)
qed simp

lemma register_handlers_fold_fields [simp]:
  "el_modules (fold (\<lambda>ty el. fst (el_RegisterHandler ty m el)) tys el) = el_modules el"
  "el_running (fold (\<lambda>ty el. fst (el_RegisterHandler ty m el)) tys el) = el_running el"
  by (induction tys arbitrary: el) (simp_all add: el_RegisterHandler_def)

text \<open>While the loop is stopped its modules form a registry; the handlers play no part in it.\<close>

definition el_reg :: "('m, 'w) module_ops \<Rightarrow> 'w \<Rightarrow> string \<Rightarrow> 'm \<Rightarrow> 'm EventLoop \<Rightarrow> 'm EventLoop \<times> goerr option" where
  "el_reg ops w name m el =
     (case el_RegisterModule ops name m (el\<lparr>el_running := False\<rparr>) w of
        ((el', _), Ret r) \<Rightarrow> (el', r)
      | ((el', _), _) \<Rightarrow> (el', Some CtxCanceled))"

definition el_unreg :: "('m, 'w) module_ops \<Rightarrow> 'w \<Rightarrow> string \<Rightarrow> 'm EventLoop \<Rightarrow> 'm EventLoop \<times> goerr option" where
  "el_unreg ops w name el =
     (case el_UnregisterModule ops name (el\<lparr>el_running := False\<rparr>) w of
        ((el', _), Ret r) \<Rightarrow> (el', r)
      | ((el', _), _) \<Rightarrow> (el', Some CtxCanceled))"

interpretation el_registry: registry "\<lambda>el. gm_get (el_modules el)" "el_reg ops w" "el_unreg ops w" "\<lambda>_ m. m"
  by unfold_locales
     (auto simp: el_reg_def el_unreg_def el_RegisterModule_def el_UnregisterModule_def gm_has_def Let_def
        fun_eq_iff split: if_splits option.splits)

text \<open>What a handler of the module still receives once the module is unregistered.\<close>

lemma el_Unregister_keeps_handlers:
  "el_handlers (fst (fst (el_UnregisterModule ops name el w))) = el_handlers el"
  by (auto simp: el_UnregisterModule_def split: option.split prod.split exec.split)

section \<open>A run\<close>







end
