(* ===== verification/Devices.thy ===== *)
theory Devices
  imports Interfaces
begin

text \<open>
  Devices and the device manager (\<open>internal/device/device.go\<close>): the mock device, the Modbus device with its
  in-memory client, the wrapper around the hardware layer, and \<open>DeviceManager\<close>, which chooses
  between them.  The hardware layer's state \<open>'h\<close> and its calls are the record \<open>hardware_ops\<close>, given
  by the model of \<open>internal/hardware\<close>.  \<open>oob\<close> is what the machine yields for a conversion of a
  float outside the target integer type.
\<close>

section \<open>Base device\<close>

record BaseDevice =
  bd_id :: DeviceID
  bd_deviceType :: string
  bd_status :: DeviceStatus
  bd_config :: DeviceConfig
  bd_connected :: bool

definition NewBaseDevice :: "DeviceID \<Rightarrow> string \<Rightarrow> DeviceConfig \<Rightarrow> BaseDevice" where
  "NewBaseDevice i ty cfg =
     \<lparr>bd_id = i, bd_deviceType = ty,
      bd_status = \<lparr>ds_ID = i, ds_Connected = False, ds_Error = None, ds_LastSeen = 0,
                   ds_Position = zero_point, ds_Velocity = zero_velocity\<rparr>,
      bd_config = cfg, bd_connected = False\<rparr>"

definition bd_SetStatus :: "DeviceStatus \<Rightarrow> BaseDevice \<Rightarrow> BaseDevice" where
  "bd_SetStatus st bd = bd\<lparr>bd_status := st\<rparr>"

definition bd_SetConnected :: "int \<Rightarrow> bool \<Rightarrow> BaseDevice \<Rightarrow> BaseDevice" where
  "bd_SetConnected now c bd =
     bd\<lparr>bd_connected := c, bd_status := (bd_status bd)\<lparr>ds_Connected := c, ds_LastSeen := now\<rparr>\<rparr>"

section \<open>Mock device\<close>

record MockDevice =
  md_base :: BaseDevice
  md_position :: Point
  md_velocity :: Velocity

definition NewMockDevice :: "DeviceID \<Rightarrow> DeviceConfig \<Rightarrow> MockDevice" where
  "NewMockDevice i cfg =
     \<lparr>md_base = NewBaseDevice i ''mock'' cfg, md_position = zero_point, md_velocity = zero_velocity\<rparr>"

definition md_Connect :: "int \<Rightarrow> MockDevice \<Rightarrow> MockDevice \<times> goerr option" where
  "md_Connect now md = (md\<lparr>md_base := bd_SetConnected now True (md_base md)\<rparr>, None)"

definition md_Disconnect :: "int \<Rightarrow> MockDevice \<Rightarrow> MockDevice" where
  "md_Disconnect now md = md\<lparr>md_base := bd_SetConnected now False (md_base md)\<rparr>"

definition md_Write :: "int \<Rightarrow> MotionCommand \<Rightarrow> MockDevice \<Rightarrow> MockDevice \<times> goerr option" where
  "md_Write now cmd md =
     (if \<not> bd_connected (md_base md)
      then (md, Some (Errorf ''device %s is not connected'' [AStr (bd_id (md_base md))]))
      else
        let md1 = md\<lparr>md_position := cmd_Position cmd, md_velocity := cmd_Velocity cmd\<rparr>;
            st = \<lparr>ds_ID = bd_id (md_base md), ds_Connected = True, ds_Error = None, ds_LastSeen = now,
                  ds_Position = md_position md1, ds_Velocity = md_velocity md1\<rparr>
        in (md1\<lparr>md_base := bd_SetStatus st (md_base md1)\<rparr>, None))"

datatype device_reading = RdPoint Point | RdVelocity Velocity | RdBool bool | RdWord "16 word"

definition md_Read :: "string \<Rightarrow> MockDevice \<Rightarrow> device_reading result" where
  "md_Read reg md =
     (if \<not> bd_connected (md_base md)
      then Err (Errorf ''device %s is not connected'' [AStr (bd_id (md_base md))])
      else if reg = ''position'' then Ok (RdPoint (md_position md))
      else if reg = ''velocity'' then Ok (RdVelocity (md_velocity md))
      else if reg = ''connected'' then Ok (RdBool (bd_connected (md_base md)))
      else Err (Errorf ''unknown register: %s'' [AStr reg]))"

section \<open>Modbus device\<close>

text \<open>
  \<open>ModbusClient\<close> of this package has no connection behind it: reads return the constants
  \<open>i * 100\<close>, writes only log.  The log of register writes is kept as the client's state.
\<close>

record ModbusClient =
  mcl_endpoint :: string
  mcl_timeout :: Duration
  mcl_written :: "(16 word \<times> 16 word list) list"

definition NewModbusClient :: "string \<Rightarrow> Duration \<Rightarrow> ModbusClient result" where
  "NewModbusClient ep tmo = Ok \<lparr>mcl_endpoint = ep, mcl_timeout = tmo, mcl_written = []\<rparr>"

definition mcl_ReadHoldingRegisters :: "16 word \<Rightarrow> 16 word \<Rightarrow> ModbusClient \<Rightarrow> 16 word list result" where
  "mcl_ReadHoldingRegisters address quantity c =
     Ok (map (\<lambda>i. word_of_nat (i * 100)) [0 ..< unat quantity])"

definition mcl_WriteHoldingRegisters ::
  "16 word \<Rightarrow> 16 word list \<Rightarrow> ModbusClient \<Rightarrow> ModbusClient \<times> goerr option" where
  "mcl_WriteHoldingRegisters address vs c = (c\<lparr>mcl_written := mcl_written c @ [(address, vs)]\<rparr>, None)"

definition mcl_WriteSingleRegister ::
  "16 word \<Rightarrow> 16 word \<Rightarrow> ModbusClient \<Rightarrow> ModbusClient \<times> goerr option" where
  "mcl_WriteSingleRegister address v c = (c\<lparr>mcl_written := mcl_written c @ [(address, [v])]\<rparr>, None)"

record ModbusDevice =
  mb_base :: BaseDevice
  mb_client :: "ModbusClient option"
  mb_endpoint :: string

definition NewModbusDevice :: "DeviceID \<Rightarrow> DeviceConfig \<Rightarrow> ModbusDevice" where
  "NewModbusDevice i cfg =
     \<lparr>mb_base = NewBaseDevice i ''modbus'' cfg, mb_client = None, mb_endpoint = dc_Endpoint cfg\<rparr>"

definition mb_Connect :: "int \<Rightarrow> ModbusDevice \<Rightarrow> ModbusDevice \<times> goerr option" where
  "mb_Connect now md =
     (case NewModbusClient (mb_endpoint md) (dc_Timeout (bd_config (mb_base md))) of
        Err e \<Rightarrow> (md, Some (Errorf ''failed to create modbus client: %w'' [AErr e]))
      | Ok c \<Rightarrow> (md\<lparr>mb_client := Some c, mb_base := bd_SetConnected now True (mb_base md)\<rparr>, None))"

definition mb_Disconnect :: "int \<Rightarrow> ModbusDevice \<Rightarrow> ModbusDevice" where
  "mb_Disconnect now md = md\<lparr>mb_client := None, mb_base := bd_SetConnected now False (mb_base md)\<rparr>"

definition uint16_of_f64 :: "(f64 \<Rightarrow> int) \<Rightarrow> f64 \<Rightarrow> 16 word" where
  "uint16_of_f64 oob x = word_of_int (f64_to_int oob 0 65535 x)"

definition mb_writePositionRegisters ::
  "(f64 \<Rightarrow> int) \<Rightarrow> Point \<Rightarrow> ModbusDevice \<Rightarrow> ModbusDevice \<times> goerr option" where
  "mb_writePositionRegisters oob pos md =
     (case mb_client md of
        None \<Rightarrow> (md, Some (Errorf ''modbus client not initialized'' []))
      | Some c \<Rightarrow>
          (let vs = map (\<lambda>x. uint16_of_f64 oob (f64_mul x (f64_of_int 1000))) [pt_X pos, pt_Y pos, pt_Z pos];
               (c', e) = mcl_WriteHoldingRegisters 0 vs c
           in (md\<lparr>mb_client := Some c'\<rparr>, e)))"

definition mb_writeRegister :: "16 word \<Rightarrow> 16 word \<Rightarrow> ModbusDevice \<Rightarrow> ModbusDevice \<times> goerr option" where
  "mb_writeRegister address v md =
     (case mb_client md of
        None \<Rightarrow> (md, Some (Errorf ''modbus client not initialized'' []))
      | Some c \<Rightarrow> (let (c', e) = mcl_WriteSingleRegister address v c in (md\<lparr>mb_client := Some c'\<rparr>, e)))"

definition mb_writeStopCommand :: "ModbusDevice \<Rightarrow> ModbusDevice \<times> goerr option" where
  "mb_writeStopCommand = mb_writeRegister 100 0"

definition mb_writeHomeCommand :: "ModbusDevice \<Rightarrow> ModbusDevice \<times> goerr option" where
  "mb_writeHomeCommand = mb_writeRegister 101 1"

definition bd_updateStatus :: "int \<Rightarrow> MotionCommand \<Rightarrow> BaseDevice \<Rightarrow> BaseDevice" where
  "bd_updateStatus now cmd bd =
     bd_SetStatus ((bd_status bd)\<lparr>ds_Position := cmd_Position cmd, ds_Velocity := cmd_Velocity cmd,
                                  ds_LastSeen := now\<rparr>) bd"

definition mb_Write ::
  "(f64 \<Rightarrow> int) \<Rightarrow> int \<Rightarrow> MotionCommand \<Rightarrow> ModbusDevice \<Rightarrow> ModbusDevice \<times> goerr option" where
  "mb_Write oob now cmd md =
     (if \<not> bd_connected (mb_base md) \<or> mb_client md = None
      then (md, Some (Errorf ''device %s is not connected'' [AStr (bd_id (mb_base md))]))
      else
        let send = (if cmd_CommandType cmd = CommandMoveTo
                    then Some (mb_writePositionRegisters oob (cmd_Position cmd))
                    else if cmd_CommandType cmd = CommandStop then Some mb_writeStopCommand
                    else if cmd_CommandType cmd = CommandHome then Some mb_writeHomeCommand
                    else None)
        in case send of
             None \<Rightarrow> (md, Some (Errorf ''unsupported command type: %s'' [AStr (cmd_CommandType cmd)]))
           | Some f \<Rightarrow>
               (case f md of
                  (md', Some e) \<Rightarrow> (md', Some e)
                | (md', None) \<Rightarrow> (md'\<lparr>mb_base := bd_updateStatus now cmd (mb_base md')\<rparr>, None)))"

text \<open>A register holds thousandths; \<open>values[i]\<close> beyond the slice panics.\<close>

definition reg_value :: "16 word \<Rightarrow> f64" where
  "reg_value w = f64_div_const (f64_of_int (uint w)) 1000"

definition mb_readRegisters ::
  "16 word \<Rightarrow> 16 word \<Rightarrow> ModbusDevice \<Rightarrow> 16 word list result" where
  "mb_readRegisters address quantity md =
     (case mb_client md of
        None \<Rightarrow> Err (Errorf ''modbus client not initialized'' [])
      | Some c \<Rightarrow> mcl_ReadHoldingRegisters address quantity c)"

definition mb_readPositionRegisters :: "ModbusDevice \<Rightarrow> Point result exec" where
  "mb_readPositionRegisters md =
     (case mb_readRegisters 0 3 md of
        Err e \<Rightarrow> Ret (Err e)
      | Ok (x # y # z # _) \<Rightarrow> Ret (Ok \<lparr>pt_X = reg_value x, pt_Y = reg_value y, pt_Z = reg_value z\<rparr>)
      | Ok _ \<Rightarrow> Panic ''index out of range'')"

definition mb_readVelocityRegisters :: "ModbusDevice \<Rightarrow> Velocity result exec" where
  "mb_readVelocityRegisters md =
     (case mb_readRegisters 10 2 md of
        Err e \<Rightarrow> Ret (Err e)
      | Ok (l # a # _) \<Rightarrow> Ret (Ok \<lparr>vel_Linear = reg_value l, vel_Angular = reg_value a\<rparr>)
      | Ok _ \<Rightarrow> Panic ''index out of range'')"

definition mb_readStatusRegister :: "ModbusDevice \<Rightarrow> 16 word result exec" where
  "mb_readStatusRegister md =
     (case mb_readRegisters 20 1 md of
        Err e \<Rightarrow> Ret (Err e)
      | Ok [] \<Rightarrow> Ret (Err (Errorf ''no status register value'' []))
      | Ok (v # _) \<Rightarrow> Ret (Ok v))"

fun reading :: "('a \<Rightarrow> device_reading) \<Rightarrow> 'a result exec \<Rightarrow> device_reading result exec" where
  "reading f (Ret (Ok x)) = Ret (Ok (f x))"
| "reading f (Ret (Err e)) = Ret (Err e)"
| "reading f (Panic m) = Panic m"
| "reading f Blocked = Blocked"

definition mb_Read :: "string \<Rightarrow> ModbusDevice \<Rightarrow> device_reading result exec" where
  "mb_Read reg md =
     (if \<not> bd_connected (mb_base md) \<or> mb_client md = None
      then Ret (Err (Errorf ''device %s is not connected'' [AStr (bd_id (mb_base md))]))
      else if reg = ''position'' then reading RdPoint (mb_readPositionRegisters md)
      else if reg = ''velocity'' then reading RdVelocity (mb_readVelocityRegisters md)
      else if reg = ''status'' then reading RdWord (mb_readStatusRegister md)
      else Ret (Err (Errorf ''unknown register: %s'' [AStr reg])))"

section \<open>Wrapper of the hardware layer\<close>

text \<open>
  The calls of \<open>hardware.HardwareFactory\<close> that this package makes, over the factory's state \<open>'h\<close>.
\<close>

record 'h hardware_ops =
  hw_Start :: "'h \<Rightarrow> 'h \<times> goerr option"
  hw_Stop :: "'h \<Rightarrow> 'h \<times> goerr option exec"
  hw_AddDeviceFromConfig :: "DeviceID \<Rightarrow> DeviceConfig \<Rightarrow> 'h \<Rightarrow> 'h \<times> goerr option"
  hw_ConnectDevice :: "string \<Rightarrow> 'h \<Rightarrow> 'h \<times> goerr option"
  hw_WriteDevice :: "string \<Rightarrow> string \<Rightarrow> 8 word list \<Rightarrow> 'h \<Rightarrow> 'h \<times> goerr option"
  hw_ReadDevice :: "string \<Rightarrow> string \<Rightarrow> nat \<Rightarrow> 'h \<Rightarrow> 'h \<times> 8 word list result"
  hw_ListDevices :: "'h \<Rightarrow> DeviceStatus list"
  hw_CreateDeviceConfig :: "string \<Rightarrow> DeviceConfig \<Rightarrow> goerr option"

record HardwareDevice =
  hd_base :: BaseDevice
  hd_config :: DeviceConfig
  hd_hwDeviceID :: string

definition NewHardwareDevice :: "DeviceID \<Rightarrow> DeviceConfig \<Rightarrow> HardwareDevice" where
  "NewHardwareDevice i cfg =
     \<lparr>hd_base = NewBaseDevice i ''hardware'' cfg, hd_config = cfg, hd_hwDeviceID = i\<rparr>"

definition hd_Connect :: "int \<Rightarrow> HardwareDevice \<Rightarrow> HardwareDevice \<times> goerr option" where
  "hd_Connect now d = (d\<lparr>hd_base := bd_SetConnected now True (hd_base d)\<rparr>, None)"

definition hd_Disconnect :: "int \<Rightarrow> HardwareDevice \<Rightarrow> HardwareDevice" where
  "hd_Disconnect now d = d\<lparr>hd_base := bd_SetConnected now False (hd_base d)\<rparr>"

definition byte_of_f64 :: "(f64 \<Rightarrow> int) \<Rightarrow> f64 \<Rightarrow> 8 word" where
  "byte_of_f64 oob x = word_of_int (f64_to_int oob 0 255 x)"

definition hd_writePositionToHardware ::
  "'h hardware_ops \<Rightarrow> (f64 \<Rightarrow> int) \<Rightarrow> int \<Rightarrow> Point \<Rightarrow> Velocity \<Rightarrow> HardwareDevice \<times> 'h \<Rightarrow>
   (HardwareDevice \<times> 'h) \<times> goerr option" where
  "hd_writePositionToHardware ops oob now pos vel dh =
     (let (d, h) = dh;
          milli = (\<lambda>x. byte_of_f64 oob (f64_mul x (f64_of_int 1000)));
          positionData = map milli [pt_X pos, pt_Y pos, pt_Z pos];
          velocityData = map milli [vel_Linear vel, vel_Angular vel]
      in case hw_WriteDevice ops (hd_hwDeviceID d) ''position'' positionData h of
           (h1, Some e) \<Rightarrow> ((d, h1), Some (Errorf ''failed to write position: %w'' [AErr e]))
         | (h1, None) \<Rightarrow>
             (case hw_WriteDevice ops (hd_hwDeviceID d) ''velocity'' velocityData h1 of
                (h2, Some e) \<Rightarrow> ((d, h2), Some (Errorf ''failed to write velocity: %w'' [AErr e]))
              | (h2, None) \<Rightarrow>
                  ((d\<lparr>hd_base := bd_updateStatus now
                        (zero_command\<lparr>cmd_Position := pos, cmd_Velocity := vel\<rparr>) (hd_base d)\<rparr>, h2), None)))"

definition hd_writeStopToHardware ::
  "'h hardware_ops \<Rightarrow> HardwareDevice \<times> 'h \<Rightarrow> (HardwareDevice \<times> 'h) \<times> goerr option" where
  "hd_writeStopToHardware ops dh =
     (case hw_WriteDevice ops (hd_hwDeviceID (fst dh)) ''stop'' [0] (snd dh) of
        (h, Some e) \<Rightarrow> ((fst dh, h), Some (Errorf ''failed to write stop command: %w'' [AErr e]))
      | (h, None) \<Rightarrow> ((fst dh, h), None))"

definition hd_writeHomeToHardware ::
  "'h hardware_ops \<Rightarrow> HardwareDevice \<times> 'h \<Rightarrow> (HardwareDevice \<times> 'h) \<times> goerr option" where
  "hd_writeHomeToHardware ops dh =
     (case hw_WriteDevice ops (hd_hwDeviceID (fst dh)) ''home'' [1] (snd dh) of
        (h, Some e) \<Rightarrow> ((fst dh, h), Some (Errorf ''failed to write home command: %w'' [AErr e]))
      | (h, None) \<Rightarrow> ((fst dh, h), None))"

definition hd_Write ::
  "'h hardware_ops \<Rightarrow> (f64 \<Rightarrow> int) \<Rightarrow> int \<Rightarrow> MotionCommand \<Rightarrow> HardwareDevice \<times> 'h \<Rightarrow>
   (HardwareDevice \<times> 'h) \<times> goerr option" where
  "hd_Write ops oob now cmd dh =
     (if \<not> bd_connected (hd_base (fst dh))
      then (dh, Some (Errorf ''device %s is not connected'' [AStr (bd_id (hd_base (fst dh)))]))
      else if cmd_CommandType cmd = CommandMoveTo
      then hd_writePositionToHardware ops oob now (cmd_Position cmd) (cmd_Velocity cmd) dh
      else if cmd_CommandType cmd = CommandStop then hd_writeStopToHardware ops dh
      else if cmd_CommandType cmd = CommandHome then hd_writeHomeToHardware ops dh
      else (dh, Some (Errorf ''unsupported command type: %s'' [AStr (cmd_CommandType cmd)])))"

definition byte_value :: "8 word \<Rightarrow> f64" where
  "byte_value w = f64_div_const (f64_of_int (uint w)) 1000"

definition hd_readPositionFromHardware ::
  "'h hardware_ops \<Rightarrow> HardwareDevice \<Rightarrow> 'h \<Rightarrow> 'h \<times> device_reading result" where
  "hd_readPositionFromHardware ops d h =
     (case hw_ReadDevice ops (hd_hwDeviceID d) ''position'' 3 h of
        (h', Err e) \<Rightarrow> (h', Err (Errorf ''failed to read position: %w'' [AErr e]))
      | (h', Ok (x # y # z # _)) \<Rightarrow>
          (h', Ok (RdPoint \<lparr>pt_X = byte_value x, pt_Y = byte_value y, pt_Z = byte_value z\<rparr>))
      | (h', Ok _) \<Rightarrow> (h', Err (Errorf ''insufficient position data'' [])))"

definition hd_readVelocityFromHardware ::
  "'h hardware_ops \<Rightarrow> HardwareDevice \<Rightarrow> 'h \<Rightarrow> 'h \<times> device_reading result" where
  "hd_readVelocityFromHardware ops d h =
     (case hw_ReadDevice ops (hd_hwDeviceID d) ''velocity'' 2 h of
        (h', Err e) \<Rightarrow> (h', Err (Errorf ''failed to read velocity: %w'' [AErr e]))
      | (h', Ok (l # a # _)) \<Rightarrow> (h', Ok (RdVelocity \<lparr>vel_Linear = byte_value l, vel_Angular = byte_value a\<rparr>))
      | (h', Ok _) \<Rightarrow> (h', Err (Errorf ''insufficient velocity data'' [])))"

definition hd_readStatusFromHardware ::
  "'h hardware_ops \<Rightarrow> HardwareDevice \<Rightarrow> 'h \<Rightarrow> 'h \<times> device_reading result" where
  "hd_readStatusFromHardware ops d h =
     (case hw_ReadDevice ops (hd_hwDeviceID d) ''status'' 1 h of
        (h', Err e) \<Rightarrow> (h', Err (Errorf ''failed to read status: %w'' [AErr e]))
      | (h', Ok (v # _)) \<Rightarrow> (h', Ok (RdWord (ucast v)))
      | (h', Ok []) \<Rightarrow> (h', Err (Errorf ''insufficient status data'' [])))"

definition hd_Read ::
  "'h hardware_ops \<Rightarrow> string \<Rightarrow> HardwareDevice \<Rightarrow> 'h \<Rightarrow> 'h \<times> device_reading result" where
  "hd_Read ops reg d h =
     (if \<not> bd_connected (hd_base d)
      then (h, Err (Errorf ''device %s is not connected'' [AStr (bd_id (hd_base d))]))
      else if reg = ''position'' then hd_readPositionFromHardware ops d h
      else if reg = ''velocity'' then hd_readVelocityFromHardware ops d h
      else if reg = ''status'' then hd_readStatusFromHardware ops d h
      else (h, Err (Errorf ''unknown register: %s'' [AStr reg])))"

section \<open>The interface value\<close>

text \<open>A value of the interface \<open>core.Device\<close>, and its dynamic dispatch.\<close>

datatype core_device = DMock MockDevice | DModbus ModbusDevice | DHardware HardwareDevice

fun dev_base :: "core_device \<Rightarrow> BaseDevice" where
  "dev_base (DMock d) = md_base d"
| "dev_base (DModbus d) = mb_base d"
| "dev_base (DHardware d) = hd_base d"

definition dev_ID :: "core_device \<Rightarrow> DeviceID" where "dev_ID d = bd_id (dev_base d)"
definition dev_Type :: "core_device \<Rightarrow> string" where "dev_Type d = bd_deviceType (dev_base d)"
definition dev_Status :: "core_device \<Rightarrow> DeviceStatus" where "dev_Status d = bd_status (dev_base d)"

fun dev_Connect :: "int \<Rightarrow> core_device \<Rightarrow> core_device \<times> goerr option" where
  "dev_Connect now (DMock d) = map_prod DMock id (md_Connect now d)"
| "dev_Connect now (DModbus d) = map_prod DModbus id (mb_Connect now d)"
| "dev_Connect now (DHardware d) = map_prod DHardware id (hd_Connect now d)"

fun dev_Disconnect :: "int \<Rightarrow> core_device \<Rightarrow> core_device" where
  "dev_Disconnect now (DMock d) = DMock (md_Disconnect now d)"
| "dev_Disconnect now (DModbus d) = DModbus (mb_Disconnect now d)"
| "dev_Disconnect now (DHardware d) = DHardware (hd_Disconnect now d)"

fun dev_Write ::
  "'h hardware_ops \<Rightarrow> (f64 \<Rightarrow> int) \<Rightarrow> int \<Rightarrow> MotionCommand \<Rightarrow> core_device \<times> 'h \<Rightarrow>
   (core_device \<times> 'h) \<times> goerr option" where
  "dev_Write ops oob now cmd (DMock d, h) = (let (d', e) = md_Write now cmd d in ((DMock d', h), e))"
| "dev_Write ops oob now cmd (DModbus d, h) = (let (d', e) = mb_Write oob now cmd d in ((DModbus d', h), e))"
| "dev_Write ops oob now cmd (DHardware d, h) =
     (let ((d', h'), e) = hd_Write ops oob now cmd (d, h) in ((DHardware d', h'), e))"

section \<open>Device manager\<close>

record 'h DeviceManager =
  dm_devices :: "(DeviceID, core_device) gomap"
  dm_config :: SystemConfig
  dm_hardwareMgr :: 'h

definition NewDeviceManager :: "SystemConfig \<Rightarrow> 'h \<Rightarrow> 'h DeviceManager" where
  "NewDeviceManager cfg h = \<lparr>dm_devices = [], dm_config = cfg, dm_hardwareMgr = h\<rparr>"

definition dm_createDevice :: "'h hardware_ops \<Rightarrow> DeviceID \<Rightarrow> DeviceConfig \<Rightarrow> core_device result" where
  "dm_createDevice ops i cfg =
     (if hw_CreateDeviceConfig ops i cfg = None then Ok (DHardware (NewHardwareDevice i cfg))
      else if dc_Protocol cfg = ''mock'' then Ok (DMock (NewMockDevice i cfg))
      else if dc_Protocol cfg = ''modbus'' then Ok (DModbus (NewModbusDevice i cfg))
      else Err (Errorf ''unsupported protocol: %s'' [AStr (dc_Protocol cfg)]))"

text \<open>One turn of the loop of \<open>Start\<close> over the configured devices; errors are logged and skipped.\<close>

definition dm_start_device ::
  "'h hardware_ops \<Rightarrow> int \<Rightarrow> DeviceID \<times> DeviceConfig \<Rightarrow> 'h DeviceManager \<Rightarrow> 'h DeviceManager" where
  "dm_start_device ops now ic dm =
     (let (i, cfg) = ic in
      case hw_AddDeviceFromConfig ops i cfg (dm_hardwareMgr dm) of
        (h, Some e) \<Rightarrow> dm\<lparr>dm_hardwareMgr := h\<rparr>
      | (h, None) \<Rightarrow>
          (case dm_createDevice ops i cfg of
             Err e \<Rightarrow> dm\<lparr>dm_hardwareMgr := h\<rparr>
           | Ok d \<Rightarrow>
               (case hw_ConnectDevice ops i h of
                  (h', Some e) \<Rightarrow> dm\<lparr>dm_hardwareMgr := h', dm_devices := gm_set i d (dm_devices dm)\<rparr>
                | (h', None) \<Rightarrow>
                    dm\<lparr>dm_hardwareMgr := h', dm_devices := gm_set i (fst (dev_Connect now d)) (dm_devices dm)\<rparr>)))"

definition dm_Start :: "'h hardware_ops \<Rightarrow> int \<Rightarrow> 'h DeviceManager \<Rightarrow> 'h DeviceManager \<times> goerr option" where
  "dm_Start ops now dm =
     (let dm1 = dm\<lparr>dm_hardwareMgr := fst (hw_Start ops (dm_hardwareMgr dm))\<rparr>
      in (fold (dm_start_device ops now) (cfg_Devices (dm_config dm)) dm1, None))"

definition dm_Stop :: "'h hardware_ops \<Rightarrow> int \<Rightarrow> 'h DeviceManager \<Rightarrow> 'h DeviceManager \<times> goerr option exec" where
  "dm_Stop ops now dm =
     (case hw_Stop ops (dm_hardwareMgr dm) of
        (h, Blocked) \<Rightarrow> (dm\<lparr>dm_hardwareMgr := h\<rparr>, Blocked)
      | (h, Panic m) \<Rightarrow> (dm\<lparr>dm_hardwareMgr := h\<rparr>, Panic m)
      | (h, Ret _) \<Rightarrow>
          (dm\<lparr>dm_hardwareMgr := h,
              dm_devices := map (map_prod id (dev_Disconnect now)) (dm_devices dm)\<rparr>, Ret None))"

definition dm_GetDevice :: "DeviceID \<Rightarrow> 'h DeviceManager \<Rightarrow> core_device result" where
  "dm_GetDevice i dm =
     (case gm_get (dm_devices dm) i of
        None \<Rightarrow> Err (Errorf ''device %s not found'' [AStr i])
      | Some d \<Rightarrow> Ok d)"

definition dm_GetAllDevices :: "'h DeviceManager \<Rightarrow> (DeviceID, core_device) gomap" where
  "dm_GetAllDevices dm = fold (\<lambda>(i, d). gm_set i d) (dm_devices dm) []"

definition dm_GetHardwareDevices :: "'h hardware_ops \<Rightarrow> 'h DeviceManager \<Rightarrow> DeviceStatus list" where
  "dm_GetHardwareDevices ops dm = hw_ListDevices ops (dm_hardwareMgr dm)"

text \<open>A device of the manager's own table takes precedence over the hardware layer's entry.\<close>

definition dm_GetDeviceStatuses :: "'h hardware_ops \<Rightarrow> 'h DeviceManager \<Rightarrow> (string, DeviceStatus) gomap" where
  "dm_GetDeviceStatuses ops dm =
     fold (\<lambda>st m. if gm_has m (ds_ID st) then m else gm_set (ds_ID st) st m)
       (hw_ListDevices ops (dm_hardwareMgr dm))
       (fold (\<lambda>(i, d). gm_set i (dev_Status d)) (dm_GetAllDevices dm) [])"

section \<open>The contract of a motion device\<close>

lemma bd_set_simps [simp]:
  "bd_id (bd_SetConnected t c b) = bd_id b" "bd_connected (bd_SetConnected t c b) = c"
  "bd_id (bd_SetStatus s b) = bd_id b" "bd_connected (bd_SetStatus s b) = bd_connected b"
  "bd_id (bd_updateStatus t cmd b) = bd_id b" "bd_connected (bd_updateStatus t cmd b) = bd_connected b"
  "ds_Connected (bd_status (bd_SetConnected t c b)) = c"
  "bd_status (bd_SetStatus s b) = s"
  by (simp_all add: bd_SetConnected_def bd_SetStatus_def bd_updateStatus_def)

interpretation mock: motion_device "\<lambda>d. bd_id (md_base d)" "\<lambda>d. bd_connected (md_base d)"
  md_Connect md_Disconnect md_Write
  by unfold_locales (simp_all add: md_Connect_def md_Disconnect_def md_Write_def Let_def)

definition mb_connected :: "ModbusDevice \<Rightarrow> bool" where
  "mb_connected d \<longleftrightarrow> bd_connected (mb_base d) \<and> mb_client d \<noteq> None"

lemma mb_send_simps [simp]:
  "mb_base (fst (mb_writePositionRegisters oob p d)) = mb_base d"
  "mb_base (fst (mb_writeRegister a v d)) = mb_base d"
  "mb_client (fst (mb_writePositionRegisters oob p d)) \<noteq> None \<longleftrightarrow> mb_client d \<noteq> None"
  "mb_client (fst (mb_writeRegister a v d)) \<noteq> None \<longleftrightarrow> mb_client d \<noteq> None"
  by (auto simp: mb_writePositionRegisters_def mb_writeRegister_def Let_def split: option.split prod.split)

lemma mb_send_ok:
  "mb_client d \<noteq> None \<Longrightarrow> snd (mb_writePositionRegisters oob p d) = None"
  "mb_client d \<noteq> None \<Longrightarrow> snd (mb_writeRegister a v d) = None"
  by (auto simp: mb_writePositionRegisters_def mb_writeRegister_def mcl_WriteHoldingRegisters_def
      mcl_WriteSingleRegister_def Let_def)

lemma mb_Write_cases:
  "mb_Write oob now cmd d = (d', e) \<Longrightarrow>
     bd_id (mb_base d') = bd_id (mb_base d) \<and> (mb_connected d' \<longleftrightarrow> mb_connected d) \<and>
     (\<not> mb_connected d \<longrightarrow> d' = d \<and> e \<noteq> None)"
  using mb_send_simps(1,3)[of oob "cmd_Position cmd" d] mb_send_simps(2,4)[of 100 0 d] mb_send_simps(2,4)[of 101 1 d]
  by (auto simp: mb_Write_def mb_connected_def mb_writeStopCommand_def mb_writeHomeCommand_def Let_def
      split: option.splits if_splits prod.splits simp del: mb_send_simps)

interpretation modbus_dev: motion_device "\<lambda>d. bd_id (mb_base d)" mb_connected mb_Connect mb_Disconnect "mb_Write oob"
proof unfold_locales
  fix t c and d :: ModbusDevice
  obtain d' e where w: "mb_Write oob t c d = (d', e)" by fastforce
  note m = mb_Write_cases[OF w]
  show "\<not> mb_connected d \<Longrightarrow> \<exists>e. mb_Write oob t c d = (d, Some e)" using w m by auto
  show "mb_connected (fst (mb_Write oob t c d)) \<longleftrightarrow> mb_connected d" using w m by simp
  show "bd_id (mb_base (fst (mb_Write oob t c d))) = bd_id (mb_base d)" using w m by simp
qed (simp_all add: mb_Connect_def mb_Disconnect_def mb_connected_def NewModbusClient_def)

section \<open>What a device reads back\<close>

lemma md_read_after_write:
  assumes "bd_connected (md_base d)"
  shows "md_Read ''position'' (fst (md_Write now cmd d)) = Ok (RdPoint (cmd_Position cmd))"
    and "md_Read ''velocity'' (fst (md_Write now cmd d)) = Ok (RdVelocity (cmd_Velocity cmd))"
    and "bd_status (md_base (fst (md_Write now cmd d))) =
      \<lparr>ds_ID = bd_id (md_base d), ds_Connected = True, ds_Error = None, ds_LastSeen = now,
       ds_Position = cmd_Position cmd, ds_Velocity = cmd_Velocity cmd\<rparr>"
  using assms by (simp_all add: md_Write_def md_Read_def Let_def)

text \<open>The Modbus client answers every read with constants, whatever was written.\<close>

lemma mb_read_constant:
  assumes "mb_connected d"
  shows "mb_Read ''position'' d =
    Ret (Ok (RdPoint \<lparr>pt_X = reg_value 0, pt_Y = reg_value 100, pt_Z = reg_value 200\<rparr>))"
  using assms
  by (auto simp: mb_Read_def mb_connected_def mb_readPositionRegisters_def mb_readRegisters_def
      mcl_ReadHoldingRegisters_def upt_rec)

section \<open>Which devices a configuration yields\<close>

text \<open>Devices are created only for entries the hardware layer accepts.\<close>

lemma dm_start_device_keys:
  assumes "gm_has (dm_devices (dm_start_device ops now (i, cfg) dm)) j" "\<not> gm_has (dm_devices dm) j"
  shows "j = i \<and> snd (hw_AddDeviceFromConfig ops i cfg (dm_hardwareMgr dm)) = None"
  using assms by (auto simp: dm_start_device_def gm_has_def split: option.splits result.splits prod.splits if_splits)

lemma dm_start_fold_keys:
  assumes "\<And>i cfg h. (i, cfg) \<in> set cfgs \<Longrightarrow> i = j \<Longrightarrow> snd (hw_AddDeviceFromConfig ops i cfg h) \<noteq> None"
    and "\<not> gm_has (dm_devices dm) j"
  shows "\<not> gm_has (dm_devices (fold (dm_start_device ops now) cfgs dm)) j"
  using assms
proof (induction cfgs arbitrary: dm)
  case (Cons ic cfgs)
  obtain i cfg where ic: "ic = (i, cfg)" by (cases ic)
  have "\<not> gm_has (dm_devices (dm_start_device ops now ic dm)) j"
    using dm_start_device_keys[of ops now i cfg dm j] Cons.prems(2)
      Cons.prems(1)[of i cfg "dm_hardwareMgr dm"] unfolding ic by auto
  moreover have "(i', cfg') \<in> set cfgs \<Longrightarrow> i' = j \<Longrightarrow> snd (hw_AddDeviceFromConfig ops i' cfg' h) \<noteq> None" for i' cfg' h
    using Cons.prems(1) by simp
  ultimately show ?case using Cons.IH[of "dm_start_device ops now ic dm"] by simp
qed simp

end
