(* ===== verification/ResourceManager.thy ===== *)
theory ResourceManager
  imports Interfaces "HOL-Library.Multiset"
begin

text \<open>
  The resource manager of the hardware abstraction layer (\<open>internal/hal/resource_manager.go\<close>): resources by
  type and ID, their allocation and release, and the allocation of a whole set for a task with its
  roll-back.  The abstract view is a partial map from (type, ID) to whether the resource is
  allocated; the locale states what allocation and release do to it.
\<close>

section \<open>State and operations\<close>

record Resource =
  res_ID :: string
  res_Type :: string
  res_Allocated :: bool
  res_AllocatedTo :: string
  res_AllocatedAt :: "int option"
  res_LastUsed :: int
  res_Metadata :: "(string, goval) gomap"

record ResourceManager =
  rm_resources :: "(string, (string, Resource) gomap) gomap"
  rm_config :: SystemConfig

definition NewResourceManager :: "SystemConfig \<Rightarrow> ResourceManager" where
  "NewResourceManager cfg = \<lparr>rm_resources = [], rm_config = cfg\<rparr>"

definition rm_of_type :: "string \<Rightarrow> ResourceManager \<Rightarrow> (string, Resource) gomap" where
  "rm_of_type ty rm = (case gm_get (rm_resources rm) ty of None \<Rightarrow> [] | Some m \<Rightarrow> m)"

definition rm_put :: "string \<Rightarrow> string \<Rightarrow> Resource \<Rightarrow> ResourceManager \<Rightarrow> ResourceManager" where
  "rm_put ty i r rm = rm\<lparr>rm_resources := gm_set ty (gm_set i r (rm_of_type ty rm)) (rm_resources rm)\<rparr>"

definition rm_registerResource ::
  "int \<Rightarrow> string \<Rightarrow> string \<Rightarrow> (string, goval) gomap \<Rightarrow> ResourceManager \<Rightarrow> ResourceManager" where
  "rm_registerResource now ty i meta =
     rm_put ty i \<lparr>res_ID = i, res_Type = ty, res_Allocated = False, res_AllocatedTo = [], res_AllocatedAt = None,
                  res_LastUsed = now, res_Metadata = meta\<rparr>"

definition rm_initializeHardwareResources :: "int \<Rightarrow> ResourceManager \<Rightarrow> ResourceManager" where
  "rm_initializeHardwareResources now rm =
     (let cfg = rm_config rm;
          rm1 = fold (\<lambda>(i, ax). rm_registerResource now ''axis'' i
                  [(''device_id'', VDeviceID (ax_DeviceID ax)), (''min_position'', VFloat (ax_MinPosition ax)),
                   (''max_position'', VFloat (ax_MaxPosition ax)), (''max_velocity'', VFloat (ax_MaxVelocity ax)),
                   (''max_acceleration'', VFloat (ax_MaxAcceleration ax))]) (cfg_Axes cfg) rm;
          rm2 = fold (\<lambda>(i, d). rm_registerResource now ''device'' i
                  [(''type'', VString (dc_Type d)), (''protocol'', VString (dc_Protocol d)),
                   (''endpoint'', VString (dc_Endpoint d))]) (cfg_Devices cfg) rm1;
          rm3 = rm_registerResource now ''safety'' ''emergency_stop''
                  [(''enabled'', VBool (sf_EnableEmergency (cfg_Safety cfg)))] rm2;
          rm4 = rm_registerResource now ''safety'' ''safety_door'' [(''enabled'', VBool True)] rm3
      in rm_registerResource now ''safety'' ''limit_switches''
           [(''enabled'', VBool (sf_EnableLimits (cfg_Safety cfg)))] rm4)"

definition rm_Start :: "int \<Rightarrow> ResourceManager \<Rightarrow> ResourceManager \<times> goerr option" where
  "rm_Start now rm = (rm_initializeHardwareResources now rm, None)"

definition rm_Stop :: "ResourceManager \<Rightarrow> ResourceManager \<times> goerr option" where
  "rm_Stop rm =
     (rm\<lparr>rm_resources :=
        map (map_prod id (map (map_prod id
          (\<lambda>r. if res_Allocated r then r\<lparr>res_Allocated := False, res_AllocatedTo := []\<rparr> else r)))) (rm_resources rm)\<rparr>,
      None)"

definition rm_GetResource :: "string \<Rightarrow> string \<Rightarrow> ResourceManager \<Rightarrow> Resource result" where
  "rm_GetResource ty i rm =
     (case gm_get (rm_resources rm) ty of
        None \<Rightarrow> Err (Errorf ''resource type %s not found'' [AStr ty])
      | Some m \<Rightarrow>
          (case gm_get m i of
             None \<Rightarrow> Err (Errorf ''resource %s of type %s not found'' [AStr i, AStr ty])
           | Some r \<Rightarrow> Ok r))"

definition rm_Allocate :: "int \<Rightarrow> string \<Rightarrow> string \<Rightarrow> ResourceManager \<Rightarrow> ResourceManager \<times> goerr option" where
  "rm_Allocate now ty i rm =
     (case rm_GetResource ty i rm of
        Err e \<Rightarrow> (rm, Some e)
      | Ok r \<Rightarrow>
          if res_Allocated r
          then (rm, Some (Errorf ''resource %s of type %s is already allocated to %s''
                      [AStr i, AStr ty, AStr (res_AllocatedTo r)]))
          else (rm_put ty i (r\<lparr>res_Allocated := True, res_AllocatedTo := ''system'', res_AllocatedAt := Some now,
                               res_LastUsed := now\<rparr>) rm, None))"

definition rm_Release :: "int \<Rightarrow> string \<Rightarrow> string \<Rightarrow> ResourceManager \<Rightarrow> ResourceManager \<times> goerr option" where
  "rm_Release now ty i rm =
     (case rm_GetResource ty i rm of
        Err e \<Rightarrow> (rm, Some e)
      | Ok r \<Rightarrow>
          if \<not> res_Allocated r
          then (rm, Some (Errorf ''resource %s of type %s is not allocated'' [AStr i, AStr ty]))
          else (rm_put ty i (r\<lparr>res_Allocated := False, res_AllocatedTo := [], res_LastUsed := now\<rparr>) rm, None))"

definition rm_GetResourcesByType :: "string \<Rightarrow> ResourceManager \<Rightarrow> (string, Resource) gomap" where
  "rm_GetResourcesByType = rm_of_type"

definition rm_GetAllResources :: "ResourceManager \<Rightarrow> (string, (string, Resource) gomap) gomap" where
  "rm_GetAllResources = rm_resources"

definition rm_IsResourceAllocated :: "string \<Rightarrow> string \<Rightarrow> ResourceManager \<Rightarrow> bool" where
  "rm_IsResourceAllocated ty i rm = (case rm_GetResource ty i rm of Err e \<Rightarrow> False | Ok r \<Rightarrow> res_Allocated r)"

definition rm_GetAvailableResources :: "string \<Rightarrow> ResourceManager \<Rightarrow> string list" where
  "rm_GetAvailableResources ty rm = map fst (filter (\<lambda>(i, r). \<not> res_Allocated r) (rm_of_type ty rm))"

definition rm_GetAllocatedResources :: "string \<Rightarrow> ResourceManager \<Rightarrow> (string, string) gomap" where
  "rm_GetAllocatedResources ty rm =
     map (map_prod id res_AllocatedTo) (filter (\<lambda>(i, r). res_Allocated r) (rm_of_type ty rm))"

section \<open>Allocation for a task\<close>

text \<open>
  The request is a map from types to lists of IDs; each of the loops over it visits the types in an
  order of its own: \<open>chk\<close>, \<open>alc\<close> and \<open>rbk\<close> are the request in the order of the checking, the allocating
  and the rolling-back loop.
\<close>

type_synonym request = "(string, string list) gomap"

definition req_pairs :: "request \<Rightarrow> (string \<times> string) list" where
  "req_pairs req = concat (map (\<lambda>(ty, ids). map (Pair ty) ids) req)"

fun rm_allocate_all ::
  "int \<Rightarrow> (string \<times> string) list \<Rightarrow> ResourceManager \<Rightarrow> ResourceManager \<times> (string \<times> string \<times> goerr) option" where
  "rm_allocate_all now [] rm = (rm, None)"
| "rm_allocate_all now ((ty, i) # ps) rm =
     (case rm_Allocate now ty i rm of
        (rm', Some e) \<Rightarrow> (rm', Some (ty, i, e))
      | (rm', None) \<Rightarrow> rm_allocate_all now ps rm')"

text \<open>The \<open>break\<close> leaves the loop over the IDs of the failed type only.\<close>

definition rm_rollbackAllocation ::
  "int \<Rightarrow> request \<Rightarrow> string \<Rightarrow> string \<Rightarrow> ResourceManager \<Rightarrow> ResourceManager" where
  "rm_rollbackAllocation now rbk fty fi =
     fold (\<lambda>(ty, ids). fold (\<lambda>i rm. fst (rm_Release now ty i rm)) (takeWhile (\<lambda>i. \<not> (ty = fty \<and> i = fi)) ids)) rbk"

definition rm_AllocateForTask ::
  "int \<Rightarrow> request \<Rightarrow> request \<Rightarrow> request \<Rightarrow> ResourceManager \<Rightarrow> ResourceManager \<times> goerr option" where
  "rm_AllocateForTask now chk alc rbk rm =
     (case find (\<lambda>(ty, i). rm_IsResourceAllocated ty i rm) (req_pairs chk) of
        Some (ty, i) \<Rightarrow> (rm, Some (Errorf ''resource %s of type %s is already allocated'' [AStr i, AStr ty]))
      | None \<Rightarrow>
          (case rm_allocate_all now (req_pairs alc) rm of
             (rm', None) \<Rightarrow> (rm', None)
           | (rm', Some (ty, i, e)) \<Rightarrow>
               (rm_rollbackAllocation now rbk ty i rm',
                Some (Errorf ''failed to allocate resource %s of type %s: %w'' [AStr i, AStr ty, AErr e]))))"

fun rm_release_all :: "int \<Rightarrow> (string \<times> string) list \<Rightarrow> ResourceManager \<Rightarrow> ResourceManager \<times> goerr list" where
  "rm_release_all now [] rm = (rm, [])"
| "rm_release_all now ((ty, i) # ps) rm =
     (let (rm', r) = rm_Release now ty i rm
      in map_prod id ((@) (case r of None \<Rightarrow> [] | Some e \<Rightarrow> [e])) (rm_release_all now ps rm'))"

definition rm_ReleaseForTask :: "int \<Rightarrow> string \<Rightarrow> request \<Rightarrow> ResourceManager \<Rightarrow> ResourceManager \<times> goerr option" where
  "rm_ReleaseForTask now taskID req rm =
     (let (rm', errs) = rm_release_all now (req_pairs req) rm
      in (rm', if errs = [] then None
               else Some (Errorf ''errors releasing resources for task %s: %v'' [AStr taskID, AErrs errs])))"

section \<open>The contract of a pool of resources\<close>

locale resource_pool =
  fixes status :: "'s \<Rightarrow> 'p \<Rightarrow> bool option"
    and alloc :: "'p \<Rightarrow> 's \<Rightarrow> 's \<times> goerr option"
    and release :: "'p \<Rightarrow> 's \<Rightarrow> 's \<times> goerr option"
  assumes alloc_ok: "status s p = Some False \<Longrightarrow>
          snd (alloc p s) = None \<and> status (fst (alloc p s)) = (status s)(p := Some True)"
    and alloc_fail: "status s p \<noteq> Some False \<Longrightarrow> fst (alloc p s) = s \<and> snd (alloc p s) \<noteq> None"
    and release_ok: "status s p = Some True \<Longrightarrow>
          snd (release p s) = None \<and> status (fst (release p s)) = (status s)(p := Some False)"
    and release_fail: "status s p \<noteq> Some True \<Longrightarrow> fst (release p s) = s \<and> snd (release p s) \<noteq> None"
begin

definition give :: "'p \<Rightarrow> 's \<Rightarrow> 's" where
  "give p s = fst (release p s)"

lemma status_give: "status (give p s) = (if status s p = Some True then (status s)(p := Some False) else status s)"
  by (simp add: give_def release_ok release_fail)

lemma status_give_all:
  "status (fold give ps s) = (\<lambda>p. if p \<in> set ps \<and> status s p = Some True then Some False else status s p)"
  by (induction ps arbitrary: s) (auto simp: status_give fun_eq_iff)

fun take_all :: "'p list \<Rightarrow> 's \<Rightarrow> 's \<times> ('p \<times> goerr) option" where
  "take_all [] s = (s, None)"
| "take_all (p # ps) s =
     (case alloc p s of (s', Some e) \<Rightarrow> (s', Some (p, e)) | (s', None) \<Rightarrow> take_all ps s')"

text \<open>Either everything was free and now is taken, or the first entry that was not free stops the loop.\<close>

lemma take_all_ok:
  "distinct ps \<Longrightarrow> \<forall>p \<in> set ps. status s p = Some False \<Longrightarrow>
     snd (take_all ps s) = None \<and>
     status (fst (take_all ps s)) = (\<lambda>p. if p \<in> set ps then Some True else status s p)"
proof (induction ps arbitrary: s)
  case (Cons p ps)
  obtain s' r where a: "alloc p s = (s', r)" by fastforce
  have "r = None" "status s' = (status s)(p := Some True)" using alloc_ok[of s p] a Cons.prems by auto
  moreover have "\<forall>q \<in> set ps. status s' q = Some False" using calculation Cons.prems by auto
  ultimately show ?case using Cons.IH[of s'] Cons.prems a by (auto simp: fun_eq_iff)
qed simp

lemma take_all_free: "snd (take_all ps s) = None \<Longrightarrow> \<forall>p \<in> set ps. status s p = Some False"
proof (induction ps arbitrary: s)
  case (Cons p ps)
  obtain s' r where a: "alloc p s = (s', r)" by fastforce
  then have r: "r = None" "snd (take_all ps s') = None" using Cons.prems by (auto split: option.splits)
  then have "status s p = Some False" using alloc_fail[of s p] a by fastforce
  moreover have "status s' = (status s)(p := Some True)" using alloc_ok[of s p] a calculation by auto
  ultimately show ?case using Cons.IH[OF r(2)] by (auto split: if_splits)
qed simp

lemma take_all_fails:
  assumes "snd (take_all ps s) = Some (q, e)"
  shows "\<exists>xs ys. ps = xs @ q # ys \<and> status (fst (take_all ps s)) = (\<lambda>p. if p \<in> set xs then Some True else status s p) \<and>
     (\<forall>p \<in> set xs. status s p = Some False) \<and> distinct xs \<and> (q \<in> set xs \<or> status s q \<noteq> Some False)"
  using assms
proof (induction ps arbitrary: s)
  case (Cons p ps)
  obtain s' r where a: "alloc p s = (s', r)" by fastforce
  show ?case
  proof (cases "status s p = Some False")
    case False
    then have "s' = s" "r \<noteq> None" using alloc_fail[of s p] a by auto
    then have "q = p" using Cons.prems a by auto
    then have "p # ps = [] @ q # ps \<and> status (fst (take_all (p # ps) s)) = status s"
      using a \<open>s' = s\<close> \<open>r \<noteq> None\<close> by auto
    then show ?thesis using False \<open>q = p\<close> by (intro exI[of _ "[]"] exI[of _ ps]) auto
  next
    case True
    then have s': "status s' = (status s)(p := Some True)" and r: "r = None" using alloc_ok[of s p] a by auto
    then have "snd (take_all ps s') = Some (q, e)" using Cons.prems a by simp
    from Cons.IH[OF this] obtain xs ys where
      ih: "ps = xs @ q # ys" "status (fst (take_all ps s')) = (\<lambda>p. if p \<in> set xs then Some True else status s' p)"
        "\<forall>p \<in> set xs. status s' p = Some False" "distinct xs" "q \<in> set xs \<or> status s' q \<noteq> Some False"
      by blast
    have "p \<notin> set xs" using ih(3) s' by auto
    then show ?thesis using ih s' r a True
      by (intro exI[of _ "p # xs"] exI[of _ ys]) (auto simp: fun_eq_iff split: if_splits)
  qed
qed simp

text \<open>
  Rolling back: giving back every entry of a list that holds all entries taken before the failure and
  none that was taken by anyone else restores the status.
\<close>

lemma roll_back:
  assumes "snd (take_all ps s) = Some (q, e)" "distinct ps" "\<forall>p \<in> set ps. status s p \<noteq> Some True"
    and "set (takeWhile (\<lambda>p. p \<noteq> q) ps) \<subseteq> set bs" "set bs \<subseteq> set ps"
  shows "status (fold give bs (fst (take_all ps s))) = status s"
proof -
  obtain xs ys where xs: "ps = xs @ q # ys"
    "status (fst (take_all ps s)) = (\<lambda>p. if p \<in> set xs then Some True else status s p)"
    "\<forall>p \<in> set xs. status s p = Some False"
    using take_all_fails[OF assms(1)] by blast
  have "takeWhile (\<lambda>p. p \<noteq> q) ps = xs" using xs(1) assms(2) by (auto simp: takeWhile_append takeWhile_eq_all_conv)
  then show ?thesis using assms(3-5) xs by (auto simp: status_give_all fun_eq_iff)
qed

end

section \<open>The resource manager is one\<close>

definition rm_status :: "ResourceManager \<Rightarrow> string \<times> string \<Rightarrow> bool option" where
  "rm_status rm = (\<lambda>(ty, i). case rm_GetResource ty i rm of Err e \<Rightarrow> None | Ok r \<Rightarrow> Some (res_Allocated r))"

lemma rm_of_type_put [simp]:
  "rm_GetResource ty' i' (rm_put ty i r rm) =
     (if ty' = ty \<and> i' = i then Ok r
      else if ty' = ty \<and> gm_get (rm_resources rm) ty = None
      then Err (Errorf ''resource %s of type %s not found'' [AStr i', AStr ty'])
      else rm_GetResource ty' i' rm)"
  by (auto simp: rm_GetResource_def rm_put_def rm_of_type_def split: option.splits)

lemma rm_GetResource_type: "rm_GetResource ty i rm = Ok r \<Longrightarrow> gm_get (rm_resources rm) ty \<noteq> None"
  by (auto simp: rm_GetResource_def split: option.splits)

lemma rm_status_put:
  "rm_GetResource ty i rm = Ok r \<Longrightarrow>
     rm_status (rm_put ty i r' rm) = (rm_status rm)((ty, i) := Some (res_Allocated r'))"
  by (auto simp: rm_status_def fun_eq_iff dest: rm_GetResource_type)

lemma rm_status_register:
  "rm_status (rm_registerResource now ty i meta rm) = (rm_status rm)((ty, i) := Some False)"
  by (auto simp: rm_status_def fun_eq_iff rm_registerResource_def rm_GetResource_def[of ty] split: result.splits)

interpretation rm_pool: resource_pool rm_status "\<lambda>(ty, i). rm_Allocate now ty i" "\<lambda>(ty, i). rm_Release now ty i" for now
proof (unfold_locales, goal_cases)
  case (1 s p)
  then show ?case by (cases p) (auto simp: rm_status_def[of s] rm_Allocate_def rm_status_put split: result.splits)
next
  case (2 s p)
  then show ?case by (cases p) (auto simp: rm_status_def rm_Allocate_def split: result.splits)
next
  case (3 s p)
  then show ?case by (cases p) (auto simp: rm_status_def[of s] rm_Release_def rm_status_put split: result.splits)
next
  case (4 s p)
  then show ?case by (cases p) (auto simp: rm_status_def rm_Release_def split: result.splits)
qed

end
