(* ===== verification/ResourceManagerProps.thy ===== *)
theory ResourceManagerProps
  imports ResourceManager
begin

text \<open>
  Allocation for a task is atomic as long as no ID is requested twice and no one else interferes; the
  roll-back is not tied to what the task itself had taken.
\<close>

section \<open>The loops as operations of the pool\<close>


definition rollback_pairs :: "request \<Rightarrow> string \<times> string \<Rightarrow> (string \<times> string) list" where
  "rollback_pairs rbk q = concat (map (\<lambda>(ty, ids). takeWhile (\<lambda>p. p \<noteq> q) (map (Pair ty) ids)) rbk)"

lemma fold_map': "fold f (map g xs) = fold (\<lambda>x. f (g x)) xs"
  by (induction xs) auto

lemma give_pair: "rm_pool.give now (ty, i) = (\<lambda>rm. fst (rm_Release now ty i rm))"
  by (rule ext) (simp add: rm_pool.give_def)

lemma rm_rollback_give:
  "rm_rollbackAllocation now rbk fty fi rm = fold (rm_pool.give now) (rollback_pairs rbk (fty, fi)) rm"
proof (induction rbk arbitrary: rm)
  case (Cons e rbk)
  obtain ty ids where e: "e = (ty, ids)" by fastforce
  have "fold (\<lambda>i rm. fst (rm_Release now ty i rm)) (takeWhile (\<lambda>i. \<not> (ty = fty \<and> i = fi)) ids) rm =
      fold (rm_pool.give now) (takeWhile (\<lambda>p. p \<noteq> (fty, fi)) (map (Pair ty) ids)) rm"
    by (simp add: takeWhile_map fold_map' give_pair comp_def)
  then show ?case using Cons by (simp add: e rm_rollbackAllocation_def rollback_pairs_def)
qed (simp add: rm_rollbackAllocation_def rollback_pairs_def)







lemma rm_status_allocated: "rm_IsResourceAllocated ty i rm \<longleftrightarrow> rm_status rm (ty, i) = Some True"
  by (simp add: rm_IsResourceAllocated_def rm_status_def split: result.splits)

lemma rm_status_started:
  "rm_status (fold (\<lambda>(i, x). rm_registerResource now ty i (meta i x)) xs rm) =
     (\<lambda>(t, i). if t = ty \<and> i \<in> fst ` set xs then Some False else rm_status rm (t, i))"
  by (induction xs arbitrary: rm) (auto simp: rm_status_register fun_eq_iff)

lemma rm_Start_status:
  "rm_status (fst (rm_Start now (NewResourceManager cfg))) (ty, i) =
     (if (ty = ''axis'' \<and> i \<in> fst ` set (cfg_Axes cfg)) \<or> (ty = ''device'' \<and> i \<in> fst ` set (cfg_Devices cfg)) \<or>
         (ty = ''safety'' \<and> i \<in> {''emergency_stop'', ''safety_door'', ''limit_switches''})
      then Some False else None)"
  by (auto simp: rm_Start_def rm_initializeHardwareResources_def Let_def rm_status_register rm_status_started
      NewResourceManager_def rm_status_def[of "\<lparr>rm_resources = [], rm_config = cfg\<rparr>"] rm_GetResource_def)

section \<open>Properties\<close>



text \<open>The request is not checked for repeated IDs: a free resource asked for twice makes the allocation
  fail and stays allocated.\<close>

theorem repeated_request_leaks:
  assumes "rm_status rm (ty, i) = Some False" "req = [(ty, [i, i])]"
  shows "(case rm_AllocateForTask now req req req rm of
            (rm', r) \<Rightarrow> r \<noteq> None \<and> rm_status rm' (ty, i) = Some True)"
proof -
  obtain rm1 where a1: "rm_Allocate now ty i rm = (rm1, None)" "rm_status rm1 (ty, i) = Some True"
    using rm_pool.alloc_ok[of rm "(ty, i)" now] assms by (cases "rm_Allocate now ty i rm") auto
  then obtain e where "rm_Allocate now ty i rm1 = (rm1, Some e)"
    using rm_pool.alloc_fail[of rm1 "(ty, i)" now] by (cases "rm_Allocate now ty i rm1") auto
  then show ?thesis
    using assms a1 by (simp add: rm_AllocateForTask_def req_pairs_def rm_status_allocated rm_rollbackAllocation_def)
qed

text \<open>The roll-back after a failure releases the request's resources of every other type, whoever holds
  them: an allocation made by another caller in the meantime is undone.\<close>

theorem rollback_releases_others:
  assumes "(ty, ids) \<in> set rbk" "i \<in> set ids" "ty \<noteq> fty" "rm_status rm (ty, i) = Some True"
  shows "rm_status (rm_rollbackAllocation now rbk fty fi rm) (ty, i) = Some False"
proof -
  have "(ty, i) \<in> set (takeWhile (\<lambda>p. p \<noteq> (fty, fi)) (map (Pair ty) ids))"
    using assms(2,3) by (subst takeWhile_eq_all_conv[THEN iffD2]) auto
  then have "(ty, i) \<in> set (rollback_pairs rbk (fty, fi))"
    using assms(1) by (force simp: rollback_pairs_def)
  then show ?thesis by (simp add: rm_rollback_give rm_pool.status_give_all assms(4))
qed

text \<open>After its start the manager knows exactly the configured axes and devices and the three safety
  resources, and all of them are free.\<close>

theorem started_resources:
  "rm_status (fst (rm_Start now (NewResourceManager cfg))) (ty, i) =
     (if (ty = ''axis'' \<and> i \<in> fst ` set (cfg_Axes cfg)) \<or> (ty = ''device'' \<and> i \<in> fst ` set (cfg_Devices cfg)) \<or>
         (ty = ''safety'' \<and> i \<in> {''emergency_stop'', ''safety_door'', ''limit_switches''})
      then Some False else None)"
  by (rule rm_Start_status)

section \<open>Witnesses\<close>

definition demo_rm_cfg :: SystemConfig where
  "demo_rm_cfg =
     \<lparr>cfg_EventLoopInterval = 10 * Millisecond, cfg_QueueSize = 100, cfg_Devices = [],
      cfg_Axes = [(''x'', \<lparr>ax_DeviceID = ''d1'', ax_MaxVelocity = Fin 10, ax_MaxAcceleration = Fin 5, ax_MinPosition = Fin 0,
        ax_MaxPosition = Fin 100, ax_HomePosition = Fin 0, ax_Units = ''mm'', ax_InvertDirection = False\<rparr>)],
      cfg_Safety = \<lparr>sf_EnableLimits = True, sf_EnableEmergency = True, sf_MaxTemperature = f64_zero,
                    sf_MinVoltage = f64_zero, sf_WatchdogTimeout = Second\<rparr>,
      cfg_IPC = \<lparr>ipc_Type = ''tcp'', ipc_Address = ''127.0.0.1'', ipc_Port = 8080, ipc_Timeout = Second,
                 ipc_BufferSize = 1024\<rparr>,
      cfg_TaskTemplates = None, cfg_CommandMappings = None\<rparr>"

definition demo_rm :: ResourceManager where
  "demo_rm = fst (rm_Start 0 (NewResourceManager demo_rm_cfg))"

lemma demo_rm_free: "rm_status demo_rm (''axis'', ''x'') = Some False" "rm_status demo_rm (''safety'', ''safety_door'') = Some False"
  by (simp_all add: demo_rm_def rm_Start_status demo_rm_cfg_def)

definition demo_req :: request where
  "demo_req = [(''axis'', [''x'']), (''safety'', [''safety_door''])]"


theorem repeated_request_leaks_witness:
  "rm_status (fst (rm_AllocateForTask 7 [(''axis'', [''x'', ''x''])] [(''axis'', [''x'', ''x''])] [(''axis'', [''x'', ''x''])] demo_rm))
     (''axis'', ''x'') = Some True"
  using repeated_request_leaks[OF demo_rm_free(1) refl, of 7] by (simp split: prod.splits)

theorem rollback_releases_others_witness:
  "rm_status (rm_rollbackAllocation 8 demo_req ''axis'' ''x'' (fst (rm_Allocate 7 ''safety'' ''safety_door'' demo_rm)))
     (''safety'', ''safety_door'') = Some False"
proof (rule rollback_releases_others)
  show "(''safety'', [''safety_door'']) \<in> set demo_req" by (simp add: demo_req_def)
  show "rm_status (fst (rm_Allocate 7 ''safety'' ''safety_door'' demo_rm)) (''safety'', ''safety_door'') = Some True"
    using rm_pool.alloc_ok[OF demo_rm_free(2), of 7] by simp
qed simp_all

end
