(* ===== verification/Hal.thy ===== *)
theory Hal
  imports Devices ResourceManagerProps
begin

text \<open>
  The hardware abstraction layer (\<open>internal/hal\<close>): its device manager (\<open>device_manager.go\<close>), its protocol
  manager with the mock protocol (\<open>protocol_manager.go\<close>), and the layer itself (\<open>hal.go\<close>), which starts and
  stops the three managers and passes commands, reads and allocations on.
\<close>

section \<open>Device manager\<close>

record HalDeviceManager =
  hdm_devices :: "(DeviceID, core_device) gomap"
  hdm_config :: SystemConfig

definition NewHalDeviceManager :: "SystemConfig \<Rightarrow> HalDeviceManager" where
  "NewHalDeviceManager cfg = \<lparr>hdm_devices = [], hdm_config = cfg\<rparr>"

text \<open>Only logs.\<close>

definition hdm_initializeDevice :: "DeviceID \<Rightarrow> DeviceConfig \<Rightarrow> HalDeviceManager \<Rightarrow> HalDeviceManager \<times> goerr option" where
  "hdm_initializeDevice i cfg dm = (dm, None)"

fun hdm_start_devices ::
  "(DeviceID \<times> DeviceConfig) list \<Rightarrow> HalDeviceManager \<Rightarrow> HalDeviceManager \<times> goerr option" where
  "hdm_start_devices [] dm = (dm, None)"
| "hdm_start_devices ((i, cfg) # ds) dm =
     (case hdm_initializeDevice i cfg dm of
        (dm', Some e) \<Rightarrow> (dm', Some (Errorf ''failed to initialize device %s: %w'' [AStr i, AErr e]))
      | (dm', None) \<Rightarrow> hdm_start_devices ds dm')"

definition hdm_Start :: "HalDeviceManager \<Rightarrow> HalDeviceManager \<times> goerr option" where
  "hdm_Start dm = hdm_start_devices (cfg_Devices (hdm_config dm)) dm"

text \<open>\<open>Stop\<close> disconnects the devices and forgets them; whoever else holds them sees them disconnected.\<close>

definition hdm_Stop :: "HalDeviceManager \<Rightarrow> HalDeviceManager \<times> goerr option" where
  "hdm_Stop dm = (dm\<lparr>hdm_devices := []\<rparr>, None)"

definition hdm_GetDevice :: "DeviceID \<Rightarrow> HalDeviceManager \<Rightarrow> core_device result" where
  "hdm_GetDevice i dm =
     (case gm_get (hdm_devices dm) i of
        None \<Rightarrow> Err (Errorf ''device %s not found'' [AStr i])
      | Some d \<Rightarrow> Ok d)"

definition hdm_AddDevice :: "int \<Rightarrow> core_device \<Rightarrow> HalDeviceManager \<Rightarrow> HalDeviceManager \<times> goerr option" where
  "hdm_AddDevice now d dm =
     (if gm_has (hdm_devices dm) (dev_ID d)
      then (dm, Some (Errorf ''device %s already exists'' [AStr (dev_ID d)]))
      else case dev_Connect now d of
        (d', Some e) \<Rightarrow> (dm, Some (Errorf ''failed to connect device %s: %w'' [AStr (dev_ID d), AErr e]))
      | (d', None) \<Rightarrow> (dm\<lparr>hdm_devices := gm_set (dev_ID d) d' (hdm_devices dm)\<rparr>, None))"

definition hdm_RemoveDevice :: "DeviceID \<Rightarrow> HalDeviceManager \<Rightarrow> HalDeviceManager \<times> goerr option" where
  "hdm_RemoveDevice i dm =
     (case gm_get (hdm_devices dm) i of
        None \<Rightarrow> (dm, Some (Errorf ''device %s not found'' [AStr i]))
      | Some d \<Rightarrow> (dm\<lparr>hdm_devices := gm_del i (hdm_devices dm)\<rparr>, None))"

definition hdm_GetAllDevices :: "HalDeviceManager \<Rightarrow> (DeviceID, core_device) gomap" where
  "hdm_GetAllDevices dm = hdm_devices dm"

definition hdm_GetAllDeviceStatuses :: "HalDeviceManager \<Rightarrow> (DeviceID, DeviceStatus) gomap" where
  "hdm_GetAllDeviceStatuses dm = map (map_prod id dev_Status) (hdm_devices dm)"

definition hdm_GetDeviceCount :: "HalDeviceManager \<Rightarrow> nat" where
  "hdm_GetDeviceCount dm = length (hdm_devices dm)"

definition hdm_IsDeviceConnected :: "DeviceID \<Rightarrow> HalDeviceManager \<Rightarrow> bool" where
  "hdm_IsDeviceConnected i dm =
     (case gm_get (hdm_devices dm) i of None \<Rightarrow> False | Some d \<Rightarrow> ds_Connected (dev_Status d))"

definition hdm_GetDevicesByType :: "string \<Rightarrow> HalDeviceManager \<Rightarrow> core_device list" where
  "hdm_GetDevicesByType ty dm = map snd (filter (\<lambda>(i, d). dev_Type d = ty) (hdm_devices dm))"

definition hdm_GetDevicesByProtocol :: "string \<Rightarrow> HalDeviceManager \<Rightarrow> core_device list" where
  "hdm_GetDevicesByProtocol p dm =
     map snd (filter (\<lambda>(i, d). case gm_get (cfg_Devices (hdm_config dm)) i of
                                 None \<Rightarrow> False | Some cfg \<Rightarrow> dc_Protocol cfg = p) (hdm_devices dm))"

section \<open>Protocol manager\<close>

text \<open>The interface \<open>Protocol\<close> has one implementation, the mock.\<close>

record MockProtocol =
  mp_name :: string

definition mp_Name :: "MockProtocol \<Rightarrow> string" where "mp_Name p = mp_name p"
definition mp_Start :: "MockProtocol \<Rightarrow> goerr option" where "mp_Start p = None"
definition mp_Stop :: "MockProtocol \<Rightarrow> goerr option" where "mp_Stop p = None"
definition mp_Connect :: "DeviceID \<Rightarrow> DeviceConfig \<Rightarrow> MockProtocol \<Rightarrow> goerr option" where "mp_Connect i cfg p = None"
definition mp_Disconnect :: "DeviceID \<Rightarrow> MockProtocol \<Rightarrow> goerr option" where "mp_Disconnect i p = None"
definition mp_Write :: "DeviceID \<Rightarrow> MotionCommand \<Rightarrow> MockProtocol \<Rightarrow> goerr option" where "mp_Write i cmd p = None"
definition mp_Read :: "DeviceID \<Rightarrow> string \<Rightarrow> MockProtocol \<Rightarrow> goval result" where
  "mp_Read i register p = Ok (VString ''mock_value'')"
definition mp_GetStatus :: "DeviceID \<Rightarrow> MockProtocol \<Rightarrow> DeviceStatus result" where
  "mp_GetStatus i p =
     Ok \<lparr>ds_ID = [], ds_Connected = True, ds_Error = None, ds_LastSeen = 0, ds_Position = zero_point,
         ds_Velocity = zero_velocity\<rparr>"

record ProtocolManager =
  pm_protocols :: "(string, MockProtocol) gomap"
  pm_config :: SystemConfig

definition NewProtocolManager :: "SystemConfig \<Rightarrow> ProtocolManager" where
  "NewProtocolManager cfg = \<lparr>pm_protocols = [], pm_config = cfg\<rparr>"

definition pm_initializeProtocol :: "string \<Rightarrow> ProtocolManager \<Rightarrow> ProtocolManager \<times> goerr option" where
  "pm_initializeProtocol n pm = (pm\<lparr>pm_protocols := gm_set n \<lparr>mp_name = n\<rparr> (pm_protocols pm)\<rparr>, None)"

definition pm_hasDevicesWithProtocol :: "string \<Rightarrow> ProtocolManager \<Rightarrow> bool" where
  "pm_hasDevicesWithProtocol n pm = list_ex (\<lambda>(i, cfg). dc_Protocol cfg = n) (cfg_Devices (pm_config pm))"

fun pm_start_protocols :: "string list \<Rightarrow> ProtocolManager \<Rightarrow> ProtocolManager \<times> goerr option" where
  "pm_start_protocols [] pm = (pm, None)"
| "pm_start_protocols (n # ns) pm =
     (if pm_hasDevicesWithProtocol n pm then
        (case pm_initializeProtocol n pm of
           (pm', Some e) \<Rightarrow> (pm', Some (Errorf (''failed to initialize '' @ n @ '' protocol: %w'') [AErr e]))
         | (pm', None) \<Rightarrow> pm_start_protocols ns pm')
      else pm_start_protocols ns pm)"

definition pm_Start :: "ProtocolManager \<Rightarrow> ProtocolManager \<times> goerr option" where
  "pm_Start = pm_start_protocols [''modbus'', ''serial'', ''custom'']"

definition pm_Stop :: "ProtocolManager \<Rightarrow> ProtocolManager \<times> goerr option" where
  "pm_Stop pm =
     (let errs = List.map_filter (\<lambda>(n, p). map_option
                   (\<lambda>e. Errorf ''protocol %s stop error: %w'' [AStr n, AErr e]) (mp_Stop p)) (pm_protocols pm)
      in (pm\<lparr>pm_protocols := []\<rparr>,
          if errs = [] then None else Some (Errorf ''protocol manager stop errors: %v'' [AErrs errs])))"

definition pm_GetProtocol :: "string \<Rightarrow> ProtocolManager \<Rightarrow> MockProtocol result" where
  "pm_GetProtocol n pm =
     (case gm_get (pm_protocols pm) n of
        None \<Rightarrow> Err (Errorf ''protocol %s not found'' [AStr n])
      | Some p \<Rightarrow> Ok p)"

text \<open>The first lines of every operation on a device: its configuration, then its protocol.\<close>

definition pm_protocol_of :: "DeviceID \<Rightarrow> ProtocolManager \<Rightarrow> (DeviceConfig \<times> MockProtocol) result" where
  "pm_protocol_of i pm =
     (case gm_get (cfg_Devices (pm_config pm)) i of
        None \<Rightarrow> Err (Errorf ''device %s configuration not found'' [AStr i])
      | Some cfg \<Rightarrow>
          (case pm_GetProtocol (dc_Protocol cfg) pm of
             Err e \<Rightarrow> Err (Errorf ''failed to get protocol %s for device %s: %w'' [AStr (dc_Protocol cfg), AStr i, AErr e])
           | Ok p \<Rightarrow> Ok (cfg, p)))"

definition pm_ExecuteCommand :: "DeviceID \<Rightarrow> MotionCommand \<Rightarrow> ProtocolManager \<Rightarrow> goerr option" where
  "pm_ExecuteCommand i cmd pm =
     (case pm_protocol_of i pm of Err e \<Rightarrow> Some e | Ok (cfg, p) \<Rightarrow> mp_Write i cmd p)"

definition pm_ReadDevice :: "DeviceID \<Rightarrow> string \<Rightarrow> ProtocolManager \<Rightarrow> goval result" where
  "pm_ReadDevice i reg pm = (case pm_protocol_of i pm of Err e \<Rightarrow> Err e | Ok (cfg, p) \<Rightarrow> mp_Read i reg p)"

definition pm_GetDeviceStatus :: "DeviceID \<Rightarrow> ProtocolManager \<Rightarrow> DeviceStatus result" where
  "pm_GetDeviceStatus i pm = (case pm_protocol_of i pm of Err e \<Rightarrow> Err e | Ok (cfg, p) \<Rightarrow> mp_GetStatus i p)"

definition pm_ConnectDevice :: "DeviceID \<Rightarrow> ProtocolManager \<Rightarrow> goerr option" where
  "pm_ConnectDevice i pm = (case pm_protocol_of i pm of Err e \<Rightarrow> Some e | Ok (cfg, p) \<Rightarrow> mp_Connect i cfg p)"

definition pm_DisconnectDevice :: "DeviceID \<Rightarrow> ProtocolManager \<Rightarrow> goerr option" where
  "pm_DisconnectDevice i pm = (case pm_protocol_of i pm of Err e \<Rightarrow> Some e | Ok (cfg, p) \<Rightarrow> mp_Disconnect i p)"

definition pm_GetAvailableProtocols :: "ProtocolManager \<Rightarrow> string list" where
  "pm_GetAvailableProtocols pm = gm_keys (pm_protocols pm)"

section \<open>The layer\<close>

record HardwareAbstractionLayer =
  hal_deviceManager :: HalDeviceManager
  hal_protocolManager :: ProtocolManager
  hal_resourceManager :: ResourceManager

definition NewHardwareAbstractionLayer :: "SystemConfig \<Rightarrow> HardwareAbstractionLayer" where
  "NewHardwareAbstractionLayer cfg =
     \<lparr>hal_deviceManager = NewHalDeviceManager cfg, hal_protocolManager = NewProtocolManager cfg,
      hal_resourceManager = NewResourceManager cfg\<rparr>"

definition hal_Start :: "int \<Rightarrow> HardwareAbstractionLayer \<Rightarrow> HardwareAbstractionLayer \<times> goerr option" where
  "hal_Start now hal =
     (case pm_Start (hal_protocolManager hal) of
        (pm, Some e) \<Rightarrow> (hal\<lparr>hal_protocolManager := pm\<rparr>, Some (Errorf ''failed to start protocol manager: %w'' [AErr e]))
      | (pm, None) \<Rightarrow>
          (let hal1 = hal\<lparr>hal_protocolManager := pm\<rparr>
           in case rm_Start now (hal_resourceManager hal1) of
                (rm, Some e) \<Rightarrow>
                  (hal1\<lparr>hal_resourceManager := rm\<rparr>, Some (Errorf ''failed to start resource manager: %w'' [AErr e]))
              | (rm, None) \<Rightarrow>
                  (let hal2 = hal1\<lparr>hal_resourceManager := rm\<rparr>
                   in case hdm_Start (hal_deviceManager hal2) of
                        (dm, Some e) \<Rightarrow>
                          (hal2\<lparr>hal_deviceManager := dm\<rparr>, Some (Errorf ''failed to start device manager: %w'' [AErr e]))
                      | (dm, None) \<Rightarrow> (hal2\<lparr>hal_deviceManager := dm\<rparr>, None))))"

definition wrap_error :: "string \<Rightarrow> goerr option \<Rightarrow> goerr list" where
  "wrap_error f r = (case r of None \<Rightarrow> [] | Some e \<Rightarrow> [Errorf f [AErr e]])"

definition join_errors :: "string \<Rightarrow> goerr list \<Rightarrow> goerr option" where
  "join_errors f errs = (if errs = [] then None else Some (Errorf f [AErrs errs]))"

definition hal_Stop :: "HardwareAbstractionLayer \<Rightarrow> HardwareAbstractionLayer \<times> goerr option" where
  "hal_Stop hal =
     (let (dm, e1) = hdm_Stop (hal_deviceManager hal);
          (rm, e2) = rm_Stop (hal_resourceManager hal);
          (pm, e3) = pm_Stop (hal_protocolManager hal)
      in (\<lparr>hal_deviceManager = dm, hal_protocolManager = pm, hal_resourceManager = rm\<rparr>,
          join_errors ''HAL stop errors: %v''
            (wrap_error ''device manager stop error: %w'' e1 @ wrap_error ''resource manager stop error: %w'' e2 @
             wrap_error ''protocol manager stop error: %w'' e3)))"

text \<open>\<open>h\<close> is the state of the hardware layer that hardware devices write to.\<close>

definition hal_ExecuteCommand ::
  "'h hardware_ops \<Rightarrow> (f64 \<Rightarrow> int) \<Rightarrow> int \<Rightarrow> MotionCommand \<Rightarrow> HardwareAbstractionLayer \<times> 'h \<Rightarrow>
   (HardwareAbstractionLayer \<times> 'h) \<times> goerr option" where
  "hal_ExecuteCommand ops oob now cmd halh =
     (let (hal, h) = halh; i = cmd_DeviceID cmd in
      case hdm_GetDevice i (hal_deviceManager hal) of
        Err e \<Rightarrow> (halh, Some (Errorf ''failed to get device %s: %w'' [AStr i, AErr e]))
      | Ok d \<Rightarrow>
          (let ((d', h'), r) = dev_Write ops oob now cmd (d, h);
               dm = hal_deviceManager hal
           in ((hal\<lparr>hal_deviceManager := dm\<lparr>hdm_devices := gm_set i d' (hdm_devices dm)\<rparr>\<rparr>, h'), r)))"

fun dev_Read ::
  "'h hardware_ops \<Rightarrow> string \<Rightarrow> core_device \<Rightarrow> 'h \<Rightarrow> 'h \<times> device_reading result exec" where
  "dev_Read ops reg (DMock d) h = (h, Ret (md_Read reg d))"
| "dev_Read ops reg (DModbus d) h = (h, mb_Read reg d)"
| "dev_Read ops reg (DHardware d) h = map_prod id Ret (hd_Read ops reg d h)"

definition hal_ReadDevice ::
  "'h hardware_ops \<Rightarrow> DeviceID \<Rightarrow> string \<Rightarrow> HardwareAbstractionLayer \<Rightarrow> 'h \<Rightarrow> 'h \<times> device_reading result exec" where
  "hal_ReadDevice ops i reg hal h =
     (case hdm_GetDevice i (hal_deviceManager hal) of
        Err e \<Rightarrow> (h, Ret (Err (Errorf ''failed to get device %s: %w'' [AStr i, AErr e])))
      | Ok d \<Rightarrow> dev_Read ops reg d h)"

definition hal_GetDeviceStatus :: "DeviceID \<Rightarrow> HardwareAbstractionLayer \<Rightarrow> DeviceStatus result" where
  "hal_GetDeviceStatus i hal =
     (case hdm_GetDevice i (hal_deviceManager hal) of
        Err e \<Rightarrow> Err (Errorf ''failed to get device %s: %w'' [AStr i, AErr e])
      | Ok d \<Rightarrow> Ok (dev_Status d))"

definition hal_GetAllDeviceStatuses :: "HardwareAbstractionLayer \<Rightarrow> (DeviceID, DeviceStatus) gomap" where
  "hal_GetAllDeviceStatuses hal = hdm_GetAllDeviceStatuses (hal_deviceManager hal)"

definition hal_AllocateResource ::
  "int \<Rightarrow> string \<Rightarrow> string \<Rightarrow> HardwareAbstractionLayer \<Rightarrow> HardwareAbstractionLayer \<times> goerr option" where
  "hal_AllocateResource now ty i hal =
     (let (rm, r) = rm_Allocate now ty i (hal_resourceManager hal) in (hal\<lparr>hal_resourceManager := rm\<rparr>, r))"

definition hal_ReleaseResource ::
  "int \<Rightarrow> string \<Rightarrow> string \<Rightarrow> HardwareAbstractionLayer \<Rightarrow> HardwareAbstractionLayer \<times> goerr option" where
  "hal_ReleaseResource now ty i hal =
     (let (rm, r) = rm_Release now ty i (hal_resourceManager hal) in (hal\<lparr>hal_resourceManager := rm\<rparr>, r))"

section \<open>What holds of a layer nobody adds devices to\<close>

text \<open>
  The rest of the program reaches the layer through these calls; none of them adds a device (the
  application's \<open>connectDevicesToHAL\<close> only logs).
\<close>

datatype hal_call =
    HalStart int | HalStop | HalExecute int MotionCommand | HalAllocate int string string | HalRelease int string string

fun hal_do ::
  "'h hardware_ops \<Rightarrow> (f64 \<Rightarrow> int) \<Rightarrow> hal_call \<Rightarrow> HardwareAbstractionLayer \<times> 'h \<Rightarrow> HardwareAbstractionLayer \<times> 'h" where
  "hal_do ops oob (HalStart now) (hal, h) = (fst (hal_Start now hal), h)"
| "hal_do ops oob HalStop (hal, h) = (fst (hal_Stop hal), h)"
| "hal_do ops oob (HalExecute now cmd) (hal, h) = fst (hal_ExecuteCommand ops oob now cmd (hal, h))"
| "hal_do ops oob (HalAllocate now ty i) (hal, h) = (fst (hal_AllocateResource now ty i hal), h)"
| "hal_do ops oob (HalRelease now ty i) (hal, h) = (fst (hal_ReleaseResource now ty i hal), h)"

abbreviation hal_devices :: "HardwareAbstractionLayer \<Rightarrow> (DeviceID, core_device) gomap" where
  "hal_devices hal \<equiv> hdm_devices (hal_deviceManager hal)"

lemma hdm_start_devices_id [simp]: "hdm_start_devices ds dm = (dm, None)"
  by (induction ds dm rule: hdm_start_devices.induct) (simp_all add: hdm_initializeDevice_def)

lemma pm_start_protocols_ok:
  "snd (pm_start_protocols ns pm) = None \<and> pm_config (fst (pm_start_protocols ns pm)) = pm_config pm \<and>
   gm_get (pm_protocols (fst (pm_start_protocols ns pm))) n =
     (if n \<in> set ns \<and> pm_hasDevicesWithProtocol n pm then Some \<lparr>mp_name = n\<rparr> else gm_get (pm_protocols pm) n)"
proof (induction ns pm rule: pm_start_protocols.induct)
  case (2 m ns pm)
  then show ?case
    by (cases "pm_hasDevicesWithProtocol m pm") (auto simp: pm_initializeProtocol_def pm_hasDevicesWithProtocol_def)
qed simp

lemma hal_Start_ok: "snd (hal_Start now hal) = None" "hal_devices (fst (hal_Start now hal)) = hal_devices hal"
  using pm_start_protocols_ok[of "[''modbus'', ''serial'', ''custom'']" "hal_protocolManager hal"]
  by (cases "pm_Start (hal_protocolManager hal)";
      simp add: hal_Start_def pm_Start_def rm_Start_def hdm_Start_def Let_def)+

lemma hal_do_no_devices:
  assumes "hal_devices hal = []"
  shows "hal_devices (fst (hal_do ops oob c (hal, h))) = [] \<and> snd (hal_do ops oob c (hal, h)) = h"
proof (cases c)
  case (HalStart now)
  then show ?thesis using assms hal_Start_ok(2)[of now hal] by simp
next
  case HalStop
  then show ?thesis by (simp add: hal_Stop_def hdm_Stop_def Let_def split: prod.splits)
next
  case (HalExecute now cmd)
  then show ?thesis using assms by (simp add: hal_ExecuteCommand_def hdm_GetDevice_def Let_def)
next
  case (HalAllocate now ty i)
  then show ?thesis using assms by (simp add: hal_AllocateResource_def split: prod.splits)
next
  case (HalRelease now ty i)
  then show ?thesis using assms by (simp add: hal_ReleaseResource_def split: prod.splits)
qed

lemma hal_run_no_devices:
  "hal_devices hal = [] \<Longrightarrow>
   hal_devices (fst (fold (hal_do ops oob) cs (hal, h))) = [] \<and> snd (fold (hal_do ops oob) cs (hal, h)) = h"
proof (induction cs arbitrary: hal h)
  case (Cons c cs)
  obtain hal' h' where c: "hal_do ops oob c (hal, h) = (hal', h')" by fastforce
  with Cons.prems have "hal_devices hal' = []" "h' = h" using hal_do_no_devices[of hal ops oob c h] by simp_all
  then show ?case using Cons.IH[of hal' h'] c by simp
qed simp

section \<open>Properties\<close>

text \<open>C32. A layer that is only started, stopped, commanded and asked for resources refuses every command,
  because its device manager never gets a device, and leaves the hardware alone.\<close>

theorem hal_refuses_every_command:
  "(case fold (hal_do ops oob) cs (NewHardwareAbstractionLayer cfg, h) of
      (hal, h') \<Rightarrow> hal_ExecuteCommand ops oob now cmd (hal, h') =
        ((hal, h), Some (Errorf ''failed to get device %s: %w''
           [AStr (cmd_DeviceID cmd), AErr (Errorf ''device %s not found'' [AStr (cmd_DeviceID cmd)])])))"
  using hal_run_no_devices[of "NewHardwareAbstractionLayer cfg" ops oob cs h]
  by (auto simp: NewHardwareAbstractionLayer_def NewHalDeviceManager_def hal_ExecuteCommand_def hdm_GetDevice_def Let_def)

text \<open>A started protocol manager passes a command on exactly when the device is configured with one of
  the three protocols; for any other protocol, the mock devices' included, it reports an error.\<close>

theorem pm_ExecuteCommand_exact:
  "pm_ExecuteCommand i cmd (fst (pm_Start (NewProtocolManager cfg))) = None \<longleftrightarrow>
     (\<exists>dc. gm_get (cfg_Devices cfg) i = Some dc \<and> dc_Protocol dc \<in> {''modbus'', ''serial'', ''custom''})"
proof -
  let ?pm = "fst (pm_Start (NewProtocolManager cfg))"
  have cfg: "pm_config ?pm = cfg"
    and get: "gm_get (pm_protocols ?pm) n =
        (if n \<in> {''modbus'', ''serial'', ''custom''} \<and> pm_hasDevicesWithProtocol n (NewProtocolManager cfg)
         then Some \<lparr>mp_name = n\<rparr> else None)" for n
    using pm_start_protocols_ok[of "[''modbus'', ''serial'', ''custom'']" "NewProtocolManager cfg" n]
    by (simp_all add: pm_Start_def NewProtocolManager_def)
  have has: "gm_get (cfg_Devices cfg) i = Some dc \<Longrightarrow> pm_hasDevicesWithProtocol (dc_Protocol dc) (NewProtocolManager cfg)" for dc
    by (auto simp: pm_hasDevicesWithProtocol_def NewProtocolManager_def list_ex_iff dest: gm_get_in_set)
  show ?thesis
    by (auto simp: pm_ExecuteCommand_def pm_protocol_of_def pm_GetProtocol_def cfg get mp_Write_def has
        split: option.splits)
qed

end
