(* ===== verification/ExecQueue.thy ===== *)
theory ExecQueue
  imports Interfaces
begin

text \<open>
  The execution queue (\<open>internal/core/queue.go\<close>).  A \<open>QueuedCommand\<close> is shared by reference between
  the command table, the two channels and the goroutines that work on it, so the commands live in a
  store (\<open>eq_heap\<close>) and everything else holds addresses.  \<open>CancelFunc\<close> is the number of the context
  it cancels; \<open>eq_cancelled\<close> lists the contexts cancelled so far; \<open>qc_Error\<close> is the error whose message the
  code stores.  The two mutexes are explicit: \<open>Push\<close> takes \<open>commandsLock\<close> a second time on one of its paths.
\<close>

section \<open>State\<close>

datatype CommandStatus = CPending | CSent | CExecuting | CCompleted | CFailed | CTimeout

record QueuedCommand =
  qc_Command :: MotionCommand
  qc_Status :: CommandStatus
  qc_AddedAt :: int
  qc_SentAt :: "int option"
  qc_StartedAt :: "int option"
  qc_CompletedAt :: "int option"
  qc_Error :: "goerr option"
  qc_TaskID :: string
  qc_CancelFunc :: "nat option"

record ExecutionQueue =
  eq_heap :: "QueuedCommand list"
  eq_commands :: "(string, nat) gomap"
  eq_commandsLock :: rwmutex
  eq_taskCommands :: "(string, string list) gomap"
  eq_taskLock :: rwmutex
  eq_sendChan :: "nat chan"
  eq_completeChan :: "nat chan"
  eq_maxSize :: int
  eq_ctxDone :: bool
  eq_running :: bool
  eq_nextCtx :: nat
  eq_cancelled :: "nat list"

definition NewExecutionQueue :: "int \<Rightarrow> ExecutionQueue" where
  "NewExecutionQueue maxSize =
     \<lparr>eq_heap = [], eq_commands = [], eq_commandsLock = Unlocked, eq_taskCommands = [],
      eq_taskLock = Unlocked, eq_sendChan = mk_chan 10, eq_completeChan = mk_chan 10,
      eq_maxSize = maxSize, eq_ctxDone = False, eq_running = False, eq_nextCtx = 0, eq_cancelled = []\<rparr>"

section \<open>Start and stop\<close>

text \<open>The commands' cancel functions, called for every entry of the table.\<close>

definition eq_cancel :: "nat \<Rightarrow> ExecutionQueue \<Rightarrow> ExecutionQueue" where
  "eq_cancel a q =
     (case qc_CancelFunc (eq_heap q ! a) of
        None \<Rightarrow> q
      | Some c \<Rightarrow> q\<lparr>eq_cancelled := c # eq_cancelled q\<rparr>)"

definition eq_cancel_all :: "ExecutionQueue \<Rightarrow> ExecutionQueue" where
  "eq_cancel_all q = fold eq_cancel (map snd (eq_commands q)) q"

definition eq_Start :: "ExecutionQueue \<Rightarrow> ExecutionQueue \<times> goerr option exec" where
  "eq_Start q =
     (if eq_running q then (q, Ret (Some (Errorf ''execution queue is already running'' [])))
      else (q\<lparr>eq_ctxDone := False, eq_running := True\<rparr>, Ret None))"

text \<open>Closing the two channels; \<open>wg.Wait\<close> returns once both workers have seen the cancelled context.\<close>

definition eq_close_chans :: "ExecutionQueue \<Rightarrow> ExecutionQueue \<times> goerr option exec" where
  "eq_close_chans q =
     (case ch_close (eq_sendChan q) of
        (_, Panic m) \<Rightarrow> (q, Panic m)
      | (_, Blocked) \<Rightarrow> (q, Blocked)
      | (c, Ret _) \<Rightarrow>
          (let q1 = q\<lparr>eq_sendChan := c\<rparr>
           in case ch_close (eq_completeChan q1) of
                (_, Panic m) \<Rightarrow> (q1, Panic m)
              | (_, Blocked) \<Rightarrow> (q1, Blocked)
              | (d, Ret _) \<Rightarrow> (q1\<lparr>eq_completeChan := d, eq_running := False\<rparr>, Ret None)))"

definition eq_Stop :: "ExecutionQueue \<Rightarrow> ExecutionQueue \<times> goerr option exec" where
  "eq_Stop q =
     (if \<not> eq_running q then (q, Ret (Some (Errorf ''execution queue is not running'' [])))
      else and_then
        (with_lock eq_commandsLock eq_commandsLock_update (\<lambda>q. (eq_cancel_all q, Ret ())))
        (\<lambda>_. eq_close_chans)
        (q\<lparr>eq_ctxDone := True\<rparr>))"

section \<open>Push\<close>

text \<open>The ID up to its first dash.\<close>

definition eq_extractTaskID :: "string \<Rightarrow> string" where
  "eq_extractTaskID cid = takeWhile (\<lambda>r. r \<noteq> CHR ''-'') cid"

definition task_ids :: "(string, string list) gomap \<Rightarrow> string \<Rightarrow> string list" where
  "task_ids m t = (case gm_get m t of None \<Rightarrow> [] | Some ids \<Rightarrow> ids)"

text \<open>The default branch of the \<open>select\<close>: undo the insertion.\<close>

definition eq_push_undo :: "string \<Rightarrow> string \<Rightarrow> ExecutionQueue \<Rightarrow> ExecutionQueue \<times> goerr option exec" where
  "eq_push_undo cid taskID =
     and_then
       (with_lock eq_commandsLock eq_commandsLock_update
          (\<lambda>q. (q\<lparr>eq_commands := gm_del cid (eq_commands q)\<rparr>, Ret ())))
       (\<lambda>_. and_then
          (with_lock eq_taskLock eq_taskLock_update
             (\<lambda>q. (case gm_get (eq_taskCommands q) taskID of
                      None \<Rightarrow> (q, Ret ())
                    | Some ids \<Rightarrow>
                        (if cid \<in> set ids
                         then q\<lparr>eq_taskCommands := gm_set taskID (remove1 cid ids) (eq_taskCommands q)\<rparr>
                         else q, Ret ()))))
          (\<lambda>_ q. (q, Ret (Some (Errorf ''send channel full'' [])))))"

definition eq_push_send :: "nat \<Rightarrow> string \<Rightarrow> string \<Rightarrow> ExecutionQueue \<Rightarrow> ExecutionQueue \<times> goerr option exec" where
  "eq_push_send a cid taskID q =
     (case ch_try_send a (eq_sendChan q) of
        (c, Ret True) \<Rightarrow> (q\<lparr>eq_sendChan := c\<rparr>, Ret None)
      | (_, Ret False) \<Rightarrow> eq_push_undo cid taskID q
      | (_, Panic m) \<Rightarrow> (q, Panic m)
      | (_, Blocked) \<Rightarrow> (q, Blocked))"

definition eq_push_locked :: "int \<Rightarrow> MotionCommand \<Rightarrow> ExecutionQueue \<Rightarrow> ExecutionQueue \<times> goerr option exec" where
  "eq_push_locked now cmd q =
     (if eq_maxSize q \<le> int (length (eq_commands q))
      then (q, Ret (Some (Errorf ''execution queue is full'' [])))
      else
        let taskID = eq_extractTaskID (cmd_ID cmd);
            a = length (eq_heap q);
            queued = \<lparr>qc_Command = cmd, qc_Status = CPending, qc_AddedAt = now, qc_SentAt = None,
                      qc_StartedAt = None, qc_CompletedAt = None, qc_Error = None, qc_TaskID = taskID,
                      qc_CancelFunc = None\<rparr>
        in and_then
             (with_lock eq_taskLock eq_taskLock_update
                (\<lambda>q. (q\<lparr>eq_taskCommands :=
                          gm_set taskID (task_ids (eq_taskCommands q) taskID @ [cmd_ID cmd]) (eq_taskCommands q)\<rparr>,
                       Ret ())))
             (\<lambda>_. eq_push_send a (cmd_ID cmd) taskID)
             (q\<lparr>eq_heap := eq_heap q @ [queued], eq_commands := gm_set (cmd_ID cmd) a (eq_commands q)\<rparr>))"

definition eq_Push :: "int \<Rightarrow> MotionCommand \<Rightarrow> ExecutionQueue \<Rightarrow> ExecutionQueue \<times> goerr option exec" where
  "eq_Push now cmd q =
     (if \<not> eq_running q then (q, Ret (Some (Errorf ''execution queue is not running'' [])))
      else with_lock eq_commandsLock eq_commandsLock_update (eq_push_locked now cmd) q)"

section \<open>Queries\<close>

text \<open>\<open>Pop\<close> and \<open>Peek\<close>: the first pending command in the iteration order of the table; neither removes it.\<close>

definition eq_first_pending :: "ExecutionQueue \<Rightarrow> MotionCommand result" where
  "eq_first_pending q =
     (case filter (\<lambda>a. qc_Status (eq_heap q ! a) = CPending) (map snd (eq_commands q)) of
        a # _ \<Rightarrow> Ok (qc_Command (eq_heap q ! a))
      | [] \<Rightarrow> Err (Errorf ''no pending commands'' []))"

definition eq_Pop :: "ExecutionQueue \<Rightarrow> ExecutionQueue \<times> MotionCommand result exec" where
  "eq_Pop = with_rlock eq_commandsLock eq_commandsLock_update (\<lambda>q. (q, Ret (eq_first_pending q)))"

definition eq_Peek :: "ExecutionQueue \<Rightarrow> ExecutionQueue \<times> MotionCommand result exec" where
  "eq_Peek = with_rlock eq_commandsLock eq_commandsLock_update (\<lambda>q. (q, Ret (eq_first_pending q)))"

definition eq_Size :: "ExecutionQueue \<Rightarrow> ExecutionQueue \<times> nat exec" where
  "eq_Size = with_rlock eq_commandsLock eq_commandsLock_update (\<lambda>q. (q, Ret (length (eq_commands q))))"

text \<open>The commands of the listed IDs that are still in the table.\<close>

definition eq_lookup_ids :: "string list \<Rightarrow> ExecutionQueue \<Rightarrow> MotionCommand list" where
  "eq_lookup_ids ids q =
     List.map_filter (\<lambda>i. map_option (\<lambda>a. qc_Command (eq_heap q ! a)) (gm_get (eq_commands q) i)) ids"

definition eq_GetByTaskID :: "string \<Rightarrow> ExecutionQueue \<Rightarrow> ExecutionQueue \<times> MotionCommand list result exec" where
  "eq_GetByTaskID taskID =
     and_then
       (with_rlock eq_taskLock eq_taskLock_update (\<lambda>q. (q, Ret (gm_get (eq_taskCommands q) taskID))))
       (\<lambda>found. case found of
          None \<Rightarrow> (\<lambda>q. (q, Ret (Err (Errorf ''no commands found for task: %s'' [AStr taskID]))))
        | Some ids \<Rightarrow>
            with_rlock eq_commandsLock eq_commandsLock_update (\<lambda>q. (q, Ret (Ok (eq_lookup_ids ids q)))))"

record QueueStatus =
  qs_total_commands :: nat
  qs_active_tasks :: nat
  qs_status_counts :: "CommandStatus \<Rightarrow> nat"
  qs_max_size :: int
  qs_running :: bool

definition eq_GetStatus :: "ExecutionQueue \<Rightarrow> ExecutionQueue \<times> QueueStatus exec" where
  "eq_GetStatus =
     with_rlock eq_commandsLock eq_commandsLock_update
       (with_rlock eq_taskLock eq_taskLock_update
          (\<lambda>q. (q, Ret \<lparr>qs_total_commands = length (eq_commands q),
                        qs_active_tasks = length (eq_taskCommands q),
                        qs_status_counts =
                          (\<lambda>st. length (filter (\<lambda>e. qc_Status (eq_heap q ! snd e) = st) (eq_commands q))),
                        qs_max_size = eq_maxSize q, qs_running = eq_running q\<rparr>)))"

section \<open>Removal\<close>

definition eq_Clear :: "ExecutionQueue \<Rightarrow> ExecutionQueue \<times> goerr option exec" where
  "eq_Clear q =
     (if \<not> eq_running q then (q, Ret (Some (Errorf ''execution queue is not running'' [])))
      else with_lock eq_commandsLock eq_commandsLock_update
        (\<lambda>q. and_then
           (with_lock eq_taskLock eq_taskLock_update (\<lambda>q. (q\<lparr>eq_taskCommands := []\<rparr>, Ret ())))
           (\<lambda>_ q. (q, Ret None))
           ((eq_cancel_all q)\<lparr>eq_commands := []\<rparr>))
        q)"

definition eq_remove_one :: "string \<Rightarrow> ExecutionQueue \<Rightarrow> ExecutionQueue \<times> unit exec" where
  "eq_remove_one cid =
     with_lock eq_commandsLock eq_commandsLock_update
       (\<lambda>q. case gm_get (eq_commands q) cid of
               None \<Rightarrow> (q, Ret ())
             | Some a \<Rightarrow> ((eq_cancel a q)\<lparr>eq_commands := gm_del cid (eq_commands q)\<rparr>, Ret ()))"

fun eq_remove_ids :: "string list \<Rightarrow> ExecutionQueue \<Rightarrow> ExecutionQueue \<times> unit exec" where
  "eq_remove_ids [] q = (q, Ret ())"
| "eq_remove_ids (i # ids) q = and_then (eq_remove_one i) (\<lambda>_. eq_remove_ids ids) q"

definition eq_RemoveByTaskID :: "string \<Rightarrow> ExecutionQueue \<Rightarrow> ExecutionQueue \<times> goerr option exec" where
  "eq_RemoveByTaskID taskID =
     with_lock eq_taskLock eq_taskLock_update
       (\<lambda>q. case gm_get (eq_taskCommands q) taskID of
               None \<Rightarrow> (q, Ret None)
             | Some ids \<Rightarrow>
                 and_then (eq_remove_ids ids)
                   (\<lambda>_ q. (q\<lparr>eq_taskCommands := gm_del taskID (eq_taskCommands q)\<rparr>, Ret None)) q)"

section \<open>The status of a command\<close>

definition eq_set :: "nat \<Rightarrow> QueuedCommand \<Rightarrow> ExecutionQueue \<Rightarrow> ExecutionQueue" where
  "eq_set a qc q = q\<lparr>eq_heap := (eq_heap q)[a := qc]\<rparr>"

definition eq_MarkCommandSent :: "int \<Rightarrow> string \<Rightarrow> ExecutionQueue \<Rightarrow> ExecutionQueue \<times> goerr option exec" where
  "eq_MarkCommandSent now cid =
     with_lock eq_commandsLock eq_commandsLock_update
       (\<lambda>q. case gm_get (eq_commands q) cid of
               None \<Rightarrow> (q, Ret (Some (Errorf ''command not found: %s'' [AStr cid])))
             | Some a \<Rightarrow>
                 if qc_Status (eq_heap q ! a) \<noteq> CPending
                 then (q, Ret (Some (Errorf ''command %s is not in pending state'' [AStr cid])))
                 else (eq_set a ((eq_heap q ! a)\<lparr>qc_Status := CSent, qc_SentAt := Some now\<rparr>) q, Ret None))"

definition eq_MarkCommandStarted :: "int \<Rightarrow> string \<Rightarrow> ExecutionQueue \<Rightarrow> ExecutionQueue \<times> goerr option exec" where
  "eq_MarkCommandStarted now cid =
     with_lock eq_commandsLock eq_commandsLock_update
       (\<lambda>q. case gm_get (eq_commands q) cid of
               None \<Rightarrow> (q, Ret (Some (Errorf ''command not found: %s'' [AStr cid])))
             | Some a \<Rightarrow>
                 if qc_Status (eq_heap q ! a) \<noteq> CSent
                 then (q, Ret (Some (Errorf ''command %s is not in sent state'' [AStr cid])))
                 else (eq_set a ((eq_heap q ! a)\<lparr>qc_Status := CExecuting, qc_StartedAt := Some now\<rparr>) q, Ret None))"

definition eq_announce :: "nat \<Rightarrow> ExecutionQueue \<Rightarrow> ExecutionQueue \<times> goerr option exec" where
  "eq_announce a q =
     (case ch_try_send a (eq_completeChan q) of
        (c, Ret _) \<Rightarrow> (q\<lparr>eq_completeChan := c\<rparr>, Ret None)
      | (_, Panic m) \<Rightarrow> (q, Panic m)
      | (_, Blocked) \<Rightarrow> (q, Blocked))"

definition eq_MarkCommandCompleted ::
  "int \<Rightarrow> string \<Rightarrow> goerr option \<Rightarrow> ExecutionQueue \<Rightarrow> ExecutionQueue \<times> goerr option exec" where
  "eq_MarkCommandCompleted now cid err =
     with_lock eq_commandsLock eq_commandsLock_update
       (\<lambda>q. case gm_get (eq_commands q) cid of
               None \<Rightarrow> (q, Ret (Some (Errorf ''command not found: %s'' [AStr cid])))
             | Some a \<Rightarrow>
                 let c = (eq_heap q ! a)\<lparr>qc_CompletedAt := Some now\<rparr>;
                     c' = (case err of
                             Some e \<Rightarrow> c\<lparr>qc_Status := CFailed, qc_Error := Some e\<rparr>
                           | None \<Rightarrow> c\<lparr>qc_Status := CCompleted\<rparr>)
                 in eq_announce a (eq_set a c' q))"

section \<open>The workers\<close>

text \<open>
  \<open>sendCommandToExecutor\<close>, run by \<open>processCommands\<close> on the command it received: a new timeout
  context and its cancel function; the goroutine it starts is modelled in \<open>Pipeline\<close>.
\<close>

definition eq_sendCommandToExecutor :: "nat \<Rightarrow> ExecutionQueue \<Rightarrow> ExecutionQueue" where
  "eq_sendCommandToExecutor a q =
     (eq_set a ((eq_heap q ! a)\<lparr>qc_CancelFunc := Some (eq_nextCtx q)\<rparr>) q)\<lparr>eq_nextCtx := Suc (eq_nextCtx q)\<rparr>"

definition eq_cleanup_index :: "string \<Rightarrow> string \<Rightarrow> ExecutionQueue \<Rightarrow> ExecutionQueue" where
  "eq_cleanup_index taskID cid q =
     (case gm_get (eq_taskCommands q) taskID of
        None \<Rightarrow> q
      | Some ids \<Rightarrow>
          if cid \<in> set ids
          then let ids' = remove1 cid ids
               in q\<lparr>eq_taskCommands :=
                      (if ids' = [] then gm_del taskID (gm_set taskID ids' (eq_taskCommands q))
                       else gm_set taskID ids' (eq_taskCommands q))\<rparr>
          else q)"

definition eq_cleanupCompletedCommand :: "nat \<Rightarrow> ExecutionQueue \<Rightarrow> ExecutionQueue \<times> unit exec" where
  "eq_cleanupCompletedCommand b =
     with_lock eq_commandsLock eq_commandsLock_update
       (\<lambda>q. let cmd = eq_heap q ! b; cid = cmd_ID (qc_Command cmd)
             in case gm_get (eq_commands q) cid of
                  None \<Rightarrow> (q, Ret ())
                | Some a \<Rightarrow>
                    if qc_Status (eq_heap q ! a) = CCompleted \<or> qc_Status (eq_heap q ! a) = CFailed
                    then with_lock eq_taskLock eq_taskLock_update
                           (\<lambda>q. (eq_cleanup_index (qc_TaskID cmd) cid q, Ret ()))
                           (q\<lparr>eq_commands := gm_del cid (eq_commands q)\<rparr>)
                    else (q, Ret ()))"

text \<open>One turn of the loops of \<open>processCommands\<close> and \<open>handleCompletions\<close>: a receive that is ready.  A
  closed, drained channel delivers a nil pointer, which the worker dereferences.\<close>

definition eq_processCommands :: "ExecutionQueue \<Rightarrow> (ExecutionQueue \<times> unit exec) option" where
  "eq_processCommands q =
     (case ch_recv (eq_sendChan q) of
        None \<Rightarrow> None
      | Some (c, None) \<Rightarrow> Some (q, Panic ''nil pointer dereference'')
      | Some (c, Some a) \<Rightarrow> Some (eq_sendCommandToExecutor a (q\<lparr>eq_sendChan := c\<rparr>), Ret ()))"

definition eq_handleCompletions :: "ExecutionQueue \<Rightarrow> (ExecutionQueue \<times> unit exec) option" where
  "eq_handleCompletions q =
     (case ch_recv (eq_completeChan q) of
        None \<Rightarrow> None
      | Some (c, None) \<Rightarrow> Some (q, Panic ''nil pointer dereference'')
      | Some (c, Some b) \<Rightarrow> Some (eq_cleanupCompletedCommand b (q\<lparr>eq_completeChan := c\<rparr>)))"

section \<open>Evaluation in a quiet state\<close>

text \<open>No goroutine holds a lock: the state between two critical sections.\<close>

definition eq_quiet :: "ExecutionQueue \<Rightarrow> bool" where
  "eq_quiet q \<longleftrightarrow> eq_commandsLock q = Unlocked \<and> eq_taskLock q = Unlocked"

lemma restore_commandsLock [simp]: "eq_commandsLock q = l \<Longrightarrow> q\<lparr>eq_commandsLock := l\<rparr> = q"
  by (cases q) simp

lemma restore_taskLock [simp]: "eq_taskLock q = l \<Longrightarrow> q\<lparr>eq_taskLock := l\<rparr> = q"
  by (cases q) simp

lemma eq_cancel_fields [simp]:
  "eq_heap (eq_cancel a q) = eq_heap q" "eq_commands (eq_cancel a q) = eq_commands q"
  "eq_commandsLock (eq_cancel a q) = eq_commandsLock q" "eq_taskCommands (eq_cancel a q) = eq_taskCommands q"
  "eq_taskLock (eq_cancel a q) = eq_taskLock q" "eq_sendChan (eq_cancel a q) = eq_sendChan q"
  "eq_completeChan (eq_cancel a q) = eq_completeChan q" "eq_maxSize (eq_cancel a q) = eq_maxSize q"
  "eq_running (eq_cancel a q) = eq_running q" "eq_ctxDone (eq_cancel a q) = eq_ctxDone q"
  "eq_nextCtx (eq_cancel a q) = eq_nextCtx q"
  by (simp_all add: eq_cancel_def split: option.split)

lemma eq_cancel_fold_fields [simp]:
  "eq_heap (fold eq_cancel as q) = eq_heap q" "eq_commands (fold eq_cancel as q) = eq_commands q"
  "eq_commandsLock (fold eq_cancel as q) = eq_commandsLock q"
  "eq_taskCommands (fold eq_cancel as q) = eq_taskCommands q"
  "eq_taskLock (fold eq_cancel as q) = eq_taskLock q" "eq_sendChan (fold eq_cancel as q) = eq_sendChan q"
  "eq_completeChan (fold eq_cancel as q) = eq_completeChan q" "eq_maxSize (fold eq_cancel as q) = eq_maxSize q"
  "eq_running (fold eq_cancel as q) = eq_running q" "eq_ctxDone (fold eq_cancel as q) = eq_ctxDone q"
  "eq_nextCtx (fold eq_cancel as q) = eq_nextCtx q"
  by (induction as arbitrary: q) simp_all

lemma eq_cancel_all_fields [simp]:
  "eq_heap (eq_cancel_all q) = eq_heap q" "eq_commands (eq_cancel_all q) = eq_commands q"
  "eq_commandsLock (eq_cancel_all q) = eq_commandsLock q"
  "eq_taskCommands (eq_cancel_all q) = eq_taskCommands q"
  "eq_taskLock (eq_cancel_all q) = eq_taskLock q" "eq_sendChan (eq_cancel_all q) = eq_sendChan q"
  "eq_completeChan (eq_cancel_all q) = eq_completeChan q" "eq_maxSize (eq_cancel_all q) = eq_maxSize q"
  "eq_running (eq_cancel_all q) = eq_running q" "eq_ctxDone (eq_cancel_all q) = eq_ctxDone q"
  "eq_nextCtx (eq_cancel_all q) = eq_nextCtx q"
  by (simp_all add: eq_cancel_all_def)

lemma eq_set_fields [simp]:
  "eq_heap (eq_set a c q) = (eq_heap q)[a := c]" "eq_commands (eq_set a c q) = eq_commands q"
  "eq_commandsLock (eq_set a c q) = eq_commandsLock q" "eq_taskCommands (eq_set a c q) = eq_taskCommands q"
  "eq_taskLock (eq_set a c q) = eq_taskLock q" "eq_sendChan (eq_set a c q) = eq_sendChan q"
  "eq_completeChan (eq_set a c q) = eq_completeChan q" "eq_maxSize (eq_set a c q) = eq_maxSize q"
  "eq_running (eq_set a c q) = eq_running q" "eq_nextCtx (eq_set a c q) = eq_nextCtx q"
  by (simp_all add: eq_set_def)

lemma eq_cleanup_index_fields [simp]:
  "eq_heap (eq_cleanup_index t i q) = eq_heap q" "eq_commands (eq_cleanup_index t i q) = eq_commands q"
  "eq_commandsLock (eq_cleanup_index t i q) = eq_commandsLock q"
  "eq_taskLock (eq_cleanup_index t i q) = eq_taskLock q" "eq_sendChan (eq_cleanup_index t i q) = eq_sendChan q"
  "eq_completeChan (eq_cleanup_index t i q) = eq_completeChan q"
  "eq_maxSize (eq_cleanup_index t i q) = eq_maxSize q" "eq_running (eq_cleanup_index t i q) = eq_running q"
  by (simp_all add: eq_cleanup_index_def Let_def split: option.split)

text \<open>The queue after the insertion of a command, before the send.\<close>

definition eq_inserted :: "int \<Rightarrow> MotionCommand \<Rightarrow> ExecutionQueue \<Rightarrow> ExecutionQueue" where
  "eq_inserted now cmd q =
     (let t = eq_extractTaskID (cmd_ID cmd)
      in q\<lparr>eq_heap := eq_heap q @
               [\<lparr>qc_Command = cmd, qc_Status = CPending, qc_AddedAt = now, qc_SentAt = None,
                 qc_StartedAt = None, qc_CompletedAt = None, qc_Error = None, qc_TaskID = t,
                 qc_CancelFunc = None\<rparr>],
           eq_commands := gm_set (cmd_ID cmd) (length (eq_heap q)) (eq_commands q),
           eq_taskCommands :=
             gm_set t (task_ids (eq_taskCommands q) t @ [cmd_ID cmd]) (eq_taskCommands q)\<rparr>)"

lemma eq_inserted_fields [simp]:
  "eq_commandsLock (eq_inserted now cmd q) = eq_commandsLock q"
  "eq_taskLock (eq_inserted now cmd q) = eq_taskLock q"
  "eq_sendChan (eq_inserted now cmd q) = eq_sendChan q"
  "eq_completeChan (eq_inserted now cmd q) = eq_completeChan q"
  "eq_maxSize (eq_inserted now cmd q) = eq_maxSize q" "eq_running (eq_inserted now cmd q) = eq_running q"
  "length (eq_heap (eq_inserted now cmd q)) = Suc (length (eq_heap q))"
  by (simp_all add: eq_inserted_def Let_def)

text \<open>What \<open>Push\<close> does when no lock is held, path by path.\<close>

lemma eq_Push_quiet:
  assumes "eq_quiet q" "eq_running q"
  shows "eq_Push now cmd q =
    (if eq_maxSize q \<le> int (length (eq_commands q))
     then (q, Ret (Some (Errorf ''execution queue is full'' [])))
     else if ch_closed (eq_sendChan q)
     then (eq_inserted now cmd q, Panic ''send on closed channel'')
     else if length (ch_buf (eq_sendChan q)) < ch_cap (eq_sendChan q)
     then ((eq_inserted now cmd q)\<lparr>eq_sendChan :=
             (eq_sendChan q)\<lparr>ch_buf := ch_buf (eq_sendChan q) @ [length (eq_heap q)]\<rparr>\<rparr>, Ret None)
     else ((eq_inserted now cmd q)\<lparr>eq_commandsLock := WLocked\<rparr>, Blocked))"
  using assms
  by (simp add: eq_quiet_def eq_Push_def eq_push_locked_def eq_push_send_def eq_push_undo_def
      eq_inserted_def with_lock_def and_then_def ch_try_send_def Let_def)

lemma eq_Push_not_quiet:
  "eq_running q \<Longrightarrow> eq_commandsLock q \<noteq> Unlocked \<Longrightarrow> eq_Push now cmd q = (q, Blocked)"
  by (simp add: eq_Push_def locked_simps)

lemma eq_Push_stopped:
  "\<not> eq_running q \<Longrightarrow> eq_Push now cmd q = (q, Ret (Some (Errorf ''execution queue is not running'' [])))"
  by (simp add: eq_Push_def)

end
