(* ===== verification/ExecQueueProps.thy ===== *)
theory ExecQueueProps
  imports ExecQueue
begin

text \<open>
  The execution queue: its representation invariant, kept by every operation from every state
  (blocked and panicking calls included), and its functional behaviour.
\<close>

section \<open>The representation invariant\<close>

text \<open>
  Table and index are maps; every address points into the store; a table entry is filed under its
  command's ID and listed in the index under the ID's task prefix; every listed ID has the prefix it
  is listed under; the table never outgrows \<open>maxSize\<close>.
\<close>

definition eq_wf :: "int \<Rightarrow> ExecutionQueue \<Rightarrow> bool" where
  "eq_wf n q \<longleftrightarrow>
     gm_wf (eq_commands q) \<and> gm_wf (eq_taskCommands q) \<and>
     (\<forall>cid a. gm_get (eq_commands q) cid = Some a \<longrightarrow>
        a < length (eq_heap q) \<and> cmd_ID (qc_Command (eq_heap q ! a)) = cid \<and>
        cid \<in> set (task_ids (eq_taskCommands q) (eq_extractTaskID cid))) \<and>
     (\<forall>a < length (eq_heap q). qc_TaskID (eq_heap q ! a) = eq_extractTaskID (cmd_ID (qc_Command (eq_heap q ! a)))) \<and>
     (\<forall>t. \<forall>i \<in> set (task_ids (eq_taskCommands q) t). eq_extractTaskID i = t) \<and>
     (\<forall>a \<in> set (ch_buf (eq_sendChan q)) \<union> set (ch_buf (eq_completeChan q)). a < length (eq_heap q)) \<and>
     eq_maxSize q = n \<and> int (length (eq_commands q)) \<le> max n 0"

lemma eq_wf_locks [simp]:
  "eq_wf n (eq_commandsLock_update f q) \<longleftrightarrow> eq_wf n q"
  "eq_wf n (eq_taskLock_update f q) \<longleftrightarrow> eq_wf n q"
  "eq_wf n (eq_running_update g q) \<longleftrightarrow> eq_wf n q"
  "eq_wf n (eq_ctxDone_update g q) \<longleftrightarrow> eq_wf n q"
  "eq_wf n (eq_nextCtx_update h q) \<longleftrightarrow> eq_wf n q"
  "eq_wf n (eq_cancelled_update k q) \<longleftrightarrow> eq_wf n q"
  by (simp_all add: eq_wf_def)

lemma eq_wf_cancel [simp]: "eq_wf n (eq_cancel a q) \<longleftrightarrow> eq_wf n q"
  by (simp add: eq_cancel_def split: option.split)

lemma eq_wf_cancel_all [simp]: "eq_wf n (eq_cancel_all q) \<longleftrightarrow> eq_wf n q"
proof -
  have "eq_wf n (fold eq_cancel as r) \<longleftrightarrow> eq_wf n r" for as r
    by (induction as arbitrary: r) simp_all
  then show ?thesis by (simp add: eq_cancel_all_def)
qed

lemma task_ids_Nil [simp]: "task_ids [] t = []"
  by (simp add: task_ids_def)

lemma task_ids_set [simp]: "task_ids (gm_set t ids m) t' = (if t' = t then ids else task_ids m t')"
  by (simp add: task_ids_def)

lemma task_ids_del [simp]: "task_ids (gm_del t m) t' = (if t' = t then [] else task_ids m t')"
  by (simp add: task_ids_def)

lemma task_ids_found: "gm_get m t = Some ids \<Longrightarrow> task_ids m t = ids"
  by (simp add: task_ids_def)

lemma eq_wf_New: "eq_wf n (NewExecutionQueue n)"
  by (simp add: eq_wf_def NewExecutionQueue_def)

text \<open>Changing a stored command without touching the command it carries.\<close>

lemma eq_wf_set [wf_intros]:
  assumes "eq_wf n q" "qc_Command c = qc_Command (eq_heap q ! a)" "qc_TaskID c = qc_TaskID (eq_heap q ! a)"
  shows "eq_wf n (eq_set a c q)"
proof (cases "a < length (eq_heap q)")
  case True
  have "qc_Command ((eq_heap q)[a := c] ! b) = qc_Command (eq_heap q ! b)"
       "qc_TaskID ((eq_heap q)[a := c] ! b) = qc_TaskID (eq_heap q ! b)" for b
    using assms(2,3) True by (cases "b = a"; simp)+
  then show ?thesis using assms(1) by (simp add: eq_wf_def eq_set_def)
next
  case False
  then show ?thesis using assms(1) by (simp add: eq_set_def list_update_beyond)
qed

lemma eq_wf_chans [wf_intros]:
  "eq_wf n q \<Longrightarrow> set (ch_buf c) \<subseteq> set (ch_buf (eq_sendChan q)) \<Longrightarrow> eq_wf n (q\<lparr>eq_sendChan := c\<rparr>)"
  "eq_wf n q \<Longrightarrow> set (ch_buf c) \<subseteq> insert a (set (ch_buf (eq_completeChan q))) \<Longrightarrow> a < length (eq_heap q) \<Longrightarrow>
     eq_wf n (q\<lparr>eq_completeChan := c\<rparr>)"
  "eq_wf n q \<Longrightarrow> set (ch_buf c) \<subseteq> set (ch_buf (eq_completeChan q)) \<Longrightarrow> eq_wf n (q\<lparr>eq_completeChan := c\<rparr>)"
  unfolding eq_wf_def by auto

lemma eq_wf_del_command [wf_intros]:
  assumes "eq_wf n q" shows "eq_wf n (q\<lparr>eq_commands := gm_del cid (eq_commands q)\<rparr>)"
proof -
  have "length (gm_del cid (eq_commands q)) \<le> length (eq_commands q)" by (rule length_gm_del)
  then show ?thesis using assms by (auto simp: eq_wf_def)
qed

text \<open>An ID no longer in the table may leave the index.\<close>

lemma eq_wf_unlist [wf_intros]:
  assumes "eq_wf n q" "gm_get (eq_commands q) cid = None" "gm_get (eq_taskCommands q) t = Some ids"
  shows "eq_wf n (q\<lparr>eq_taskCommands := gm_set t (remove1 cid ids) (eq_taskCommands q)\<rparr>)"
    and "remove1 cid ids = [] \<Longrightarrow>
           eq_wf n (q\<lparr>eq_taskCommands := gm_del t (gm_set t (remove1 cid ids) (eq_taskCommands q))\<rparr>)"
proof -
  have ids: "task_ids (eq_taskCommands q) t = ids" using assms(3) by (rule task_ids_found)
  have keep: "i \<in> set ids \<Longrightarrow> gm_get (eq_commands q) i \<noteq> None \<Longrightarrow> i \<in> set (remove1 cid ids)" for i
    using assms(2) by (cases "i = cid") simp_all
  have sub: "i \<in> set (remove1 cid ids) \<Longrightarrow> i \<in> set ids" for i
    using set_remove1_subset[of cid ids] by auto
  have *: "eq_wf n (q\<lparr>eq_taskCommands := m\<rparr>)" if "gm_wf m"
    and that_ids: "\<And>u. task_ids m u = (if u = t then remove1 cid ids else task_ids (eq_taskCommands q) u)" for m
  proof -
    have "i \<in> set (task_ids m u)" if "gm_get (eq_commands q) i = Some a" "i \<in> set (task_ids (eq_taskCommands q) u)" for i a u
      using that keep[of i] ids that_ids[of u] by (cases "u = t") auto
    moreover have "i \<in> set (task_ids (eq_taskCommands q) u)" if "i \<in> set (task_ids m u)" for i u
      using that sub[of i] ids that_ids[of u] by (cases "u = t") auto
    ultimately show ?thesis using assms(1) \<open>gm_wf m\<close> unfolding eq_wf_def by simp
  qed
  have wf: "gm_wf (eq_taskCommands q)" using assms(1) by (simp add: eq_wf_def)
  show "eq_wf n (q\<lparr>eq_taskCommands := gm_set t (remove1 cid ids) (eq_taskCommands q)\<rparr>)"
    by (rule *) (simp_all add: wf)
  show "eq_wf n (q\<lparr>eq_taskCommands := gm_del t (gm_set t (remove1 cid ids) (eq_taskCommands q))\<rparr>)"
    if "remove1 cid ids = []"
    by (rule *) (simp_all add: wf that)
qed

lemma eq_wf_cleanup_index [wf_intros]:
  assumes "eq_wf n q" "gm_get (eq_commands q) cid = None"
  shows "eq_wf n (eq_cleanup_index t cid q)"
  using assms eq_wf_unlist[OF assms] by (auto simp: eq_cleanup_index_def Let_def split: option.split)

text \<open>Inserting a new command.\<close>

lemma eq_wf_inserted [wf_intros]:
  assumes wf: "eq_wf n q" and room: "int (length (eq_commands q)) < eq_maxSize q"
  shows "eq_wf n (eq_inserted now cmd q)"
proof -
  let ?t = "eq_extractTaskID (cmd_ID cmd)" and ?h = "eq_heap q"
  have sz: "int (length (gm_set (cmd_ID cmd) (length ?h) (eq_commands q))) \<le> max n 0"
    using room wf by (simp add: length_gm_set eq_wf_def)
  have entry: "a < length ?h \<and> cmd_ID (qc_Command (?h ! a)) = i \<and> i \<in> set (task_ids (eq_taskCommands q) (eq_extractTaskID i))"
    if "gm_get (eq_commands q) i = Some a" for i a using wf that by (simp add: eq_wf_def)
  have task: "i \<in> set (task_ids (eq_taskCommands q) t) \<Longrightarrow> eq_extractTaskID i = t" for i t
    using wf by (simp add: eq_wf_def)
  have addr: "a \<in> set (ch_buf (eq_sendChan q)) \<union> set (ch_buf (eq_completeChan q)) \<Longrightarrow> a < Suc (length ?h)" for a
    using wf unfolding eq_wf_def by (meson less_SucI)
  have e1: "i \<in> set (task_ids (eq_taskCommands q) ?t)"
    if "gm_get (eq_commands q) i = Some a" "eq_extractTaskID i = ?t" for i a
    using entry[OF that(1)] that(2) by simp
  show ?thesis
    using wf sz unfolding eq_wf_def eq_inserted_def Let_def
    by (auto simp: nth_append less_Suc_eq dest: entry task addr e1)
qed

lemma eq_wf_send_new:
  assumes "eq_wf n q" "a < length (eq_heap q)"
  shows "eq_wf n (q\<lparr>eq_sendChan := (eq_sendChan q)\<lparr>ch_buf := ch_buf (eq_sendChan q) @ [a]\<rparr>\<rparr>)"
  using assms unfolding eq_wf_def by auto

section \<open>Every operation keeps the invariant\<close>

lemma eq_wf_Start: "eq_wf n q \<Longrightarrow> eq_wf n (fst (eq_Start q))"
  by (simp add: eq_Start_def)

lemma eq_wf_close_chans: "eq_wf n q \<Longrightarrow> eq_wf n (fst (eq_close_chans q))"
  by (simp add: eq_close_chans_def ch_close_def Let_def) (simp add: eq_wf_def)

text \<open>The rules of critical sections, for this invariant and these locks.\<close>

lemmas eq_wf_sections =
  with_lock_inv[where P = "eq_wf n" and put = eq_commandsLock_update, OF eq_wf_locks(1)]
  with_lock_inv[where P = "eq_wf n" and put = eq_taskLock_update, OF eq_wf_locks(2)]
  with_rlock_inv[where P = "eq_wf n" and put = eq_commandsLock_update, OF eq_wf_locks(1)]
  with_rlock_inv[where P = "eq_wf n" and put = eq_taskLock_update, OF eq_wf_locks(2)]
  and_then_inv[where P = "eq_wf n"] for n

lemma eq_wf_Stop: "eq_wf n q \<Longrightarrow> eq_wf n (fst (eq_Stop q))"
  unfolding eq_Stop_def
  by (simp split: if_split) (rule impI, rule eq_wf_sections, rule eq_wf_sections, simp_all add: eq_wf_close_chans)

lemma eq_wf_queries:
  assumes "eq_wf n q"
  shows "eq_wf n (fst (eq_Pop q))" "eq_wf n (fst (eq_Peek q))" "eq_wf n (fst (eq_Size q))"
    "eq_wf n (fst (eq_GetStatus q))" "eq_wf n (fst (eq_GetByTaskID t q))"
proof -
  show "eq_wf n (fst (eq_Pop q))" "eq_wf n (fst (eq_Peek q))" "eq_wf n (fst (eq_Size q))"
    unfolding eq_Pop_def eq_Peek_def eq_Size_def by (rule eq_wf_sections, simp_all add: assms)+
  show "eq_wf n (fst (eq_GetStatus q))"
    unfolding eq_GetStatus_def by (rule eq_wf_sections, rule eq_wf_sections) (simp_all add: assms)
  have found: "eq_wf n r \<Longrightarrow> eq_wf n (fst (with_rlock eq_commandsLock eq_commandsLock_update
      (\<lambda>q. (q, Ret (Ok (eq_lookup_ids ids q)))) r))" for ids and r
    by (rule eq_wf_sections) simp_all
  show "eq_wf n (fst (eq_GetByTaskID t q))"
    unfolding eq_GetByTaskID_def
    by (rule eq_wf_sections, rule eq_wf_sections) (simp_all add: assms found split: option.split)
qed

lemma eq_wf_Clear: "eq_wf n q \<Longrightarrow> eq_wf n (fst (eq_Clear q))"
proof -
  have tasks: "eq_wf n (fst (and_then
        (with_lock eq_taskLock eq_taskLock_update (\<lambda>q. (q\<lparr>eq_taskCommands := []\<rparr>, Ret ())))
        (\<lambda>_ q. (q, Ret None)) r))" if "eq_wf n r" "eq_commands r = []" for r
    using that by (cases "mu_lock (eq_taskLock r)") (simp_all add: and_then_def with_lock_def eq_wf_def)
  have wf: "eq_wf n s \<Longrightarrow> eq_wf n ((eq_cancel_all s)\<lparr>eq_commands := []\<rparr>)" for s
    by (simp add: eq_wf_def)
  show "eq_wf n q \<Longrightarrow> eq_wf n (fst (eq_Clear q))"
    unfolding eq_Clear_def
    by (simp split: if_split) (rule impI, rule eq_wf_sections, simp_all add: tasks wf)
qed

lemma eq_wf_remove_one: "eq_wf n q \<Longrightarrow> eq_wf n (fst (eq_remove_one i q))"
  unfolding eq_remove_one_def
  by (rule eq_wf_sections)
     (simp_all add: eq_wf_del_command[of n "eq_cancel a q" for a q, simplified] split: option.split)

lemma eq_wf_remove_ids: "eq_wf n q \<Longrightarrow> eq_wf n (fst (eq_remove_ids ids q))"
  by (induction ids arbitrary: q) (simp, simp, rule eq_wf_sections, simp_all add: eq_wf_remove_one)

text \<open>What \<open>RemoveByTaskID\<close>'s loop does when the table is free, and when it is not.\<close>

lemma eq_remove_one_free:
  assumes "eq_commandsLock q = Unlocked"
  shows "\<exists>q1. eq_remove_one i q = (q1, Ret ()) \<and> eq_commands q1 = gm_del i (eq_commands q) \<and>
    eq_commandsLock q1 = Unlocked \<and> eq_heap q1 = eq_heap q \<and> eq_taskCommands q1 = eq_taskCommands q \<and>
    eq_taskLock q1 = eq_taskLock q \<and> eq_sendChan q1 = eq_sendChan q \<and> eq_maxSize q1 = eq_maxSize q \<and>
    eq_completeChan q1 = eq_completeChan q \<and> eq_running q1 = eq_running q"
  using assms by (cases "gm_get (eq_commands q) i") (simp_all add: eq_remove_one_def locked_simps)

lemma eq_remove_ids_free:
  assumes "eq_commandsLock q = Unlocked"
  shows "\<exists>q'. eq_remove_ids ids q = (q', Ret ()) \<and> eq_commands q' = fold gm_del ids (eq_commands q) \<and>
     eq_heap q' = eq_heap q \<and> eq_taskCommands q' = eq_taskCommands q \<and> eq_taskLock q' = eq_taskLock q \<and>
     eq_commandsLock q' = Unlocked \<and> eq_sendChan q' = eq_sendChan q \<and>
     eq_completeChan q' = eq_completeChan q \<and> eq_maxSize q' = eq_maxSize q \<and> eq_running q' = eq_running q"
  using assms
proof (induction ids arbitrary: q)
  case (Cons i ids)
  obtain q1 where q1: "eq_remove_one i q = (q1, Ret ())" "eq_commands q1 = gm_del i (eq_commands q)"
    "eq_commandsLock q1 = Unlocked" "eq_heap q1 = eq_heap q" "eq_taskCommands q1 = eq_taskCommands q"
    "eq_taskLock q1 = eq_taskLock q" "eq_sendChan q1 = eq_sendChan q" "eq_maxSize q1 = eq_maxSize q"
    "eq_completeChan q1 = eq_completeChan q" "eq_running q1 = eq_running q"
    using eq_remove_one_free[OF Cons.prems] by blast
  from Cons.IH[OF q1(3)] show ?case by (auto simp: q1 and_then_def)
qed simp

lemma eq_remove_ids_held:
  "eq_commandsLock q \<noteq> Unlocked \<Longrightarrow> ids \<noteq> [] \<Longrightarrow> eq_remove_ids ids q = (q, Blocked)"
  by (cases ids) (simp_all add: eq_remove_one_def locked_simps and_then_def)

lemma gm_get_fold_del: "gm_get (fold gm_del ids m) i = (if i \<in> set ids then None else gm_get m i)"
  by (induction ids arbitrary: m) simp_all

lemma eq_wf_RemoveByTaskID: "eq_wf n q \<Longrightarrow> eq_wf n (fst (eq_RemoveByTaskID t q))"
  unfolding eq_RemoveByTaskID_def
proof (rule eq_wf_sections)
  fix s assume s: "eq_wf n s"
  show "eq_wf n (fst (case gm_get (eq_taskCommands s) t of
               None \<Rightarrow> (s, Ret None)
             | Some ids \<Rightarrow>
                 and_then (eq_remove_ids ids)
                   (\<lambda>_ q. (q\<lparr>eq_taskCommands := gm_del t (eq_taskCommands q)\<rparr>, Ret None)) s))"
  proof (cases "gm_get (eq_taskCommands s) t")
    case (Some ids)
    have ids: "task_ids (eq_taskCommands s) t = ids" using Some by (rule task_ids_found)
    obtain s' r where s': "eq_remove_ids ids s = (s', r)" by fastforce
    have wf': "eq_wf n s'" using eq_wf_remove_ids[OF s, of ids] s' by simp
    have same: "eq_taskCommands s' = eq_taskCommands s" and gone: "r = Ret () \<Longrightarrow> i \<in> set ids \<Longrightarrow> gm_get (eq_commands s') i = None" for i
      using s' eq_remove_ids_free[of s ids] eq_remove_ids_held[of s ids]
      by (cases "eq_commandsLock s = Unlocked"; cases "ids = []"; auto simp: gm_get_fold_del)+
    have "eq_wf n (s'\<lparr>eq_taskCommands := gm_del t (eq_taskCommands s')\<rparr>)" if "r = Ret ()"
    proof -
      have "eq_extractTaskID i \<noteq> t" if "gm_get (eq_commands s') i = Some a" for i a
        using wf' that gone[OF \<open>r = Ret ()\<close>, of i] ids same unfolding eq_wf_def by force
      then show ?thesis using wf' unfolding eq_wf_def by auto
    qed
    then show ?thesis using s' wf' Some by (cases r) (simp_all add: and_then_def)
  qed (simp add: s)
qed (simp_all)

lemma eq_wf_Mark:
  assumes "eq_wf n q"
  shows "eq_wf n (fst (eq_MarkCommandSent now i q))" "eq_wf n (fst (eq_MarkCommandStarted now i q))"
  unfolding eq_MarkCommandSent_def eq_MarkCommandStarted_def
  by (rule eq_wf_sections, simp_all add: assms eq_wf_set split: option.split)+

lemma eq_wf_announce: "eq_wf n q \<Longrightarrow> a < length (eq_heap q) \<Longrightarrow> eq_wf n (fst (eq_announce a q))"
  by (auto simp: eq_announce_def ch_try_send_def intro!: eq_wf_chans(2))

lemma eq_wf_MarkCommandCompleted: "eq_wf n q \<Longrightarrow> eq_wf n (fst (eq_MarkCommandCompleted now i err q))"
  unfolding eq_MarkCommandCompleted_def
proof (rule eq_wf_sections)
  fix s assume s: "eq_wf n s"
  have "a < length (eq_heap s)" if "gm_get (eq_commands s) i = Some a" for a
    using s that by (simp add: eq_wf_def)
  then show "eq_wf n (fst (case gm_get (eq_commands s) i of
               None \<Rightarrow> (s, Ret (Some (Errorf ''command not found: %s'' [AStr i])))
             | Some a \<Rightarrow>
                 let c = (eq_heap s ! a)\<lparr>qc_CompletedAt := Some now\<rparr>;
                     c' = (case err of
                             Some e \<Rightarrow> c\<lparr>qc_Status := CFailed, qc_Error := Some e\<rparr>
                           | None \<Rightarrow> c\<lparr>qc_Status := CCompleted\<rparr>)
                 in eq_announce a (eq_set a c' s)))"
    using s by (auto simp: Let_def split: option.split intro!: eq_wf_announce eq_wf_set)
qed

lemma eq_wf_sendCommandToExecutor: "eq_wf n q \<Longrightarrow> eq_wf n (eq_sendCommandToExecutor a q)"
  by (simp add: eq_sendCommandToExecutor_def eq_wf_set)

lemma eq_wf_cleanupCompletedCommand: "eq_wf n q \<Longrightarrow> eq_wf n (fst (eq_cleanupCompletedCommand b q))"
  unfolding eq_cleanupCompletedCommand_def
proof (rule eq_wf_sections)
  fix s assume s: "eq_wf n s"
  have c: "eq_wf n (fst (with_lock eq_taskLock eq_taskLock_update (\<lambda>q. (eq_cleanup_index t i q, Ret ()))
      (s\<lparr>eq_commands := gm_del i (eq_commands s)\<rparr>)))" for t i
    using s by (cases "mu_lock (eq_taskLock s)")
      (simp_all add: with_lock_def eq_wf_del_command eq_wf_cleanup_index)
  then show "eq_wf n (fst (let cmd = eq_heap s ! b; cid = cmd_ID (qc_Command cmd)
             in case gm_get (eq_commands s) cid of
                  None \<Rightarrow> (s, Ret ())
                | Some a \<Rightarrow>
                    if qc_Status (eq_heap s ! a) = CCompleted \<or> qc_Status (eq_heap s ! a) = CFailed
                    then with_lock eq_taskLock eq_taskLock_update
                           (\<lambda>q. (eq_cleanup_index (qc_TaskID cmd) cid q, Ret ()))
                           (s\<lparr>eq_commands := gm_del cid (eq_commands s)\<rparr>)
                    else (s, Ret ())))"
    using s by (simp add: Let_def split: option.split)
qed

text \<open>
  Locks are taken in one order on every path that returns: a free command table means a free index.
\<close>

definition eq_locks :: "ExecutionQueue \<Rightarrow> bool" where
  "eq_locks q \<longleftrightarrow> eq_commandsLock q \<in> {Unlocked, WLocked} \<and> eq_taskLock q \<in> {Unlocked, WLocked} \<and>
     (eq_commandsLock q = Unlocked \<longrightarrow> eq_taskLock q = Unlocked)"

lemma eq_locks_cases [case_names quiet stuck]:
  assumes "eq_locks q"
  obtains "eq_quiet q" "eq_commandsLock q = Unlocked" "eq_taskLock q = Unlocked"
  | "eq_commandsLock q = WLocked" "eq_taskLock q \<in> {Unlocked, WLocked}"
  using assms by (auto simp: eq_locks_def eq_quiet_def)

text \<open>Evaluation of the other operations, lock by lock.\<close>

lemmas eq_op_defs =
  eq_Start_def eq_Stop_def eq_Pop_def eq_Peek_def eq_Size_def eq_GetByTaskID_def eq_GetStatus_def
  eq_Clear_def eq_MarkCommandSent_def eq_MarkCommandStarted_def eq_MarkCommandCompleted_def
  eq_close_chans_def eq_cleanupCompletedCommand_def

lemma eq_locks_Start: "eq_locks q \<Longrightarrow> eq_locks (fst (eq_Start q))"
  by (simp add: eq_Start_def eq_locks_def)

lemma eq_locks_Stop: "eq_locks q \<Longrightarrow> eq_locks (fst (eq_Stop q))"
  by (erule eq_locks_cases)
     (auto simp: eq_Stop_def eq_close_chans_def ch_close_def Let_def and_then_def eq_locks_def locked_simps)

lemma eq_locks_queries:
  assumes "eq_locks q"
  shows "eq_locks (fst (eq_Pop q))" "eq_locks (fst (eq_Peek q))" "eq_locks (fst (eq_Size q))"
    "eq_locks (fst (eq_GetStatus q))" "eq_locks (fst (eq_GetByTaskID t q))"
  using assms
  by (cases rule: eq_locks_cases;
      auto simp: eq_Pop_def eq_Peek_def eq_Size_def eq_GetStatus_def eq_GetByTaskID_def with_rlock_def
        and_then_def eq_locks_def split: option.split)+

lemma eq_locks_Clear: "eq_locks q \<Longrightarrow> eq_locks (fst (eq_Clear q))"
  by (erule eq_locks_cases) (auto simp: eq_Clear_def and_then_def eq_locks_def with_lock_def)

lemma eq_locks_RemoveByTaskID:
  assumes "eq_locks q" shows "eq_locks (fst (eq_RemoveByTaskID t q))"
  using assms
proof (cases rule: eq_locks_cases)
  case quiet
  show ?thesis
  proof (cases "gm_get (eq_taskCommands q) t")
    case (Some ids)
    from eq_remove_ids_free[of "q\<lparr>eq_taskLock := WLocked\<rparr>" ids] quiet Some show ?thesis
      by (auto simp: eq_RemoveByTaskID_def locked_simps and_then_def eq_locks_def)
  qed (use quiet in \<open>simp add: eq_RemoveByTaskID_def locked_simps eq_locks_def\<close>)
next
  case stuck
  have "eq_remove_ids ids (q\<lparr>eq_taskLock := WLocked\<rparr>) =
      (q\<lparr>eq_taskLock := WLocked\<rparr>, if ids = [] then Ret () else Blocked)" for ids
    using stuck eq_remove_ids_held[of "q\<lparr>eq_taskLock := WLocked\<rparr>" ids] by (cases ids) auto
  then have "and_then (eq_remove_ids ids)
      (\<lambda>_ q. (q\<lparr>eq_taskCommands := gm_del t (eq_taskCommands q)\<rparr>, Ret (None :: goerr option)))
      (q\<lparr>eq_taskLock := WLocked\<rparr>) =
      (if ids = [] then (q\<lparr>eq_taskLock := WLocked, eq_taskCommands := gm_del t (eq_taskCommands q)\<rparr>, Ret None)
       else (q\<lparr>eq_taskLock := WLocked\<rparr>, Blocked))" for ids
    by (simp add: and_then_def)
  then show ?thesis using stuck
    by (auto simp: eq_RemoveByTaskID_def with_lock_def eq_locks_def split: option.split if_splits)
qed

lemma eq_locks_Mark:
  assumes "eq_locks q"
  shows "eq_locks (fst (eq_MarkCommandSent now i q))" "eq_locks (fst (eq_MarkCommandStarted now i q))"
    "eq_locks (fst (eq_MarkCommandCompleted now i err q))"
  using assms
  by (cases rule: eq_locks_cases;
      auto simp: eq_MarkCommandSent_def eq_MarkCommandStarted_def eq_MarkCommandCompleted_def with_lock_def
        eq_announce_def ch_try_send_def Let_def eq_locks_def split: option.split)+

lemma eq_locks_cleanup: "eq_locks q \<Longrightarrow> eq_locks (fst (eq_cleanupCompletedCommand b q))"
  by (erule eq_locks_cases)
     (auto simp: eq_cleanupCompletedCommand_def with_lock_def eq_locks_def Let_def split: option.split)

lemma eq_locks_worker:
  "eq_locks (eq_sendCommandToExecutor a q) \<longleftrightarrow> eq_locks q"
  "eq_locks (q\<lparr>eq_sendChan := c\<rparr>) \<longleftrightarrow> eq_locks q" "eq_locks (q\<lparr>eq_completeChan := c\<rparr>) \<longleftrightarrow> eq_locks q"
  by (simp_all add: eq_locks_def eq_sendCommandToExecutor_def)

lemma eq_Push_keeps:
  assumes "eq_wf n q" "eq_locks q"
  shows "eq_wf n (fst (eq_Push now cmd q)) \<and> eq_locks (fst (eq_Push now cmd q))"
proof (cases "eq_running q")
  case True
  from assms(2) show ?thesis
  proof (cases rule: eq_locks_cases)
    case quiet
    show ?thesis
    proof (cases "eq_maxSize q \<le> int (length (eq_commands q))")
      case False
      then have ins: "eq_wf n (eq_inserted now cmd q)" using assms(1) by (intro eq_wf_inserted) simp_all
      from eq_wf_send_new[OF ins, of "length (eq_heap q)"] show ?thesis
        using quiet ins True assms False by (simp add: eq_Push_quiet eq_locks_def)
    qed (use quiet True assms in \<open>simp add: eq_Push_quiet\<close>)
  qed (use True assms in \<open>simp add: eq_Push_not_quiet\<close>)
qed (use assms in \<open>simp add: eq_Push_stopped\<close>)

section \<open>Reachable states\<close>

text \<open>A call on the queue, or a turn of one of its workers.\<close>

datatype eq_op =
    OpStart | OpStop | OpPush int MotionCommand | OpPop | OpPeek | OpSize | OpGetStatus
  | OpGetByTaskID string | OpClear | OpRemoveByTaskID string | OpSent int string | OpStarted int string
  | OpCompleted int string "goerr option" | OpSendTurn | OpCompleteTurn

fun eq_exec :: "eq_op \<Rightarrow> ExecutionQueue \<Rightarrow> ExecutionQueue" where
  "eq_exec OpStart q = fst (eq_Start q)"
| "eq_exec OpStop q = fst (eq_Stop q)"
| "eq_exec (OpPush now cmd) q = fst (eq_Push now cmd q)"
| "eq_exec OpPop q = fst (eq_Pop q)"
| "eq_exec OpPeek q = fst (eq_Peek q)"
| "eq_exec OpSize q = fst (eq_Size q)"
| "eq_exec OpGetStatus q = fst (eq_GetStatus q)"
| "eq_exec (OpGetByTaskID t) q = fst (eq_GetByTaskID t q)"
| "eq_exec OpClear q = fst (eq_Clear q)"
| "eq_exec (OpRemoveByTaskID t) q = fst (eq_RemoveByTaskID t q)"
| "eq_exec (OpSent now i) q = fst (eq_MarkCommandSent now i q)"
| "eq_exec (OpStarted now i) q = fst (eq_MarkCommandStarted now i q)"
| "eq_exec (OpCompleted now i err) q = fst (eq_MarkCommandCompleted now i err q)"
| "eq_exec OpSendTurn q = (case eq_processCommands q of None \<Rightarrow> q | Some (q', _) \<Rightarrow> q')"
| "eq_exec OpCompleteTurn q = (case eq_handleCompletions q of None \<Rightarrow> q | Some (q', _) \<Rightarrow> q')"

inductive eq_reachable :: "int \<Rightarrow> ExecutionQueue \<Rightarrow> bool" for n where
  eq_init: "eq_reachable n (NewExecutionQueue n)"
| eq_step: "eq_reachable n q \<Longrightarrow> eq_reachable n (eq_exec op q)"

lemma ch_recv_sub: "ch_recv c = Some (c', r) \<Longrightarrow> set (ch_buf c') \<subseteq> set (ch_buf c)"
  by (auto simp: ch_recv_def split: list.splits if_splits)

lemma eq_turns_keep:
  assumes "eq_wf n q" "eq_locks q"
  shows "eq_wf n (eq_exec OpSendTurn q) \<and> eq_locks (eq_exec OpSendTurn q)"
    and "eq_wf n (eq_exec OpCompleteTurn q) \<and> eq_locks (eq_exec OpCompleteTurn q)"
proof -
  show "eq_wf n (eq_exec OpSendTurn q) \<and> eq_locks (eq_exec OpSendTurn q)"
    using assms eq_wf_chans(1)[OF assms(1) ch_recv_sub]
    by (auto simp: eq_processCommands_def eq_wf_sendCommandToExecutor eq_locks_worker split: option.split)
  have "eq_locks (q\<lparr>eq_completeChan := c\<rparr>)" for c using assms(2) by (simp add: eq_locks_worker)
  then show "eq_wf n (eq_exec OpCompleteTurn q) \<and> eq_locks (eq_exec OpCompleteTurn q)"
    using assms eq_wf_cleanupCompletedCommand[OF eq_wf_chans(3)[OF assms(1) ch_recv_sub]] eq_locks_cleanup
    apply (auto simp: eq_handleCompletions_def split: option.split)
    by (metis fst_conv)+
qed

lemma eq_exec_keeps:
  assumes "eq_wf n q" "eq_locks q" shows "eq_wf n (eq_exec op q) \<and> eq_locks (eq_exec op q)"
  using assms eq_turns_keep[OF assms]
  by (cases op)
     (simp_all add: eq_wf_Start eq_wf_Stop eq_wf_queries eq_wf_Clear eq_wf_RemoveByTaskID eq_wf_Mark
        eq_wf_MarkCommandCompleted eq_Push_keeps eq_locks_Start eq_locks_Stop eq_locks_queries
        eq_locks_Clear eq_locks_RemoveByTaskID eq_locks_Mark)

lemma eq_reachable_inv: "eq_reachable n q \<Longrightarrow> eq_wf n q \<and> eq_locks q"
proof (induction rule: eq_reachable.induct)
  case eq_init
  show ?case by (simp add: eq_wf_New) (simp add: eq_locks_def NewExecutionQueue_def)
qed (use eq_exec_keeps in blast)

lemma eq_reachable_table:
  assumes "eq_reachable n q" "gm_get (eq_commands q) cid = Some a"
  shows "cmd_ID (qc_Command (eq_heap q ! a)) = cid"
    and "cid \<in> set (task_ids (eq_taskCommands q) (eq_extractTaskID cid))"
  using eq_reachable_inv[OF assms(1)] assms(2) by (auto simp: eq_wf_def)

section \<open>Functional behaviour\<close>


lemma eq_GetByTaskID_quiet:
  assumes "eq_quiet q"
  shows "eq_GetByTaskID t q =
    (q, Ret (case gm_get (eq_taskCommands q) t of
               None \<Rightarrow> Err (Errorf ''no commands found for task: %s'' [AStr t])
             | Some ids \<Rightarrow> Ok (eq_lookup_ids ids q)))"
proof -
  have lk: "eq_lookup_ids ids (eq_commandsLock_update f r) = eq_lookup_ids ids r"
    "eq_lookup_ids ids (eq_taskLock_update f r) = eq_lookup_ids ids r" for ids f and r :: ExecutionQueue
    by (simp_all add: eq_lookup_ids_def)
  show ?thesis
    using assms
    by (simp add: eq_GetByTaskID_def eq_quiet_def with_rlock_def and_then_def lk split: option.split)
qed

lemma eq_RemoveByTaskID_quiet:
  assumes "eq_quiet q" "gm_get (eq_taskCommands q) t = Some ids"
  shows "\<exists>q'. eq_RemoveByTaskID t q = (q', Ret None) \<and> eq_quiet q' \<and>
     eq_commands q' = fold gm_del ids (eq_commands q) \<and>
     eq_taskCommands q' = gm_del t (eq_taskCommands q) \<and> eq_heap q' = eq_heap q \<and>
     eq_sendChan q' = eq_sendChan q"
  using eq_remove_ids_free[of "q\<lparr>eq_taskLock := WLocked\<rparr>" ids] assms
  by (auto simp: eq_RemoveByTaskID_def eq_quiet_def locked_simps and_then_def)

lemma eq_RemoveByTaskID_unknown:
  assumes "eq_quiet q" "gm_get (eq_taskCommands q) t = None"
  shows "eq_RemoveByTaskID t q = (q, Ret None)"
  using assms by (simp add: eq_RemoveByTaskID_def eq_quiet_def locked_simps)

text \<open>A task ID that contains a dash is never a key of the index.\<close>

lemma dash_notin_extract: "CHR ''-'' \<notin> set (eq_extractTaskID cid)"
  by (auto simp: eq_extractTaskID_def dest: set_takeWhileD)

lemma dashed_task_not_indexed:
  assumes "eq_wf n q" "CHR ''-'' \<in> set t"
  shows "task_ids (eq_taskCommands q) t = []"
proof (cases "task_ids (eq_taskCommands q) t")
  case (Cons i rest)
  then have "eq_extractTaskID i = t" using assms(1) unfolding eq_wf_def by (metis list.set_intros(1))
  then show ?thesis using assms(2) dash_notin_extract by blast
qed

lemma eq_extract_append: "CHR ''-'' \<notin> set p \<Longrightarrow> eq_extractTaskID (p @ CHR ''-'' # s) = p"
  unfolding eq_extractTaskID_def by (subst takeWhile_append2) auto

section \<open>Start and stop\<close>

text \<open>Between two calls: no lock is held, and the two channels are open or closed together.\<close>

definition eq_idle :: "ExecutionQueue \<Rightarrow> bool" where
  "eq_idle q \<longleftrightarrow> eq_quiet q \<and> (ch_closed (eq_sendChan q) \<longleftrightarrow> ch_closed (eq_completeChan q))"

lemma commandsLock_update_id:
  fixes r :: ExecutionQueue
  shows "f (eq_commandsLock r) = eq_commandsLock r \<Longrightarrow> eq_commandsLock_update f r = r"
  by (cases r) simp

lemma eq_Stop_quiet:
  assumes "eq_quiet q" "eq_running q"
  shows "eq_Stop q = eq_close_chans (eq_cancel_all (q\<lparr>eq_ctxDone := True\<rparr>))"
proof -
  have "(eq_cancel a (q\<lparr>eq_commandsLock := l\<rparr>)) = (eq_cancel a q)\<lparr>eq_commandsLock := l\<rparr>" for a l q
    by (simp add: eq_cancel_def split: option.split)
  then have f: "fold eq_cancel as (q\<lparr>eq_commandsLock := l\<rparr>) = (fold eq_cancel as q)\<lparr>eq_commandsLock := l\<rparr>" for as l q
    by (induction as arbitrary: q) simp_all
  have "eq_cancel_all (q\<lparr>eq_commandsLock := l\<rparr>) = (eq_cancel_all q)\<lparr>eq_commandsLock := l\<rparr>" for l q
    by (simp add: eq_cancel_all_def f)
  note this[of WLocked "q\<lparr>eq_ctxDone := True\<rparr>"]
  then show ?thesis
    using assms
    by (simp add: commandsLock_update_id eq_Stop_def eq_quiet_def and_then_def with_lock_def)
qed

interpretation eq_life: lifecycle eq_idle eq_running "\<lambda>q. \<not> ch_closed (eq_sendChan q)" eq_Start eq_Stop
proof unfold_locales
  fix q :: ExecutionQueue
  show "eq_idle q \<Longrightarrow> eq_idle (fst (eq_Start q))"
    by (simp add: eq_idle_def eq_quiet_def eq_Start_def)
  show "eq_idle q \<Longrightarrow> \<not> eq_running q \<Longrightarrow> snd (eq_Start q) = Ret None \<and> eq_running (fst (eq_Start q)) \<and>
      ((\<not> ch_closed (eq_sendChan (fst (eq_Start q)))) = (\<not> ch_closed (eq_sendChan q)))"
    by (simp add: eq_Start_def)
  show "eq_running q \<Longrightarrow> \<exists>e. eq_Start q = (q, Ret (Some e))" by (simp add: eq_Start_def)
  show "\<not> eq_running q \<Longrightarrow> \<exists>e. eq_Stop q = (q, Ret (Some e))" by (simp add: eq_Stop_def)
  show "eq_idle q \<Longrightarrow> eq_running q \<Longrightarrow> \<not> ch_closed (eq_sendChan q) \<Longrightarrow>
      snd (eq_Stop q) = Ret None \<and> \<not> eq_running (fst (eq_Stop q)) \<and>
      \<not> \<not> ch_closed (eq_sendChan (fst (eq_Stop q)))"
    by (simp add: eq_idle_def eq_Stop_quiet eq_close_chans_def ch_close_def)
  show "eq_idle q \<Longrightarrow> eq_running q \<Longrightarrow> \<not> \<not> ch_closed (eq_sendChan q) \<Longrightarrow> \<exists>m. snd (eq_Stop q) = Panic m"
    by (simp add: eq_idle_def eq_Stop_quiet eq_close_chans_def ch_close_def)
  show "eq_idle q \<Longrightarrow> returns (snd (eq_Stop q)) \<Longrightarrow> eq_idle (fst (eq_Stop q))"
    by (cases "eq_running q"; cases "ch_closed (eq_sendChan q)")
       (simp_all add: eq_idle_def eq_Stop_quiet eq_close_chans_def ch_close_def eq_quiet_def,
        simp_all add: eq_Stop_def)
qed

section \<open>The life of a command\<close>

definition eq_status :: "ExecutionQueue \<Rightarrow> nat \<Rightarrow> CommandStatus" where
  "eq_status q a = qc_Status (eq_heap q ! a)"

definition eq_transitions :: "(CommandStatus \<times> CommandStatus) set" where
  "eq_transitions =
     {(CPending, CSent), (CSent, CExecuting)} \<union> {(s, t). t = CCompleted \<or> t = CFailed} \<union> {(s, t). s = t}"

text \<open>Operations that leave the stored commands alone.\<close>

lemma eq_heap_unchanged [simp]:
  "eq_heap (fst (eq_Start q)) = eq_heap q" "eq_heap (fst (eq_Stop q)) = eq_heap q"
  "eq_heap (fst (eq_Pop q)) = eq_heap q" "eq_heap (fst (eq_Peek q)) = eq_heap q"
  "eq_heap (fst (eq_Size q)) = eq_heap q" "eq_heap (fst (eq_GetStatus q)) = eq_heap q"
  "eq_heap (fst (eq_GetByTaskID t q)) = eq_heap q" "eq_heap (fst (eq_Clear q)) = eq_heap q"
  "eq_heap (fst (eq_cleanupCompletedCommand b q)) = eq_heap q"
  "eq_heap (fst (eq_RemoveByTaskID t q)) = eq_heap q"
proof -
  show "eq_heap (fst (eq_Start q)) = eq_heap q" by (simp add: eq_Start_def)
  show "eq_heap (fst (eq_Stop q)) = eq_heap q"
    by (auto simp: eq_Stop_def with_lock_def and_then_def eq_close_chans_def ch_close_def Let_def split: option.split)
  show "eq_heap (fst (eq_Pop q)) = eq_heap q" "eq_heap (fst (eq_Peek q)) = eq_heap q"
    "eq_heap (fst (eq_Size q)) = eq_heap q" "eq_heap (fst (eq_GetStatus q)) = eq_heap q"
    by (auto simp: eq_Pop_def eq_Peek_def eq_Size_def eq_GetStatus_def with_rlock_def split: option.split)
  show "eq_heap (fst (eq_GetByTaskID t q)) = eq_heap q"
    by (auto simp: eq_GetByTaskID_def with_rlock_def and_then_def split: option.split)
  show "eq_heap (fst (eq_Clear q)) = eq_heap q"
    by (auto simp: eq_Clear_def with_lock_def and_then_def split: option.split)
  show "eq_heap (fst (eq_cleanupCompletedCommand b q)) = eq_heap q"
    by (auto simp: eq_cleanupCompletedCommand_def with_lock_def Let_def split: option.split)
  have "eq_heap (fst (eq_remove_ids ids r)) = eq_heap r" for ids r
    using eq_remove_ids_free[of r ids] eq_remove_ids_held[of r ids]
    by (cases "eq_commandsLock r = Unlocked"; cases "ids = []"; auto)
  then show "eq_heap (fst (eq_RemoveByTaskID t q)) = eq_heap q"
    unfolding eq_RemoveByTaskID_def
    by (intro with_lock_inv[where P = "\<lambda>r. eq_heap r = eq_heap q"])
       (auto intro!: and_then_inv[where P = "\<lambda>r. eq_heap r = eq_heap q"] split: option.split)
qed

lemma eq_heap_Push: "\<exists>new. eq_heap (fst (eq_Push now cmd q)) = eq_heap q @ new \<and> (\<forall>c \<in> set new. qc_Status c = CPending)"
proof -
  let ?P = "\<lambda>r. \<exists>new. eq_heap r = eq_heap q @ new \<and> (\<forall>c \<in> set new. qc_Status c = CPending)"
  have undo: "?P r \<Longrightarrow> ?P (fst (eq_push_undo i t r))" for i t r
    unfolding eq_push_undo_def
    by (intro and_then_inv[where P = ?P] with_lock_inv[where P = ?P]) (auto split: option.split)
  have send: "?P r \<Longrightarrow> ?P (fst (eq_push_send a i t r))" for a i t r
    using undo[of r i t] by (auto simp: eq_push_send_def ch_try_send_def)
  have locked: "?P r \<Longrightarrow> eq_heap r = eq_heap q \<Longrightarrow> ?P (fst (eq_push_locked now cmd r))" for r
    unfolding eq_push_locked_def Let_def
    by (auto intro!: and_then_inv[where P = ?P] with_lock_inv[where P = ?P] send)
  show ?thesis
    using locked[of "q\<lparr>eq_commandsLock := WLocked\<rparr>"]
    by (cases "mu_lock (eq_commandsLock q)")
       (auto simp: eq_Push_def with_lock_def split: prod.split dest!: mu_lock.elims)
qed

lemma eq_set_status:
  "(qc_Status (eq_heap q ! b), qc_Status c) \<in> eq_transitions \<Longrightarrow>
     (eq_status q a, eq_status (eq_set b c q) a) \<in> eq_transitions"
  by (cases "b < length (eq_heap q)"; cases "a = b")
     (simp_all add: eq_status_def eq_transitions_def list_update_beyond)

lemma eq_status_locks [simp]:
  "eq_status (eq_commandsLock_update f q) = eq_status q" "eq_status (eq_taskLock_update f q) = eq_status q"
  "eq_status (eq_sendChan_update g q) = eq_status q" "eq_status (eq_completeChan_update g q) = eq_status q"
  "eq_status (eq_nextCtx_update h q) = eq_status q"
  by (simp_all add: eq_status_def fun_eq_iff)

lemma eq_status_refl [simp]: "(s, s) \<in> eq_transitions"
  by (simp add: eq_transitions_def)

lemma eq_status_Mark:
  "(eq_status q a, eq_status (fst (eq_MarkCommandSent now i q)) a) \<in> eq_transitions"
  "(eq_status q a, eq_status (fst (eq_MarkCommandStarted now i q)) a) \<in> eq_transitions"
  "(eq_status q a, eq_status (fst (eq_MarkCommandCompleted now i err q)) a) \<in> eq_transitions"
proof -
  have 1: "(CPending, CSent) \<in> eq_transitions" "(CSent, CExecuting) \<in> eq_transitions"
    "(s, CCompleted) \<in> eq_transitions" "(s, CFailed) \<in> eq_transitions" for s
    by (simp_all add: eq_transitions_def)
  have st: "(qc_Status (eq_heap q ! b), qc_Status c) \<in> eq_transitions \<Longrightarrow>
      (eq_status q a, eq_status (eq_set b c (q\<lparr>eq_commandsLock := l\<rparr>)) a) \<in> eq_transitions" for b c l
    using eq_set_status[of "q\<lparr>eq_commandsLock := l\<rparr>" b c a] by simp
  have ann: "eq_status (fst (eq_announce b r)) = eq_status r" for b r
    by (auto simp: eq_announce_def ch_try_send_def)
  have ann': "eq_announce b r = (r', s) \<Longrightarrow> eq_status r' = eq_status r" for b r r' s
    using ann[of b r] by simp
  show "(eq_status q a, eq_status (fst (eq_MarkCommandSent now i q)) a) \<in> eq_transitions"
    by (auto simp: eq_MarkCommandSent_def with_lock_def 1 split: option.split intro!: st)
  show "(eq_status q a, eq_status (fst (eq_MarkCommandStarted now i q)) a) \<in> eq_transitions"
    by (auto simp: eq_MarkCommandStarted_def with_lock_def 1 split: option.split intro!: st)
  show "(eq_status q a, eq_status (fst (eq_MarkCommandCompleted now i err q)) a) \<in> eq_transitions"
    by (auto simp: eq_MarkCommandCompleted_def with_lock_def Let_def 1 ann
        split: option.split prod.split dest!: ann' intro!: st)
qed

section \<open>Properties\<close>


text \<open>C25. A command moves from pending to sent to executing one step at a time, and from any state to
  completed or failed, a finished one included; nothing ever times a command out.\<close>

theorem eq_status_transitions:
  assumes "a < length (eq_heap q)"
  shows "(eq_status q a, eq_status (eq_exec op q) a) \<in> eq_transitions"
proof -
  have same: "eq_heap r = eq_heap q \<Longrightarrow> (eq_status q a, eq_status r a) \<in> eq_transitions" for r
    by (simp add: eq_status_def)
  have push: "eq_status (fst (eq_Push now cmd q)) a = eq_status q a" for now cmd
    using eq_heap_Push[of now cmd q] assms by (auto simp: eq_status_def nth_append)
  show ?thesis
  proof (cases op)
    case OpSendTurn
    have "(eq_status q a, eq_status (eq_sendCommandToExecutor b (q\<lparr>eq_sendChan := c\<rparr>)) a) \<in> eq_transitions" for b c
      using eq_set_status[of "q\<lparr>eq_sendChan := c\<rparr>" b "(eq_heap q ! b)\<lparr>qc_CancelFunc := Some (eq_nextCtx q)\<rparr>" a]
      by (simp add: eq_sendCommandToExecutor_def)
    then show ?thesis using OpSendTurn by (auto simp: eq_processCommands_def split: option.split)
  next
    case OpCompleteTurn
    have "eq_heap (eq_exec OpCompleteTurn q) = eq_heap q"
    proof -
      have key: "eq_cleanupCompletedCommand b (q\<lparr>eq_completeChan := c\<rparr>) = (r, s) \<Longrightarrow> eq_heap r = eq_heap q" for b c r s
        using eq_heap_unchanged(9)[of b "q\<lparr>eq_completeChan := c\<rparr>"] by simp
      show ?thesis
        by (simp add: eq_handleCompletions_def case_prod_unfold split: option.split) (use key in blast)
    qed
    then show ?thesis using OpCompleteTurn same by simp
  qed (simp_all add: same push eq_status_Mark)
qed

text \<open>A push into a running queue with room in table and channel is accepted: the command is pending,
  waits last in the send channel, and is found under its ID's prefix.\<close>

theorem eq_Push_accepts:
  assumes "eq_reachable n q" "eq_quiet q" "eq_running q" "int (length (eq_commands q)) < n"
    "\<not> ch_closed (eq_sendChan q)" "length (ch_buf (eq_sendChan q)) < ch_cap (eq_sendChan q)"
  shows "\<exists>q' cmds. eq_Push now cmd q = (q', Ret None) \<and>
     ch_buf (eq_sendChan q') = ch_buf (eq_sendChan q) @ [length (eq_heap q)] \<and>
     eq_status q' (length (eq_heap q)) = CPending \<and>
     eq_GetByTaskID (eq_extractTaskID (cmd_ID cmd)) q' = (q', Ret (Ok cmds)) \<and> cmd \<in> set cmds"
proof -
  have n: "eq_maxSize q = n" using eq_reachable_inv[OF assms(1)] by (simp add: eq_wf_def)
  let ?c = "(eq_sendChan q)\<lparr>ch_buf := ch_buf (eq_sendChan q) @ [length (eq_heap q)]\<rparr>"
  let ?q = "(eq_inserted now cmd q)\<lparr>eq_sendChan := ?c\<rparr>"
  have "eq_Push now cmd q = (?q, Ret None)"
    using assms n by (simp add: eq_Push_quiet)
  moreover have "eq_quiet ?q" using assms(2) by (simp add: eq_quiet_def)
  moreover have "cmd \<in> set (eq_lookup_ids (ids @ [cmd_ID cmd]) ?q)" for ids
    by (simp add: eq_lookup_ids_def eq_inserted_def Let_def List.map_filter_def)
  moreover have "eq_status ?q (length (eq_heap q)) = CPending"
    by (simp add: eq_status_def eq_inserted_def Let_def)
  ultimately show ?thesis
    by (simp add: eq_GetByTaskID_quiet eq_inserted_def Let_def)
qed


text \<open>C24. \<open>RemoveByTaskID\<close> removes exactly the commands whose ID's prefix, up to the first dash, is the given
  task ID.  A task ID that itself contains a dash, as every generated one does, removes nothing.\<close>

theorem eq_RemoveByTaskID_exact:
  assumes "eq_reachable n q" "eq_quiet q"
  shows "\<exists>q'. eq_RemoveByTaskID t q = (q', Ret None) \<and> eq_quiet q' \<and>
     (\<forall>cid. gm_get (eq_commands q') cid =
        (if eq_extractTaskID cid = t then None else gm_get (eq_commands q) cid)) \<and>
     (CHR ''-'' \<in> set t \<longrightarrow> gm_get (eq_commands q') = gm_get (eq_commands q))"
proof -
  have wf: "eq_wf n q" using eq_reachable_inv[OF assms(1)] by simp
  have gone: "eq_extractTaskID cid \<noteq> t \<or> gm_get (eq_commands q) cid = None"
    if "cid \<notin> set (task_ids (eq_taskCommands q) t)" for cid
    using wf that unfolding eq_wf_def by (metis not_Some_eq)
  have listed: "cid \<in> set (task_ids (eq_taskCommands q) t) \<Longrightarrow> eq_extractTaskID cid = t" for cid
    using wf by (simp add: eq_wf_def)
  have dash: "CHR ''-'' \<in> set t \<Longrightarrow> eq_extractTaskID cid \<noteq> t" for cid
    using dash_notin_extract by metis
  show ?thesis
  proof (cases "gm_get (eq_taskCommands q) t")
    case None
    then show ?thesis
      using eq_RemoveByTaskID_unknown[OF assms(2) None] assms(2) gone
      by (auto simp: task_ids_def)
  next
    case (Some ids)
    then have ids: "task_ids (eq_taskCommands q) t = ids" by (rule task_ids_found)
    from eq_RemoveByTaskID_quiet[OF assms(2) Some] obtain q' where
      q': "eq_RemoveByTaskID t q = (q', Ret None)" "eq_quiet q'" "eq_commands q' = fold gm_del ids (eq_commands q)"
      by blast
    have each: "gm_get (eq_commands q') cid = (if eq_extractTaskID cid = t then None else gm_get (eq_commands q) cid)" for cid
      using gone[of cid] listed[of cid] ids by (auto simp: q'(3) gm_get_fold_del)
    then show ?thesis using q' dash by (auto simp: fun_eq_iff)
  qed
qed

text \<open>Witnesses.\<close>

definition demo_cmd :: "string \<Rightarrow> MotionCommand" where
  "demo_cmd i = zero_command\<lparr>cmd_ID := i, cmd_DeviceID := ''d1'', cmd_CommandType := CommandStop\<rparr>"

definition demo_q :: ExecutionQueue where
  "demo_q = eq_exec OpStart (NewExecutionQueue 100)"

definition demo_q1 :: ExecutionQueue where
  "demo_q1 = eq_exec (OpPush 5 (demo_cmd ''task-7-cmd-0'')) demo_q"

lemma demo_q_facts:
  "eq_quiet demo_q" "eq_running demo_q" "eq_commands demo_q = []" "eq_taskCommands demo_q = []"
  "eq_sendChan demo_q = mk_chan 10" "eq_maxSize demo_q = 100" "eq_heap demo_q = []"
  by (simp_all add: demo_q_def eq_Start_def NewExecutionQueue_def eq_quiet_def)

lemma demo_q_reachable: "eq_reachable 100 demo_q"
  unfolding demo_q_def by (rule eq_step[OF eq_init])

lemma demo_q1_facts:
  "eq_quiet demo_q1" "gm_get (eq_commands demo_q1) i = (if i = ''task-7-cmd-0'' then Some 0 else None)"
  using demo_q_facts
  by (simp_all add: demo_q1_def eq_Push_quiet eq_quiet_def eq_inserted_def Let_def demo_cmd_def)

lemma demo_q1_reachable: "eq_reachable 100 demo_q1"
  unfolding demo_q1_def by (rule eq_step[OF demo_q_reachable])


lemma eq_status_transitions_witness:
  "(CPending, eq_status (eq_exec (OpSent 6 ''task-7-cmd-0'') demo_q1) 0) \<in> eq_transitions"
proof -
  have "0 < length (eq_heap demo_q1)" "eq_status demo_q1 0 = CPending"
    using demo_q_facts
    by (simp_all add: demo_q1_def eq_Push_quiet eq_quiet_def eq_inserted_def Let_def eq_status_def)
  then show ?thesis using eq_status_transitions[of 0 demo_q1] by metis
qed

lemma eq_Push_accepts_witness:
  "\<exists>q' cmds. eq_Push 5 (demo_cmd ''task-7-cmd-0'') demo_q = (q', Ret None) \<and>
     eq_GetByTaskID ''task'' q' = (q', Ret (Ok cmds)) \<and> demo_cmd ''task-7-cmd-0'' \<in> set cmds"
  using eq_Push_accepts[OF demo_q_reachable demo_q_facts(1,2), of 5 "demo_cmd ''task-7-cmd-0''"]
  by (auto simp: demo_q_facts demo_cmd_def eq_extractTaskID_def)



lemma eq_RemoveByTaskID_exact_witness:
  "\<exists>q'. eq_RemoveByTaskID ''task-7'' demo_q1 = (q', Ret None) \<and>
     gm_get (eq_commands q') ''task-7-cmd-0'' = Some 0"
  using eq_RemoveByTaskID_exact[OF demo_q1_reachable demo_q1_facts(1), of "''task-7''"]
  by (auto simp: demo_q1_facts(2))

end
