(* ===== verification/Executor.thy ===== *)
theory Executor
  imports ExecQueueProps EventLoop Devices
begin

text \<open>
  The command executor (\<open>internal/core/executor.go\<close>) and the pipeline it forms with the execution queue: the
  queue's consumer and the executor's consumer both receive from the queue's one send channel, and
  both completion handlers from its one completion channel.  The pipeline is a step relation over the
  goroutines of both.
\<close>

section \<open>State\<close>

text \<open>
  \<open>ce_ctx\<close> is \<open>None\<close> before the first \<open>Start\<close>, then whether the context is done; \<open>ce_workers\<close> counts the
  running \<open>executeCommands\<close> goroutines.
\<close>

record CommandExecutor =
  ce_devices :: "(DeviceID, core_device) gomap"
  ce_queue :: ExecutionQueue
  ce_ctx :: "bool option"
  ce_running :: bool
  ce_workers :: nat

definition NewCommandExecutor :: "SystemConfig \<Rightarrow> CommandExecutor" where
  "NewCommandExecutor cfg =
     \<lparr>ce_devices = [], ce_queue = NewExecutionQueue (cfg_QueueSize cfg), ce_ctx = None, ce_running = False,
      ce_workers = 0\<rparr>"

definition ce_Start :: "CommandExecutor \<Rightarrow> CommandExecutor \<times> goerr option exec" where
  "ce_Start ce =
     (if ce_running ce then (ce, Ret (Some (Errorf ''command executor is already running'' [])))
      else
        let ce1 = ce\<lparr>ce_ctx := Some False, ce_running := True\<rparr>
        in case eq_Start (ce_queue ce1) of
             (q, Ret None) \<Rightarrow> (ce1\<lparr>ce_queue := q, ce_workers := Suc (ce_workers ce1)\<rparr>, Ret None)
           | (q, Ret (Some e)) \<Rightarrow>
               (ce1\<lparr>ce_queue := q\<rparr>, Ret (Some (Errorf ''failed to start execution queue: %w'' [AErr e])))
           | (q, Panic m) \<Rightarrow> (ce1\<lparr>ce_queue := q\<rparr>, Panic m)
           | (q, Blocked) \<Rightarrow> (ce1\<lparr>ce_queue := q\<rparr>, Blocked))"

text \<open>A failing stop of the queue is logged and passed over.  \<open>wg.Wait\<close> ends every worker.\<close>

definition ce_Stop :: "int \<Rightarrow> CommandExecutor \<Rightarrow> CommandExecutor \<times> goerr option exec" where
  "ce_Stop now ce =
     (if \<not> ce_running ce then (ce, Ret (Some (Errorf ''command executor is not running'' [])))
      else
        let ce1 = ce\<lparr>ce_ctx := map_option (\<lambda>_. True) (ce_ctx ce)\<rparr>
        in case eq_Stop (ce_queue ce1) of
             (q, Ret _) \<Rightarrow>
               (ce1\<lparr>ce_queue := q, ce_devices := map (map_prod id (dev_Disconnect now)) (ce_devices ce1),
                    ce_workers := 0, ce_running := False\<rparr>, Ret None)
           | (q, Panic m) \<Rightarrow> (ce1\<lparr>ce_queue := q\<rparr>, Panic m)
           | (q, Blocked) \<Rightarrow> (ce1\<lparr>ce_queue := q\<rparr>, Blocked))"

definition ce_ExecuteCommand ::
  "int \<Rightarrow> MotionCommand \<Rightarrow> CommandExecutor \<Rightarrow> CommandExecutor \<times> goerr option exec" where
  "ce_ExecuteCommand now cmd ce =
     (if \<not> ce_running ce then (ce, Ret (Some (Errorf ''command executor is not running'' [])))
      else (let (q, r) = eq_Push now cmd (ce_queue ce) in (ce\<lparr>ce_queue := q\<rparr>, r)))"

definition ce_AddDevice :: "int \<Rightarrow> core_device \<Rightarrow> CommandExecutor \<Rightarrow> CommandExecutor \<times> goerr option" where
  "ce_AddDevice now d ce =
     (if gm_has (ce_devices ce) (dev_ID d)
      then (ce, Some (Errorf ''device %s already exists'' [AStr (dev_ID d)]))
      else
        case dev_Connect now d of
          (d', Some e) \<Rightarrow> (ce, Some (Errorf ''failed to connect device %s: %w'' [AStr (dev_ID d), AErr e]))
        | (d', None) \<Rightarrow> (ce\<lparr>ce_devices := gm_set (dev_ID d) d' (ce_devices ce)\<rparr>, None))"

text \<open>The removed device is disconnected too; the caller's reference sees it.\<close>

definition ce_RemoveDevice :: "DeviceID \<Rightarrow> CommandExecutor \<Rightarrow> CommandExecutor \<times> goerr option" where
  "ce_RemoveDevice i ce =
     (case gm_get (ce_devices ce) i of
        None \<Rightarrow> (ce, Some (Errorf ''device %s not found'' [AStr i]))
      | Some d \<Rightarrow> (ce\<lparr>ce_devices := gm_del i (ce_devices ce)\<rparr>, None))"

definition ce_GetDevice :: "DeviceID \<Rightarrow> CommandExecutor \<Rightarrow> core_device result" where
  "ce_GetDevice i ce =
     (case gm_get (ce_devices ce) i of
        None \<Rightarrow> Err (Errorf ''device %s not found'' [AStr i])
      | Some d \<Rightarrow> Ok d)"

record DeviceReport =
  dr_type :: string
  dr_connected :: bool
  dr_position :: Point
  dr_velocity :: Velocity
  dr_error :: "goerr option"

definition ce_getDevicesStatus :: "CommandExecutor \<Rightarrow> (string, DeviceReport) gomap" where
  "ce_getDevicesStatus ce =
     map (\<lambda>(i, d). (i, let st = dev_Status d in
        \<lparr>dr_type = dev_Type d, dr_connected = ds_Connected st, dr_position = ds_Position st,
         dr_velocity = ds_Velocity st, dr_error = ds_Error st\<rparr>)) (ce_devices ce)"

section \<open>Events\<close>

text \<open>
  \<open>startCommandProcessing\<close> starts a worker on the executor's context: without one, the worker
  dereferences nil; on a cancelled one it returns at once (and leaves a completion handler behind).
\<close>

definition ce_startCommandProcessing :: "CommandExecutor \<Rightarrow> CommandExecutor \<times> unit exec" where
  "ce_startCommandProcessing ce =
     (if ce_running ce then (ce, Ret ())
      else case ce_ctx ce of
        None \<Rightarrow> (ce, Panic ''nil pointer dereference'')
      | Some done \<Rightarrow> (if done then (ce, Ret ()) else (ce\<lparr>ce_workers := Suc (ce_workers ce)\<rparr>, Ret ())))"

definition ce_stopCommandProcessing :: "CommandExecutor \<Rightarrow> CommandExecutor" where
  "ce_stopCommandProcessing ce =
     (if ce_running ce then ce\<lparr>ce_ctx := map_option (\<lambda>_. True) (ce_ctx ce), ce_workers := 0\<rparr> else ce)"

definition ce_processCommandQueue :: "CommandExecutor \<Rightarrow> CommandExecutor" where
  "ce_processCommandQueue ce = ce"

definition ce_HandleEvent :: "Event \<Rightarrow> CommandExecutor \<Rightarrow> CommandExecutor \<times> goerr option exec" where
  "ce_HandleEvent e ce =
     (if ev_Type e = EventTypeSystemStart
      then (case ce_startCommandProcessing ce of
              (ce', Ret _) \<Rightarrow> (ce', Ret None)
            | (ce', Panic m) \<Rightarrow> (ce', Panic m)
            | (ce', Blocked) \<Rightarrow> (ce', Blocked))
      else if ev_Type e = EventTypeSystemStop then (ce_stopCommandProcessing ce, Ret None)
      else if ev_Type e = EventTypeTaskComplete then (ce, Ret None)
      else if ev_Type e = EventTypeTimerTick then (ce_processCommandQueue ce, Ret None)
      else (ce, Ret None))"

definition ce_GetSubscribedEvents :: "EventType list" where
  "ce_GetSubscribedEvents =
     [EventTypeSystemStart, EventTypeSystemStop, EventTypeTaskComplete, EventTypeTimerTick]"

section \<open>Processing one command\<close>

text \<open>
  \<open>processCommand\<close>, in the steps between which other goroutines run: mark the command started; look
  its device up and, if it is there and connected, write to it; mark the command completed with the
  outcome.
\<close>

definition ce_lookup_and_write ::
  "'h hardware_ops \<Rightarrow> (f64 \<Rightarrow> int) \<Rightarrow> int \<Rightarrow> MotionCommand \<Rightarrow> CommandExecutor \<times> 'h \<Rightarrow>
   (CommandExecutor \<times> 'h) \<times> goerr option" where
  "ce_lookup_and_write ops oob now cmd ceh =
     (let (ce, h) = ceh; i = cmd_DeviceID cmd in
      case gm_get (ce_devices ce) i of
        None \<Rightarrow> ((ce, h), Some (Errorf ''device %s not found'' [AStr i]))
      | Some d \<Rightarrow>
          if \<not> ds_Connected (dev_Status d)
          then ((ce, h), Some (Errorf ''device %s is not connected'' [AStr i]))
          else (let ((d', h'), e) = dev_Write ops oob now cmd (d, h)
                in ((ce\<lparr>ce_devices := gm_set i d' (ce_devices ce)\<rparr>, h'), e)))"

section \<open>The pipeline\<close>

text \<open>
  The goroutines at work: senders, started by \<open>sendCommandToExecutor\<close>, before and after they marked
  their command sent; \<open>processCommand\<close> calls, by the step they are at.  \<open>pl_reached\<close> records the commands
  that got as far as the look-up of their device.
\<close>

datatype worker =
    SenderNew nat nat
  | SenderWaiting nat nat
  | ProcNew nat
  | ProcWrite nat
  | ProcDone nat "goerr option"

record 'h pipeline =
  pl_ce :: CommandExecutor
  pl_hw :: 'h
  pl_workers :: "worker list"
  pl_reached :: "MotionCommand list"

definition pl_q :: "'h pipeline \<Rightarrow> ExecutionQueue" where
  "pl_q p = ce_queue (pl_ce p)"

definition pl_set_q :: "ExecutionQueue \<Rightarrow> 'h pipeline \<Rightarrow> 'h pipeline" where
  "pl_set_q q p = p\<lparr>pl_ce := (pl_ce p)\<lparr>ce_queue := q\<rparr>\<rparr>"

definition pl_cmd :: "'h pipeline \<Rightarrow> nat \<Rightarrow> MotionCommand" where
  "pl_cmd p a = qc_Command (eq_heap (pl_q p) ! a)"

text \<open>
  A call \<open>ExecuteCommand\<close> with a command whose ID the table has not seen; a turn of either consumer;
  the steps of a sender and of \<open>processCommand\<close>; a turn of either completion handler.
\<close>

inductive pl_step :: "'h hardware_ops \<Rightarrow> (f64 \<Rightarrow> int) \<Rightarrow> 'h pipeline \<Rightarrow> 'h pipeline \<Rightarrow> bool" for ops oob where
  pl_execute: "cmd_ID cmd \<notin> (\<lambda>c. cmd_ID (qc_Command c)) ` set (eq_heap (pl_q p)) \<Longrightarrow>
     ce_ExecuteCommand now cmd (pl_ce p) = (ce', r) \<Longrightarrow> pl_step ops oob p (p\<lparr>pl_ce := ce'\<rparr>)"
| pl_queue_turn: "ch_recv (eq_sendChan (pl_q p)) = Some (c, Some a) \<Longrightarrow>
     pl_step ops oob p
       ((pl_set_q (eq_sendCommandToExecutor a ((pl_q p)\<lparr>eq_sendChan := c\<rparr>)) p)
          \<lparr>pl_workers := SenderNew a (eq_nextCtx (pl_q p)) # pl_workers p\<rparr>)"
| pl_executor_turn: "0 < ce_workers (pl_ce p) \<Longrightarrow> ch_recv (eq_sendChan (pl_q p)) = Some (c, Some a) \<Longrightarrow>
     pl_step ops oob p
       ((pl_set_q ((pl_q p)\<lparr>eq_sendChan := c\<rparr>) p)\<lparr>pl_workers := ProcNew a # pl_workers p\<rparr>)"
| pl_sent: "SenderNew a x \<in> set (pl_workers p) \<Longrightarrow>
     eq_MarkCommandSent now (cmd_ID (pl_cmd p a)) (pl_q p) = (q', Ret r) \<Longrightarrow>
     pl_step ops oob p
       ((pl_set_q q' p)\<lparr>pl_workers :=
          (if r = None then [SenderWaiting a x] else []) @ remove1 (SenderNew a x) (pl_workers p)\<rparr>)"
| pl_timeout: "SenderWaiting a x \<in> set (pl_workers p) \<Longrightarrow>
     eq_MarkCommandCompleted now (cmd_ID (pl_cmd p a)) (Some (Errorf ''command timeout'' [])) (pl_q p) = (q', r) \<Longrightarrow>
     pl_step ops oob p ((pl_set_q q' p)\<lparr>pl_workers := remove1 (SenderWaiting a x) (pl_workers p)\<rparr>)"
| pl_cancelled: "SenderWaiting a x \<in> set (pl_workers p) \<Longrightarrow> x \<in> set (eq_cancelled (pl_q p)) \<or> eq_ctxDone (pl_q p) \<Longrightarrow>
     pl_step ops oob p (p\<lparr>pl_workers := remove1 (SenderWaiting a x) (pl_workers p)\<rparr>)"
| pl_started: "ProcNew a \<in> set (pl_workers p) \<Longrightarrow>
     eq_MarkCommandStarted now (cmd_ID (pl_cmd p a)) (pl_q p) = (q', Ret r) \<Longrightarrow>
     pl_step ops oob p
       ((pl_set_q q' p)\<lparr>pl_workers := (if r = None then [ProcWrite a] else []) @ remove1 (ProcNew a) (pl_workers p)\<rparr>)"
| pl_write: "ProcWrite a \<in> set (pl_workers p) \<Longrightarrow>
     ce_lookup_and_write ops oob now (pl_cmd p a) (pl_ce p, pl_hw p) = ((ce', h'), r) \<Longrightarrow>
     pl_step ops oob p
       (p\<lparr>pl_ce := ce', pl_hw := h', pl_workers := ProcDone a r # remove1 (ProcWrite a) (pl_workers p),
          pl_reached := pl_cmd p a # pl_reached p\<rparr>)"
| pl_completed: "ProcDone a r \<in> set (pl_workers p) \<Longrightarrow>
     eq_MarkCommandCompleted now (cmd_ID (pl_cmd p a)) r (pl_q p) = (q', e) \<Longrightarrow>
     pl_step ops oob p ((pl_set_q q' p)\<lparr>pl_workers := remove1 (ProcDone a r) (pl_workers p)\<rparr>)"
| pl_cleanup: "eq_handleCompletions (pl_q p) = Some (q', r) \<Longrightarrow> pl_step ops oob p (pl_set_q q' p)"
| pl_drop: "ch_recv (eq_completeChan (pl_q p)) = Some (c, x) \<Longrightarrow>
     pl_step ops oob p (pl_set_q ((pl_q p)\<lparr>eq_completeChan := c\<rparr>) p)"
| pl_other: "op \<in> {OpClear, OpPop, OpPeek, OpSize, OpGetStatus} \<union> range OpGetByTaskID \<union> range OpRemoveByTaskID \<Longrightarrow>
     pl_step ops oob p (pl_set_q (eq_exec op (pl_q p)) p)"

text \<open>A fresh executor, its devices added, then started.\<close>

inductive pl_reachable :: "'h hardware_ops \<Rightarrow> (f64 \<Rightarrow> int) \<Rightarrow> 'h pipeline \<Rightarrow> bool" for ops oob where
  pl_init: "pl_reachable ops oob
     \<lparr>pl_ce = fst (ce_Start ((NewCommandExecutor cfg)\<lparr>ce_devices := ds\<rparr>)), pl_hw = h, pl_workers = [], pl_reached = []\<rparr>"
| pl_next: "pl_reachable ops oob p \<Longrightarrow> pl_step ops oob p p' \<Longrightarrow> pl_reachable ops oob p'"

end
