(* ===== verification/Scheduler.thy ===== *)
theory Scheduler
  imports EventLoop
begin

text \<open>
  The task scheduler (\<open>internal/core/scheduler.go\<close>): four FIFO queues, the table of active tasks, the
  goroutine that moves tasks from the queues to the task channel, and one goroutine per dispatched
  task that waits for its context.  Tasks are shared by reference: \<open>ts_store\<close> holds them, everything
  else holds addresses.  The loop of \<open>schedule\<close> is a step relation, because \<open>Size\<close> and \<open>Pop\<close> are two
  critical sections and other goroutines run in between.
\<close>

section \<open>Task queue\<close>

record 'a TaskQueue = tq_tasks :: "'a list"

definition NewTaskQueue :: "'a TaskQueue" where
  "NewTaskQueue = \<lparr>tq_tasks = []\<rparr>"

definition tq_Push :: "'a \<Rightarrow> 'a TaskQueue \<Rightarrow> 'a TaskQueue" where
  "tq_Push t q = q\<lparr>tq_tasks := tq_tasks q @ [t]\<rparr>"

text \<open>\<open>None\<close>: the caller waits on the condition variable.\<close>

definition tq_Pop :: "'a TaskQueue \<Rightarrow> ('a \<times> 'a TaskQueue) option" where
  "tq_Pop q = (case tq_tasks q of [] \<Rightarrow> None | t # ts \<Rightarrow> Some (t, q\<lparr>tq_tasks := ts\<rparr>))"

fun remove_first :: "('a \<Rightarrow> bool) \<Rightarrow> 'a list \<Rightarrow> 'a list option" where
  "remove_first p [] = None"
| "remove_first p (x # xs) = (if p x then Some xs else map_option ((#) x) (remove_first p xs))"

definition tq_Remove :: "('a \<Rightarrow> string) \<Rightarrow> string \<Rightarrow> 'a TaskQueue \<Rightarrow> 'a TaskQueue \<times> bool" where
  "tq_Remove ident i q =
     (case remove_first (\<lambda>t. ident t = i) (tq_tasks q) of
        None \<Rightarrow> (q, False)
      | Some ts \<Rightarrow> (q\<lparr>tq_tasks := ts\<rparr>, True))"

definition tq_Size :: "'a TaskQueue \<Rightarrow> nat" where
  "tq_Size q = length (tq_tasks q)"

interpretation tq: fifo tq_Push tq_Pop tq_tasks
  by unfold_locales (auto simp: tq_Push_def tq_Pop_def)

section \<open>State\<close>

text \<open>
  \<open>ts_waiting\<close>: the goroutines blocked on \<open>ctx.Done()\<close>, by the task they wait for; \<open>ts_cancelled\<close>: the
  tasks whose cancel function has been called.
\<close>

record TaskScheduler =
  ts_store :: "Task list"
  ts_highPriorityQueue :: "nat TaskQueue"
  ts_mediumPriorityQueue :: "nat TaskQueue"
  ts_lowPriorityQueue :: "nat TaskQueue"
  ts_emergencyQueue :: "nat TaskQueue"
  ts_activeTasks :: "(string, nat) gomap"
  ts_taskChan :: "nat chan"
  ts_ctxDone :: bool
  ts_running :: bool
  ts_waiting :: "nat list"
  ts_cancelled :: "nat list"

definition NewTaskScheduler :: TaskScheduler where
  "NewTaskScheduler =
     \<lparr>ts_store = [], ts_highPriorityQueue = NewTaskQueue, ts_mediumPriorityQueue = NewTaskQueue,
      ts_lowPriorityQueue = NewTaskQueue, ts_emergencyQueue = NewTaskQueue, ts_activeTasks = [],
      ts_taskChan = mk_chan 100, ts_ctxDone = False, ts_running = False, ts_waiting = [], ts_cancelled = []\<rparr>"

definition ts_task :: "TaskScheduler \<Rightarrow> nat \<Rightarrow> Task" where
  "ts_task ts a = ts_store ts ! a"

definition ts_upd :: "nat \<Rightarrow> (Task \<Rightarrow> Task) \<Rightarrow> TaskScheduler \<Rightarrow> TaskScheduler" where
  "ts_upd a f ts = ts\<lparr>ts_store := (ts_store ts)[a := f (ts_store ts ! a)]\<rparr>"

section \<open>Operations\<close>

definition ts_Start :: "TaskScheduler \<Rightarrow> TaskScheduler \<times> goerr option exec" where
  "ts_Start ts =
     (if ts_running ts then (ts, Ret (Some (Errorf ''scheduler is already running'' [])))
      else (ts\<lparr>ts_ctxDone := False, ts_running := True\<rparr>, Ret None))"

definition ts_Stop :: "TaskScheduler \<Rightarrow> TaskScheduler \<times> goerr option exec" where
  "ts_Stop ts =
     (if \<not> ts_running ts then (ts, Ret (Some (Errorf ''scheduler is not running'' [])))
      else
        let ts1 = ts\<lparr>ts_ctxDone := True\<rparr>
        in case ch_close (ts_taskChan ts1) of
             (_, Panic m) \<Rightarrow> (ts1, Panic m)
           | (_, Blocked) \<Rightarrow> (ts1, Blocked)
           | (c, Ret _) \<Rightarrow> (ts1\<lparr>ts_taskChan := c, ts_running := False\<rparr>, Ret None))"

definition ts_push :: "TaskPriority \<Rightarrow> nat \<Rightarrow> TaskScheduler \<Rightarrow> TaskScheduler" where
  "ts_push p a ts =
     (case p of
        PriorityEmergency \<Rightarrow> ts\<lparr>ts_emergencyQueue := tq_Push a (ts_emergencyQueue ts)\<rparr>
      | PriorityHigh \<Rightarrow> ts\<lparr>ts_highPriorityQueue := tq_Push a (ts_highPriorityQueue ts)\<rparr>
      | PriorityMedium \<Rightarrow> ts\<lparr>ts_mediumPriorityQueue := tq_Push a (ts_mediumPriorityQueue ts)\<rparr>
      | PriorityLow \<Rightarrow> ts\<lparr>ts_lowPriorityQueue := tq_Push a (ts_lowPriorityQueue ts)\<rparr>
      | PriorityOther _ \<Rightarrow> ts\<lparr>ts_mediumPriorityQueue := tq_Push a (ts_mediumPriorityQueue ts)\<rparr>)"

definition ts_ScheduleTask :: "nat \<Rightarrow> TaskScheduler \<Rightarrow> TaskScheduler \<times> goerr option" where
  "ts_ScheduleTask a ts =
     (if \<not> ts_running ts then (ts, Some (Errorf ''scheduler is not running'' []))
      else
        let ts1 = ts_upd a (task_Status_update (\<lambda>_. StatusPending)) ts
        in (ts_push (task_Priority (ts_task ts1 a)) a ts1, None))"

text \<open>The four \<open>Remove\<close> calls of \<open>CancelTask\<close>, joined by \<open>||\<close>: the first that succeeds is the last made.\<close>

definition ts_remove_queued :: "string \<Rightarrow> TaskScheduler \<Rightarrow> TaskScheduler \<times> bool" where
  "ts_remove_queued i ts =
     (let rm = tq_Remove (\<lambda>a. task_ID (ts_task ts a)) i;
          (qe, e) = rm (ts_emergencyQueue ts);
          (qh, h) = rm (ts_highPriorityQueue ts);
          (qm, m) = rm (ts_mediumPriorityQueue ts);
          (ql, l) = rm (ts_lowPriorityQueue ts)
      in if e then (ts\<lparr>ts_emergencyQueue := qe\<rparr>, True)
         else if h then (ts\<lparr>ts_highPriorityQueue := qh\<rparr>, True)
         else if m then (ts\<lparr>ts_mediumPriorityQueue := qm\<rparr>, True)
         else if l then (ts\<lparr>ts_lowPriorityQueue := ql\<rparr>, True)
         else (ts, False))"

definition ts_CancelTask :: "int \<Rightarrow> string \<Rightarrow> TaskScheduler \<Rightarrow> TaskScheduler \<times> goerr option" where
  "ts_CancelTask now i ts =
     (case gm_get (ts_activeTasks ts) i of
        Some a \<Rightarrow>
          (let ts1 = (if task_CancelFunc (ts_task ts a) then ts\<lparr>ts_cancelled := a # ts_cancelled ts\<rparr> else ts);
               ts2 = ts_upd a (\<lambda>t. t\<lparr>task_Status := StatusCancelled, task_CompletedAt := Some now\<rparr>) ts1
           in (ts2\<lparr>ts_activeTasks := gm_del i (ts_activeTasks ts2)\<rparr>, None))
      | None \<Rightarrow>
          (case ts_remove_queued i ts of
             (ts1, True) \<Rightarrow> (ts1, None)
           | (ts1, False) \<Rightarrow> (ts1, Some (Errorf ''task %s not found'' [AStr i]))))"

definition ts_PauseTask :: "string \<Rightarrow> TaskScheduler \<Rightarrow> TaskScheduler \<times> goerr option" where
  "ts_PauseTask i ts =
     (case gm_get (ts_activeTasks ts) i of
        Some a \<Rightarrow> (ts_upd a (task_Status_update (\<lambda>_. StatusPaused)) ts, None)
      | None \<Rightarrow> (ts, Some (Errorf ''task %s not found or not running'' [AStr i])))"

definition ts_ResumeTask :: "string \<Rightarrow> TaskScheduler \<Rightarrow> TaskScheduler \<times> goerr option" where
  "ts_ResumeTask i ts =
     (case gm_get (ts_activeTasks ts) i of
        Some a \<Rightarrow> (ts_upd a (task_Status_update (\<lambda>_. StatusRunning)) ts, None)
      | None \<Rightarrow> (ts, Some (Errorf ''task %s not found'' [AStr i])))"

definition ts_GetTaskStatus :: "string \<Rightarrow> TaskScheduler \<Rightarrow> TaskStatus \<times> goerr option" where
  "ts_GetTaskStatus i ts =
     (case gm_get (ts_activeTasks ts) i of
        Some a \<Rightarrow> (task_Status (ts_task ts a), None)
      | None \<Rightarrow> (StatusPending, Some (Errorf ''task %s not found'' [AStr i])))"

section \<open>Dispatch\<close>

datatype level = Emergency | High | Medium | Low

fun level_of :: "TaskPriority \<Rightarrow> level" where
  "level_of PriorityEmergency = Emergency"
| "level_of PriorityHigh = High"
| "level_of PriorityMedium = Medium"
| "level_of PriorityLow = Low"
| "level_of (PriorityOther _) = Medium"

fun ts_queue :: "level \<Rightarrow> TaskScheduler \<Rightarrow> nat TaskQueue" where
  "ts_queue Emergency ts = ts_emergencyQueue ts"
| "ts_queue High ts = ts_highPriorityQueue ts"
| "ts_queue Medium ts = ts_mediumPriorityQueue ts"
| "ts_queue Low ts = ts_lowPriorityQueue ts"

fun ts_queue_put :: "level \<Rightarrow> nat TaskQueue \<Rightarrow> TaskScheduler \<Rightarrow> TaskScheduler" where
  "ts_queue_put Emergency q ts = ts\<lparr>ts_emergencyQueue := q\<rparr>"
| "ts_queue_put High q ts = ts\<lparr>ts_highPriorityQueue := q\<rparr>"
| "ts_queue_put Medium q ts = ts\<lparr>ts_mediumPriorityQueue := q\<rparr>"
| "ts_queue_put Low q ts = ts\<lparr>ts_lowPriorityQueue := q\<rparr>"

text \<open>\<open>getNextTask\<close> when nothing else runs meanwhile: \<open>Pop\<close> follows a \<open>Size\<close> that was not zero.\<close>

fun ts_next_from :: "level list \<Rightarrow> TaskScheduler \<Rightarrow> TaskScheduler \<times> nat option" where
  "ts_next_from [] ts = (ts, None)"
| "ts_next_from (l # ls) ts =
     (if 0 < tq_Size (ts_queue l ts)
      then (case tq_Pop (ts_queue l ts) of
              None \<Rightarrow> (ts, None)
            | Some (a, q) \<Rightarrow> (ts_queue_put l q ts, Some a))
      else ts_next_from ls ts)"

definition ts_getNextTask :: "TaskScheduler \<Rightarrow> TaskScheduler \<times> nat option" where
  "ts_getNextTask = ts_next_from [Emergency, High, Medium, Low]"

definition ts_executeTask :: "int \<Rightarrow> nat \<Rightarrow> TaskScheduler \<Rightarrow> TaskScheduler \<times> unit exec" where
  "ts_executeTask now a ts =
     (let i = task_ID (ts_task ts a);
          ts1 = ts_upd a (\<lambda>t. t\<lparr>task_Status := StatusRunning, task_StartedAt := Some now, task_CancelFunc := True\<rparr>)
                  (ts\<lparr>ts_activeTasks := gm_set i a (ts_activeTasks ts)\<rparr>)
      in case ch_try_send a (ts_taskChan ts1) of
           (c, Ret True) \<Rightarrow> (ts1\<lparr>ts_taskChan := c, ts_waiting := a # ts_waiting ts1\<rparr>, Ret ())
         | (_, Ret False) \<Rightarrow>
             (let ts2 = ts_upd a (\<lambda>t. t\<lparr>task_Status := StatusFailed, task_Error := ''task channel full'',
                                        task_CompletedAt := Some now\<rparr>) ts1
              in (ts2\<lparr>ts_activeTasks := gm_del i (ts_activeTasks ts2)\<rparr>, Ret ()))
         | (_, Panic m) \<Rightarrow> (ts1, Panic m)
         | (_, Blocked) \<Rightarrow> (ts1, Blocked))"

text \<open>The goroutine of a dispatched task, once its context is done with error \<open>err\<close>.\<close>

definition ts_task_done :: "int \<Rightarrow> goerr \<Rightarrow> nat \<Rightarrow> TaskScheduler \<Rightarrow> TaskScheduler" where
  "ts_task_done now err a ts =
     (let i = task_ID (ts_task ts a);
          ts1 = ts\<lparr>ts_waiting := remove1 a (ts_waiting ts)\<rparr>
      in if gm_has (ts_activeTasks ts1) i
         then
           let ts2 = (if err = CtxDeadlineExceeded
                      then ts_upd a (\<lambda>t. t\<lparr>task_Status := StatusFailed, task_Error := ''task timeout''\<rparr>) ts1
                      else ts1);
               ts3 = ts_upd a (\<lambda>t. t\<lparr>task_CompletedAt := Some now\<rparr>) ts2
           in ts3\<lparr>ts_activeTasks := gm_del i (ts_activeTasks ts3)\<rparr>
         else ts1)"

abbreviation Minute :: Duration where "Minute \<equiv> 60 * Second"

definition ts_expired :: "int \<Rightarrow> Task \<Rightarrow> bool" where
  "ts_expired now t =
     ((task_Status t = StatusFailed \<or> task_Status t = StatusCompleted) \<and>
      (case task_CompletedAt t of None \<Rightarrow> False | Some c \<Rightarrow> 5 * Minute < now - c))"

text \<open>The loop deletes the entry of the task's ID, which is the entry the range delivered it under.\<close>

definition ts_processQueues :: "int \<Rightarrow> TaskScheduler \<Rightarrow> TaskScheduler" where
  "ts_processQueues now ts =
     (if \<not> ts_running ts then ts
      else fold (\<lambda>a ts. if ts_expired now (ts_task ts a)
                        then ts\<lparr>ts_activeTasks := gm_del (task_ID (ts_task ts a)) (ts_activeTasks ts)\<rparr>
                        else ts)
             (map snd (ts_activeTasks ts)) ts)"

definition ts_GetSubscribedEvents :: "EventType list" where
  "ts_GetSubscribedEvents =
     [EventTypeSystemStart, EventTypeSystemStop, EventTypeTaskRequest, EventTypeTimerTick]"

text \<open>A task that arrives in an event is a new object of the store.\<close>

definition ts_alloc :: "Task \<Rightarrow> TaskScheduler \<Rightarrow> TaskScheduler" where
  "ts_alloc t ts = ts\<lparr>ts_store := ts_store ts @ [t]\<rparr>"

definition ts_HandleEvent :: "int \<Rightarrow> Event \<Rightarrow> TaskScheduler \<Rightarrow> TaskScheduler \<times> goerr option" where
  "ts_HandleEvent now e ts =
     (if ev_Type e = EventTypeSystemStart \<or> ev_Type e = EventTypeSystemStop then (ts, None)
      else if ev_Type e = EventTypeTaskRequest then
        (case e of
           TaskEvent _ _ _ (EvTask t) _ \<Rightarrow> ts_ScheduleTask (length (ts_store ts)) (ts_alloc t ts)
         | _ \<Rightarrow> (ts, Some (Errorf ''invalid task event data'' [])))
      else if ev_Type e = EventTypeTimerTick then (ts_processQueues now ts, None)
      else (ts, None))"

record SchedulerStatus =
  tss_active_tasks :: nat
  tss_queue_sizes :: "(string, nat) gomap"
  tss_running :: bool

definition ts_Status :: "TaskScheduler \<Rightarrow> SchedulerStatus" where
  "ts_Status ts =
     \<lparr>tss_active_tasks = length (ts_activeTasks ts),
      tss_queue_sizes =
        [(''emergency'', tq_Size (ts_emergencyQueue ts)), (''high'', tq_Size (ts_highPriorityQueue ts)),
         (''medium'', tq_Size (ts_mediumPriorityQueue ts)), (''low'', tq_Size (ts_lowPriorityQueue ts))],
      tss_running = ts_running ts\<rparr>"

section \<open>The program around the scheduler\<close>

text \<open>
  The position of the \<open>schedule\<close> goroutine: at the head of the loop, about to test a queue's size,
  about to pop from a queue whose size was not zero, about to execute a task, or gone.
\<close>

datatype sched_pc = AtLoop | AtSize "level list" | AtPop level | AtExecute nat | Crashed string | Exited

inductive ts_step :: "sched_pc \<times> TaskScheduler \<Rightarrow> sched_pc \<times> TaskScheduler \<Rightarrow> bool" where
  step_exit: "ts_ctxDone ts \<Longrightarrow> ts_step (AtLoop, ts) (Exited, ts)"
| step_look: "\<not> ts_ctxDone ts \<Longrightarrow> ts_step (AtLoop, ts) (AtSize [Emergency, High, Medium, Low], ts)"
| step_none: "ts_step (AtSize [], ts) (AtLoop, ts)"
| step_size: "0 < tq_Size (ts_queue l ts) \<Longrightarrow> ts_step (AtSize (l # ls), ts) (AtPop l, ts)"
| step_size0: "tq_Size (ts_queue l ts) = 0 \<Longrightarrow> ts_step (AtSize (l # ls), ts) (AtSize ls, ts)"
| step_pop: "tq_Pop (ts_queue l ts) = Some (a, q) \<Longrightarrow>
     ts_step (AtPop l, ts) (AtExecute a, ts_queue_put l q ts)"
| step_execute: "ts_executeTask now a ts = (ts', Ret ()) \<Longrightarrow> ts_step (AtExecute a, ts) (AtLoop, ts')"
| step_crash: "ts_executeTask now a ts = (ts', Panic m) \<Longrightarrow> ts_step (AtExecute a, ts) (Crashed m, ts')"
| step_event: "ts_HandleEvent now e ts = (ts', r) \<Longrightarrow> ts_step (pc, ts) (pc, ts')"
| step_cancel: "ts_CancelTask now i ts = (ts', r) \<Longrightarrow> ts_step (pc, ts) (pc, ts')"
| step_pause: "ts_PauseTask i ts = (ts', r) \<Longrightarrow> ts_step (pc, ts) (pc, ts')"
| step_resume: "ts_ResumeTask i ts = (ts', r) \<Longrightarrow> ts_step (pc, ts) (pc, ts')"
| step_recv: "ch_recv (ts_taskChan ts) = Some (c, x) \<Longrightarrow> ts_step (pc, ts) (pc, ts\<lparr>ts_taskChan := c\<rparr>)"
| step_deadline: "a \<in> set (ts_waiting ts) \<Longrightarrow> task_StartedAt (ts_task ts a) = Some s \<Longrightarrow>
     s + task_Timeout (ts_task ts a) \<le> now \<Longrightarrow>
     ts_step (pc, ts) (pc, ts_task_done now CtxDeadlineExceeded a ts)"
| step_cancelled: "a \<in> set (ts_waiting ts) \<Longrightarrow> a \<in> set (ts_cancelled ts) \<or> ts_ctxDone ts \<Longrightarrow>
     ts_step (pc, ts) (pc, ts_task_done now CtxCanceled a ts)"

text \<open>Started by its constructor and \<open>Start\<close>; the loop's goroutine stands at its head.\<close>

inductive ts_reachable :: "sched_pc \<Rightarrow> TaskScheduler \<Rightarrow> bool" where
  reach_init: "ts_reachable AtLoop (fst (ts_Start NewTaskScheduler))"
| reach_step: "ts_reachable pc ts \<Longrightarrow> ts_step (pc, ts) (pc', ts') \<Longrightarrow> ts_reachable pc' ts'"

inductive_cases ts_step_PopE: "ts_step (AtPop l, ts) (pc', ts')"

end
