(* ===== verification/Trigger.thy ===== *)
theory Trigger
  imports EventLoop
begin

text \<open>
  Task triggers (\<open>internal/core/trigger.go\<close>).  A trigger's function is arbitrary code: each pass over the
  triggers takes what the functions return as its argument, \<open>fire\<close>.  \<open>time.Now\<close> is an argument too;
  the zero time, which a trigger starts with, is \<open>t0\<close>, and \<open>time.Since\<close> of it saturates at the largest
  duration.
\<close>

section \<open>State\<close>

record TriggerSource =
  trg_Name :: string
  trg_Enabled :: bool
  trg_LastTrigger :: "int option"

record TaskTrigger =
  tt_triggers :: "(string, TriggerSource) gomap"
  tt_config :: SystemConfig
  tt_ctxDone :: bool
  tt_taskChan :: "Task chan"
  tt_running :: bool

definition NewTaskTrigger :: "SystemConfig \<Rightarrow> TaskTrigger" where
  "NewTaskTrigger cfg =
     \<lparr>tt_triggers = [], tt_config = cfg, tt_ctxDone = False, tt_taskChan = mk_chan 100, tt_running = False\<rparr>"

definition tt_Start :: "TaskTrigger \<Rightarrow> TaskTrigger \<times> goerr option exec" where
  "tt_Start tt =
     (if tt_running tt then (tt, Ret (Some (Errorf ''task trigger is already running'' [])))
      else (tt\<lparr>tt_ctxDone := False, tt_running := True\<rparr>, Ret None))"

definition tt_Stop :: "TaskTrigger \<Rightarrow> TaskTrigger \<times> goerr option exec" where
  "tt_Stop tt =
     (if \<not> tt_running tt then (tt, Ret (Some (Errorf ''task trigger is not running'' [])))
      else
        let tt1 = tt\<lparr>tt_ctxDone := True\<rparr>
        in case ch_close (tt_taskChan tt1) of
             (_, Panic m) \<Rightarrow> (tt1, Panic m)
           | (_, Blocked) \<Rightarrow> (tt1, Blocked)
           | (c, Ret _) \<Rightarrow> (tt1\<lparr>tt_taskChan := c, tt_running := False\<rparr>, Ret None))"

section \<open>The table of triggers\<close>

definition tt_AddTrigger :: "string \<Rightarrow> unit \<Rightarrow> TaskTrigger \<Rightarrow> TaskTrigger \<times> goerr option" where
  "tt_AddTrigger src f tt =
     (if gm_has (tt_triggers tt) src then (tt, Some (Errorf ''trigger %s already exists'' [AStr src]))
      else (tt\<lparr>tt_triggers := gm_set src \<lparr>trg_Name = src, trg_Enabled = True, trg_LastTrigger = None\<rparr>
                                (tt_triggers tt)\<rparr>, None))"

definition tt_RemoveTrigger :: "string \<Rightarrow> TaskTrigger \<Rightarrow> TaskTrigger \<times> goerr option" where
  "tt_RemoveTrigger src tt =
     (if \<not> gm_has (tt_triggers tt) src then (tt, Some (Errorf ''trigger %s not found'' [AStr src]))
      else (tt\<lparr>tt_triggers := gm_del src (tt_triggers tt)\<rparr>, None))"

definition tt_set_enabled :: "bool \<Rightarrow> string \<Rightarrow> TaskTrigger \<Rightarrow> TaskTrigger \<times> goerr option" where
  "tt_set_enabled b src tt =
     (case gm_get (tt_triggers tt) src of
        None \<Rightarrow> (tt, Some (Errorf ''trigger %s not found'' [AStr src]))
      | Some t \<Rightarrow> (tt\<lparr>tt_triggers := gm_set src (t\<lparr>trg_Enabled := b\<rparr>) (tt_triggers tt)\<rparr>, None))"

definition tt_EnableTrigger :: "string \<Rightarrow> TaskTrigger \<Rightarrow> TaskTrigger \<times> goerr option" where
  "tt_EnableTrigger = tt_set_enabled True"

definition tt_DisableTrigger :: "string \<Rightarrow> TaskTrigger \<Rightarrow> TaskTrigger \<times> goerr option" where
  "tt_DisableTrigger = tt_set_enabled False"

section \<open>Validation\<close>

text \<open>The checks of one axis, in their order.\<close>

definition tt_check_axis :: "SystemConfig \<Rightarrow> Task \<Rightarrow> AxisID \<Rightarrow> goerr option" where
  "tt_check_axis cfg task axisID =
     (case gm_get (cfg_Axes cfg) axisID of
        None \<Rightarrow> Some (Errorf ''axis %s not found in configuration'' [AStr axisID])
      | Some ax \<Rightarrow>
          let p = task_Target task in
          if f64_lt (pt_X p) (ax_MinPosition ax) \<or> f64_gt (pt_X p) (ax_MaxPosition ax)
          then Some (Errorf ''target X position %f is out of bounds for axis %s'' [AFloat (pt_X p), AStr axisID])
          else if f64_lt (pt_Y p) (ax_MinPosition ax) \<or> f64_gt (pt_Y p) (ax_MaxPosition ax)
          then Some (Errorf ''target Y position %f is out of bounds for axis %s'' [AFloat (pt_Y p), AStr axisID])
          else if f64_gt (vel_Linear (task_Velocity task)) (ax_MaxVelocity ax)
          then Some (Errorf ''velocity %f exceeds maximum for axis %s'' [AFloat (vel_Linear (task_Velocity task)), AStr axisID])
          else None)"

text \<open>A nil task is \<open>None\<close>; the task comes back with its timeout filled in.\<close>

definition tt_ValidateTrigger :: "SystemConfig \<Rightarrow> Task option \<Rightarrow> Task option \<times> goerr option" where
  "tt_ValidateTrigger cfg t =
     (case t of
        None \<Rightarrow> (None, Some (Errorf ''task cannot be nil'' []))
      | Some task \<Rightarrow>
          if task_Type task = [] then (t, Some (Errorf ''task type cannot be empty'' []))
          else if task_Axes task = [] then (t, Some (Errorf ''task must specify at least one axis'' []))
          else
            let task1 = (if task_Timeout task = 0 then task\<lparr>task_Timeout := 30 * Second\<rparr> else task)
            in (Some task1, first_error (tt_check_axis cfg task1) (task_Axes task1)))"

section \<open>The two passes over the triggers\<close>

definition tt_touch :: "string \<Rightarrow> int \<Rightarrow> TaskTrigger \<Rightarrow> TaskTrigger" where
  "tt_touch name now tt =
     (case gm_get (tt_triggers tt) name of
        None \<Rightarrow> tt
      | Some t \<Rightarrow> tt\<lparr>tt_triggers := gm_set name (t\<lparr>trg_LastTrigger := Some now\<rparr>) (tt_triggers tt)\<rparr>)"

definition tt_offer :: "string \<Rightarrow> int \<Rightarrow> Task \<Rightarrow> TaskTrigger \<Rightarrow> TaskTrigger \<times> unit exec" where
  "tt_offer name now task tt =
     (case ch_try_send task (tt_taskChan tt) of
        (c, Ret True) \<Rightarrow> (tt_touch name now (tt\<lparr>tt_taskChan := c\<rparr>), Ret ())
      | (_, Ret False) \<Rightarrow> (tt, Ret ())
      | (_, Panic m) \<Rightarrow> (tt, Panic m)
      | (_, Blocked) \<Rightarrow> (tt, Blocked))"

text \<open>\<open>checkTriggers\<close>, one trigger: validate, name and date the task, offer it.\<close>

definition tt_check_one :: "(string \<Rightarrow> Task option) \<Rightarrow> int \<Rightarrow> string \<times> TriggerSource \<Rightarrow> TaskTrigger \<Rightarrow> TaskTrigger \<times> unit exec" where
  "tt_check_one fire now nt tt =
     (let (name, trg) = nt in
      if \<not> trg_Enabled trg then (tt, Ret ())
      else case fire name of
        None \<Rightarrow> (tt, Ret ())
      | Some task \<Rightarrow>
          (case tt_ValidateTrigger (tt_config tt) (Some task) of
             (Some task1, None) \<Rightarrow>
               tt_offer name now (task1\<lparr>task_ID := ''task-'' @ int_dec now, task_CreatedAt := now\<rparr>) tt
           | _ \<Rightarrow> (tt, Ret ())))"

fun tt_each :: "(string \<times> TriggerSource \<Rightarrow> TaskTrigger \<Rightarrow> TaskTrigger \<times> unit exec) \<Rightarrow>
    (string \<times> TriggerSource) list \<Rightarrow> TaskTrigger \<Rightarrow> TaskTrigger \<times> unit exec" where
  "tt_each f [] tt = (tt, Ret ())"
| "tt_each f (x # xs) tt = and_then (f x) (\<lambda>_. tt_each f xs) tt"

definition tt_checkTriggers :: "(string \<Rightarrow> Task option) \<Rightarrow> int \<Rightarrow> TaskTrigger \<Rightarrow> TaskTrigger \<times> unit exec" where
  "tt_checkTriggers fire now tt = tt_each (tt_check_one fire now) (tt_triggers tt) tt"

definition tt_shouldTrigger :: "int \<Rightarrow> TriggerSource \<Rightarrow> bool" where
  "tt_shouldTrigger now trg =
     (case trg_LastTrigger trg of None \<Rightarrow> True | Some t \<Rightarrow> \<not> now - t < Second)"

text \<open>\<open>checkAndTriggerTriggers\<close>, one trigger: neither validated nor named.\<close>

definition tt_tick_one :: "(string \<Rightarrow> Task option) \<Rightarrow> int \<Rightarrow> string \<times> TriggerSource \<Rightarrow> TaskTrigger \<Rightarrow> TaskTrigger \<times> unit exec" where
  "tt_tick_one fire now nt tt =
     (let (name, trg) = nt in
      if \<not> trg_Enabled trg then (tt, Ret ())
      else if tt_shouldTrigger now trg then
        (case fire name of None \<Rightarrow> (tt, Ret ()) | Some task \<Rightarrow> tt_offer name now task tt)
      else (tt, Ret ()))"

definition tt_checkAndTriggerTriggers :: "(string \<Rightarrow> Task option) \<Rightarrow> int \<Rightarrow> TaskTrigger \<Rightarrow> TaskTrigger \<times> unit exec" where
  "tt_checkAndTriggerTriggers fire now tt = tt_each (tt_tick_one fire now) (tt_triggers tt) tt"

definition tt_HandleEvent ::
  "(string \<Rightarrow> Task option) \<Rightarrow> int \<Rightarrow> Event \<Rightarrow> TaskTrigger \<Rightarrow> TaskTrigger \<times> goerr option exec" where
  "tt_HandleEvent fire now e tt =
     (if ev_Type e = EventTypeSystemStart \<or> ev_Type e = EventTypeSystemStop then (tt, Ret None)
      else if ev_Type e = EventTypeTimerTick
      then and_then (tt_checkAndTriggerTriggers fire now) (\<lambda>_ tt. (tt, Ret None)) tt
      else (tt, Ret None))"

definition tt_GetSubscribedEvents :: "EventType list" where
  "tt_GetSubscribedEvents = [EventTypeSystemStart, EventTypeSystemStop, EventTypeTimerTick]"

definition tt_GetTriggerStatus :: "TaskTrigger \<Rightarrow> (string, bool \<times> int option) gomap" where
  "tt_GetTriggerStatus tt = map (\<lambda>(n, t). (n, trg_Enabled t, trg_LastTrigger t)) (tt_triggers tt)"

section \<open>Contracts\<close>

interpretation tt_registry: registry "\<lambda>tt. gm_get (tt_triggers tt)" tt_AddTrigger tt_RemoveTrigger
  "\<lambda>src _. \<lparr>trg_Name = src, trg_Enabled = True, trg_LastTrigger = None\<rparr>"
  by unfold_locales
     (auto simp: tt_AddTrigger_def tt_RemoveTrigger_def gm_has_def fun_eq_iff split: if_splits)

interpretation tt_life: lifecycle "\<lambda>_. True" tt_running "\<lambda>tt. \<not> ch_closed (tt_taskChan tt)" tt_Start tt_Stop
  by unfold_locales (auto simp: tt_Start_def tt_Stop_def ch_close_def Let_def)

section \<open>What validation guarantees\<close>

text \<open>The limits a validated task respects, on every axis it names.\<close>

definition task_within :: "SystemConfig \<Rightarrow> Task \<Rightarrow> bool" where
  "task_within cfg task \<longleftrightarrow>
     task_Type task \<noteq> [] \<and> task_Axes task \<noteq> [] \<and> task_Timeout task \<noteq> 0 \<and>
     (\<forall>axisID \<in> set (task_Axes task). \<exists>ax. gm_get (cfg_Axes cfg) axisID = Some ax \<and>
        \<not> f64_lt (pt_X (task_Target task)) (ax_MinPosition ax) \<and> \<not> f64_gt (pt_X (task_Target task)) (ax_MaxPosition ax) \<and>
        \<not> f64_lt (pt_Y (task_Target task)) (ax_MinPosition ax) \<and> \<not> f64_gt (pt_Y (task_Target task)) (ax_MaxPosition ax) \<and>
        \<not> f64_gt (vel_Linear (task_Velocity task)) (ax_MaxVelocity ax))"

lemma tt_check_axis_None:
  "tt_check_axis cfg task i = None \<longleftrightarrow> (\<exists>ax. gm_get (cfg_Axes cfg) i = Some ax \<and>
        \<not> f64_lt (pt_X (task_Target task)) (ax_MinPosition ax) \<and> \<not> f64_gt (pt_X (task_Target task)) (ax_MaxPosition ax) \<and>
        \<not> f64_lt (pt_Y (task_Target task)) (ax_MinPosition ax) \<and> \<not> f64_gt (pt_Y (task_Target task)) (ax_MaxPosition ax) \<and>
        \<not> f64_gt (vel_Linear (task_Velocity task)) (ax_MaxVelocity ax))"
  by (auto simp: tt_check_axis_def Let_def split: option.split)

lemma tt_ValidateTrigger_ok:
  "tt_ValidateTrigger cfg (Some task) = (Some task1, None) \<longleftrightarrow>
     task1 = (if task_Timeout task = 0 then task\<lparr>task_Timeout := 30 * Second\<rparr> else task) \<and> task_within cfg task1"
  by (auto simp: tt_ValidateTrigger_def Let_def first_error_None tt_check_axis_None task_within_def)

text \<open>Everything the loop's own pass puts into the channel is within the limits, and it is named.\<close>

definition tt_safe :: "TaskTrigger \<Rightarrow> bool" where
  "tt_safe tt \<longleftrightarrow> (\<forall>task \<in> set (ch_buf (tt_taskChan tt)). task_within (tt_config tt) task \<and> task_ID task \<noteq> [])"

lemma tt_touch_fields [simp]:
  "tt_taskChan (tt_touch n now tt) = tt_taskChan tt" "tt_config (tt_touch n now tt) = tt_config tt"
  by (simp_all add: tt_touch_def split: option.split)

lemma tt_offer_safe:
  "tt_safe tt \<Longrightarrow> task_within (tt_config tt) task \<Longrightarrow> task_ID task \<noteq> [] \<Longrightarrow> tt_safe (fst (tt_offer n now task tt))"
  by (auto simp: tt_offer_def tt_safe_def ch_try_send_def)

lemma tt_check_one_safe: "tt_safe tt \<Longrightarrow> tt_safe (fst (tt_check_one fire now nt tt))"
  by (auto simp: tt_check_one_def tt_ValidateTrigger_ok task_within_def
      intro!: tt_offer_safe split: prod.splits option.split)

lemma tt_each_inv:
  assumes "\<And>x tt. P tt \<Longrightarrow> P (fst (f x tt))" "P tt" shows "P (fst (tt_each f xs tt))"
  using assms(2) by (induction xs arbitrary: tt) (auto intro: and_then_inv assms(1))

lemma tt_checkTriggers_safe: "tt_safe tt \<Longrightarrow> tt_safe (fst (tt_checkTriggers fire now tt))"
  unfolding tt_checkTriggers_def by (rule tt_each_inv) (rule tt_check_one_safe)

section \<open>Properties\<close>

text \<open>C26. Every task that the trigger loop's own pass puts into the task channel names an axis, has a time
  limit, stays within the X and Y range and the speed limit of every axis it names, and has an ID.\<close>

theorem tt_loop_sends_only_valid_tasks:
  assumes "tt_safe tt"
  shows "\<forall>task \<in> set (ch_buf (tt_taskChan (fst (tt_checkTriggers fire now tt)))).
     task_within (tt_config (fst (tt_checkTriggers fire now tt))) task \<and> task_ID task \<noteq> []"
  using tt_checkTriggers_safe[OF assms] unfolding tt_safe_def .

text \<open>The pass that a timer tick starts sends whatever the trigger function returns, unchanged: no
  check of axes, limits or speed, no ID, no time limit.\<close>

theorem tt_tick_sends_unchecked:
  assumes "tt_triggers tt = [(n, trg)]" "trg_Enabled trg" "tt_shouldTrigger now trg" "fire n = Some task"
    "\<not> ch_closed (tt_taskChan tt)" "length (ch_buf (tt_taskChan tt)) < ch_cap (tt_taskChan tt)"
    "ev_Type e = EventTypeTimerTick"
  shows "\<exists>tt'. tt_HandleEvent fire now e tt = (tt', Ret None) \<and>
     ch_buf (tt_taskChan tt') = ch_buf (tt_taskChan tt) @ [task]"
  using assms
  by (simp add: tt_HandleEvent_def tt_checkAndTriggerTriggers_def tt_tick_one_def tt_offer_def ch_try_send_def
      and_then_def)

text \<open>Validation accepts exactly the tasks within the limits, after it has set a missing time limit to
  thirty seconds; it changes nothing else.\<close>

theorem tt_ValidateTrigger_exact:
  "tt_ValidateTrigger cfg (Some task) = (Some task1, None) \<longleftrightarrow>
     task1 = (if task_Timeout task = 0 then task\<lparr>task_Timeout := 30 * Second\<rparr> else task) \<and> task_within cfg task1"
  by (rule tt_ValidateTrigger_ok)

definition demo_axis :: AxisConfig where
  "demo_axis =
     \<lparr>ax_DeviceID = ''d1'', ax_MaxVelocity = Fin 10, ax_MaxAcceleration = Fin 5, ax_MinPosition = Fin (- 100),
      ax_MaxPosition = Fin 100, ax_HomePosition = Fin 0, ax_Units = ''mm'', ax_InvertDirection = False\<rparr>"

definition demo_axes_cfg :: SystemConfig where
  "demo_axes_cfg =
     \<lparr>cfg_EventLoopInterval = 10 * Millisecond, cfg_QueueSize = 100, cfg_Devices = [], cfg_Axes = [(''x'', demo_axis)],
      cfg_Safety = \<lparr>sf_EnableLimits = True, sf_EnableEmergency = True, sf_MaxTemperature = Fin 80,
                    sf_MinVoltage = Fin 20, sf_WatchdogTimeout = Second\<rparr>,
      cfg_IPC = \<lparr>ipc_Type = ''tcp'', ipc_Address = [], ipc_Port = 8080, ipc_Timeout = Second, ipc_BufferSize = 1024\<rparr>,
      cfg_TaskTemplates = None, cfg_CommandMappings = None\<rparr>"

definition demo_move :: "f64 \<Rightarrow> Task" where
  "demo_move x = zero_task\<lparr>task_Type := CommandMoveTo, task_Axes := [''x''],
     task_Target := zero_point\<lparr>pt_X := x\<rparr>, task_Velocity := \<lparr>vel_Linear = Fin 1, vel_Angular = Fin 0\<rparr>\<rparr>"

definition demo_trigger :: TaskTrigger where
  "demo_trigger = fst (tt_AddTrigger ''button'' () (fst (tt_Start (NewTaskTrigger demo_axes_cfg))))"

lemma demo_trigger_facts:
  "tt_triggers demo_trigger = [(''button'', \<lparr>trg_Name = ''button'', trg_Enabled = True, trg_LastTrigger = None\<rparr>)]"
  "tt_taskChan demo_trigger = mk_chan 100" "tt_config demo_trigger = demo_axes_cfg"
  by (simp_all add: demo_trigger_def tt_AddTrigger_def tt_Start_def NewTaskTrigger_def gm_has_def gm_set_def)

definition demo_sent :: Task where
  "demo_sent = (demo_move (Fin 50))\<lparr>task_Timeout := 30 * Second, task_ID := ''task-'' @ int_dec 7, task_CreatedAt := 7\<rparr>"

lemma demo_check:
  "fst (tt_checkTriggers (\<lambda>_. Some (demo_move (Fin 50))) 7 demo_trigger) =
     demo_trigger\<lparr>tt_taskChan := (mk_chan 100)\<lparr>ch_buf := [demo_sent]\<rparr>,
       tt_triggers := [(''button'', \<lparr>trg_Name = ''button'', trg_Enabled = True, trg_LastTrigger = Some 7\<rparr>)]\<rparr>"
proof -
  have "tt_ValidateTrigger demo_axes_cfg (Some (demo_move (Fin 50))) =
      (Some ((demo_move (Fin 50))\<lparr>task_Timeout := 30 * Second\<rparr>), None)"
    by (subst tt_ValidateTrigger_ok)
       (simp add: task_within_def demo_move_def demo_axes_cfg_def demo_axis_def gm_get_def zero_task_def zero_point_def
         f64_zero_def f64_gt_def)
  then show ?thesis
    by (simp add: tt_checkTriggers_def demo_trigger_facts tt_check_one_def and_then_def tt_offer_def ch_try_send_def
        mk_chan_def tt_touch_def gm_get_def gm_set_def demo_sent_def)
qed

lemma tt_loop_sends_only_valid_tasks_witness: "task_within demo_axes_cfg demo_sent \<and> task_ID demo_sent \<noteq> []"
  using tt_loop_sends_only_valid_tasks[where tt = demo_trigger and now = 7 and fire = "\<lambda>_. Some (demo_move (Fin 50))"]
  by (simp add: demo_check demo_trigger_facts tt_safe_def)

text \<open>A target of 500 on an axis that ends at 100.\<close>

lemma tt_tick_sends_unchecked_witness:
  "\<exists>tt'. tt_HandleEvent (\<lambda>_. Some (demo_move (Fin 500))) 7 (NewTimerEvent 7 ''event_loop'' Second 0 VNil) demo_trigger =
       (tt', Ret None) \<and> ch_buf (tt_taskChan tt') = [demo_move (Fin 500)] \<and>
     \<not> task_within demo_axes_cfg (demo_move (Fin 500))"
proof -
  have "\<not> task_within demo_axes_cfg (demo_move (Fin 500))"
    by (simp add: task_within_def demo_move_def demo_axes_cfg_def demo_axis_def gm_get_def)
  then show ?thesis
    using tt_tick_sends_unchecked[OF demo_trigger_facts(1), where now = 7 and
        fire = "\<lambda>_. Some (demo_move (Fin 500))" and e = "NewTimerEvent 7 ''event_loop'' Second 0 VNil"]
    by (simp add: demo_trigger_facts tt_shouldTrigger_def NewTimerEvent_def NewBaseEvent_def ev_Type_def)
qed

lemma tt_ValidateTrigger_exact_witness:
  "tt_ValidateTrigger demo_axes_cfg (Some (demo_move (Fin 50))) =
     (Some ((demo_move (Fin 50))\<lparr>task_Timeout := 30 * Second\<rparr>), None)"
  unfolding tt_ValidateTrigger_exact
  by (simp add: task_within_def demo_move_def demo_axes_cfg_def demo_axis_def gm_get_def zero_task_def zero_point_def
      f64_zero_def f64_gt_def)

end
