(* ===== verification/TaskNode.thy ===== *)
theory TaskNode
  imports Interfaces
begin

text \<open>
  Task nodes (\<open>pkg/types/tasknode.go\<close>).  The concrete nodes embed a \<open>*BaseTaskNode\<close>; every method that
  they do not declare themselves, \<open>Execute\<close> among them, is the base node's, with the base node as its
  receiver.  Each node's mutex is held for single reads and updates only and is left out.
\<close>

section \<open>The base node\<close>

definition NewBaseTaskNode :: "int \<Rightarrow> string \<Rightarrow> CommandType \<Rightarrow> (string, goval) gomap \<Rightarrow> base_node" where
  "NewBaseTaskNode now i ty params =
     \<lparr>btn_id = i, btn_nodeType = ty, btn_status = StatusPending, btn_parameters = params, btn_parent = None,
      btn_metadata = [], btn_startTime = now, btn_endTime = None, btn_cancelFunc = False\<rparr>"

definition tn_map_base :: "(base_node \<Rightarrow> base_node) \<Rightarrow> tasknode \<Rightarrow> tasknode" where
  "tn_map_base f n = TaskNode (f (tn_base n)) (tn_kind n) (tn_children n)"

definition btn_GetID :: "tasknode \<Rightarrow> string" where "btn_GetID n = btn_id (tn_base n)"
definition btn_GetType :: "tasknode \<Rightarrow> CommandType" where "btn_GetType n = btn_nodeType (tn_base n)"
definition btn_GetParameters :: "tasknode \<Rightarrow> (string, goval) gomap" where
  "btn_GetParameters n = btn_parameters (tn_base n)"
definition btn_GetChildren :: "tasknode \<Rightarrow> tasknode list" where "btn_GetChildren n = tn_children n"
definition btn_GetParent :: "tasknode \<Rightarrow> string option" where "btn_GetParent n = btn_parent (tn_base n)"
definition btn_GetMetadata :: "tasknode \<Rightarrow> (string, goval) gomap" where
  "btn_GetMetadata n = btn_metadata (tn_base n)"
definition btn_GetStartTime :: "tasknode \<Rightarrow> int" where "btn_GetStartTime n = btn_startTime (tn_base n)"
definition btn_GetEndTime :: "tasknode \<Rightarrow> int option" where "btn_GetEndTime n = btn_endTime (tn_base n)"

text \<open>Only a child that is itself a base node learns its parent.\<close>

definition btn_adopt :: "string \<Rightarrow> tasknode \<Rightarrow> tasknode" where
  "btn_adopt parent child =
     (if tn_kind child = BaseTaskNode then tn_map_base (\<lambda>b. b\<lparr>btn_parent := Some parent\<rparr>) child else child)"

definition btn_AddChild :: "tasknode \<Rightarrow> tasknode \<Rightarrow> tasknode" where
  "btn_AddChild node n = TaskNode (tn_base n) (tn_kind n) (tn_children n @ [btn_adopt (btn_GetID n) node])"

fun remove_node :: "string \<Rightarrow> tasknode list \<Rightarrow> tasknode list option" where
  "remove_node i [] = None"
| "remove_node i (c # cs) = (if btn_GetID c = i then Some cs else map_option ((#) c) (remove_node i cs))"

definition btn_RemoveChild :: "string \<Rightarrow> tasknode \<Rightarrow> tasknode \<times> goerr option" where
  "btn_RemoveChild i n =
     (case remove_node i (tn_children n) of
        None \<Rightarrow> (n, Some (Errorf ''child node %s not found'' [AStr i]))
      | Some cs \<Rightarrow> (TaskNode (tn_base n) (tn_kind n) cs, None))"

definition btn_Validate :: "tasknode \<Rightarrow> goerr option" where
  "btn_Validate n =
     (if btn_GetID n = [] then Some (Errorf ''task node ID cannot be empty'' [])
      else if btn_GetType n = [] then Some (Errorf ''task node type cannot be empty'' [])
      else None)"

definition btn_SetStatus :: "int \<Rightarrow> TaskStatus \<Rightarrow> tasknode \<Rightarrow> tasknode" where
  "btn_SetStatus now st =
     tn_map_base (\<lambda>b. (b\<lparr>btn_status := st\<rparr>)\<lparr>btn_endTime :=
        (if st = StatusCompleted \<or> st = StatusFailed \<or> st = StatusCancelled then Some now else btn_endTime b)\<rparr>)"

definition btn_SetMetadata :: "string \<Rightarrow> goval \<Rightarrow> tasknode \<Rightarrow> tasknode" where
  "btn_SetMetadata k v = tn_map_base (\<lambda>b. b\<lparr>btn_metadata := gm_set k v (btn_metadata b)\<rparr>)"

definition btn_SetCancelFunc :: "tasknode \<Rightarrow> tasknode" where
  "btn_SetCancelFunc = tn_map_base (\<lambda>b. b\<lparr>btn_cancelFunc := True\<rparr>)"

text \<open>The second result says whether the stored cancel function was called.\<close>

definition btn_Cancel :: "int \<Rightarrow> tasknode \<Rightarrow> tasknode \<times> bool" where
  "btn_Cancel now n =
     (tn_map_base (\<lambda>b. if btn_status b = StatusRunning
                       then b\<lparr>btn_status := StatusCancelled, btn_endTime := Some now\<rparr> else b) n,
      btn_cancelFunc (tn_base n))"

definition btn_GetDuration :: "int \<Rightarrow> tasknode \<Rightarrow> Duration" where
  "btn_GetDuration now n =
     (case btn_endTime (tn_base n) of
        None \<Rightarrow> now - btn_startTime (tn_base n)
      | Some e \<Rightarrow> e - btn_startTime (tn_base n))"

definition btn_executeSpecific :: "tasknode \<Rightarrow> goerr option" where
  "btn_executeSpecific n = Some (Errorf ''executeSpecific must be implemented by concrete task nodes'' [])"

text \<open>\<open>Execute\<close> of every node; \<open>t1\<close> and \<open>t2\<close> are the times of its start and end.\<close>

definition btn_Execute :: "ctx \<Rightarrow> int \<Rightarrow> int \<Rightarrow> tasknode \<Rightarrow> tasknode \<times> goerr option" where
  "btn_Execute ctx t1 t2 n =
     (let n1 = tn_map_base (\<lambda>b. b\<lparr>btn_startTime := t1, btn_status := StatusRunning\<rparr>) n
      in case ctx of
           CtxDone e \<Rightarrow> (btn_SetStatus t2 StatusCancelled n1, Some e)
         | CtxLive \<Rightarrow>
             (case btn_executeSpecific n1 of
                Some e \<Rightarrow> (btn_SetStatus t2 StatusFailed n1, Some e)
              | None \<Rightarrow> (tn_map_base (\<lambda>b. b\<lparr>btn_status := StatusCompleted, btn_endTime := Some t2\<rparr>) n1, None)))"

section \<open>Concrete nodes\<close>

definition NewIOTaskNode :: "int \<Rightarrow> string \<Rightarrow> IOCommand \<Rightarrow> tasknode" where
  "NewIOTaskNode now i c =
     TaskNode (NewBaseTaskNode now i CommandIO
       [(''device_id'', VDeviceID (io_DeviceID c)), (''channel'', VString (io_Channel c)),
        (''action'', VString (io_Action c)), (''value'', VFloat (io_Value c)),
        (''threshold'', VFloat (io_Threshold c)), (''timeout'', VDuration (io_Timeout c))])
       (IOTaskNode c) []"

definition io_executeSpecific :: "IOCommand \<Rightarrow> tasknode \<Rightarrow> tasknode \<times> goerr option" where
  "io_executeSpecific c n =
     (if io_Action c = ''set'' then (btn_SetMetadata ''action_type'' (VString ''io_set'') n, None)
      else if io_Action c = ''read'' then (btn_SetMetadata ''action_type'' (VString ''io_read'') n, None)
      else if io_Action c = ''toggle'' then (btn_SetMetadata ''action_type'' (VString ''io_toggle'') n, None)
      else (n, Some (Errorf ''unsupported IO action: %s'' [AStr (io_Action c)])))"

definition NewMotorTaskNode :: "int \<Rightarrow> string \<Rightarrow> MotorCommand \<Rightarrow> tasknode" where
  "NewMotorTaskNode now i c =
     TaskNode (NewBaseTaskNode now i CommandMotorControl
       [(''device_id'', VDeviceID (mot_DeviceID c)), (''motor_id'', VString (mot_MotorID c)),
        (''action'', VString (mot_Action c)), (''speed'', VFloat (mot_Speed c)),
        (''position'', VPoint (mot_Position c)), (''acceleration'', VFloat (mot_Acceleration c)),
        (''torque'', VFloat (mot_Torque c)), (''direction'', VInt (mot_Direction c)),
        (''enable'', VBool (mot_Enable c))])
       (MotorTaskNode c) []"

definition motor_executeSpecific :: "MotorCommand \<Rightarrow> tasknode \<Rightarrow> tasknode \<times> goerr option" where
  "motor_executeSpecific c n =
     (if mot_Action c \<in> set [''start'', ''stop'', ''set_speed'', ''set_position'']
      then (btn_SetMetadata ''action_type'' (VString ''motor_control'') n, None)
      else if mot_Action c = ''get_status''
      then (btn_SetMetadata ''action_type'' (VString ''motor_status_query'') n, None)
      else (n, Some (Errorf ''unsupported motor action: %s'' [AStr (mot_Action c)])))"

definition NewDelayTaskNode :: "int \<Rightarrow> string \<Rightarrow> DelayCommand \<Rightarrow> tasknode" where
  "NewDelayTaskNode now i c =
     TaskNode (NewBaseTaskNode now i CommandDelay
       [(''duration'', VDuration (dly_Duration c)), (''unit'', VString (dly_Unit c))])
       (DelayTaskNode c) []"

text \<open>The \<open>select\<close> between the context and the timer; \<open>cause\<close> is the context's error when it wins.\<close>

definition delay_executeSpecific :: "goerr option \<Rightarrow> tasknode \<Rightarrow> tasknode \<times> goerr option" where
  "delay_executeSpecific cause n = (btn_SetMetadata ''action_type'' (VString ''delay'') n, cause)"

text \<open>A sequence: its command's nodes are the children it is built with.\<close>

definition NewSequenceTaskNode :: "int \<Rightarrow> string \<Rightarrow> tasknode list \<Rightarrow> string \<Rightarrow> bool \<Rightarrow> tasknode" where
  "NewSequenceTaskNode now i nodes mode stopOnError =
     fold btn_AddChild nodes
       (TaskNode (NewBaseTaskNode now i CommandSequence
          [(''mode'', VString mode), (''stop_on_error'', VBool stopOnError),
           (''node_count'', VInt (int (length nodes)))])
          (SequenceTaskNode mode stopOnError) [])"

definition seq_prepare_child :: "tasknode \<Rightarrow> tasknode" where
  "seq_prepare_child c = (if tn_kind c = BaseTaskNode then btn_SetCancelFunc c else c)"

text \<open>Returns the children as far as they were executed, and the error that stopped the sequence.\<close>

fun executeSequential :: "bool \<Rightarrow> ctx \<Rightarrow> int \<Rightarrow> int \<Rightarrow> tasknode list \<Rightarrow> tasknode list \<times> goerr option" where
  "executeSequential stop ctx t1 t2 [] = ([], None)"
| "executeSequential stop ctx t1 t2 (c # cs) =
     (case btn_Execute ctx t1 t2 (seq_prepare_child c) of
        (c', Some e) \<Rightarrow>
          (if stop then (c' # cs, Some (Errorf ''sequence execution failed at node %s: %w'' [AStr (btn_GetID c), AErr e]))
           else map_prod ((#) c') id (executeSequential stop ctx t1 t2 cs))
      | (c', None) \<Rightarrow> map_prod ((#) c') id (executeSequential stop ctx t1 t2 cs))"

text \<open>All children run; their errors arrive in the order \<open>order\<close>, a permutation of the children.\<close>

definition executeParallel ::
  "nat list \<Rightarrow> bool \<Rightarrow> ctx \<Rightarrow> int \<Rightarrow> int \<Rightarrow> tasknode list \<Rightarrow> tasknode list \<times> goerr option" where
  "executeParallel order stop ctx t1 t2 cs =
     (let rs = map (\<lambda>c. btn_Execute ctx t1 t2 (seq_prepare_child c)) cs;
          errs = List.map_filter (\<lambda>i. snd (rs ! i)) order
      in (map fst rs,
          (case errs of
             e # _ \<Rightarrow> if stop then Some (Errorf ''parallel execution failed: %w'' [AErr e]) else None
           | [] \<Rightarrow> None)))"

definition seq_executeSpecific ::
  "nat list \<Rightarrow> string \<Rightarrow> bool \<Rightarrow> ctx \<Rightarrow> int \<Rightarrow> int \<Rightarrow> tasknode \<Rightarrow> tasknode \<times> goerr option" where
  "seq_executeSpecific order mode stop ctx t1 t2 n =
     (let n1 = btn_SetMetadata ''action_type'' (VString ''sequence'') n;
          put = (\<lambda>(cs, e). (TaskNode (tn_base n1) (tn_kind n1) cs, e))
      in if mode = ''sequential'' then put (executeSequential stop ctx t1 t2 (tn_children n1))
         else if mode = ''parallel'' then put (executeParallel order stop ctx t1 t2 (tn_children n1))
         else (n1, Some (Errorf ''unsupported sequence mode: %s'' [AStr mode])))"

definition NewConditionTaskNode :: "int \<Rightarrow> string \<Rightarrow> ConditionCommand \<Rightarrow> tasknode" where
  "NewConditionTaskNode now i c =
     TaskNode (NewBaseTaskNode now i CommandCondition
       [(''condition'', VString (cond_Condition c)), (''device_id'', VDeviceID (cond_DeviceID c)),
        (''channel'', VString (cond_Channel c)), (''target_value'', VFloat (cond_TargetValue c)),
        (''tolerance'', VFloat (cond_Tolerance c)), (''timeout'', VDuration (cond_Timeout c)),
        (''poll_interval'', VDuration (cond_PollInterval c))])
       (ConditionTaskNode c) []"

definition checkCondition :: "int \<Rightarrow> ConditionCommand \<Rightarrow> tasknode \<Rightarrow> tasknode \<times> bool" where
  "checkCondition now c n =
     (let n1 = btn_SetMetadata ''last_check'' (VTime now) n
      in if cond_Condition c = ''position_reached''
         then (btn_SetMetadata ''condition_result'' (VString ''simulated_position_check'') n1, True)
         else if cond_Condition c = ''io_state''
         then (btn_SetMetadata ''condition_result'' (VString ''simulated_io_check'') n1, True)
         else (n1, False))"

text \<open>
  The polling loop over the \<open>select\<close> cases taken, one after the other; \<open>None\<close> when they run out and the
  loop still waits.  A ticker with a non-positive interval panics.
\<close>

datatype poll_case = PollTimeout | PollCtx goerr | PollTick int

fun poll_condition :: "ConditionCommand \<Rightarrow> poll_case list \<Rightarrow> tasknode \<Rightarrow> (tasknode \<times> goerr option) option" where
  "poll_condition c [] n = None"
| "poll_condition c (PollTimeout # ps) n =
     Some (n, Some (Errorf ''condition timeout: %s'' [AStr (cond_Condition c)]))"
| "poll_condition c (PollCtx e # ps) n = Some (n, Some e)"
| "poll_condition c (PollTick now # ps) n =
     (case checkCondition now c n of
        (n', True) \<Rightarrow> Some (btn_SetMetadata ''condition_met'' (VBool True) n', None)
      | (n', False) \<Rightarrow> poll_condition c ps n')"

definition cond_executeSpecific ::
  "ConditionCommand \<Rightarrow> poll_case list \<Rightarrow> tasknode \<Rightarrow> (tasknode \<times> goerr option) exec option" where
  "cond_executeSpecific c ps n =
     (let n1 = btn_SetMetadata ''action_type'' (VString ''condition_check'') n
      in if cond_PollInterval c \<le> 0 then Some (Panic ''non-positive interval for NewTicker'')
         else map_option Ret (poll_condition c ps n1))"

section \<open>Lemmas\<close>

lemma tn_map_base_simps [simp]:
  "tn_base (tn_map_base f n) = f (tn_base n)" "tn_kind (tn_map_base f n) = tn_kind n"
  "tn_children (tn_map_base f n) = tn_children n"
  by (simp_all add: tn_map_base_def)

lemma btn_adopt_simps [simp]:
  "btn_GetID (btn_adopt p n) = btn_GetID n" "btn_GetType (btn_adopt p n) = btn_GetType n"
  "tn_children (btn_adopt p n) = tn_children n" "tn_kind (btn_adopt p n) = tn_kind n"
  by (simp_all add: btn_adopt_def btn_GetID_def btn_GetType_def)

lemma remove_node_append:
  "\<forall>c \<in> set cs. btn_GetID c \<noteq> i \<Longrightarrow> remove_node i (cs @ [n]) = (if btn_GetID n = i then Some cs else None)"
  by (induction cs) auto

lemma add_then_remove:
  assumes "\<forall>c \<in> set (tn_children n). btn_GetID c \<noteq> btn_GetID node"
  shows "btn_RemoveChild (btn_GetID node) (btn_AddChild node n) = (n, None)"
  using assms by (cases n) (simp add: btn_RemoveChild_def btn_AddChild_def remove_node_append)

lemma NewSequence_children:
  "tn_children (fold btn_AddChild nodes n) = tn_children n @ map (btn_adopt (btn_GetID n)) nodes \<and>
   btn_GetID (fold btn_AddChild nodes n) = btn_GetID n"
  by (induction nodes arbitrary: n) (simp_all add: btn_AddChild_def btn_GetID_def)

lemma btn_Execute_fails:
  "btn_Execute CtxLive t1 t2 n =
     (btn_SetStatus t2 StatusFailed (tn_map_base (\<lambda>b. b\<lparr>btn_startTime := t1, btn_status := StatusRunning\<rparr>) n),
      Some (Errorf ''executeSpecific must be implemented by concrete task nodes'' []))"
  by (simp add: btn_Execute_def btn_executeSpecific_def Let_def)

section \<open>Properties\<close>


text \<open>A sequence that stops on errors therefore stops at its first child; the others keep their state.\<close>

theorem sequence_stops_at_first_child:
  "snd (executeSequential True CtxLive t1 t2 (c # cs)) =
     Some (Errorf ''sequence execution failed at node %s: %w''
       [AStr (btn_GetID c), AErr (Errorf ''executeSpecific must be implemented by concrete task nodes'' [])]) \<and>
   tl (fst (executeSequential True CtxLive t1 t2 (c # cs))) = cs"
  by (simp add: btn_Execute_fails)

end
