(* ===== verification/GoFmt.thy ===== *)
theory GoFmt
  imports GoTypes
begin

text \<open>
  What the code uses of the packages \<open>fmt\<close>, \<open>time\<close> and \<open>strconv\<close> to render and parse values: \<open>%.2f\<close>
  and \<open>%f\<close> of a float, \<open>%v\<close> of a duration, the text of an error, \<open>strconv.Atoi\<close>.  The micro sign is the two bytes of its UTF-8 encoding.
\<close>

section \<open>Fixed-point rendering\<close>

text \<open>\<open>n / d\<close> rounded to the nearest integer, ties to even.\<close>

definition round_half_even :: "int \<Rightarrow> int \<Rightarrow> int" where
  "round_half_even n d =
     (let q = n div d; r = n mod d
      in if 2 * r < d then q else if d < 2 * r then q + 1 else if even q then q else q + 1)"

text \<open>The low \<open>p\<close> decimal digits of \<open>v\<close>, most significant first.\<close>

fun low_digits :: "nat \<Rightarrow> nat \<Rightarrow> string" where
  "low_digits 0 v = []"
| "low_digits (Suc p) v = low_digits p (v div 10) @ [digit_char (v mod 10)]"

definition fmt_fixed :: "nat \<Rightarrow> f64 \<Rightarrow> string" where
  "fmt_fixed p x =
     (case x of
        NaN \<Rightarrow> ''NaN'' | PInf \<Rightarrow> ''+Inf'' | NInf \<Rightarrow> ''-Inf''
      | Fin q \<Rightarrow>
          (let (n, d) = quotient_of (\<bar>q\<bar> * 10 ^ p); c = nat (round_half_even n d)
           in (if q < 0 then ''-'' else []) @ nat_dec (c div 10 ^ p) @ ''.'' @ low_digits p (c mod 10 ^ p)))"

definition fmt_f2 :: "f64 \<Rightarrow> string" where
  "fmt_f2 = fmt_fixed 2"

section \<open>Durations\<close>

fun strip_zeros :: "string \<Rightarrow> string" where
  "strip_zeros [] = []"
| "strip_zeros (c # cs) = (if c = CHR ''0'' then strip_zeros cs else c # cs)"

text \<open>\<open>.123\<close> without trailing zeros, nothing for zero.\<close>

definition fmt_frac :: "nat \<Rightarrow> nat \<Rightarrow> string" where
  "fmt_frac p v =
     (let ds = rev (strip_zeros (rev (low_digits p v))) in if ds = [] then [] else ''.'' @ ds)"

definition duration_string :: "Duration \<Rightarrow> string" where
  "duration_string d =
     (let u = nat \<bar>d\<bar>; sign = (if d < 0 then ''-'' else []) in
      if u = 0 then ''0s''
      else if u < 1000 then sign @ nat_dec u @ ''ns''
      else if u < 1000000 then sign @ nat_dec (u div 1000) @ fmt_frac 3 u @ [char_of (0xC2 :: nat), char_of (0xB5 :: nat)] @ ''s''
      else if u < 1000000000 then sign @ nat_dec (u div 1000000) @ fmt_frac 6 u @ ''ms''
      else
        let secs = u div 1000000000; frac = fmt_frac 9 u; mins = secs div 60
        in sign @
           (if mins = 0 then [] else
              (if mins div 60 = 0 then [] else nat_dec (mins div 60) @ ''h'') @ nat_dec (mins mod 60) @ ''m'') @
           nat_dec (secs mod 60) @ frac @ ''s'')"

section \<open>Error messages\<close>

text \<open>
  The text of an error: each verb of the format is replaced by its argument, floats with six decimals.
  Formats of the program hold no literal percent sign and as many verbs as arguments.
\<close>

fun expand :: "string \<Rightarrow> string list \<Rightarrow> string" where
  "expand (c # d # cs) (a # as) = (if c = CHR ''%'' then a @ expand cs as else c # expand (d # cs) (a # as))"
| "expand cs as = cs"

fun join_with :: "string \<Rightarrow> string list \<Rightarrow> string" where
  "join_with sep [] = []"
| "join_with sep [x] = x"
| "join_with sep (x # y # xs) = x @ sep @ join_with sep (y # xs)"

fun err_text :: "goerr \<Rightarrow> string"
  and arg_text :: "farg \<Rightarrow> string" where
  "err_text (Errorf f args) = expand f (map arg_text args)"
| "err_text CtxCanceled = ''context canceled''"
| "err_text CtxDeadlineExceeded = ''context deadline exceeded''"
| "arg_text (AStr s) = s"
| "arg_text (AInt n) = int_dec n"
| "arg_text (AFloat x) = fmt_fixed 6 x"
| "arg_text (AErr e) = err_text e"
| "arg_text (AErrs es) = ''['' @ join_with '' '' (map err_text es) @ '']''"

lemma err_text_example:
  "err_text (Errorf ''device %s: %w'' [AStr ''d1'', AErr (Errorf ''not found'' [])]) = ''device d1: not found''"
  by simp

section \<open>Parsing integers\<close>

definition is_digit :: "char \<Rightarrow> bool" where
  "is_digit c = (48 \<le> (of_char c :: nat) \<and> (of_char c :: nat) \<le> 57)"

text \<open>\<open>strconv.Atoi\<close>: an optional sign, then decimal digits, within \<open>int64\<close>; \<open>None\<close> is an error.\<close>

definition go_Atoi :: "string \<Rightarrow> int option" where
  "go_Atoi s =
     (let neg = (s \<noteq> [] \<and> hd s = CHR ''-'');
          ds = (if s \<noteq> [] \<and> (hd s = CHR ''-'' \<or> hd s = CHR ''+'') then tl s else s);
          n = (if neg then - int (dec_value 0 ds) else int (dec_value 0 ds))
      in if ds \<noteq> [] \<and> list_all is_digit ds \<and> - (2 ^ 63) \<le> n \<and> n < 2 ^ 63 then Some n else None)"

lemma nat_dec_all_digits: "list_all is_digit (nat_dec n)"
  unfolding list_all_iff
proof
  fix c assume "c \<in> set (nat_dec n)"
  then obtain d where "d < 10" "c = digit_char d" by (auto dest: nat_dec_digits)
  then show "is_digit c" by (simp add: is_digit_def)
qed

lemma nat_dec_neq_Nil [simp]: "nat_dec n \<noteq> []"
  by (subst nat_dec.simps) simp

lemma hd_nat_dec: "hd (nat_dec n) \<noteq> CHR ''-''" "hd (nat_dec n) \<noteq> CHR ''+''"
proof -
  have "is_digit (hd (nat_dec n))" using nat_dec_all_digits[of n] by (simp add: list_all_iff)
  then show "hd (nat_dec n) \<noteq> CHR ''-''" "hd (nat_dec n) \<noteq> CHR ''+''" by (auto simp: is_digit_def)
qed

lemma Atoi_int_dec: "- (2 ^ 63) \<le> n \<Longrightarrow> n < 2 ^ 63 \<Longrightarrow> go_Atoi (int_dec n) = Some n"
  by (auto simp: go_Atoi_def int_dec_def Let_def hd_nat_dec dec_value_nat_dec nat_dec_all_digits)

section \<open>Parsing durations\<close>

text \<open>
  \<open>time.ParseDuration\<close>: a sign, then numbers with a fraction and a unit, added up in 64 bits; \<open>None\<close> is
  an error.  The digits are read with the overflow tests of the library, and a fraction is scaled in
  floating point and truncated.
\<close>

fun leading_digits :: "string \<Rightarrow> string \<times> string" where
  "leading_digits [] = ([], [])"
| "leading_digits (c # cs) =
     (if is_digit c then (let (a, b) = leading_digits cs in (c # a, b)) else ([], c # cs))"

definition digit_value :: "char \<Rightarrow> int" where
  "digit_value c = of_char c - 48"

fun frac_value :: "int \<Rightarrow> int \<Rightarrow> string \<Rightarrow> int \<times> int" where
  "frac_value x scale [] = (x, scale)"
| "frac_value x scale (c # cs) =
     (let y = 10 * x + digit_value c
      in if x > (2 ^ 63 - 1) div 10 \<or> y > 2 ^ 63 then (x, scale) else frac_value y (10 * scale) cs)"

definition unit_value :: "string \<Rightarrow> int option" where
  "unit_value u =
     map_of [(''ns'', 1), (''us'', 1000),
             ([char_of (0xC2 :: nat), char_of (0xB5 :: nat)] @ ''s'', 1000),
             ([char_of (0xCE :: nat), char_of (0xBC :: nat)] @ ''s'', 1000),
             (''ms'', 1000000), (''s'', 1000000000), (''m'', 60000000000), (''h'', 3600000000000)] u"

definition f64_trunc :: "f64 \<Rightarrow> int" where
  "f64_trunc x = (case x of Fin q \<Rightarrow> rat_trunc q | _ \<Rightarrow> 0)"

text \<open>One number with its unit: its value and the rest of the input.\<close>

definition parse_unit :: "string \<Rightarrow> (int \<times> string) option" where
  "parse_unit s =
     (let (ip, s1) = leading_digits s;
          dot = (s1 \<noteq> [] \<and> hd s1 = CHR ''.'');
          (fp, s2) = (if dot then leading_digits (tl s1) else ([], s1));
          v = int (dec_value 0 ip);
          (f, scale) = frac_value 0 1 fp;
          u = takeWhile (\<lambda>c. c \<noteq> CHR ''.'' \<and> \<not> is_digit c) s2
      in if ip = [] \<and> fp = [] \<or> v > 2 ^ 63 then None
         else case unit_value u of
           None \<Rightarrow> None
         | Some unit \<Rightarrow>
             if v > 2 ^ 63 div unit then None
             else let v' = v * unit +
                        (if f > 0 then f64_trunc (f64_mul (f64_of_int f) (f64_div_const (f64_of_int unit) (of_int scale)))
                         else 0)
                  in if v' > 2 ^ 63 then None else Some (v', drop (length u) s2))"

text \<open>Every number consumes at least its unit, so the length of the input is fuel enough.\<close>

fun parse_units :: "nat \<Rightarrow> int \<Rightarrow> string \<Rightarrow> int option" where
  "parse_units n d [] = Some d"
| "parse_units 0 d (c # cs) = None"
| "parse_units (Suc n) d (c # cs) =
     (case parse_unit (c # cs) of
        None \<Rightarrow> None
      | Some (v, rest) \<Rightarrow> if d + v > 2 ^ 63 then None else parse_units n (d + v) rest)"

definition go_ParseDuration :: "string \<Rightarrow> Duration option" where
  "go_ParseDuration s =
     (let neg = (s \<noteq> [] \<and> hd s = CHR ''-'');
          s1 = (if s \<noteq> [] \<and> (hd s = CHR ''-'' \<or> hd s = CHR ''+'') then tl s else s)
      in if s1 = ''0'' then Some 0
         else if s1 = [] then None
         else case parse_units (length s1) 0 s1 of
           None \<Rightarrow> None
         | Some d \<Rightarrow> if neg then Some (- d) else if d > 2 ^ 63 - 1 then None else Some d)"

lemma leading_digits_append: "fst (leading_digits s) @ snd (leading_digits s) = s"
  by (induction s) (auto split: prod.splits)

lemma unit_value_nonempty: "unit_value u = Some n \<Longrightarrow> u \<noteq> []"
  by (auto simp: unit_value_def)

lemma parse_unit_shorter: "parse_unit s = Some (v, rest) \<Longrightarrow> length rest < length s"
proof -
  assume p: "parse_unit s = Some (v, rest)"
  define s1 where "s1 = snd (leading_digits s)"
  define s2 where "s2 = (if s1 \<noteq> [] \<and> hd s1 = CHR ''.'' then snd (leading_digits (tl s1)) else s1)"
  have "length s1 \<le> length s"
    using arg_cong[OF leading_digits_append[of s], of length] by (simp add: s1_def)
  moreover have "length s2 \<le> length s1"
    using arg_cong[OF leading_digits_append[of "tl s1"], of length] by (auto simp: s2_def)
  moreover from p obtain u where "u = takeWhile (\<lambda>c. c \<noteq> CHR ''.'' \<and> \<not> is_digit c) s2"
      "unit_value u \<noteq> None" "rest = drop (length u) s2"
    by (auto simp: parse_unit_def Let_def s1_def s2_def split: prod.splits if_splits option.splits)
  moreover from this have "length rest < length s2"
    using unit_value_nonempty by (cases s2) (auto simp: unit_value_def split: if_splits)
  ultimately show ?thesis by simp
qed

text \<open>More fuel than the length changes nothing.\<close>

lemma parse_units_fuel: "length s \<le> n \<Longrightarrow> length s \<le> m \<Longrightarrow> parse_units n d s = parse_units m d s"
proof (induction n d s arbitrary: m rule: parse_units.induct)
  case (3 n d c cs)
  then obtain m' where m: "m = Suc m'" by (cases m) auto
  show ?case
  proof (cases "parse_unit (c # cs)")
    case None
    then show ?thesis by (simp add: m)
  next
    case (Some p)
    obtain v rest where p: "p = (v, rest)" by (cases p)
    have "length rest < length (c # cs)" using parse_unit_shorter Some p by blast
    then show ?thesis using 3 Some p m by simp
  qed
qed auto

lemma parse_duration_examples:
  "go_ParseDuration ''10s'' = Some (10 * Second)"
  "go_ParseDuration ''1m30s'' = Some (90 * Second)"
  "go_ParseDuration ''10'' = None"
  by code_simp+

end
