(* ===== verification/Decomposer.thy ===== *)
theory Decomposer
  imports TaskNode GoFmt
begin

text \<open>
  From tasks to motion commands: \<open>TaskDecomposer\<close> (\<open>internal/core/decomposer.go\<close>) and
  \<open>TaskNodeDecomposer\<close> (\<open>internal/core/tasknode_decomposer.go\<close>).  The first plans through the interface
  \<open>TrajectoryPlanner\<close>, a record of functions here; the second walks a tree of nodes and reads their
  parameters with type assertions, which panic on a value of another dynamic type.
\<close>

section \<open>Task decomposer\<close>

record TrajectoryPoint =
  trp_Position :: Point
  trp_Velocity :: Velocity
  trp_Timestamp :: int

record TrajectoryPlanner =
  pln_PlanLinear :: "Point \<Rightarrow> Point \<Rightarrow> Velocity \<Rightarrow> Velocity \<Rightarrow> TrajectoryPoint list result"
  pln_PlanPointToPoint :: "Point \<Rightarrow> Point \<Rightarrow> Velocity \<Rightarrow> Velocity \<Rightarrow> TrajectoryPoint list result"

record TaskDecomposer =
  td_planner :: TrajectoryPlanner
  td_config :: SystemConfig

definition td_check_axis :: "SystemConfig \<Rightarrow> Task \<Rightarrow> AxisID \<Rightarrow> goerr option" where
  "td_check_axis cfg task axisID =
     (case gm_get (cfg_Axes cfg) axisID of
        None \<Rightarrow> Some (Errorf ''axis %s not found in configuration'' [AStr axisID])
      | Some ax \<Rightarrow>
          if f64_gt (vel_Linear (task_Velocity task)) (ax_MaxVelocity ax)
          then Some (Errorf ''velocity %f exceeds maximum for axis %s'' [AFloat (vel_Linear (task_Velocity task)), AStr axisID])
          else if task_Type task = CommandMoveTo \<and>
            (f64_lt (pt_X (task_Target task)) (ax_MinPosition ax) \<or> f64_gt (pt_X (task_Target task)) (ax_MaxPosition ax))
          then Some (Errorf ''target X position %f is out of bounds for axis %s'' [AFloat (pt_X (task_Target task)), AStr axisID])
          else None)"

definition td_ValidateTask :: "SystemConfig \<Rightarrow> Task option \<Rightarrow> goerr option" where
  "td_ValidateTask cfg t =
     (case t of
        None \<Rightarrow> Some (Errorf ''task cannot be nil'' [])
      | Some task \<Rightarrow>
          if task_Type task = [] then Some (Errorf ''task type cannot be empty'' [])
          else if task_Axes task = [] then Some (Errorf ''task must specify at least one axis'' [])
          else first_error (td_check_axis cfg task) (task_Axes task))"

text \<open>The configured axes a task names, in its order; the loops pass over the others.\<close>

definition axes_of :: "SystemConfig \<Rightarrow> Task \<Rightarrow> AxisConfig list" where
  "axes_of cfg task = List.map_filter (gm_get (cfg_Axes cfg)) (task_Axes task)"

definition axis_accel :: "AxisConfig \<Rightarrow> Velocity" where
  "axis_accel ax = \<lparr>vel_Linear = ax_MaxAcceleration ax, vel_Angular = f64_zero\<rparr>"

definition trajectory_commands :: "Task \<Rightarrow> AxisConfig \<Rightarrow> TrajectoryPoint list result \<Rightarrow> MotionCommand list" where
  "trajectory_commands task ax r =
     (case r of
        Err _ \<Rightarrow> []
      | Ok pts \<Rightarrow>
          map (\<lambda>p. zero_command\<lparr>cmd_DeviceID := ax_DeviceID ax, cmd_CommandType := task_Type task,
                     cmd_Position := trp_Position p, cmd_Velocity := trp_Velocity p,
                     cmd_Acceleration := axis_accel ax, cmd_Timestamp := trp_Timestamp p\<rparr>) pts)"

definition td_plannerPlanForAxis :: "TrajectoryPlanner \<Rightarrow> Task \<Rightarrow> Velocity \<Rightarrow> TrajectoryPoint list result" where
  "td_plannerPlanForAxis pl task accel = pln_PlanPointToPoint pl zero_point (task_Target task) (task_Velocity task) accel"

definition td_plannerPlanRelativeForAxis :: "TrajectoryPlanner \<Rightarrow> Task \<Rightarrow> Velocity \<Rightarrow> TrajectoryPoint list result" where
  "td_plannerPlanRelativeForAxis pl task accel = pln_PlanLinear pl zero_point (task_Target task) (task_Velocity task) accel"

definition td_decomposeMoveTo :: "TaskDecomposer \<Rightarrow> Task \<Rightarrow> MotionCommand list" where
  "td_decomposeMoveTo td task =
     concat (map (\<lambda>ax. trajectory_commands task ax (td_plannerPlanForAxis (td_planner td) task (axis_accel ax)))
       (axes_of (td_config td) task))"

definition td_decomposeMoveRelative :: "TaskDecomposer \<Rightarrow> Task \<Rightarrow> MotionCommand list" where
  "td_decomposeMoveRelative td task =
     concat (map (\<lambda>ax. trajectory_commands task ax (td_plannerPlanRelativeForAxis (td_planner td) task (axis_accel ax)))
       (axes_of (td_config td) task))"

definition f64_half :: f64 where
  "f64_half = Fin (1 / 2)"

definition home_command :: "AxisConfig \<Rightarrow> MotionCommand" where
  "home_command ax =
     zero_command\<lparr>cmd_DeviceID := ax_DeviceID ax, cmd_CommandType := CommandHome,
       cmd_Position := \<lparr>pt_X = ax_HomePosition ax, pt_Y = f64_zero, pt_Z = f64_zero\<rparr>,
       cmd_Velocity := \<lparr>vel_Linear = f64_mul (ax_MaxVelocity ax) f64_half, vel_Angular = f64_zero\<rparr>,
       cmd_Acceleration := \<lparr>vel_Linear = f64_mul (ax_MaxAcceleration ax) f64_half, vel_Angular = f64_zero\<rparr>\<rparr>"

definition stop_command :: "AxisConfig \<Rightarrow> MotionCommand" where
  "stop_command ax =
     zero_command\<lparr>cmd_DeviceID := ax_DeviceID ax, cmd_CommandType := CommandStop, cmd_Position := zero_point,
       cmd_Velocity := zero_velocity, cmd_Acceleration := zero_velocity\<rparr>"

definition jog_command :: "Task \<Rightarrow> AxisConfig \<Rightarrow> MotionCommand" where
  "jog_command task ax =
     zero_command\<lparr>cmd_DeviceID := ax_DeviceID ax, cmd_CommandType := CommandJog, cmd_Position := task_Target task,
       cmd_Velocity := task_Velocity task, cmd_Acceleration := axis_accel ax\<rparr>"

definition td_decomposeHome :: "SystemConfig \<Rightarrow> Task \<Rightarrow> MotionCommand list" where
  "td_decomposeHome cfg task = map home_command (axes_of cfg task)"

definition td_decomposeStop :: "SystemConfig \<Rightarrow> Task \<Rightarrow> MotionCommand list" where
  "td_decomposeStop cfg task = map stop_command (axes_of cfg task)"

definition td_decomposeJog :: "SystemConfig \<Rightarrow> Task \<Rightarrow> MotionCommand list" where
  "td_decomposeJog cfg task = map (jog_command task) (axes_of cfg task)"

text \<open>The loop that names, dates and limits the commands.\<close>

definition number_commands :: "int \<Rightarrow> Task \<Rightarrow> MotionCommand list \<Rightarrow> MotionCommand list" where
  "number_commands now task cmds =
     map (\<lambda>(i, c). c\<lparr>cmd_ID := task_ID task @ ''-cmd-'' @ nat_dec i, cmd_Timestamp := now,
                     cmd_Timeout := task_Timeout task\<rparr>) (enumerate 0 cmds)"

definition td_Decompose :: "TaskDecomposer \<Rightarrow> int \<Rightarrow> Task \<Rightarrow> MotionCommand list result" where
  "td_Decompose td now task =
     (case td_ValidateTask (td_config td) (Some task) of
        Some e \<Rightarrow> Err (Errorf ''task validation failed: %w'' [AErr e])
      | None \<Rightarrow>
          (let finish = (\<lambda>cmds. Ok (number_commands now task cmds)); cfg = td_config td
           in if task_Type task = CommandMoveTo then finish (td_decomposeMoveTo td task)
              else if task_Type task = CommandMoveRelative then finish (td_decomposeMoveRelative td task)
              else if task_Type task = CommandHome then finish (td_decomposeHome cfg task)
              else if task_Type task = CommandStop then finish (td_decomposeStop cfg task)
              else if task_Type task = CommandJog then finish (td_decomposeJog cfg task)
              else Err (Errorf ''unsupported task type: %s'' [AStr (task_Type task)])))"

section \<open>Task-node decomposer\<close>

text \<open>\<open>tnd_devices\<close>: the IDs of the devices that \<open>SetDevice\<close> has registered.\<close>

record TaskNodeDecomposer =
  tnd_config :: SystemConfig
  tnd_devices :: "DeviceID list"

definition NewTaskNodeDecomposer :: "SystemConfig \<Rightarrow> TaskNodeDecomposer" where
  "NewTaskNodeDecomposer cfg = \<lparr>tnd_config = cfg, tnd_devices = []\<rparr>"

definition tnd_SetDevice :: "DeviceID \<Rightarrow> TaskNodeDecomposer \<Rightarrow> TaskNodeDecomposer" where
  "tnd_SetDevice i tnd = tnd\<lparr>tnd_devices := i # tnd_devices tnd\<rparr>"

definition bad_assertion :: string where
  "bad_assertion = ''interface conversion''"

text \<open>\<open>if v, ok := m[k]; ok && v != nil { x = v.(T) }\<close> for strings and floats.\<close>

definition param_string :: "(string, goval) gomap \<Rightarrow> string \<Rightarrow> string exec" where
  "param_string m k =
     (case gm_get m k of
        None \<Rightarrow> Ret [] | Some VNil \<Rightarrow> Ret []
      | Some (VString s) \<Rightarrow> Ret s
      | Some _ \<Rightarrow> Panic bad_assertion)"

definition param_float :: "(string, goval) gomap \<Rightarrow> string \<Rightarrow> f64 exec" where
  "param_float m k =
     (case gm_get m k of
        None \<Rightarrow> Ret f64_zero | Some VNil \<Rightarrow> Ret f64_zero
      | Some (VFloat x) \<Rightarrow> Ret x
      | Some _ \<Rightarrow> Panic bad_assertion)"

definition param_device :: "(string, goval) gomap \<Rightarrow> DeviceID" where
  "param_device m =
     (case gm_get m ''device_id'' of
        Some (VString i) \<Rightarrow> i
      | Some (VDeviceID i) \<Rightarrow> i
      | _ \<Rightarrow> ''device-1'')"

definition point_of :: "(string, goval) gomap \<Rightarrow> Point exec" where
  "point_of m =
     ebind (param_float m ''x'') (\<lambda>x. ebind (param_float m ''y'') (\<lambda>y. ebind (param_float m ''z'') (\<lambda>z.
       Ret \<lparr>pt_X = x, pt_Y = y, pt_Z = z\<rparr>)))"

definition velocity_of :: "(string, goval) gomap \<Rightarrow> Velocity exec" where
  "velocity_of m =
     ebind (param_float m ''linear'') (\<lambda>l. ebind (param_float m ''angular'') (\<lambda>a.
       Ret \<lparr>vel_Linear = l, vel_Angular = a\<rparr>))"

fun axes_of_values :: "goval list \<Rightarrow> AxisID list exec" where
  "axes_of_values [] = Ret []"
| "axes_of_values (v # vs) =
     (case v of
        VNil \<Rightarrow> axes_of_values vs
      | VString a \<Rightarrow> ebind (axes_of_values vs) (\<lambda>as. Ret (a # as))
      | _ \<Rightarrow> Panic bad_assertion)"

text \<open>The task that \<open>decomposeMotionNode\<close> builds from a node's parameters.\<close>

definition motion_node_task :: "tasknode \<Rightarrow> Task exec" where
  "motion_node_task node =
     (let params = btn_GetParameters node;
          task = zero_task\<lparr>task_ID := btn_GetID node, task_Type := btn_GetType node, task_Parameters := params,
                           task_Timeout := 30 * Second\<rparr>
      in ebind (case gm_get params ''target'' of Some (VMap m) \<Rightarrow> point_of m | _ \<Rightarrow> Ret zero_point) (\<lambda>p.
         ebind (case gm_get params ''velocity'' of Some (VMap m) \<Rightarrow> velocity_of m | _ \<Rightarrow> Ret zero_velocity) (\<lambda>v.
         ebind (case gm_get params ''axes'' of Some (VList vs) \<Rightarrow> axes_of_values vs | _ \<Rightarrow> Ret []) (\<lambda>as.
           Ret (task\<lparr>task_Target := p, task_Velocity := v, task_Axes := as\<rparr>)))))"

definition tnd_move_commands :: "SystemConfig \<Rightarrow> int \<Rightarrow> Task \<Rightarrow> MotionCommand list" where
  "tnd_move_commands cfg now task =
     map (\<lambda>ax. zero_command\<lparr>cmd_DeviceID := ax_DeviceID ax, cmd_CommandType := task_Type task,
                 cmd_Position := task_Target task, cmd_Velocity := task_Velocity task,
                 cmd_Acceleration := axis_accel ax, cmd_Timestamp := now\<rparr>) (axes_of cfg task)"

definition tnd_decomposeMoveTo :: "SystemConfig \<Rightarrow> int \<Rightarrow> Task \<Rightarrow> MotionCommand list" where
  "tnd_decomposeMoveTo = tnd_move_commands"

definition tnd_decomposeMoveRelative :: "SystemConfig \<Rightarrow> int \<Rightarrow> Task \<Rightarrow> MotionCommand list" where
  "tnd_decomposeMoveRelative = tnd_move_commands"

definition tnd_decomposeHome :: "SystemConfig \<Rightarrow> Task \<Rightarrow> MotionCommand list" where
  "tnd_decomposeHome cfg task = map home_command (axes_of cfg task)"

definition tnd_decomposeStop :: "SystemConfig \<Rightarrow> Task \<Rightarrow> MotionCommand list" where
  "tnd_decomposeStop cfg task = map stop_command (axes_of cfg task)"

definition tnd_decomposeJog :: "SystemConfig \<Rightarrow> Task \<Rightarrow> MotionCommand list" where
  "tnd_decomposeJog cfg task = map (jog_command task) (axes_of cfg task)"

text \<open>The \<open>switch\<close> on the type, shared by legacy tasks and motion nodes; \<open>None\<close> is its default.\<close>

definition tnd_motion_commands :: "SystemConfig \<Rightarrow> int \<Rightarrow> Task \<Rightarrow> MotionCommand list option" where
  "tnd_motion_commands cfg now task =
     (if task_Type task = CommandMoveTo then Some (tnd_decomposeMoveTo cfg now task)
      else if task_Type task = CommandMoveRelative then Some (tnd_decomposeMoveRelative cfg now task)
      else if task_Type task = CommandHome then Some (tnd_decomposeHome cfg task)
      else if task_Type task = CommandStop then Some (tnd_decomposeStop cfg task)
      else if task_Type task = CommandJog then Some (tnd_decomposeJog cfg task)
      else None)"

definition tnd_decomposeLegacyTask :: "SystemConfig \<Rightarrow> int \<Rightarrow> Task \<Rightarrow> MotionCommand list result" where
  "tnd_decomposeLegacyTask cfg now task =
     (case tnd_motion_commands cfg now task of
        None \<Rightarrow> Err (Errorf ''unsupported legacy task type: %s'' [AStr (task_Type task)])
      | Some cmds \<Rightarrow> Ok (number_commands now task cmds))"

definition tnd_decomposeMotionNode :: "SystemConfig \<Rightarrow> int \<Rightarrow> tasknode \<Rightarrow> MotionCommand list result exec" where
  "tnd_decomposeMotionNode cfg now node =
     ebind (motion_node_task node) (\<lambda>task.
       Ret (case tnd_motion_commands cfg now task of
              None \<Rightarrow> Err (Errorf ''unsupported motion node type: %s'' [AStr (btn_GetType node)])
            | Some cmds \<Rightarrow> Ok cmds))"

text \<open>\<open>fmt_any\<close>: what \<open>%.2f\<close> prints for a value that is not a float.\<close>

definition fmt_value :: "(goval \<Rightarrow> string) \<Rightarrow> goval option \<Rightarrow> string" where
  "fmt_value fmt_any v = (case v of Some (VFloat x) \<Rightarrow> fmt_f2 x | Some w \<Rightarrow> fmt_any w | None \<Rightarrow> fmt_any VNil)"

definition tnd_decomposeIONode ::
  "(goval \<Rightarrow> string) \<Rightarrow> TaskNodeDecomposer \<Rightarrow> int \<Rightarrow> tasknode \<Rightarrow> MotionCommand list result exec" where
  "tnd_decomposeIONode fmt_any tnd now node =
     (let params = btn_GetParameters node; dev = param_device params in
      ebind (param_string params ''channel'') (\<lambda>channel.
      ebind (param_string params ''action'') (\<lambda>action.
        if dev \<notin> set (tnd_devices tnd) then Ret (Err (Errorf ''device %s not found'' [AStr dev]))
        else
          let cmd = zero_command\<lparr>cmd_ID := btn_GetID node @ ''-io'', cmd_DeviceID := dev,
                       cmd_CommandType := CommandIO, cmd_Timestamp := now, cmd_Timeout := 5 * Second\<rparr>
          in Ret (Ok [
            if action = ''set''
            then cmd\<lparr>cmd_Data := ''IO_SET:'' @ channel @ '':'' @ fmt_value fmt_any (gm_get params ''value'')\<rparr>
            else if action = ''read'' then cmd\<lparr>cmd_Data := ''IO_READ:'' @ channel\<rparr>
            else if action = ''toggle'' then cmd\<lparr>cmd_Data := ''IO_TOGGLE:'' @ channel\<rparr>
            else cmd]))))"

definition tnd_decomposeMotorNode ::
  "TaskNodeDecomposer \<Rightarrow> int \<Rightarrow> tasknode \<Rightarrow> MotionCommand list result exec" where
  "tnd_decomposeMotorNode tnd now node =
     (let params = btn_GetParameters node; dev = param_device params in
      ebind (param_string params ''motor_id'') (\<lambda>motorID.
      ebind (param_string params ''action'') (\<lambda>action.
        if dev \<notin> set (tnd_devices tnd) then Ret (Err (Errorf ''device %s not found'' [AStr dev]))
        else
          let cmd = zero_command\<lparr>cmd_ID := btn_GetID node @ ''-motor'', cmd_DeviceID := dev,
                       cmd_CommandType := CommandMotorControl, cmd_Timestamp := now, cmd_Timeout := 10 * Second\<rparr>
          in if action = ''start'' then Ret (Ok [cmd\<lparr>cmd_Data := ''MOTOR_START:'' @ motorID\<rparr>])
             else if action = ''stop'' then Ret (Ok [cmd\<lparr>cmd_Data := ''MOTOR_STOP:'' @ motorID\<rparr>])
             else if action = ''set_speed'' then
               ebind (param_float params ''speed'') (\<lambda>s.
                 Ret (Ok [cmd\<lparr>cmd_Data := ''MOTOR_SPEED:'' @ motorID @ '':'' @ fmt_f2 s\<rparr>]))
             else if action = ''set_position'' then
               (case gm_get params ''position'' of
                  Some (VMap m) \<Rightarrow>
                    ebind (point_of m) (\<lambda>p.
                      Ret (Ok [cmd\<lparr>cmd_Position := p,
                        cmd_Data := ''MOTOR_POS:'' @ motorID @ '':'' @ fmt_f2 (pt_X p) @ '','' @ fmt_f2 (pt_Y p) @ '','' @
                                    fmt_f2 (pt_Z p)\<rparr>]))
                | _ \<Rightarrow> Ret (Ok [cmd]))
             else Ret (Ok [cmd]))))"

definition tnd_decomposeMotorStatusNode ::
  "TaskNodeDecomposer \<Rightarrow> int \<Rightarrow> tasknode \<Rightarrow> MotionCommand list result exec" where
  "tnd_decomposeMotorStatusNode tnd now node =
     (let params = btn_GetParameters node; dev = param_device params in
      ebind (param_string params ''motor_id'') (\<lambda>motorID.
        if dev \<notin> set (tnd_devices tnd) then Ret (Err (Errorf ''device %s not found'' [AStr dev]))
        else Ret (Ok [zero_command\<lparr>cmd_ID := btn_GetID node @ ''-status'', cmd_DeviceID := dev,
                        cmd_CommandType := CommandMotorStatus, cmd_Timestamp := now, cmd_Timeout := 3 * Second,
                        cmd_Data := ''MOTOR_STATUS:'' @ motorID\<rparr>])))"

definition tnd_decomposeDelayNode :: "int \<Rightarrow> tasknode \<Rightarrow> MotionCommand list result exec" where
  "tnd_decomposeDelayNode now node =
     (case gm_get (btn_GetParameters node) ''duration'' of
        Some (VDuration d) \<Rightarrow>
          Ret (Ok [zero_command\<lparr>cmd_ID := btn_GetID node @ ''-delay'', cmd_DeviceID := ''system'',
                     cmd_CommandType := CommandDelay, cmd_Timestamp := now, cmd_Timeout := d,
                     cmd_Data := ''DELAY:'' @ duration_string d\<rparr>])
      | _ \<Rightarrow> Panic bad_assertion)"

text \<open>\<open>time.Duration(x) * time.Second\<close> for a float and for an \<open>int64\<close>.\<close>

definition seconds_of_float :: "(f64 \<Rightarrow> int) \<Rightarrow> f64 \<Rightarrow> Duration" where
  "seconds_of_float oob x = wrap64 (f64_to_int oob (- (2 ^ 63)) (2 ^ 63 - 1) x * Second)"

definition tnd_decomposeConditionNode ::
  "(f64 \<Rightarrow> int) \<Rightarrow> int \<Rightarrow> tasknode \<Rightarrow> MotionCommand list result exec" where
  "tnd_decomposeConditionNode oob now node =
     (let params = btn_GetParameters node in
      ebind (param_string params ''condition'') (\<lambda>condition.
        let timeout = (case gm_get params ''timeout'' of
                         Some (VDuration d) \<Rightarrow> d
                       | Some (VFloat x) \<Rightarrow> seconds_of_float oob x
                       | Some (VInt64 n) \<Rightarrow> wrap64 (n * Second)
                       | _ \<Rightarrow> 5 * Second)
        in Ret (Ok [zero_command\<lparr>cmd_ID := btn_GetID node @ ''-condition'', cmd_DeviceID := param_device params,
                     cmd_CommandType := CommandCondition, cmd_Timestamp := now, cmd_Timeout := timeout,
                     cmd_Data := ''CONDITION:'' @ condition\<rparr>])))"

definition motion_types :: "CommandType list" where
  "motion_types = [CommandMoveTo, CommandMoveRelative, CommandHome, CommandStop, CommandJog]"

fun tnd_decomposeTaskNode ::
  "(f64 \<Rightarrow> int) \<Rightarrow> (goval \<Rightarrow> string) \<Rightarrow> TaskNodeDecomposer \<Rightarrow> int \<Rightarrow> tasknode \<Rightarrow> MotionCommand list result exec"
  and tnd_decomposeSequenceNode ::
  "(f64 \<Rightarrow> int) \<Rightarrow> (goval \<Rightarrow> string) \<Rightarrow> TaskNodeDecomposer \<Rightarrow> int \<Rightarrow> tasknode list \<Rightarrow> MotionCommand list result exec"
where
  "tnd_decomposeTaskNode oob fmt_any tnd now (TaskNode b k cs) =
     (let node = TaskNode b k cs; ty = btn_nodeType b in
      if ty \<in> set motion_types then tnd_decomposeMotionNode (tnd_config tnd) now node
      else if ty = CommandIO then tnd_decomposeIONode fmt_any tnd now node
      else if ty = CommandMotorControl then tnd_decomposeMotorNode tnd now node
      else if ty = CommandMotorStatus then tnd_decomposeMotorStatusNode tnd now node
      else if ty = CommandDelay then tnd_decomposeDelayNode now node
      else if ty = CommandSequence \<or> ty = CommandParallel then tnd_decomposeSequenceNode oob fmt_any tnd now cs
      else if ty = CommandCondition then tnd_decomposeConditionNode oob now node
      else Ret (Err (Errorf ''unsupported task node type: %s'' [AStr ty])))"
| "tnd_decomposeSequenceNode oob fmt_any tnd now [] = Ret (Ok [])"
| "tnd_decomposeSequenceNode oob fmt_any tnd now (c # cs) =
     ebind (tnd_decomposeTaskNode oob fmt_any tnd now c) (\<lambda>r.
       case r of
         Err e \<Rightarrow> Ret (Err (Errorf ''failed to decompose child node %s: %w'' [AStr (btn_GetID c), AErr e]))
       | Ok cmds \<Rightarrow>
           ebind (tnd_decomposeSequenceNode oob fmt_any tnd now cs) (\<lambda>r'.
             Ret (case r' of Err e \<Rightarrow> Err e | Ok rest \<Rightarrow> Ok (cmds @ rest))))"

definition tnd_DecomposeTask ::
  "(f64 \<Rightarrow> int) \<Rightarrow> (goval \<Rightarrow> string) \<Rightarrow> TaskNodeDecomposer \<Rightarrow> int \<Rightarrow> Task \<Rightarrow> MotionCommand list result exec" where
  "tnd_DecomposeTask oob fmt_any tnd now task =
     (case task_RootNode task of
        None \<Rightarrow> Ret (tnd_decomposeLegacyTask (tnd_config tnd) now task)
      | Some rt \<Rightarrow> tnd_decomposeTaskNode oob fmt_any tnd now rt)"

fun tnd_validate :: "tasknode \<Rightarrow> goerr option"
  and tnd_validate_children :: "tasknode list \<Rightarrow> goerr option" where
  "tnd_validate (TaskNode b k cs) =
     (case btn_Validate (TaskNode b k cs) of
        Some e \<Rightarrow> Some (Errorf ''task node validation failed: %w'' [AErr e])
      | None \<Rightarrow> tnd_validate_children cs)"
| "tnd_validate_children [] = None"
| "tnd_validate_children (c # cs) =
     (case tnd_validate c of
        Some e \<Rightarrow> Some (Errorf ''child node %s validation failed: %w'' [AStr (btn_GetID c), AErr e])
      | None \<Rightarrow> tnd_validate_children cs)"

definition tnd_ValidateTaskNode :: "tasknode option \<Rightarrow> goerr option" where
  "tnd_ValidateTaskNode n =
     (case n of None \<Rightarrow> Some (Errorf ''task node cannot be nil'' []) | Some node \<Rightarrow> tnd_validate node)"

section \<open>Nodes from a configuration\<close>

definition create_io :: "int \<Rightarrow> (string, goval) gomap \<Rightarrow> tasknode exec" where
  "create_io now params =
     ebind (param_float params ''value'') (\<lambda>v. ebind (param_string params ''channel'') (\<lambda>ch.
     ebind (param_string params ''action'') (\<lambda>act.
       Ret (NewIOTaskNode now (''io-'' @ int_dec now)
         \<lparr>io_DeviceID = param_device params, io_Channel = ch, io_Action = act, io_Value = v,
          io_Threshold = f64_zero, io_Timeout = 5 * Second\<rparr>))))"

definition create_motor :: "int \<Rightarrow> (string, goval) gomap \<Rightarrow> tasknode exec" where
  "create_motor now params =
     ebind (param_float params ''speed'') (\<lambda>sp. ebind (param_string params ''motor_id'') (\<lambda>mid.
     ebind (param_string params ''action'') (\<lambda>act.
       Ret (NewMotorTaskNode now (''motor-'' @ int_dec now)
         \<lparr>mot_DeviceID = param_device params, mot_MotorID = mid, mot_Action = act, mot_Speed = sp,
          mot_Position = zero_point, mot_Acceleration = f64_zero, mot_Torque = f64_zero, mot_Direction = 0,
          mot_Enable = False\<rparr>))))"

text \<open>\<open>parse\<close> is \<open>time.ParseDuration\<close>, \<open>None\<close> standing for its error.\<close>

definition create_delay ::
  "(string \<Rightarrow> Duration option) \<Rightarrow> (f64 \<Rightarrow> int) \<Rightarrow> int \<Rightarrow> (string, goval) gomap \<Rightarrow> tasknode exec" where
  "create_delay parse oob now params =
     (let d = (case gm_get params ''duration'' of
                 Some (VDuration d) \<Rightarrow> d
               | Some (VString s) \<Rightarrow> (case parse s of Some d \<Rightarrow> d | None \<Rightarrow> Second)
               | Some (VFloat x) \<Rightarrow> seconds_of_float oob x
               | Some (VInt64 n) \<Rightarrow> wrap64 (n * Second)
               | _ \<Rightarrow> Second)
      in ebind (case gm_get params ''unit'' of
                  None \<Rightarrow> Ret ''s'' | Some VNil \<Rightarrow> Ret ''s'' | Some (VString u) \<Rightarrow> Ret u
                | Some _ \<Rightarrow> Panic bad_assertion) (\<lambda>u.
           Ret (NewDelayTaskNode now (''delay-'' @ int_dec now) \<lparr>dly_Duration = d, dly_Unit = u\<rparr>)))"

abbreviation vmap_size :: "(string \<times> goval) list \<Rightarrow> nat" where
  "vmap_size \<equiv> size_list (size_prod (\<lambda>_. 0) size)"

lemma gm_get_smaller: "gm_get m k = Some v \<Longrightarrow> size v < vmap_size m"
proof (induction m)
  case (Cons e m)
  then show ?case by (cases e) (auto simp: gm_get_def split: if_splits)
qed simp

text \<open>
  \<open>clock\<close> gives the time at which each node of the tree is made, by its position among the entries of
  the lists above it.
\<close>

function tnd_create ::
  "(string \<Rightarrow> Duration option) \<Rightarrow> (f64 \<Rightarrow> int) \<Rightarrow> (nat list \<Rightarrow> int) \<Rightarrow> nat list \<Rightarrow> string \<Rightarrow> (string \<times> goval) list \<Rightarrow>
   tasknode result exec"
  and tnd_create_children ::
  "(string \<Rightarrow> Duration option) \<Rightarrow> (f64 \<Rightarrow> int) \<Rightarrow> (nat list \<Rightarrow> int) \<Rightarrow> nat list \<Rightarrow> nat \<Rightarrow> goval list \<Rightarrow>
   tasknode list result exec"
where
  "tnd_create parse oob clock path nodeType params =
     (let now = clock path in
      if nodeType = CommandIO then ebind (create_io now params) (\<lambda>n. Ret (Ok n))
      else if nodeType = CommandMotorControl then ebind (create_motor now params) (\<lambda>n. Ret (Ok n))
      else if nodeType = CommandDelay then ebind (create_delay parse oob now params) (\<lambda>n. Ret (Ok n))
      else if nodeType = CommandSequence then
        (case gm_get params ''children'' of
           Some (VList vs) \<Rightarrow>
             ebind (tnd_create_children parse oob clock path 0 vs) (\<lambda>r.
               Ret (case r of
                      Err e \<Rightarrow> Err e
                    | Ok nodes \<Rightarrow> Ok (NewSequenceTaskNode now (''seq-'' @ int_dec now) nodes ''sequential'' True)))
         | _ \<Rightarrow> Ret (Ok (NewSequenceTaskNode now (''seq-'' @ int_dec now) [] ''sequential'' True)))
      else Ret (Err (Errorf ''unsupported task node type: %s'' [AStr nodeType])))"
| "tnd_create_children parse oob clock path i [] = Ret (Ok [])"
| "tnd_create_children parse oob clock path i (v # vs) =
     (case v of
        VMap m \<Rightarrow>
          ebind (param_string m ''type'') (\<lambda>ty.
            if ty = [] then tnd_create_children parse oob clock path (Suc i) vs
            else ebind (tnd_create parse oob clock (path @ [i]) ty m) (\<lambda>r.
              case r of
                Err e \<Rightarrow> Ret (Err e)
              | Ok n \<Rightarrow>
                  ebind (tnd_create_children parse oob clock path (Suc i) vs) (\<lambda>r'.
                    Ret (case r' of Err e \<Rightarrow> Err e | Ok ns \<Rightarrow> Ok (n # ns)))))
      | _ \<Rightarrow> tnd_create_children parse oob clock path (Suc i) vs)"
  by pat_completeness auto
termination
  by (relation "measure (case_sum (\<lambda>(_, _, _, _, _, m). vmap_size m) (\<lambda>(_, _, _, _, _, vs). size_list size vs))")
     (auto dest: gm_get_smaller)

definition tnd_CreateTaskNodeFromConfig ::
  "(string \<Rightarrow> Duration option) \<Rightarrow> (f64 \<Rightarrow> int) \<Rightarrow> (nat list \<Rightarrow> int) \<Rightarrow> string \<Rightarrow> (string, goval) gomap \<Rightarrow> tasknode result exec" where
  "tnd_CreateTaskNodeFromConfig parse oob clock nodeType params = tnd_create parse oob clock [] nodeType params"

end
