(* ===== verification/Application.thy ===== *)
theory Application
  imports Hal Executor Scheduler Trigger Decomposer
begin

text \<open>
  The application layer (\<open>internal/application\<close>): service coordination, task orchestration and business
  logic, each holding the layer below it.  Task orchestration runs two goroutines, one that moves
  tasks from the trigger's channel to the scheduler and one that starts the processing of every task
  the scheduler dispatches; a turn of each is a function here.
\<close>

section \<open>Service coordination\<close>

text \<open>The layer has an execution queue of its own, beside the one inside its command executor.\<close>

record ServiceCoordinationLayer =
  scl_hal :: HardwareAbstractionLayer
  scl_commandExecutor :: CommandExecutor
  scl_executionQueue :: ExecutionQueue

definition NewServiceCoordinationLayer :: "HardwareAbstractionLayer \<Rightarrow> SystemConfig \<Rightarrow> ServiceCoordinationLayer" where
  "NewServiceCoordinationLayer hal cfg =
     \<lparr>scl_hal = hal, scl_commandExecutor = NewCommandExecutor cfg,
      scl_executionQueue = NewExecutionQueue (cfg_QueueSize cfg)\<rparr>"

definition scl_connectHALDevices :: "ServiceCoordinationLayer \<Rightarrow> ServiceCoordinationLayer \<times> goerr option exec" where
  "scl_connectHALDevices scl = (scl, Ret None)"

text \<open>\<open>if err := f(); err != nil { return fmt.Errorf(fmt, err) }\<close>, then the rest.\<close>

definition check_error ::
  "string \<Rightarrow> ('s \<Rightarrow> 's \<times> goerr option exec) \<Rightarrow> ('s \<Rightarrow> 's \<times> goerr option exec) \<Rightarrow> 's \<Rightarrow> 's \<times> goerr option exec" where
  "check_error fm f g = and_then f (\<lambda>r s. case r of Some e \<Rightarrow> (s, Ret (Some (Errorf fm [AErr e]))) | None \<Rightarrow> g s)"

definition scl_Start :: "ServiceCoordinationLayer \<Rightarrow> ServiceCoordinationLayer \<times> goerr option exec" where
  "scl_Start =
     check_error ''failed to start execution queue: %w'' (on_part scl_executionQueue scl_executionQueue_update eq_Start)
    (check_error ''failed to start command executor: %w'' (on_part scl_commandExecutor scl_commandExecutor_update ce_Start)
    (check_error ''failed to connect HAL devices: %w'' scl_connectHALDevices
       (\<lambda>scl. (scl, Ret None))))"

definition scl_Stop :: "int \<Rightarrow> ServiceCoordinationLayer \<Rightarrow> ServiceCoordinationLayer \<times> goerr option exec" where
  "scl_Stop now =
     and_then (on_part scl_commandExecutor scl_commandExecutor_update (ce_Stop now)) (\<lambda>r1.
     and_then (on_part scl_executionQueue scl_executionQueue_update eq_Stop) (\<lambda>r2 scl.
       (scl, Ret (join_errors ''service coordination stop errors: %v''
          (wrap_error ''command executor stop error: %w'' r1 @ wrap_error ''execution queue stop error: %w'' r2)))))"

definition scl_ExecuteCommand ::
  "'h hardware_ops \<Rightarrow> (f64 \<Rightarrow> int) \<Rightarrow> int \<Rightarrow> MotionCommand \<Rightarrow> ServiceCoordinationLayer \<times> 'h \<Rightarrow>
   (ServiceCoordinationLayer \<times> 'h) \<times> goerr option exec" where
  "scl_ExecuteCommand ops oob now cmd sh =
     (let (scl, h) = sh in
      case hal_ExecuteCommand ops oob now cmd (scl_hal scl, h) of
        ((hal, h'), Some e) \<Rightarrow> ((scl\<lparr>scl_hal := hal\<rparr>, h'), Ret (Some e))
      | ((hal, h'), None) \<Rightarrow>
          (let (scl', r) = on_part scl_commandExecutor scl_commandExecutor_update (ce_ExecuteCommand now cmd) (scl\<lparr>scl_hal := hal\<rparr>)
           in ((scl', h'), r)))"

definition scl_ReadDevice ::
  "'h hardware_ops \<Rightarrow> DeviceID \<Rightarrow> string \<Rightarrow> ServiceCoordinationLayer \<Rightarrow> 'h \<Rightarrow> 'h \<times> device_reading result exec" where
  "scl_ReadDevice ops i reg scl h = hal_ReadDevice ops i reg (scl_hal scl) h"

definition scl_GetDeviceStatus :: "DeviceID \<Rightarrow> ServiceCoordinationLayer \<Rightarrow> DeviceStatus result" where
  "scl_GetDeviceStatus i scl = hal_GetDeviceStatus i (scl_hal scl)"

definition scl_GetAllDeviceStatuses :: "ServiceCoordinationLayer \<Rightarrow> (DeviceID, DeviceStatus) gomap" where
  "scl_GetAllDeviceStatuses scl = hal_GetAllDeviceStatuses (scl_hal scl)"

definition scl_AllocateDeviceResource ::
  "int \<Rightarrow> DeviceID \<Rightarrow> ServiceCoordinationLayer \<Rightarrow> ServiceCoordinationLayer \<times> goerr option" where
  "scl_AllocateDeviceResource now i = on_part scl_hal scl_hal_update (hal_AllocateResource now ''device'' i)"

definition scl_ReleaseDeviceResource ::
  "int \<Rightarrow> DeviceID \<Rightarrow> ServiceCoordinationLayer \<Rightarrow> ServiceCoordinationLayer \<times> goerr option" where
  "scl_ReleaseDeviceResource now i = on_part scl_hal scl_hal_update (hal_ReleaseResource now ''device'' i)"

definition scl_AllocateAxisResource ::
  "int \<Rightarrow> string \<Rightarrow> ServiceCoordinationLayer \<Rightarrow> ServiceCoordinationLayer \<times> goerr option" where
  "scl_AllocateAxisResource now i = on_part scl_hal scl_hal_update (hal_AllocateResource now ''axis'' i)"

definition scl_ReleaseAxisResource ::
  "int \<Rightarrow> string \<Rightarrow> ServiceCoordinationLayer \<Rightarrow> ServiceCoordinationLayer \<times> goerr option" where
  "scl_ReleaseAxisResource now i = on_part scl_hal scl_hal_update (hal_ReleaseResource now ''axis'' i)"

section \<open>Task orchestration\<close>

record TaskOrchestrationLayer =
  tol_serviceCoordination :: ServiceCoordinationLayer
  tol_taskScheduler :: TaskScheduler
  tol_taskDecomposer :: TaskNodeDecomposer
  tol_taskTrigger :: TaskTrigger

definition NewTaskOrchestrationLayer :: "ServiceCoordinationLayer \<Rightarrow> SystemConfig \<Rightarrow> TaskOrchestrationLayer" where
  "NewTaskOrchestrationLayer scl cfg =
     \<lparr>tol_serviceCoordination = scl, tol_taskScheduler = NewTaskScheduler,
      tol_taskDecomposer = NewTaskNodeDecomposer cfg, tol_taskTrigger = NewTaskTrigger cfg\<rparr>"

definition tol_Start :: "TaskOrchestrationLayer \<Rightarrow> TaskOrchestrationLayer \<times> goerr option exec" where
  "tol_Start =
     check_error ''failed to start task trigger: %w'' (on_part tol_taskTrigger tol_taskTrigger_update tt_Start)
    (check_error ''failed to start task scheduler: %w'' (on_part tol_taskScheduler tol_taskScheduler_update ts_Start)
       (\<lambda>tol. (tol, Ret None)))"

definition tol_Stop :: "TaskOrchestrationLayer \<Rightarrow> TaskOrchestrationLayer \<times> goerr option exec" where
  "tol_Stop =
     and_then (on_part tol_taskTrigger tol_taskTrigger_update tt_Stop) (\<lambda>r1.
     and_then (on_part tol_taskScheduler tol_taskScheduler_update ts_Stop) (\<lambda>r2 tol.
       (tol, Ret (join_errors ''task orchestration stop errors: %v''
          (wrap_error ''task trigger stop error: %w'' r1 @ wrap_error ''task scheduler stop error: %w'' r2)))))"

text \<open>Tasks enter the scheduler's store when they are handed over; the address is the task's identity.\<close>

definition ts_submit :: "Task \<Rightarrow> TaskScheduler \<Rightarrow> TaskScheduler \<times> goerr option" where
  "ts_submit t ts = ts_ScheduleTask (length (ts_store ts)) (ts_alloc t ts)"

definition tol_ScheduleTask :: "Task \<Rightarrow> TaskOrchestrationLayer \<Rightarrow> TaskOrchestrationLayer \<times> goerr option" where
  "tol_ScheduleTask t = on_part tol_taskScheduler tol_taskScheduler_update (ts_submit t)"

definition tol_TriggerTask :: "Task \<Rightarrow> TaskOrchestrationLayer \<Rightarrow> TaskOrchestrationLayer \<times> goerr option" where
  "tol_TriggerTask t = on_part tol_taskScheduler tol_taskScheduler_update (ts_submit t)"

definition tol_CancelTask :: "int \<Rightarrow> string \<Rightarrow> TaskOrchestrationLayer \<Rightarrow> TaskOrchestrationLayer \<times> goerr option" where
  "tol_CancelTask now i = on_part tol_taskScheduler tol_taskScheduler_update (ts_CancelTask now i)"

definition tol_PauseTask :: "string \<Rightarrow> TaskOrchestrationLayer \<Rightarrow> TaskOrchestrationLayer \<times> goerr option" where
  "tol_PauseTask i = on_part tol_taskScheduler tol_taskScheduler_update (ts_PauseTask i)"

definition tol_ResumeTask :: "string \<Rightarrow> TaskOrchestrationLayer \<Rightarrow> TaskOrchestrationLayer \<times> goerr option" where
  "tol_ResumeTask i = on_part tol_taskScheduler tol_taskScheduler_update (ts_ResumeTask i)"

definition tol_GetTaskStatus :: "string \<Rightarrow> TaskOrchestrationLayer \<Rightarrow> TaskStatus \<times> goerr option" where
  "tol_GetTaskStatus i tol = ts_GetTaskStatus i (tol_taskScheduler tol)"

text \<open>
  A turn of the goroutine that feeds the scheduler: \<open>None\<close> while the channel is empty, \<open>Some False\<close> when it is
  closed and drained and the loop ends.
\<close>

definition tol_forward_turn :: "TaskOrchestrationLayer \<Rightarrow> (TaskOrchestrationLayer \<times> bool) option" where
  "tol_forward_turn tol =
     (case ch_recv (tt_taskChan (tol_taskTrigger tol)) of
        None \<Rightarrow> None
      | Some (c, None) \<Rightarrow> Some (tol, False)
      | Some (c, Some t) \<Rightarrow>
          Some (fst (tol_ScheduleTask t (tol\<lparr>tol_taskTrigger := (tol_taskTrigger tol)\<lparr>tt_taskChan := c\<rparr>\<rparr>)), True))"

text \<open>Every command is tried; errors are logged.  A call that blocks or panics takes the goroutine with it.\<close>

fun each_command ::
  "(MotionCommand \<Rightarrow> 's \<Rightarrow> 's \<times> goerr option exec) \<Rightarrow> MotionCommand list \<Rightarrow> 's \<Rightarrow> 's \<times> unit exec" where
  "each_command f [] s = (s, Ret ())"
| "each_command f (c # cs) s = and_then (f c) (\<lambda>_. each_command f cs) s"

definition tol_processTask ::
  "'h hardware_ops \<Rightarrow> (f64 \<Rightarrow> int) \<Rightarrow> (goval \<Rightarrow> string) \<Rightarrow> int \<Rightarrow> Task \<Rightarrow> TaskOrchestrationLayer \<times> 'h \<Rightarrow>
   (TaskOrchestrationLayer \<times> 'h) \<times> unit exec" where
  "tol_processTask ops oob fmt_any now task th =
     (case tnd_DecomposeTask oob fmt_any (tol_taskDecomposer (fst th)) now task of
        Panic m \<Rightarrow> (th, Panic m)
      | Blocked \<Rightarrow> (th, Blocked)
      | Ret (Err e) \<Rightarrow> (th, Ret ())
      | Ret (Ok cmds) \<Rightarrow>
          each_command (\<lambda>cmd (tol, h).
              let ((scl, h'), r) = scl_ExecuteCommand ops oob now cmd (tol_serviceCoordination tol, h)
              in ((tol\<lparr>tol_serviceCoordination := scl\<rparr>, h'), r)) cmds th)"

section \<open>Business logic\<close>

record BusinessLogicLayer =
  bll_taskOrchestration :: TaskOrchestrationLayer

definition NewBusinessLogicLayer :: "TaskOrchestrationLayer \<Rightarrow> BusinessLogicLayer" where
  "NewBusinessLogicLayer tol = \<lparr>bll_taskOrchestration = tol\<rparr>"

definition bll_Start :: "BusinessLogicLayer \<Rightarrow> BusinessLogicLayer \<times> goerr option exec" where
  "bll_Start bll = (bll, Ret None)"

definition bll_Stop :: "BusinessLogicLayer \<Rightarrow> BusinessLogicLayer \<times> goerr option exec" where
  "bll_Stop bll = (bll, Ret None)"

definition bll_mapBusinessToCommandType :: "BusinessCommand \<Rightarrow> CommandType" where
  "bll_mapBusinessToCommandType cmd =
     (if cmd = CmdMove \<or> cmd = CmdMoveRelative then CommandMoveTo
      else if cmd = CmdHome then CommandHome
      else if cmd = CmdEmergencyStop then CommandStop
      else if cmd = CmdSelfCheck \<or> cmd = CmdSafetyCheck then CommandDelay
      else CommandDelay)"

definition bll_mapBusinessToPriority :: "BusinessCommand \<Rightarrow> TaskPriority" where
  "bll_mapBusinessToPriority cmd =
     (if cmd = CmdEmergencyStop then PriorityEmergency
      else if cmd = CmdSafetyCheck \<or> cmd = CmdSelfCheck then PriorityHigh
      else if cmd = CmdHome \<or> cmd = CmdMove then PriorityMedium
      else PriorityLow)"

definition bll_mapBusinessToTimeout :: "BusinessCommand \<Rightarrow> Duration" where
  "bll_mapBusinessToTimeout cmd =
     (if cmd = CmdEmergencyStop then 5 * Second
      else if cmd = CmdSafetyCheck \<or> cmd = CmdSelfCheck then 15 * Second
      else if cmd = CmdHome then 30 * Second
      else if cmd = CmdMove then 60 * Second
      else 30 * Second)"

definition bll_task :: "int \<Rightarrow> BusinessCommand \<Rightarrow> (string, goval) gomap \<Rightarrow> Task" where
  "bll_task now command params =
     zero_task\<lparr>task_ID := ''business-'' @ command @ ''-'' @ int_dec now,
               task_Type := bll_mapBusinessToCommandType command,
               task_Priority := bll_mapBusinessToPriority command,
               task_Status := StatusPending, task_Parameters := params, task_CreatedAt := now,
               task_Timeout := bll_mapBusinessToTimeout command\<rparr>"

text \<open>The returned pointer is the task's address in the scheduler's store.\<close>

definition bll_ExecuteBusinessCommand ::
  "int \<Rightarrow> BusinessCommand \<Rightarrow> (string, goval) gomap \<Rightarrow> BusinessLogicLayer \<Rightarrow> BusinessLogicLayer \<times> nat result" where
  "bll_ExecuteBusinessCommand now command params bll =
     (let a = length (ts_store (tol_taskScheduler (bll_taskOrchestration bll)));
          (bll', r) = on_part bll_taskOrchestration bll_taskOrchestration_update
                        (tol_ScheduleTask (bll_task now command params)) bll
      in (bll', case r of Some e \<Rightarrow> Err e | None \<Rightarrow> Ok a))"

text \<open>The high-level operations: one business command each, its error wrapped.\<close>

definition bll_simple ::
  "string \<Rightarrow> BusinessCommand \<Rightarrow> (string, goval) gomap \<Rightarrow> int \<Rightarrow> BusinessLogicLayer \<Rightarrow> BusinessLogicLayer \<times> goerr option" where
  "bll_simple what command params now bll =
     (case bll_ExecuteBusinessCommand now command params bll of
        (bll', Ok a) \<Rightarrow> (bll', None)
      | (bll', Err e) \<Rightarrow> (bll', Some (Errorf (what @ '' failed: %w'') [AErr e])))"

definition bll_SelfCheck :: "int \<Rightarrow> BusinessLogicLayer \<Rightarrow> BusinessLogicLayer \<times> goerr option" where
  "bll_SelfCheck = bll_simple ''self-check'' CmdSelfCheck [(''check_level'', VString ''comprehensive'')]"

definition bll_EmergencyStop :: "int \<Rightarrow> BusinessLogicLayer \<Rightarrow> BusinessLogicLayer \<times> goerr option" where
  "bll_EmergencyStop =
     bll_simple ''emergency stop'' CmdEmergencyStop [(''reason'', VString ''emergency_stop_triggered'')]"

definition bll_HomeSystem :: "int \<Rightarrow> BusinessLogicLayer \<Rightarrow> BusinessLogicLayer \<times> goerr option" where
  "bll_HomeSystem =
     bll_simple ''home system'' CmdHome
       [(''axes'', VStrings [''axis-x'', ''axis-y'', ''axis-z'']), (''mode'', VString ''standard'')]"

definition bll_InitializeSystem :: "int \<Rightarrow> BusinessLogicLayer \<Rightarrow> BusinessLogicLayer \<times> goerr option" where
  "bll_InitializeSystem =
     bll_simple ''system initialization'' CmdInitialize [(''mode'', VString ''full_initialization'')]"

definition bll_StartSystem :: "int \<Rightarrow> BusinessLogicLayer \<Rightarrow> BusinessLogicLayer \<times> goerr option" where
  "bll_StartSystem = bll_simple ''system start'' CmdInitialize [(''mode'', VString ''start_system'')]"

definition bll_StopSystem :: "int \<Rightarrow> BusinessLogicLayer \<Rightarrow> BusinessLogicLayer \<times> goerr option" where
  "bll_StopSystem = bll_simple ''system stop'' CmdReset [(''mode'', VString ''stop_system'')]"

definition bll_ResetSystem :: "int \<Rightarrow> BusinessLogicLayer \<Rightarrow> BusinessLogicLayer \<times> goerr option" where
  "bll_ResetSystem = bll_simple ''system reset'' CmdReset [(''mode'', VString ''full_reset'')]"

definition bll_SafetyCheck :: "int \<Rightarrow> BusinessLogicLayer \<Rightarrow> BusinessLogicLayer \<times> goerr option" where
  "bll_SafetyCheck = bll_simple ''safety check'' CmdSafetyCheck [(''check_type'', VString ''full_system'')]"

definition bll_GetSystemStatus :: "int \<Rightarrow> (string, goval) gomap" where
  "bll_GetSystemStatus now =
     [(''system_state'', VString ''operational''), (''timestamp'', VTime now),
      (''business_logic_layer'', VMap [(''status'', VString ''running'')])]"

section \<open>Commands to the business logic\<close>

definition error_response :: "int \<Rightarrow> string \<Rightarrow> string \<Rightarrow> BusinessResponse" where
  "error_response now req e =
     \<lparr>br_RequestID = req, br_Status = ''error'', br_Data = [], br_Error = e, br_Timestamp = now\<rparr>"

definition success_response :: "int \<Rightarrow> string \<Rightarrow> (string, goval) gomap \<Rightarrow> BusinessResponse" where
  "success_response now req d =
     \<lparr>br_RequestID = req, br_Status = ''success'', br_Data = d, br_Error = [], br_Timestamp = now\<rparr>"

definition bll_GetHandledCommands :: "BusinessCommand list" where
  "bll_GetHandledCommands =
     [CmdQueryStatus, CmdSelfCheck, CmdEmergencyStop, CmdHome, CmdInitialize, CmdSafetyCheck]"

definition bll_handleQueryStatus ::
  "int \<Rightarrow> BusinessMessage \<Rightarrow> BusinessLogicLayer \<Rightarrow> BusinessLogicLayer \<times> BusinessResponse" where
  "bll_handleQueryStatus now msg bll =
     (bll, success_response now (bm_RequestID msg) [(''system_status'', VMap (bll_GetSystemStatus now))])"

text \<open>The five handlers that make a task differ in the business command only.\<close>

definition bll_handle_task ::
  "BusinessCommand \<Rightarrow> int \<Rightarrow> BusinessMessage \<Rightarrow> BusinessLogicLayer \<Rightarrow> BusinessLogicLayer \<times> BusinessResponse" where
  "bll_handle_task command now msg bll =
     (case bll_ExecuteBusinessCommand now command (bm_Params msg) bll of
        (bll', Err e) \<Rightarrow> (bll', error_response now (bm_RequestID msg) (err_text e))
      | (bll', Ok a) \<Rightarrow>
          (let t = ts_task (tol_taskScheduler (bll_taskOrchestration bll')) a
           in (bll', success_response now (bm_RequestID msg)
                 [(''task_id'', VString (task_ID t)), (''task_status'', VStatus (task_Status t))])))"

definition bll_HandleCommand ::
  "int \<Rightarrow> BusinessMessage \<Rightarrow> BusinessLogicLayer \<Rightarrow> BusinessLogicLayer \<times> BusinessResponse" where
  "bll_HandleCommand now msg bll =
     (let c = bm_Command msg in
      if c = CmdQueryStatus then bll_handleQueryStatus now msg bll
      else if c = CmdSelfCheck then bll_handle_task CmdSelfCheck now msg bll
      else if c = CmdEmergencyStop then bll_handle_task CmdEmergencyStop now msg bll
      else if c = CmdHome then bll_handle_task CmdHome now msg bll
      else if c = CmdInitialize then bll_handle_task CmdInitialize now msg bll
      else if c = CmdSafetyCheck then bll_handle_task CmdSafetyCheck now msg bll
      else (bll, error_response now (bm_RequestID msg) (''business logic layer cannot handle command: '' @ c)))"

interpretation bll: command_handler bll_GetHandledCommands bll_HandleCommand
  by unfold_locales
     (auto simp: bll_HandleCommand_def bll_handleQueryStatus_def bll_handle_task_def Let_def success_response_def
        error_response_def bll_GetHandledCommands_def split: prod.splits result.splits)

end
