(* ===== verification/Management.thy ===== *)
theory Management
  imports Application
begin

text \<open>
  Command routing (\<open>internal/core/command_handler.go\<close>), the configuration handler
  (\<open>internal/management/config_handler.go\<close>) and the application manager
  (\<open>internal/management/application_manager.go\<close>), which starts the layers, answers business commands that
  arrive as IPC messages and runs two more task-moving goroutines.
\<close>

section \<open>Command router\<close>

text \<open>
  A handler is a reference \<open>'hd\<close>; the record gives its methods over the state \<open>'s\<close> that handlers share.
\<close>

record ('hd, 's) handler_ops =
  hop_GetHandledCommands :: "'hd \<Rightarrow> BusinessCommand list"
  hop_HandleCommand :: "'hd \<Rightarrow> int \<Rightarrow> BusinessMessage \<Rightarrow> 's \<Rightarrow> 's \<times> BusinessResponse"
  hop_GetName :: "'hd \<Rightarrow> string"

record 'hd CommandRouter =
  cr_handlers :: "(BusinessCommand, 'hd) gomap"

definition NewCommandRouter :: "'hd CommandRouter" where
  "NewCommandRouter = \<lparr>cr_handlers = []\<rparr>"

text \<open>A later registration of the same command wins; the conflict is only logged.\<close>

definition cr_RegisterHandler :: "('hd, 's) handler_ops \<Rightarrow> 'hd \<Rightarrow> 'hd CommandRouter \<Rightarrow> 'hd CommandRouter" where
  "cr_RegisterHandler ops h cr =
     fold (\<lambda>c cr. cr\<lparr>cr_handlers := gm_set c h (cr_handlers cr)\<rparr>) (hop_GetHandledCommands ops h) cr"

definition cr_UnregisterHandler :: "('hd, 's) handler_ops \<Rightarrow> 'hd \<Rightarrow> 'hd CommandRouter \<Rightarrow> 'hd CommandRouter" where
  "cr_UnregisterHandler ops h cr =
     fold (\<lambda>c cr. if gm_get (cr_handlers cr) c = Some h then cr\<lparr>cr_handlers := gm_del c (cr_handlers cr)\<rparr> else cr)
       (hop_GetHandledCommands ops h) cr"

definition cr_RouteCommand ::
  "('hd, 's) handler_ops \<Rightarrow> 'hd CommandRouter \<Rightarrow> int \<Rightarrow> BusinessMessage \<Rightarrow> 's \<Rightarrow> 's \<times> BusinessResponse" where
  "cr_RouteCommand ops cr now msg s =
     (case gm_get (cr_handlers cr) (bm_Command msg) of
        None \<Rightarrow> (s, error_response now (bm_RequestID msg) (''no handler registered for command: '' @ bm_Command msg))
      | Some h \<Rightarrow> hop_HandleCommand ops h now msg s)"

definition cr_GetRegisteredHandlers ::
  "('hd, 's) handler_ops \<Rightarrow> 'hd CommandRouter \<Rightarrow> (string, BusinessCommand list) gomap" where
  "cr_GetRegisteredHandlers ops cr =
     fold (\<lambda>(c, h) m. let n = hop_GetName ops h
                     in gm_set n ((case gm_get m n of None \<Rightarrow> [] | Some cs \<Rightarrow> cs) @ [c]) m) (cr_handlers cr) []"

lemma cr_get_register:
  "gm_get (cr_handlers (cr_RegisterHandler ops h cr)) c =
     (if c \<in> set (hop_GetHandledCommands ops h) then Some h else gm_get (cr_handlers cr) c)"
proof -
  have "gm_get (cr_handlers (fold (\<lambda>c cr. cr\<lparr>cr_handlers := gm_set c h (cr_handlers cr)\<rparr>) cs cr)) c =
      (if c \<in> set cs then Some h else gm_get (cr_handlers cr) c)" for cs
    by (induction cs arbitrary: cr) auto
  then show ?thesis by (simp add: cr_RegisterHandler_def)
qed

lemma cr_get_unregister:
  "gm_get (cr_handlers (cr_UnregisterHandler ops h cr)) c =
     (if c \<in> set (hop_GetHandledCommands ops h) \<and> gm_get (cr_handlers cr) c = Some h then None
      else gm_get (cr_handlers cr) c)"
proof -
  have "gm_get (cr_handlers (fold (\<lambda>c cr. if gm_get (cr_handlers cr) c = Some h
            then cr\<lparr>cr_handlers := gm_del c (cr_handlers cr)\<rparr> else cr) cs cr)) c =
      (if c \<in> set cs \<and> gm_get (cr_handlers cr) c = Some h then None else gm_get (cr_handlers cr) c)" for cs
    by (induction cs arbitrary: cr) auto
  then show ?thesis by (simp add: cr_UnregisterHandler_def)
qed

text \<open>A router whose handlers keep the contract keeps it too, for the commands it has entries for.\<close>

locale routed =
  fixes ops :: "('hd, 's) handler_ops"
  assumes each: "command_handler (hop_GetHandledCommands ops h) (hop_HandleCommand ops h)"
begin

lemma router_handler:
  assumes "\<forall>c. gm_get (cr_handlers cr) c \<noteq> None \<longleftrightarrow> c \<in> set cs"
  shows "command_handler cs (cr_RouteCommand ops cr)"
proof unfold_locales
  fix t msg s
  show "br_RequestID (snd (cr_RouteCommand ops cr t msg s)) = bm_RequestID msg"
    using each command_handler.response_id
    by (fastforce simp: cr_RouteCommand_def error_response_def split: option.split)
  show "br_Status (snd (cr_RouteCommand ops cr t msg s)) \<in> {''success'', ''error''}"
    using each command_handler.response_status
    by (fastforce simp: cr_RouteCommand_def error_response_def split: option.split)
  show "bm_Command msg \<notin> set cs \<Longrightarrow> fst (cr_RouteCommand ops cr t msg s) = s \<and>
      br_Status (snd (cr_RouteCommand ops cr t msg s)) = ''error''"
    using assms by (auto simp: cr_RouteCommand_def error_response_def split: option.split)
qed

end

section \<open>Configuration handler\<close>

definition cfh_GetHandledCommands :: "BusinessCommand list" where
  "cfh_GetHandledCommands = [CmdGetConfig, CmdSetConfig, CmdListTemplates]"

definition cfh_handleGetConfig :: "int \<Rightarrow> BusinessMessage \<Rightarrow> BusinessResponse" where
  "cfh_handleGetConfig now msg =
     success_response now (bm_RequestID msg)
       [(''config'', VMap
          [(''system'', VMap [(''name'', VString ''Motion Control System''), (''version'', VString ''1.0.0''),
                              (''status'', VString ''running'')]),
           (''ipc'', VMap [(''address'', VString ''127.0.0.1''), (''port'', VInt 18080)])])]"

definition cfh_handleSetConfig :: "int \<Rightarrow> BusinessMessage \<Rightarrow> BusinessResponse" where
  "cfh_handleSetConfig now msg =
     success_response now (bm_RequestID msg) [(''message'', VString ''Configuration update initiated'')]"

definition cfh_handleListTemplates :: "int \<Rightarrow> BusinessMessage \<Rightarrow> BusinessResponse" where
  "cfh_handleListTemplates now msg =
     success_response now (bm_RequestID msg)
       [(''templates'', VStrings [''home_all'', ''safety_check'', ''self_check'', ''emergency_stop''])]"

definition cfh_HandleCommand :: "int \<Rightarrow> BusinessMessage \<Rightarrow> 's \<Rightarrow> 's \<times> BusinessResponse" where
  "cfh_HandleCommand now msg s =
     (let c = bm_Command msg in
      if c = CmdGetConfig then (s, cfh_handleGetConfig now msg)
      else if c = CmdSetConfig then (s, cfh_handleSetConfig now msg)
      else if c = CmdListTemplates then (s, cfh_handleListTemplates now msg)
      else (s, error_response now (bm_RequestID msg) (''config handler cannot handle command: '' @ c)))"

interpretation cfh: command_handler cfh_GetHandledCommands cfh_HandleCommand
  by unfold_locales
     (auto simp: cfh_HandleCommand_def cfh_handleGetConfig_def cfh_handleSetConfig_def cfh_handleListTemplates_def
        Let_def success_response_def error_response_def cfh_GetHandledCommands_def)

section \<open>Application manager\<close>

text \<open>
  The manager's fields for the layers are references into the business logic's chain.  Its handlers
  are the business logic and the configuration handler.
\<close>

datatype am_handler = HBusinessLogic | HConfig

definition am_handler_ops :: "(am_handler, BusinessLogicLayer) handler_ops" where
  "am_handler_ops =
     \<lparr>hop_GetHandledCommands = case_am_handler bll_GetHandledCommands cfh_GetHandledCommands,
      hop_HandleCommand = case_am_handler bll_HandleCommand cfh_HandleCommand,
      hop_GetName = case_am_handler ''business_logic'' ''config''\<rparr>"

record ApplicationManager =
  am_businessLogic :: BusinessLogicLayer
  am_commandRouter :: "am_handler CommandRouter"

definition NewApplicationManager :: "SystemConfig \<Rightarrow> ApplicationManager" where
  "NewApplicationManager cfg =
     \<lparr>am_businessLogic = NewBusinessLogicLayer (NewTaskOrchestrationLayer
        (NewServiceCoordinationLayer (NewHardwareAbstractionLayer cfg) cfg) cfg),
      am_commandRouter = NewCommandRouter\<rparr>"

abbreviation am_taskOrchestration :: "ApplicationManager \<Rightarrow> TaskOrchestrationLayer" where
  "am_taskOrchestration am \<equiv> bll_taskOrchestration (am_businessLogic am)"

abbreviation am_serviceCoordination :: "ApplicationManager \<Rightarrow> ServiceCoordinationLayer" where
  "am_serviceCoordination am \<equiv> tol_serviceCoordination (am_taskOrchestration am)"

abbreviation am_hal :: "ApplicationManager \<Rightarrow> HardwareAbstractionLayer" where
  "am_hal am \<equiv> scl_hal (am_serviceCoordination am)"

definition am_put_tol :: "(TaskOrchestrationLayer \<Rightarrow> TaskOrchestrationLayer) \<Rightarrow> ApplicationManager \<Rightarrow> ApplicationManager" where
  "am_put_tol f = am_businessLogic_update (bll_taskOrchestration_update f)"

definition am_put_scl :: "(ServiceCoordinationLayer \<Rightarrow> ServiceCoordinationLayer) \<Rightarrow> ApplicationManager \<Rightarrow> ApplicationManager" where
  "am_put_scl f = am_put_tol (tol_serviceCoordination_update f)"

definition am_put_hal :: "(HardwareAbstractionLayer \<Rightarrow> HardwareAbstractionLayer) \<Rightarrow> ApplicationManager \<Rightarrow> ApplicationManager" where
  "am_put_hal f = am_put_scl (scl_hal_update f)"

definition am_connectDevicesToHAL :: "ApplicationManager \<Rightarrow> ApplicationManager \<times> goerr option" where
  "am_connectDevicesToHAL am = (am, None)"

definition am_setupCommandHandlers :: "ApplicationManager \<Rightarrow> ApplicationManager" where
  "am_setupCommandHandlers am =
     am\<lparr>am_commandRouter :=
        cr_RegisterHandler am_handler_ops HConfig
          (cr_RegisterHandler am_handler_ops HBusinessLogic (am_commandRouter am))\<rparr>"

definition am_SetupDependencies :: "ApplicationManager \<Rightarrow> ApplicationManager \<times> goerr option" where
  "am_SetupDependencies am =
     (case am_connectDevicesToHAL am of
        (am', Some e) \<Rightarrow> (am', Some (Errorf ''failed to connect devices to HAL: %w'' [AErr e]))
      | (am', None) \<Rightarrow> (am_setupCommandHandlers am', None))"

definition am_Start :: "int \<Rightarrow> ApplicationManager \<Rightarrow> ApplicationManager \<times> goerr option exec" where
  "am_Start now =
     check_error ''failed to start HAL: %w'' (on_part am_hal am_put_hal (\<lambda>hal. map_prod id Ret (hal_Start now hal)))
    (check_error ''failed to start service coordination layer: %w'' (on_part am_serviceCoordination am_put_scl scl_Start)
    (check_error ''failed to start task orchestration layer: %w'' (on_part am_taskOrchestration am_put_tol tol_Start)
    (check_error ''failed to start business logic layer: %w'' (on_part am_businessLogic am_businessLogic_update bll_Start)
       (\<lambda>am. (am, Ret None)))))"

definition am_Stop :: "int \<Rightarrow> ApplicationManager \<Rightarrow> ApplicationManager \<times> goerr option exec" where
  "am_Stop now =
     and_then (on_part am_businessLogic am_businessLogic_update bll_Stop) (\<lambda>r1.
     and_then (on_part am_taskOrchestration am_put_tol tol_Stop) (\<lambda>r2.
     and_then (on_part am_serviceCoordination am_put_scl (scl_Stop now)) (\<lambda>r3.
     and_then (on_part am_hal am_put_hal (\<lambda>hal. map_prod id Ret (hal_Stop hal))) (\<lambda>r4 am.
       (am, Ret (join_errors ''application stop errors: %v''
          (wrap_error ''business logic layer stop error: %w'' r1 @
           wrap_error ''task orchestration layer stop error: %w'' r2 @
           wrap_error ''service coordination layer stop error: %w'' r3 @
           wrap_error ''HAL stop error: %w'' r4)))))))"

text \<open>
  The manager's own task-moving goroutines compete with those of task orchestration for the same
  channels: this one hands the commands to the executor, past service coordination.
\<close>

definition am_processTask ::
  "(f64 \<Rightarrow> int) \<Rightarrow> (goval \<Rightarrow> string) \<Rightarrow> int \<Rightarrow> Task \<Rightarrow> ApplicationManager \<Rightarrow> ApplicationManager \<times> unit exec" where
  "am_processTask oob fmt_any now task am =
     (case tnd_DecomposeTask oob fmt_any (tol_taskDecomposer (am_taskOrchestration am)) now task of
        Panic m \<Rightarrow> (am, Panic m)
      | Blocked \<Rightarrow> (am, Blocked)
      | Ret (Err e) \<Rightarrow> (am, Ret ())
      | Ret (Ok cmds) \<Rightarrow>
          on_part am_serviceCoordination am_put_scl
            (on_part scl_commandExecutor scl_commandExecutor_update (each_command (ce_ExecuteCommand now) cmds)) am)"

text \<open>The turns of the goroutines that pick tasks up from the scheduler: the two kinds of processing.\<close>

definition am_take_task :: "ApplicationManager \<Rightarrow> (ApplicationManager \<times> Task option) option" where
  "am_take_task am =
     (let ts = tol_taskScheduler (am_taskOrchestration am) in
      case ch_recv (ts_taskChan ts) of
        None \<Rightarrow> None
      | Some (c, x) \<Rightarrow>
          Some (am_put_tol (tol_taskScheduler_update (ts_taskChan_update (\<lambda>_. c))) am, map_option (ts_task ts) x))"

section \<open>Business messages\<close>

definition am_parseBusinessMessage :: "int \<Rightarrow> IPCMessage \<Rightarrow> BusinessMessage result" where
  "am_parseBusinessMessage now message =
     (case gm_get (msg_Data message) ''command'' of
        Some (VString command) \<Rightarrow>
          Ok \<lparr>bm_Command = command,
              bm_Params = (case gm_get (msg_Data message) ''params'' of Some (VMap m) \<Rightarrow> m | _ \<Rightarrow> []),
              bm_RequestID = msg_ID message, bm_Source = msg_Source message, bm_Target = msg_Target message,
              bm_Timestamp = now\<rparr>
      | _ \<Rightarrow> Err (Errorf ''invalid business command format'' []))"

definition am_routeBusinessCommand ::
  "int \<Rightarrow> BusinessMessage \<Rightarrow> ApplicationManager \<Rightarrow> ApplicationManager \<times> BusinessResponse" where
  "am_routeBusinessCommand now msg am =
     on_part am_businessLogic am_businessLogic_update (cr_RouteCommand am_handler_ops (am_commandRouter am) now msg) am"

text \<open>What is handed to the IPC server's \<open>SendToClient\<close>, if anything is.\<close>

definition am_sendBusinessResponse :: "int \<Rightarrow> string \<Rightarrow> BusinessResponse \<Rightarrow> (string \<times> IPCMessage) option" where
  "am_sendBusinessResponse now target r =
     (if target = [] then None
      else Some (target,
        \<lparr>msg_Type = ''business_response'', msg_Source = ''control_system'', msg_Target = target,
         msg_Data = [(''request_id'', VString (br_RequestID r)), (''status'', VString (br_Status r)),
                     (''data'', VMap (br_Data r)), (''error'', VString (br_Error r))],
         msg_Timestamp = now, msg_ID = ''resp-'' @ int_dec now\<rparr>))"

definition am_sendBusinessErrorResponse :: "int \<Rightarrow> string \<Rightarrow> string \<Rightarrow> string \<Rightarrow> (string \<times> IPCMessage) option" where
  "am_sendBusinessErrorResponse now target req e = am_sendBusinessResponse now target (error_response now req e)"

text \<open>The goroutine that \<open>handleBusinessCommand\<close> starts: the manager afterwards, and the message sent.\<close>

definition am_handleBusinessCommand ::
  "int \<Rightarrow> IPCMessage \<Rightarrow> ApplicationManager \<Rightarrow> ApplicationManager \<times> (string \<times> IPCMessage) option" where
  "am_handleBusinessCommand now message am =
     (case am_parseBusinessMessage now message of
        Err e \<Rightarrow> (am, am_sendBusinessErrorResponse now (msg_Source message) [] (err_text e))
      | Ok msg \<Rightarrow>
          (let (am', r) = am_routeBusinessCommand now msg am
           in (am', am_sendBusinessResponse now (msg_Source message) r)))"

text \<open>The high-level operations are those of the business logic.\<close>

definition am_EmergencyStop :: "int \<Rightarrow> ApplicationManager \<Rightarrow> ApplicationManager \<times> goerr option" where
  "am_EmergencyStop now = on_part am_businessLogic am_businessLogic_update (bll_EmergencyStop now)"

definition am_SelfCheck :: "int \<Rightarrow> ApplicationManager \<Rightarrow> ApplicationManager \<times> goerr option" where
  "am_SelfCheck now = on_part am_businessLogic am_businessLogic_update (bll_SelfCheck now)"

definition am_HomeSystem :: "int \<Rightarrow> ApplicationManager \<Rightarrow> ApplicationManager \<times> goerr option" where
  "am_HomeSystem now = on_part am_businessLogic am_businessLogic_update (bll_HomeSystem now)"

definition am_InitializeSystem :: "int \<Rightarrow> ApplicationManager \<Rightarrow> ApplicationManager \<times> goerr option" where
  "am_InitializeSystem now = on_part am_businessLogic am_businessLogic_update (bll_InitializeSystem now)"

definition am_StartSystem :: "int \<Rightarrow> ApplicationManager \<Rightarrow> ApplicationManager \<times> goerr option" where
  "am_StartSystem now = on_part am_businessLogic am_businessLogic_update (bll_StartSystem now)"

definition am_StopSystem :: "int \<Rightarrow> ApplicationManager \<Rightarrow> ApplicationManager \<times> goerr option" where
  "am_StopSystem now = on_part am_businessLogic am_businessLogic_update (bll_StopSystem now)"

definition am_ResetSystem :: "int \<Rightarrow> ApplicationManager \<Rightarrow> ApplicationManager \<times> goerr option" where
  "am_ResetSystem now = on_part am_businessLogic am_businessLogic_update (bll_ResetSystem now)"

definition am_SafetyCheck :: "int \<Rightarrow> ApplicationManager \<Rightarrow> ApplicationManager \<times> goerr option" where
  "am_SafetyCheck now = on_part am_businessLogic am_businessLogic_update (bll_SafetyCheck now)"

definition am_GetSystemStatus :: "int \<Rightarrow> (string, goval) gomap" where
  "am_GetSystemStatus = bll_GetSystemStatus"

interpretation am_routed: routed am_handler_ops
proof (rule routed.intro)
  fix h
  show "command_handler (hop_GetHandledCommands am_handler_ops h) (hop_HandleCommand am_handler_ops h)"
    by (cases h) (simp_all add: am_handler_ops_def bll.command_handler_axioms cfh.command_handler_axioms)
qed

end
