(* ===== verification/SchedulerProps.thy ===== *)
theory SchedulerProps
  imports Scheduler
begin

text \<open>
  The scheduler: dispatch order, what the status query can report, what a cancellation does, the
  window between \<open>Size\<close> and \<open>Pop\<close>, start and stop.
\<close>

section \<open>Levels are ordered\<close>

fun level_rank :: "level \<Rightarrow> nat" where
  "level_rank Emergency = 0" | "level_rank High = 1" | "level_rank Medium = 2" | "level_rank Low = 3"

lemma level_rank_inject: "level_rank k = level_rank l \<Longrightarrow> k = l"
  by (cases k; cases l) simp_all

instantiation level :: linorder
begin

definition less_eq_level :: "level \<Rightarrow> level \<Rightarrow> bool" where "less_eq_level k l = (level_rank k \<le> level_rank l)"
definition less_level :: "level \<Rightarrow> level \<Rightarrow> bool" where "less_level k l = (level_rank k < level_rank l)"

instance
  by standard (auto simp: less_eq_level_def less_level_def intro: level_rank_inject)

end

lemma level_order [simp]:
  "Emergency \<le> l" "l \<le> Low" "High \<le> Medium" "Medium \<le> Low" "High \<le> Low"
  by (cases l; simp add: less_eq_level_def)+

lemma level_less [simp]:
  "\<not> l < Emergency" "l < High \<longleftrightarrow> l = Emergency" "l < Medium \<longleftrightarrow> l = Emergency \<or> l = High"
  "l < Low \<longleftrightarrow> l \<noteq> Low"
  by (cases l; simp add: less_level_def)+

section \<open>Dispatch order\<close>

definition ts_level :: "TaskScheduler \<Rightarrow> nat \<Rightarrow> level" where
  "ts_level ts a = level_of (task_Priority (ts_task ts a))"

text \<open>The order in which the queued tasks will leave.\<close>

definition ts_order :: "TaskScheduler \<Rightarrow> nat list" where
  "ts_order ts = concat (map (\<lambda>l. tq_tasks (ts_queue l ts)) [Emergency, High, Medium, Low])"

lemma ts_queue_put [simp]:
  "ts_queue k (ts_queue_put l q ts) = (if k = l then q else ts_queue k ts)"
  by (cases k; cases l) simp_all

lemma ts_queue_put_store [simp]: "ts_store (ts_queue_put l q ts) = ts_store ts"
  by (cases l) simp_all

lemma ts_getNextTask_order:
  "ts_getNextTask ts = (ts', r) \<Longrightarrow>
     (case r of None \<Rightarrow> ts_order ts = [] \<and> ts' = ts | Some a \<Rightarrow> ts_order ts = a # ts_order ts') \<and>
     ts_store ts' = ts_store ts"
  by (auto simp: ts_getNextTask_def ts_order_def tq_Size_def tq_Pop_def split: if_splits list.splits)

lemma ts_push_queue [simp]:
  "ts_queue l (ts_push p a ts) = (if level_of p = l then tq_Push a (ts_queue l ts) else ts_queue l ts)"
  by (cases l; cases p) (simp_all add: ts_push_def)

lemma ts_push_fields [simp]:
  "ts_store (ts_push p a ts) = ts_store ts" "ts_activeTasks (ts_push p a ts) = ts_activeTasks ts"
  "ts_taskChan (ts_push p a ts) = ts_taskChan ts" "ts_running (ts_push p a ts) = ts_running ts"
  "ts_waiting (ts_push p a ts) = ts_waiting ts" "ts_cancelled (ts_push p a ts) = ts_cancelled ts"
  by (simp_all add: ts_push_def split: TaskPriority.split)

lemma ts_upd_fields [simp]:
  "ts_queue l (ts_upd a f ts) = ts_queue l ts" "ts_activeTasks (ts_upd a f ts) = ts_activeTasks ts"
  "ts_taskChan (ts_upd a f ts) = ts_taskChan ts" "ts_running (ts_upd a f ts) = ts_running ts"
  "ts_waiting (ts_upd a f ts) = ts_waiting ts" "ts_cancelled (ts_upd a f ts) = ts_cancelled ts"
  "ts_ctxDone (ts_upd a f ts) = ts_ctxDone ts" "length (ts_store (ts_upd a f ts)) = length (ts_store ts)"
  by (cases l; simp add: ts_upd_def)+

lemma ts_task_upd:
  "ts_task (ts_upd a f ts) b = (if b = a \<and> a < length (ts_store ts) then f (ts_task ts a) else ts_task ts b)"
  by (auto simp: ts_task_def ts_upd_def list_update_beyond)

lemma ts_level_upd [simp]:
  "(\<And>t. task_Priority (f t) = task_Priority t) \<Longrightarrow> ts_level (ts_upd a f ts) = ts_level ts"
  by (auto simp: ts_level_def ts_task_upd)

lemma ts_level_push [simp]: "ts_level (ts_push p a ts) = ts_level ts"
  by (auto simp: ts_level_def ts_task_def)

text \<open>Scheduling one task after another, and dispatching \<open>n\<close> of them.\<close>

definition ts_schedule_all :: "nat list \<Rightarrow> TaskScheduler \<Rightarrow> TaskScheduler" where
  "ts_schedule_all as ts = fold (\<lambda>a ts. fst (ts_ScheduleTask a ts)) as ts"

fun ts_dispatch :: "nat \<Rightarrow> TaskScheduler \<Rightarrow> nat list" where
  "ts_dispatch 0 ts = []"
| "ts_dispatch (Suc n) ts =
     (case ts_getNextTask ts of (ts', None) \<Rightarrow> [] | (ts', Some a) \<Rightarrow> a # ts_dispatch n ts')"

lemma ts_dispatch_order: "ts_dispatch n ts = take n (ts_order ts)"
proof (induction n arbitrary: ts)
  case (Suc n)
  obtain ts' r where g: "ts_getNextTask ts = (ts', r)" by fastforce
  with ts_getNextTask_order[OF g] show ?case by (auto simp: Suc split: option.splits)
qed simp

lemma ts_ScheduleTask_queue:
  assumes "ts_running ts"
  shows "ts_queue l (fst (ts_ScheduleTask a ts)) =
      (if ts_level ts a = l then tq_Push a (ts_queue l ts) else ts_queue l ts)"
    and "ts_running (fst (ts_ScheduleTask a ts))"
    and "ts_level (fst (ts_ScheduleTask a ts)) = ts_level ts"
proof -
  have p: "task_Priority (ts_task (ts_upd a (task_Status_update g) ts) a) = task_Priority (ts_task ts a)" for g
    by (simp add: ts_task_upd)
  show "ts_queue l (fst (ts_ScheduleTask a ts)) =
      (if ts_level ts a = l then tq_Push a (ts_queue l ts) else ts_queue l ts)"
    "ts_running (fst (ts_ScheduleTask a ts))"
    "ts_level (fst (ts_ScheduleTask a ts)) = ts_level ts"
    using assms by (simp_all add: ts_ScheduleTask_def p) (simp add: ts_level_def)
qed

lemma ts_schedule_all_queue:
  "ts_running ts \<Longrightarrow> tq_tasks (ts_queue l (ts_schedule_all as ts)) =
     tq_tasks (ts_queue l ts) @ filter (\<lambda>a. ts_level ts a = l) as"
proof (induction as arbitrary: ts)
  case (Cons a as)
  note s = ts_ScheduleTask_queue[OF Cons.prems, where a = a]
  from Cons.IH[OF s(2)] show ?case
    by (simp add: ts_schedule_all_def s tq_Push_def)
qed (simp add: ts_schedule_all_def)

lemma sort_key_levels:
  "sort_key f as = concat (map (\<lambda>l. filter (\<lambda>a. f a = l) as) [Emergency, High, Medium, Low])"
proof (rule properties_for_sort_key)
  let ?c = "concat (map (\<lambda>l. filter (\<lambda>a. f a = l) as) [Emergency, High, Medium, Low])"
  show "mset ?c = mset as"
  proof (induction as)
    case (Cons a as)
    then show ?case by (cases "f a") auto
  qed simp
  show "sorted (map f ?c)"
    using sorted_map_same[of f] by (auto simp: sorted_append)
  show "filter (\<lambda>x. f k = f x) ?c = filter (\<lambda>x. f k = f x) as" if "k \<in> set ?c" for k
  proof -
    have "filter (\<lambda>x. f k = f x) (filter (\<lambda>a. f a = l) as) = (if f k = l then filter (\<lambda>x. f k = f x) as else [])" for l
      by (auto intro!: filter_cong simp: filter_empty_conv)
    then show ?thesis by (cases "f k") simp_all
  qed
qed

section \<open>Active tasks\<close>

text \<open>
  Every active entry is filed under its task's ID and is running or paused; no task of the store is
  ever completed.
\<close>

definition ts_wf :: "TaskScheduler \<Rightarrow> bool" where
  "ts_wf ts \<longleftrightarrow> gm_wf (ts_activeTasks ts) \<and>
     (\<forall>i a. gm_get (ts_activeTasks ts) i = Some a \<longrightarrow>
        a < length (ts_store ts) \<and> task_ID (ts_task ts a) = i \<and>
        task_Status (ts_task ts a) \<in> {StatusRunning, StatusPaused}) \<and>
     (\<forall>l. \<forall>a \<in> set (tq_tasks (ts_queue l ts)). a < length (ts_store ts)) \<and>
     (\<forall>a < length (ts_store ts). task_Status (ts_task ts a) \<noteq> StatusCompleted) \<and>
     ts_running ts \<and> length (ch_buf (ts_taskChan ts)) \<le> 100 \<and> ch_cap (ts_taskChan ts) = 100"

lemma ts_wf_fields [simp]:
  "ts_wf (ts\<lparr>ts_waiting := w\<rparr>) \<longleftrightarrow> ts_wf ts" "ts_wf (ts\<lparr>ts_cancelled := c\<rparr>) \<longleftrightarrow> ts_wf ts"
proof -
  have "ts_queue l (ts\<lparr>ts_waiting := w\<rparr>) = ts_queue l ts" "ts_queue l (ts\<lparr>ts_cancelled := c\<rparr>) = ts_queue l ts" for l
    by (cases l; simp)+
  then show "ts_wf (ts\<lparr>ts_waiting := w\<rparr>) \<longleftrightarrow> ts_wf ts" "ts_wf (ts\<lparr>ts_cancelled := c\<rparr>) \<longleftrightarrow> ts_wf ts"
    by (simp_all add: ts_wf_def ts_task_def)
qed

lemma ts_queue_other [simp]:
  "ts_queue l (ts\<lparr>ts_activeTasks := m\<rparr>) = ts_queue l ts" "ts_queue l (ts\<lparr>ts_taskChan := ch\<rparr>) = ts_queue l ts"
  "ts_queue l (ts_alloc t ts) = ts_queue l ts" "ts_queue l (ts\<lparr>ts_waiting := w\<rparr>) = ts_queue l ts"
  "ts_queue l (ts\<lparr>ts_cancelled := w\<rparr>) = ts_queue l ts"
  by (cases l; simp add: ts_alloc_def)+

lemma ts_task_other [simp]:
  "ts_task (ts\<lparr>ts_activeTasks := m\<rparr>) = ts_task ts" "ts_task (ts\<lparr>ts_taskChan := ch\<rparr>) = ts_task ts"
  "ts_task (ts\<lparr>ts_waiting := w\<rparr>) = ts_task ts" "ts_task (ts\<lparr>ts_cancelled := w\<rparr>) = ts_task ts"
  "ts_task (ts_push p a ts) = ts_task ts" "ts_task (ts_queue_put l q ts) = ts_task ts"
  by (simp_all add: ts_task_def fun_eq_iff)

lemma ts_queue_put_fields [simp]:
  "ts_activeTasks (ts_queue_put l q ts) = ts_activeTasks ts" "ts_taskChan (ts_queue_put l q ts) = ts_taskChan ts"
  "ts_running (ts_queue_put l q ts) = ts_running ts"
  by (cases l; simp)+

lemma ts_wf_upd_live [wf_intros]:
  assumes "ts_wf ts" "\<And>t. task_ID (f t) = task_ID t" "\<And>t. task_Status (f t) \<in> {StatusRunning, StatusPaused}"
  shows "ts_wf (ts_upd a f ts)"
proof -
  have "task_Status (f t) \<noteq> StatusCompleted" for t using assms(3)[of t] by auto
  then show ?thesis using assms unfolding ts_wf_def by (simp add: ts_task_upd)
qed

lemma ts_wf_upd_pending [wf_intros]:
  assumes "ts_wf ts" "\<And>t. task_ID (f t) = task_ID t" "a < length (ts_store ts) \<Longrightarrow> task_Status (f (ts_task ts a)) \<noteq> StatusCompleted"
    "gm_get (ts_activeTasks ts) (task_ID (ts_task ts a)) = None"
  shows "ts_wf (ts_upd a f ts)"
  using assms unfolding ts_wf_def by (auto simp: ts_task_upd)

lemma ts_wf_deactivate [wf_intros]:
  assumes "ts_wf ts" shows "ts_wf (ts\<lparr>ts_activeTasks := gm_del i (ts_activeTasks ts)\<rparr>)"
  using assms unfolding ts_wf_def by auto

lemma ts_wf_upd_gone [wf_intros]:
  assumes "ts_wf ts" "\<And>t. task_ID (f t) = task_ID t" "a < length (ts_store ts) \<Longrightarrow> task_Status (f (ts_task ts a)) \<noteq> StatusCompleted"
  shows "ts_wf ((ts_upd a f ts)\<lparr>ts_activeTasks := gm_del (task_ID (ts_task ts a)) (ts_activeTasks ts)\<rparr>)"
proof -
  let ?ts = "ts\<lparr>ts_activeTasks := gm_del (task_ID (ts_task ts a)) (ts_activeTasks ts)\<rparr>"
  have "ts_wf (ts_upd a f ?ts)"
    using assms ts_wf_deactivate[OF assms(1)] by (intro ts_wf_upd_pending) auto
  then show ?thesis by (cases ts) (simp add: ts_upd_def)
qed

lemma ts_wf_queue_put [wf_intros]:
  assumes "ts_wf ts" "set (tq_tasks q) \<subseteq> insert a (set (tq_tasks (ts_queue l ts)))" "a < length (ts_store ts)"
  shows "ts_wf (ts_queue_put l q ts)"
  using assms unfolding ts_wf_def by auto

lemma ts_wf_push [wf_intros]:
  assumes "ts_wf ts" "a < length (ts_store ts)" shows "ts_wf (ts_push p a ts)"
  using assms unfolding ts_wf_def by (auto simp: tq_Push_def)

text \<open>Each operation keeps it.\<close>

lemma ts_wf_ScheduleTask:
  assumes "ts_wf ts" "a < length (ts_store ts)" "gm_get (ts_activeTasks ts) (task_ID (ts_task ts a)) \<noteq> Some a"
  shows "ts_wf (fst (ts_ScheduleTask a ts))"
proof -
  have "ts_wf (ts_upd a (task_Status_update (\<lambda>_. StatusPending)) ts)"
    using assms unfolding ts_wf_def by (auto simp: ts_task_upd)
  then show ?thesis using assms ts_wf_push by (auto simp: ts_ScheduleTask_def Let_def)
qed

lemma ts_wf_alloc_schedule:
  assumes "ts_wf ts"
  shows "ts_wf (fst (ts_ScheduleTask (length (ts_store ts)) (ts_alloc t ts)))"
proof -
  let ?a = "length (ts_store ts)"
  let ?ts = "ts_upd ?a (task_Status_update (\<lambda>_. StatusPending)) (ts_alloc t ts)"
  have run: "ts_running (ts_alloc t ts)" using assms by (simp add: ts_alloc_def ts_wf_def)
  have "ts_task ?ts b = (if b = ?a then t\<lparr>task_Status := StatusPending\<rparr> else ts_task ts b)"
    if "b < length (ts_store ?ts)" for b
    using that by (auto simp: ts_task_def ts_upd_def ts_alloc_def nth_append)
  moreover have "ts_activeTasks ?ts = ts_activeTasks ts" "ts_running ?ts = ts_running ts"
    "ts_taskChan ?ts = ts_taskChan ts" "length (ts_store ?ts) = Suc ?a"
    by (simp_all add: ts_alloc_def)
  ultimately have "ts_wf ?ts" using assms unfolding ts_wf_def
    by (auto simp: less_Suc_eq intro: less_SucI)
  then show ?thesis using run ts_wf_push[of ?ts ?a] by (simp add: ts_ScheduleTask_def Let_def) (simp add: ts_alloc_def)
qed

text \<open>The clean-up of \<open>processQueues\<close> finds nothing: an active task has neither failed nor completed.\<close>

lemma ts_wf_processQueues:
  assumes "ts_wf ts" shows "ts_processQueues now ts = ts"
proof -
  have "\<not> ts_expired now (ts_task ts a)" if "(i, a) \<in> set (ts_activeTasks ts)" for i a
  proof -
    have "gm_get (ts_activeTasks ts) i = Some a" using assms that by (simp add: ts_wf_def gm_in_set_get)
    then have "task_Status (ts_task ts a) \<in> {StatusRunning, StatusPaused}" using assms by (simp add: ts_wf_def)
    then show ?thesis by (auto simp: ts_expired_def)
  qed
  then have "\<forall>a \<in> set as. \<not> ts_expired now (ts_task ts a)" if "as = map snd (ts_activeTasks ts)" for as
    using that by auto
  then have "fold (\<lambda>a ts. if ts_expired now (ts_task ts a)
                        then ts\<lparr>ts_activeTasks := gm_del (task_ID (ts_task ts a)) (ts_activeTasks ts)\<rparr>
                        else ts) as ts = ts" if "\<forall>a \<in> set as. \<not> ts_expired now (ts_task ts a)" for as
    using that by (induction as) simp_all
  then show ?thesis
    using \<open>\<And>as. as = map snd (ts_activeTasks ts) \<Longrightarrow> _\<close> by (simp add: ts_processQueues_def)
qed

lemma remove_first_set: "remove_first p xs = Some ys \<Longrightarrow> set ys \<subseteq> set xs"
  by (induction xs arbitrary: ys) (auto split: if_splits)

lemma remove_first_None: "remove_first p xs = None \<longleftrightarrow> (\<forall>x \<in> set xs. \<not> p x)"
  by (induction xs) auto

lemma remove_first_Some:
  "remove_first p xs = Some ys \<longleftrightarrow>
     (\<exists>us x vs. xs = us @ x # vs \<and> p x \<and> (\<forall>u \<in> set us. \<not> p u) \<and> ys = us @ vs)"
proof (induction xs arbitrary: ys)
  case (Cons x xs)
  show ?case
  proof
    assume r: "remove_first p (x # xs) = Some ys"
    show "\<exists>us z vs. x # xs = us @ z # vs \<and> p z \<and> (\<forall>u\<in>set us. \<not> p u) \<and> ys = us @ vs"
    proof (cases "p x")
      case True
      then show ?thesis using r by (intro exI[of _ "[]"] exI[of _ x] exI[of _ xs]) simp
    next
      case False
      then obtain zs where "remove_first p xs = Some zs" "ys = x # zs" using r by auto
      with Cons.IH[of zs] obtain us z vs where "xs = us @ z # vs" "p z" "\<forall>u\<in>set us. \<not> p u" "zs = us @ vs" by auto
      then show ?thesis using False \<open>ys = x # zs\<close> by (intro exI[of _ "x # us"] exI[of _ z] exI[of _ vs]) simp
    qed
  next
    assume "\<exists>us z vs. x # xs = us @ z # vs \<and> p z \<and> (\<forall>u\<in>set us. \<not> p u) \<and> ys = us @ vs"
    then obtain us z vs where *: "x # xs = us @ z # vs" "p z" "\<forall>u\<in>set us. \<not> p u" "ys = us @ vs" by blast
    then show "remove_first p (x # xs) = Some ys"
      using Cons.IH by (cases us) auto
  qed
qed simp

text \<open>A cancelled task that is still queued leaves the first queue that holds its ID.\<close>

lemma ts_remove_queued_cases:
  obtains l q where "ts_remove_queued i ts = (ts_queue_put l q ts, True)"
      "remove_first (\<lambda>a. task_ID (ts_task ts a) = i) (tq_tasks (ts_queue l ts)) = Some (tq_tasks q)"
      "\<forall>k < l. \<forall>a \<in> set (tq_tasks (ts_queue k ts)). task_ID (ts_task ts a) \<noteq> i"
  | "ts_remove_queued i ts = (ts, False)"
      "\<forall>l. \<forall>a \<in> set (tq_tasks (ts_queue l ts)). task_ID (ts_task ts a) \<noteq> i"
proof -
  let ?r = "\<lambda>l. remove_first (\<lambda>a. task_ID (ts_task ts a) = i) (tq_tasks (ts_queue l ts))"
  have all: "(\<forall>l. P l) \<longleftrightarrow> P Emergency \<and> P High \<and> P Medium \<and> P Low" for P
    by (metis level.exhaust)
  note defs = ts_remove_queued_def tq_Remove_def Let_def
  consider (e) ys where "?r Emergency = Some ys"
    | (h) ys where "?r Emergency = None" "?r High = Some ys"
    | (m) ys where "?r Emergency = None" "?r High = None" "?r Medium = Some ys"
    | (l) ys where "?r Emergency = None" "?r High = None" "?r Medium = None" "?r Low = Some ys"
    | (n) "\<forall>l. ?r l = None"
    unfolding all by fastforce
  then show ?thesis
  proof cases
    case e
    then show ?thesis by (intro that(1)[of Emergency "(ts_queue Emergency ts)\<lparr>tq_tasks := ys\<rparr>"]) (simp_all add: defs)
  next
    case h
    then show ?thesis by (intro that(1)[of High "(ts_queue High ts)\<lparr>tq_tasks := ys\<rparr>"])
        (auto simp: defs dest: remove_first_None[THEN iffD1] split: option.split)
  next
    case m
    then show ?thesis by (intro that(1)[of Medium "(ts_queue Medium ts)\<lparr>tq_tasks := ys\<rparr>"])
        (auto simp: defs dest: remove_first_None[THEN iffD1] split: option.split)
  next
    case l
    then show ?thesis by (intro that(1)[of Low "(ts_queue Low ts)\<lparr>tq_tasks := ys\<rparr>"])
        (auto simp: defs all dest: remove_first_None[THEN iffD1] split: option.split)
  next
    case n
    then show ?thesis by (intro that(2)) (auto simp: all defs dest: remove_first_None[THEN iffD1])
  qed
qed

lemma ts_wf_CancelTask:
  assumes "ts_wf ts" shows "ts_wf (fst (ts_CancelTask now i ts))"
proof (cases "gm_get (ts_activeTasks ts) i")
  case None
  show ?thesis
  proof (cases rule: ts_remove_queued_cases[of i ts])
    case (1 l q)
    have "ts_wf (ts_queue_put l q ts)"
    proof -
      have "set (tq_tasks q) \<subseteq> set (tq_tasks (ts_queue l ts))" using remove_first_set 1(2) by blast
      then show ?thesis using assms unfolding ts_wf_def by auto
    qed
    then show ?thesis using 1 None by (simp add: ts_CancelTask_def)
  qed (use assms None in \<open>simp add: ts_CancelTask_def\<close>)
next
  case (Some a)
  let ?f = "\<lambda>t. t\<lparr>task_Status := StatusCancelled, task_CompletedAt := Some now\<rparr>"
  have i: "task_ID (ts_task ts a) = i" using assms Some by (simp add: ts_wf_def)
  have "ts_wf ((ts_upd a ?f r)\<lparr>ts_activeTasks := gm_del i (ts_activeTasks ts)\<rparr>)"
    if "ts_wf r" "ts_task r = ts_task ts" "ts_activeTasks r = ts_activeTasks ts" for r
    using ts_wf_upd_gone[OF that(1), of ?f a] that(2,3) i by simp
  from this[of ts] this[of "ts\<lparr>ts_cancelled := a # ts_cancelled ts\<rparr>"] assms Some show ?thesis
    by (auto simp: ts_CancelTask_def Let_def)
qed

lemma ts_wf_executeTask:
  assumes "ts_wf ts" "a < length (ts_store ts)"
  shows "ts_wf (fst (ts_executeTask now a ts))"
proof -
  let ?i = "task_ID (ts_task ts a)"
  let ?f = "\<lambda>t. t\<lparr>task_Status := StatusRunning, task_StartedAt := Some now, task_CancelFunc := True\<rparr>"
  let ?g = "\<lambda>t. t\<lparr>task_Status := StatusFailed, task_Error := ''task channel full'', task_CompletedAt := Some now\<rparr>"
  let ?t = "ts_upd a ?f (ts\<lparr>ts_activeTasks := gm_set ?i a (ts_activeTasks ts)\<rparr>)"
  have t: "ts_wf ?t" using assms unfolding ts_wf_def by (auto simp: ts_task_upd)
  have i: "task_ID (ts_task ?t a) = ?i" by (simp add: ts_task_upd)
  have "ts_wf ((ts_upd a ?g ?t)\<lparr>ts_activeTasks := gm_del ?i (ts_activeTasks ?t)\<rparr>)"
    using ts_wf_upd_gone[OF t, of ?g a] i by simp
  moreover have "ts_wf (?t\<lparr>ts_taskChan := c\<rparr>)" if "length (ch_buf c) \<le> 100" "ch_cap c = 100" for c
    using t that unfolding ts_wf_def by simp
  ultimately show ?thesis using t
    by (auto simp: ts_executeTask_def Let_def ch_try_send_def ts_wf_def)
qed

lemma ts_wf_task_done:
  assumes "ts_wf ts" shows "ts_wf (ts_task_done now err a ts)"
proof (cases "gm_has (ts_activeTasks ts) (task_ID (ts_task ts a))")
  case True
  let ?i = "task_ID (ts_task ts a)" and ?w = "ts\<lparr>ts_waiting := remove1 a (ts_waiting ts)\<rparr>"
  let ?h = "\<lambda>t. (if err = CtxDeadlineExceeded then t\<lparr>task_Status := StatusFailed, task_Error := ''task timeout''\<rparr> else t)
      \<lparr>task_CompletedAt := Some now\<rparr>"
  have "ts_wf ((ts_upd a ?h ?w)\<lparr>ts_activeTasks := gm_del ?i (ts_activeTasks ?w)\<rparr>)"
    using assms ts_wf_upd_gone[of ?w ?h a] by (simp add: ts_wf_def)
  moreover have "ts_task_done now err a ts = (ts_upd a ?h ?w)\<lparr>ts_activeTasks := gm_del ?i (ts_activeTasks ?w)\<rparr>"
    using True by (cases "a < length (ts_store ts)")
      (auto simp: ts_task_done_def Let_def ts_upd_def list_update_beyond)
  ultimately show ?thesis by simp
qed (use assms in \<open>simp add: ts_task_done_def\<close>)

text \<open>The invariant of the whole: a popped task is an object of the store.\<close>

definition ts_inv :: "sched_pc \<Rightarrow> TaskScheduler \<Rightarrow> bool" where
  "ts_inv pc ts \<longleftrightarrow> ts_wf ts \<and> (\<forall>a. pc = AtExecute a \<longrightarrow> a < length (ts_store ts))"

lemma ts_store_grows:
  "length (ts_store (fst (ts_HandleEvent now e ts))) \<ge> length (ts_store ts)"
  "length (ts_store (fst (ts_CancelTask now i ts))) = length (ts_store ts)"
  "length (ts_store (fst (ts_PauseTask i ts))) = length (ts_store ts)"
  "length (ts_store (fst (ts_ResumeTask i ts))) = length (ts_store ts)"
  "length (ts_store (ts_task_done now err a ts)) = length (ts_store ts)"
proof -
  have fld: "length (ts_store (fold (\<lambda>a ts. if P a ts then ts\<lparr>ts_activeTasks := g a ts\<rparr> else ts) as ts)) = length (ts_store ts)"
    for P g as and ts :: TaskScheduler by (induction as arbitrary: ts) auto
  show "length (ts_store (fst (ts_HandleEvent now e ts))) \<ge> length (ts_store ts)"
    by (auto simp: ts_HandleEvent_def ts_ScheduleTask_def ts_alloc_def ts_processQueues_def fld Let_def
        split: Event.split event_data.split)
  show "length (ts_store (fst (ts_CancelTask now i ts))) = length (ts_store ts)"
    by (cases rule: ts_remove_queued_cases[of i ts]) (auto simp: ts_CancelTask_def Let_def split: option.split)
qed (auto simp: ts_PauseTask_def ts_ResumeTask_def ts_task_done_def Let_def split: option.split)

lemma ts_wf_HandleEvent: "ts_wf ts \<Longrightarrow> ts_wf (fst (ts_HandleEvent now e ts))"
  by (auto simp: ts_HandleEvent_def ts_wf_processQueues ts_wf_alloc_schedule split: Event.split event_data.split)

lemma ts_wf_Pause_Resume:
  "ts_wf ts \<Longrightarrow> ts_wf (fst (ts_PauseTask i ts))" "ts_wf ts \<Longrightarrow> ts_wf (fst (ts_ResumeTask i ts))"
  by (auto simp: ts_PauseTask_def ts_ResumeTask_def ts_wf_upd_live split: option.split)

lemma ts_inv_step:
  assumes "ts_step (pc, ts) (pc', ts')" "ts_inv pc ts" shows "ts_inv pc' ts'"
  using assms
proof (cases rule: ts_step.cases)
  case (step_pop l a q)
  have "set (tq_tasks q) \<subseteq> set (tq_tasks (ts_queue l ts))" "a \<in> set (tq_tasks (ts_queue l ts))"
    using step_pop by (auto simp: tq_Pop_def split: list.splits)
  then show ?thesis using step_pop assms(2) unfolding ts_inv_def ts_wf_def by auto
next
  case (step_execute now a)
  then show ?thesis using ts_wf_executeTask[of ts a now] assms(2) by (simp add: ts_inv_def)
next
  case (step_crash now a m)
  then show ?thesis using ts_wf_executeTask[of ts a now] assms(2) by (simp add: ts_inv_def)
next
  case (step_event now e r)
  then show ?thesis using ts_wf_HandleEvent[of ts now e] ts_store_grows(1)[of ts now e] assms(2) by (auto simp: ts_inv_def)
next
  case (step_cancel now i r)
  then show ?thesis using ts_wf_CancelTask[of ts now i] ts_store_grows(2)[of now i ts] assms(2) by (auto simp: ts_inv_def)
next
  case (step_pause i r)
  then show ?thesis using ts_wf_Pause_Resume(1)[of ts i] ts_store_grows(3)[of i ts] assms(2) by (auto simp: ts_inv_def)
next
  case (step_resume i r)
  then show ?thesis using ts_wf_Pause_Resume(2)[of ts i] ts_store_grows(4)[of i ts] assms(2) by (auto simp: ts_inv_def)
next
  case (step_recv c x)
  then have "length (ch_buf c) \<le> length (ch_buf (ts_taskChan ts))" "ch_cap c = ch_cap (ts_taskChan ts)"
    by (auto simp: ch_recv_def split: list.splits if_splits)
  then show ?thesis using step_recv assms(2) unfolding ts_inv_def ts_wf_def by auto
qed (auto simp: ts_inv_def ts_wf_task_done ts_store_grows)

lemma ts_reachable_inv: "ts_reachable pc ts \<Longrightarrow> ts_inv pc ts"
proof (induction rule: ts_reachable.induct)
  case reach_init
  have "tq_tasks (ts_queue l (fst (ts_Start NewTaskScheduler))) = []" for l
    by (cases l; simp add: ts_Start_def NewTaskScheduler_def NewTaskQueue_def)
  then show ?case by (auto simp: ts_inv_def ts_wf_def ts_Start_def NewTaskScheduler_def)
qed (use ts_inv_step in blast)

section \<open>Start and stop\<close>

interpretation ts_life: lifecycle "\<lambda>_. True" ts_running "\<lambda>ts. \<not> ch_closed (ts_taskChan ts)" ts_Start ts_Stop
  by unfold_locales (auto simp: ts_Start_def ts_Stop_def ch_close_def Let_def)

section \<open>Properties\<close>

text \<open>C8. Tasks scheduled while the loop is not looking leave by priority level, and within a level in the
  order they came: the four queues and \<open>getNextTask\<close> implement a stable sort by level.\<close>

theorem ts_dispatch_sorted:
  assumes "ts_running ts" "ts_order ts = []"
  shows "ts_dispatch (length as) (ts_schedule_all as ts) = sort_key (ts_level ts) as"
proof -
  have empty: "tq_tasks (ts_queue l ts) = []" for l
    using assms(2) by (cases l) (simp_all add: ts_order_def)
  have "ts_order (ts_schedule_all as ts) = sort_key (ts_level ts) as"
    unfolding ts_order_def sort_key_levels
    by (simp add: ts_schedule_all_queue[OF assms(1)] empty del: ts_queue.simps)
  then show ?thesis by (simp add: ts_dispatch_order)
qed

definition demo_task :: "string \<Rightarrow> TaskPriority \<Rightarrow> Task" where
  "demo_task i p = zero_task\<lparr>task_ID := i, task_Type := CommandStop, task_Priority := p, task_Timeout := Second\<rparr>"

definition demo_sched :: TaskScheduler where
  "demo_sched = (fst (ts_Start NewTaskScheduler))\<lparr>ts_store :=
     [demo_task ''a'' PriorityLow, demo_task ''b'' (PriorityOther 7), demo_task ''c'' PriorityEmergency,
      demo_task ''d'' PriorityMedium]\<rparr>"

lemma ts_dispatch_sorted_witness:
  "ts_dispatch 4 (ts_schedule_all [0, 1, 2, 3] demo_sched) = [2, 1, 3, 0]"
proof -
  have four: "4 = length [0, 1, 2, 3 :: nat]" by simp
  show ?thesis
    unfolding four
    by (subst ts_dispatch_sorted)
       (simp_all add: demo_sched_def ts_Start_def NewTaskScheduler_def NewTaskQueue_def ts_order_def ts_level_def
        ts_task_def demo_task_def less_eq_level_def)
qed


text \<open>C23. No run of the scheduler ever marks a task completed: \<open>executeTask\<close> hands the task to a channel and
  nothing reports back, so a task ends cancelled, failed (by its own time limit or a full channel) or
  stays running.\<close>

theorem ts_never_completed:
  assumes "ts_reachable pc ts" "a < length (ts_store ts)"
  shows "task_Status (ts_task ts a) \<noteq> StatusCompleted"
  using ts_reachable_inv[OF assms(1)] assms(2) unfolding ts_inv_def ts_wf_def by metis

text \<open>The clean-up that a timer tick runs never removes anything.\<close>

theorem ts_cleanup_is_idle:
  assumes "ts_reachable pc ts" "ev_Type e = EventTypeTimerTick"
  shows "ts_HandleEvent now e ts = (ts, None)"
  using ts_reachable_inv[OF assms(1)] assms(2)
  by (simp add: ts_HandleEvent_def ts_inv_def ts_wf_processQueues)

text \<open>Cancelling a task that is not active removes the first queued task of that ID, in dispatch
  order, and nothing else; the task object keeps its status.  It fails exactly when no queue holds the ID.\<close>

theorem ts_CancelTask_queued:
  assumes "gm_get (ts_activeTasks ts) i = None"
  shows "(case ts_CancelTask now i ts of
            (ts', None) \<Rightarrow> ts_store ts' = ts_store ts \<and>
              (\<exists>us a vs. ts_order ts = us @ a # vs \<and> ts_order ts' = us @ vs \<and> task_ID (ts_task ts a) = i \<and>
                 i \<notin> (\<lambda>u. task_ID (ts_task ts u)) ` set us)
          | (ts', Some e) \<Rightarrow> ts' = ts \<and> i \<notin> (\<lambda>a. task_ID (ts_task ts a)) ` set (ts_order ts))"
proof (cases rule: ts_remove_queued_cases[of i ts])
  case (1 l q)
  obtain us a vs where *: "tq_tasks (ts_queue l ts) = us @ a # vs" "task_ID (ts_task ts a) = i"
    "\<forall>u \<in> set us. task_ID (ts_task ts u) \<noteq> i" "tq_tasks q = us @ vs"
    using 1(2) unfolding remove_first_Some by blast
  let ?before = "concat (map (\<lambda>k. tq_tasks (ts_queue k ts)) (filter (\<lambda>k. k < l) [Emergency, High, Medium, Low]))"
  let ?after = "concat (map (\<lambda>k. tq_tasks (ts_queue k ts)) (filter (\<lambda>k. l < k) [Emergency, High, Medium, Low]))"
  define B C where "B = ?before @ us" and "C = vs @ ?after"
  have "ts_order ts = B @ a # C" "ts_order (ts_queue_put l q ts) = B @ C"
    using * unfolding B_def C_def by (cases l; auto simp: ts_order_def less_level_def simp del: level_less)+
  moreover have "i \<notin> (\<lambda>u. task_ID (ts_task ts u)) ` set B"
    using *(3) 1(3) unfolding B_def by (auto simp del: filter.simps ts_queue.simps level_less)
  moreover have "ts_CancelTask now i ts = (ts_queue_put l q ts, None)"
    using 1(1) assms by (simp add: ts_CancelTask_def)
  ultimately show ?thesis using *(2) by auto
next
  case 2
  then show ?thesis using assms by (auto simp: ts_CancelTask_def ts_order_def) (metis ts_queue.simps)+
qed

definition demo_request :: "string \<Rightarrow> TaskPriority \<Rightarrow> Event" where
  "demo_request i p = NewTaskEvent 0 EventTypeTaskRequest ''demo'' i [] (EvTask (demo_task i p)) None"

definition demo_run :: TaskScheduler where
  "demo_run = fst (ts_HandleEvent 0 (demo_request ''t'' PriorityLow) (fst (ts_Start NewTaskScheduler)))"

lemmas demo_defs = demo_run_def demo_request_def demo_task_def ts_Start_def NewTaskScheduler_def NewTaskQueue_def
  ts_HandleEvent_def NewTaskEvent_def NewBaseEvent_def ev_Type_def ts_alloc_def ts_ScheduleTask_def ts_upd_def
  ts_push_def tq_Push_def ts_task_def

lemma demo_run_queues:
  "tq_tasks (ts_queue l demo_run) = (if l = Low then [0] else [])" "ts_running demo_run"
  "\<not> ts_ctxDone demo_run" "gm_get (ts_activeTasks demo_run) i = None" "task_ID (ts_task demo_run 0) = ''t''"
  by (cases l; simp add: demo_defs)+

lemma demo_run_reachable: "ts_reachable (AtPop Low) demo_run"
proof -
  let ?s = "fst (ts_Start NewTaskScheduler)"
  have "ts_reachable AtLoop demo_run"
    unfolding demo_run_def by (rule reach_step[OF reach_init]) (rule step_event[OF prod.collapse[symmetric]])
  from reach_step[OF this step_look] have "ts_reachable (AtSize [Emergency, High, Medium, Low]) demo_run"
    by (simp add: demo_run_queues)
  from reach_step[OF this step_size0] have "ts_reachable (AtSize [High, Medium, Low]) demo_run"
    by (simp add: tq_Size_def demo_run_queues del: ts_queue.simps)
  from reach_step[OF this step_size0] have "ts_reachable (AtSize [Medium, Low]) demo_run"
    by (simp add: tq_Size_def demo_run_queues del: ts_queue.simps)
  from reach_step[OF this step_size0] have "ts_reachable (AtSize [Low]) demo_run"
    by (simp add: tq_Size_def demo_run_queues del: ts_queue.simps)
  from reach_step[OF this step_size] show ?thesis
    by (simp add: tq_Size_def demo_run_queues del: ts_queue.simps)
qed

text \<open>A goroutine that waits in \<open>Pop\<close> moves only when its own queue is filled.\<close>

lemma ts_step_pop_waits:
  assumes "ts_step (AtPop l, ts) (pc', ts')" "tq_Size (ts_queue l ts) = 0"
  shows "pc' = AtPop l"
  using assms(1) by (rule ts_step_PopE) (use assms(2) in \<open>auto simp: tq_Pop_def tq_Size_def split: list.splits\<close>)

text \<open>C9. Between \<open>Size\<close> and \<open>Pop\<close> a cancellation can empty the queue.  The scheduling goroutine then waits
  on the empty low-priority queue while an emergency task is queued: no step of the program moves it.\<close>

theorem ts_pop_window:
  "\<exists>ts. ts_reachable (AtPop Low) ts \<and> tq_Size (ts_queue Low ts) = 0 \<and> 0 < tq_Size (ts_queue Emergency ts) \<and>
     {pc'. \<exists>ts'. ts_step (AtPop Low, ts) (pc', ts')} = {AtPop Low}"
proof -
  let ?c = "fst (ts_CancelTask 0 ''t'' demo_run)"
  let ?e = "fst (ts_HandleEvent 0 (demo_request ''u'' PriorityEmergency) ?c)"
  have c: "?c = ts_queue_put Low \<lparr>tq_tasks = []\<rparr> demo_run"
    by (simp add: demo_defs ts_CancelTask_def ts_remove_queued_def tq_Remove_def)
  have "ts_reachable (AtPop Low) ?c"
    by (rule reach_step[OF demo_run_reachable]) (rule step_cancel[OF prod.collapse[symmetric]])
  then have r: "ts_reachable (AtPop Low) ?e"
    by (rule reach_step) (rule step_event[OF prod.collapse[symmetric]])
  have low: "tq_Size (ts_queue Low ?e) = 0" and em: "0 < tq_Size (ts_queue Emergency ?e)"
    unfolding c by (simp_all add: demo_defs tq_Size_def)
  have "ts_step (AtPop Low, ?e) (AtPop Low, fst (ts_PauseTask [] ?e))"
    by (rule step_pause[OF prod.collapse[symmetric]])
  with r low em ts_step_pop_waits[OF _ low] show ?thesis by blast
qed

text \<open>Witnesses.\<close>

definition demo_active :: TaskScheduler where
  "demo_active = fst (ts_executeTask 5 0 (ts_queue_put Low \<lparr>tq_tasks = []\<rparr> demo_run))"

lemma demo_active_reachable: "ts_reachable AtLoop demo_active"
proof -
  have "tq_Pop (ts_queue Low demo_run) = Some (0, \<lparr>tq_tasks = []\<rparr>)"
    by (simp add: demo_defs tq_Pop_def)
  from reach_step[OF demo_run_reachable step_pop[OF this]]
  have r: "ts_reachable (AtExecute 0) (ts_queue_put Low \<lparr>tq_tasks = []\<rparr> demo_run)" .
  have "ts_executeTask 5 0 (ts_queue_put Low \<lparr>tq_tasks = []\<rparr> demo_run) = (demo_active, Ret ())"
    unfolding demo_active_def by (simp add: demo_defs ts_executeTask_def ch_try_send_def)
  from reach_step[OF r step_execute[OF this]] show ?thesis .
qed


lemma ts_never_completed_witness:
  "task_Status (ts_task demo_active 0) \<noteq> StatusCompleted"
  using ts_never_completed[OF demo_active_reachable, of 0]
  by (simp add: demo_active_def demo_defs ts_executeTask_def ch_try_send_def)

lemma ts_cleanup_is_idle_witness:
  "ts_HandleEvent 9 (NewTimerEvent 9 ''event_loop'' Second 0 VNil) demo_active = (demo_active, None)"
  by (rule ts_cleanup_is_idle[OF demo_active_reachable]) (simp add: NewTimerEvent_def NewBaseEvent_def ev_Type_def)

lemma ts_CancelTask_queued_witness:
  "case ts_CancelTask 0 ''t'' demo_run of
     (ts', None) \<Rightarrow> ts_order demo_run = [0] \<and> ts_order ts' = [] \<and> ts_store ts' = ts_store demo_run
   | (_, Some e) \<Rightarrow> False"
proof -
  have "gm_get (ts_activeTasks demo_run) ''t'' = None" by (simp add: demo_defs)
  note t = ts_CancelTask_queued[OF this, of 0]
  have "ts_order demo_run = [0]" "task_ID (ts_task demo_run 0) = ''t''"
    by (simp_all add: ts_order_def demo_defs)
  then show ?thesis using t by (auto split: prod.splits option.splits simp: Cons_eq_append_conv)
qed

end
