(* ===== verification/PipelineProps.thy ===== *)
theory PipelineProps
  imports Executor
begin

text \<open>
  The command pipeline: which goroutine gets a command decides its fate, and neither brings it to a
  device.
\<close>

section \<open>Effects of the queue's operations on store and channel\<close>

definition eq_cmds :: "ExecutionQueue \<Rightarrow> MotionCommand list" where
  "eq_cmds q = map qc_Command (eq_heap q)"

text \<open>A step that sends nothing, stores nothing new, and marks no command sent.\<close>

definition eq_tame :: "ExecutionQueue \<Rightarrow> ExecutionQueue \<Rightarrow> bool" where
  "eq_tame q r \<longleftrightarrow> eq_sendChan r = eq_sendChan q \<and> eq_cmds r = eq_cmds q \<and>
     (\<forall>b. eq_status r b = CSent \<longrightarrow> eq_status q b = CSent)"

lemma eq_tame_refl [simp]: "eq_tame q q"
  by (simp add: eq_tame_def)

lemma eq_tame_locks [simp]:
  "eq_tame q (eq_commandsLock_update f r) \<longleftrightarrow> eq_tame q r" "eq_tame q (eq_taskLock_update f r) \<longleftrightarrow> eq_tame q r"
  "eq_tame q (eq_completeChan_update g r) \<longleftrightarrow> eq_tame q r" "eq_tame q (eq_commands_update h r) \<longleftrightarrow> eq_tame q r"
  "eq_tame q (eq_taskCommands_update k r) \<longleftrightarrow> eq_tame q r" "eq_tame q (eq_cancelled_update l r) \<longleftrightarrow> eq_tame q r"
  by (simp_all add: eq_tame_def eq_cmds_def eq_status_def)

lemma eq_tame_cancel [simp]: "eq_tame q (eq_cancel a r) \<longleftrightarrow> eq_tame q r" "eq_tame q (eq_cancel_all r) \<longleftrightarrow> eq_tame q r"
  "eq_tame q (eq_cleanup_index t i r) \<longleftrightarrow> eq_tame q r"
  by (simp_all add: eq_tame_def eq_cmds_def eq_status_def)

lemma eq_tame_set:
  assumes "eq_tame q r" "qc_Command c = qc_Command (eq_heap r ! a)" "qc_Status c \<noteq> CSent"
  shows "eq_tame q (eq_set a c r)"
proof (cases "a < length (eq_heap r)")
  case True
  have "map qc_Command ((eq_heap r)[a := c]) = map qc_Command (eq_heap r)"
    using assms(2) True by (simp add: map_update list_update_same_conv)
  then show ?thesis using assms True
    unfolding eq_tame_def eq_cmds_def eq_status_def by (auto simp: nth_list_update)
qed (use assms(1) in \<open>simp add: eq_set_def list_update_beyond\<close>)

lemmas eq_tame_sections =
  with_lock_inv[where P = "eq_tame q" and put = eq_commandsLock_update, OF eq_tame_locks(1)]
  with_lock_inv[where P = "eq_tame q" and put = eq_taskLock_update, OF eq_tame_locks(2)]
  with_rlock_inv[where P = "eq_tame q" and put = eq_commandsLock_update, OF eq_tame_locks(1)]
  with_rlock_inv[where P = "eq_tame q" and put = eq_taskLock_update, OF eq_tame_locks(2)]
  and_then_inv[where P = "eq_tame q"] for q

lemma eq_tame_queries:
  "eq_tame q (fst (eq_Pop q))" "eq_tame q (fst (eq_Peek q))" "eq_tame q (fst (eq_Size q))"
  "eq_tame q (fst (eq_GetStatus q))" "eq_tame q (fst (eq_GetByTaskID t q))"
proof -
  show "eq_tame q (fst (eq_Pop q))" "eq_tame q (fst (eq_Peek q))" "eq_tame q (fst (eq_Size q))"
    unfolding eq_Pop_def eq_Peek_def eq_Size_def by (rule eq_tame_sections, simp_all)+
  show "eq_tame q (fst (eq_GetStatus q))"
    unfolding eq_GetStatus_def by (rule eq_tame_sections, rule eq_tame_sections) simp_all
  have found: "eq_tame q r \<Longrightarrow> eq_tame q (fst (with_rlock eq_commandsLock eq_commandsLock_update
      (\<lambda>q. (q, Ret (Ok (eq_lookup_ids ids q)))) r))" for ids and r
    by (rule eq_tame_sections) simp_all
  show "eq_tame q (fst (eq_GetByTaskID t q))"
    unfolding eq_GetByTaskID_def
    by (rule eq_tame_sections, rule eq_tame_sections) (simp_all add: found split: option.split)
qed

lemma eq_tame_remove_one: "eq_tame q r \<Longrightarrow> eq_tame q (fst (eq_remove_one i r))"
  unfolding eq_remove_one_def by (rule eq_tame_sections) (simp_all split: option.split)

lemma eq_tame_remove_ids: "eq_tame q r \<Longrightarrow> eq_tame q (fst (eq_remove_ids ids r))"
  by (induction ids arbitrary: r) (simp, simp, rule eq_tame_sections, simp_all add: eq_tame_remove_one)

lemma eq_tame_RemoveByTaskID: "eq_tame q (fst (eq_RemoveByTaskID t q))"
proof -
  have "eq_tame q (fst (and_then (eq_remove_ids ids)
      (\<lambda>_ q. (q\<lparr>eq_taskCommands := gm_del t (eq_taskCommands q)\<rparr>, Ret (None :: goerr option))) s))" if "eq_tame q s" for s ids
    by (rule eq_tame_sections) (simp_all add: eq_tame_remove_ids that)
  then show ?thesis
    unfolding eq_RemoveByTaskID_def by (intro eq_tame_sections(2)) (simp_all split: option.split)
qed

lemma eq_tame_Clear: "eq_tame q (fst (eq_Clear q))"
proof -
  have "eq_tame q (fst (and_then
        (with_lock eq_taskLock eq_taskLock_update (\<lambda>q. (q\<lparr>eq_taskCommands := []\<rparr>, Ret ())))
        (\<lambda>_ q. (q, Ret (None :: goerr option))) r))" if "eq_tame q r" for r
    by (rule eq_tame_sections, rule eq_tame_sections) (simp_all add: that)
  then show ?thesis unfolding eq_Clear_def
    by (simp split: if_split) (rule impI, rule eq_tame_sections, simp_all)
qed

lemma eq_tame_announce: "eq_tame q r \<Longrightarrow> eq_tame q (fst (eq_announce a r))"
  by (auto simp: eq_announce_def ch_try_send_def)

lemma eq_tame_MarkCommandStarted: "eq_tame q (fst (eq_MarkCommandStarted now i q))"
  unfolding eq_MarkCommandStarted_def
  by (rule eq_tame_sections) (auto intro: eq_tame_set split: option.split)

lemma eq_tame_MarkCommandCompleted: "eq_tame q (fst (eq_MarkCommandCompleted now i err q))"
  unfolding eq_MarkCommandCompleted_def
  by (rule eq_tame_sections)
     (auto simp: Let_def intro!: eq_tame_announce eq_tame_set split: option.split)

lemma eq_tame_cleanup: "eq_tame q r \<Longrightarrow> eq_tame q (fst (eq_cleanupCompletedCommand b r))"
proof -
  have "eq_tame q (fst (with_lock eq_taskLock eq_taskLock_update (\<lambda>q. (eq_cleanup_index t i q, Ret ()))
      (s\<lparr>eq_commands := gm_del i (eq_commands s)\<rparr>)))" if "eq_tame q s" for s t i
    by (rule eq_tame_sections) (simp_all add: that)
  then show "eq_tame q r \<Longrightarrow> eq_tame q (fst (eq_cleanupCompletedCommand b r))"
    unfolding eq_cleanupCompletedCommand_def
    by (intro eq_tame_sections(1)) (simp_all add: Let_def split: option.split)
qed

lemma eq_tame_handleCompletions: "eq_handleCompletions q = Some (q', r) \<Longrightarrow> eq_tame q q'"
  using eq_tame_cleanup[of q "q\<lparr>eq_completeChan := c\<rparr>" b for c b]
  by (auto simp: eq_handleCompletions_def split: option.splits prod.splits) (metis eq_tame_locks(3) eq_tame_refl fst_conv)+

lemma eq_MarkCommandSent_effect:
  assumes "eq_MarkCommandSent now i q = (q', Ret r)"
  shows "eq_tame q q' \<and> r \<noteq> None \<or>
     (\<exists>a. gm_get (eq_commands q) i = Some a \<and> r = None \<and> eq_sendChan q' = eq_sendChan q \<and> eq_cmds q' = eq_cmds q \<and>
        (\<forall>b. b \<noteq> a \<longrightarrow> eq_status q' b = eq_status q b))"
proof (cases "mu_lock (eq_commandsLock q)")
  case None
  then show ?thesis using assms by (simp add: eq_MarkCommandSent_def with_lock_def)
next
  case (Some l)
  show ?thesis
  proof (cases "gm_get (eq_commands q) i")
    case None
    then show ?thesis using assms Some by (auto simp: eq_MarkCommandSent_def with_lock_def)
  next
    case a: (Some a)
    have "map qc_Command ((eq_heap q)[a := (eq_heap q ! a)\<lparr>qc_Status := CSent, qc_SentAt := Some now\<rparr>]) =
        map qc_Command (eq_heap q)"
      by (cases "a < length (eq_heap q)") (simp_all add: map_update list_update_same_conv list_update_beyond)
    then show ?thesis using assms Some a
      by (auto simp: eq_MarkCommandSent_def with_lock_def eq_cmds_def eq_status_def split: if_splits)
  qed
qed

lemma eq_Push_effect:
  assumes "eq_locks q" "eq_Push now cmd q = (q', r)"
  shows "\<exists>new. eq_cmds q' = eq_cmds q @ new \<and> set new \<subseteq> {cmd} \<and> length new \<le> 1 \<and>
     (\<forall>b. eq_status q' b = CSent \<longrightarrow> b < length (eq_cmds q) \<longrightarrow> eq_status q b = CSent) \<and>
     (\<forall>b. length (eq_cmds q) \<le> b \<longrightarrow> b < length (eq_cmds q') \<longrightarrow> eq_status q' b = CPending) \<and>
     (ch_buf (eq_sendChan q') = ch_buf (eq_sendChan q) \<or>
      new \<noteq> [] \<and> ch_buf (eq_sendChan q') = ch_buf (eq_sendChan q) @ [length (eq_cmds q)])"
proof -
  have same: ?thesis if "q' = q" using that by (intro exI[of _ "[]"]) auto
  have ins: ?thesis if "eq_heap q' = eq_heap (eq_inserted now cmd q)"
    "ch_buf (eq_sendChan q') = ch_buf (eq_sendChan q) \<or> ch_buf (eq_sendChan q') = ch_buf (eq_sendChan q) @ [length (eq_heap q)]"
    using that by (intro exI[of _ "[cmd]"])
      (auto simp: eq_cmds_def eq_inserted_def Let_def eq_status_def nth_append less_Suc_eq)
  show ?thesis
  proof (cases "eq_running q")
    case True
    from assms(1) show ?thesis
    proof (cases rule: eq_locks_cases)
      case quiet
      have "q' = q \<or> eq_heap q' = eq_heap (eq_inserted now cmd q) \<and>
            (ch_buf (eq_sendChan q') = ch_buf (eq_sendChan q) \<or>
             ch_buf (eq_sendChan q') = ch_buf (eq_sendChan q) @ [length (eq_heap q)])"
        using assms(2) unfolding eq_Push_quiet[OF quiet(1) True] by (auto split: if_splits)
      then show ?thesis using same ins by blast
    qed (use assms(2) True same in \<open>simp add: eq_Push_not_quiet\<close>)
  qed (use assms(2) same in \<open>simp add: eq_Push_stopped\<close>)
qed

section \<open>The invariant of the pipeline\<close>

text \<open>
  A command that has been stored is in the send channel, held by a new sender, or held by a new
  \<open>processCommand\<close>; in one place only, and while it is there it is not marked sent.
\<close>

fun wk_tokens :: "worker \<Rightarrow> nat list" where
  "wk_tokens (SenderNew a x) = [a]"
| "wk_tokens (ProcNew a) = [a]"
| "wk_tokens _ = []"

definition ws_tokens :: "worker list \<Rightarrow> nat list" where
  "ws_tokens ws = concat (map wk_tokens ws)"

fun wk_early :: "worker \<Rightarrow> bool" where
  "wk_early (ProcWrite a) = False"
| "wk_early (ProcDone a r) = False"
| "wk_early _ = True"

definition pl_inv :: "int \<Rightarrow> 'h pipeline \<Rightarrow> bool" where
  "pl_inv n p \<longleftrightarrow>
     eq_wf n (pl_q p) \<and> eq_locks (pl_q p) \<and> distinct (map cmd_ID (eq_cmds (pl_q p))) \<and>
     distinct (ch_buf (eq_sendChan (pl_q p)) @ ws_tokens (pl_workers p)) \<and>
     (\<forall>a \<in> set (ch_buf (eq_sendChan (pl_q p)) @ ws_tokens (pl_workers p)).
        a < length (eq_cmds (pl_q p)) \<and> eq_status (pl_q p) a \<noteq> CSent) \<and>
     list_all wk_early (pl_workers p) \<and> pl_reached p = []"

lemma ws_tokens_simps [simp]:
  "ws_tokens [] = []" "ws_tokens (w # ws) = wk_tokens w @ ws_tokens ws"
  "ws_tokens (us @ ws) = ws_tokens us @ ws_tokens ws"
  by (simp_all add: ws_tokens_def)

lemma ws_tokens_remove1: "w \<in> set ws \<Longrightarrow> mset (ws_tokens ws) = mset (wk_tokens w) + mset (ws_tokens (remove1 w ws))"
  by (induction ws) auto

lemma list_all_remove1: "list_all P ws \<Longrightarrow> list_all P (remove1 w ws)"
  by (induction ws) auto

lemma pl_simps [simp]:
  "pl_q (pl_set_q q p) = q" "pl_workers (pl_set_q q p) = pl_workers p" "pl_reached (pl_set_q q p) = pl_reached p"
  "pl_q (p\<lparr>pl_workers := ws\<rparr>) = pl_q p" "pl_q (p\<lparr>pl_ce := ce\<rparr>) = ce_queue ce"
  by (simp_all add: pl_q_def pl_set_q_def)

lemma mset_sub_distinct:
  assumes "mset ys \<subseteq># mset xs" "distinct xs" shows "distinct ys \<and> set ys \<subseteq> set xs"
proof -
  have "set ys \<subseteq> set xs" using assms(1) by (metis set_mset_mono set_mset_mset)
  moreover obtain zs where "mset xs = mset (ys @ zs)"
    using assms(1) by (metis ex_mset mset_append mset_subset_eq_exists_conv)
  then have "distinct (ys @ zs)" using assms(2) mset_eq_imp_distinct_iff by blast
  ultimately show ?thesis by simp
qed

text \<open>Steps that only lose tokens.\<close>

lemma pl_inv_tame:
  assumes "pl_inv n p" "eq_tame (pl_q p) q'" "eq_wf n q'" "eq_locks q'" "list_all wk_early ws"
    "mset (ws_tokens ws) \<subseteq># mset (ws_tokens (pl_workers p))"
  shows "pl_inv n ((pl_set_q q' p)\<lparr>pl_workers := ws\<rparr>)"
proof -
  let ?b = "ch_buf (eq_sendChan (pl_q p))"
  have "distinct (?b @ ws_tokens ws) \<and> set (?b @ ws_tokens ws) \<subseteq> set (?b @ ws_tokens (pl_workers p))"
    using assms(1,6) by (intro mset_sub_distinct) (auto simp: pl_inv_def)
  then show ?thesis using assms(1-5) unfolding pl_inv_def eq_tame_def by auto
qed

lemma pl_inv_tame': "pl_inv n p \<Longrightarrow> eq_tame (pl_q p) q' \<Longrightarrow> eq_wf n q' \<Longrightarrow> eq_locks q' \<Longrightarrow> pl_inv n (pl_set_q q' p)"
  using pl_inv_tame[of n p q' "pl_workers p"] by (simp add: pl_inv_def pl_set_q_def)

lemma drop_worker:
  assumes "w \<in> set ws" "list_all wk_early ws"
  shows "list_all wk_early (remove1 w ws) \<and> mset (ws_tokens (remove1 w ws)) \<subseteq># mset (ws_tokens ws)"
  using assms ws_tokens_remove1[OF assms(1)] by (simp add: list_all_remove1)

lemma pl_inv_drop:
  assumes "pl_inv n p" "w \<in> set (pl_workers p)" "eq_tame (pl_q p) q'" "eq_wf n q'" "eq_locks q'"
  shows "pl_inv n ((pl_set_q q' p)\<lparr>pl_workers := remove1 w (pl_workers p)\<rparr>)"
proof -
  have "list_all wk_early (pl_workers p)" using assms(1) by (simp add: pl_inv_def)
  then show ?thesis using pl_inv_tame[OF assms(1,3,4,5)] drop_worker[OF assms(2)] by blast
qed

text \<open>The table entry of a command's ID is the command itself: IDs are not used twice.\<close>

lemma pl_inv_lookup:
  assumes "pl_inv n p" "a < length (eq_cmds (pl_q p))"
    "gm_get (eq_commands (pl_q p)) (cmd_ID (pl_cmd p a)) = Some b"
  shows "b = a"
proof -
  have "b < length (eq_heap (pl_q p))" "cmd_ID (qc_Command (eq_heap (pl_q p) ! b)) = cmd_ID (pl_cmd p a)"
    using assms unfolding pl_inv_def eq_wf_def by auto
  then show ?thesis
    using assms nth_eq_iff_index_eq[of "map cmd_ID (eq_cmds (pl_q p))" b a]
    by (simp add: pl_inv_def eq_cmds_def pl_cmd_def)
qed

lemma eq_MarkCommandStarted_ok:
  "eq_MarkCommandStarted now i q = (q', Ret None) \<Longrightarrow> \<exists>a. gm_get (eq_commands q) i = Some a \<and> eq_status q a = CSent"
  by (auto simp: eq_MarkCommandStarted_def with_lock_def eq_status_def split: option.splits if_splits)

lemma worker_token:
  assumes "pl_inv n p" "w \<in> set (pl_workers p)" "a \<in> set (wk_tokens w)"
  shows "a < length (eq_cmds (pl_q p)) \<and> eq_status (pl_q p) a \<noteq> CSent"
proof -
  have "a \<in> set (ws_tokens (pl_workers p))" using assms(2,3) by (auto simp: ws_tokens_def)
  then show ?thesis using assms(1) by (simp add: pl_inv_def)
qed

lemma ch_recv_Some: "ch_recv c = Some (c', Some a) \<Longrightarrow> ch_buf c = a # ch_buf c'"
  by (auto simp: ch_recv_def split: list.splits if_splits)

text \<open>A receive from the send channel moves the token to a worker.\<close>

lemma pl_inv_receive:
  assumes "pl_inv n p" "ch_recv (eq_sendChan (pl_q p)) = Some (c, Some a)" "wk_tokens w = [a]" "wk_early w"
    "eq_cmds q' = eq_cmds (pl_q p)" "eq_status q' = eq_status (pl_q p)" "eq_sendChan q' = c" "eq_wf n q'" "eq_locks q'"
  shows "pl_inv n ((pl_set_q q' p)\<lparr>pl_workers := w # pl_workers p\<rparr>)"
  using assms ch_recv_Some[OF assms(2)] unfolding pl_inv_def by auto

lemma pl_inv_Push:
  assumes "pl_inv n p" "cmd_ID cmd \<notin> (\<lambda>c. cmd_ID (qc_Command c)) ` set (eq_heap (pl_q p))"
    "eq_Push now cmd (pl_q p) = (q', r)"
  shows "pl_inv n (pl_set_q q' p)"
proof -
  have keep: "eq_wf n q' \<and> eq_locks q'" using eq_Push_keeps[of n "pl_q p" now cmd] assms(1,3) by (simp add: pl_inv_def)
  obtain new where new: "eq_cmds q' = eq_cmds (pl_q p) @ new" "set new \<subseteq> {cmd}" "length new \<le> 1"
    "\<And>b. eq_status q' b = CSent \<Longrightarrow> b < length (eq_cmds (pl_q p)) \<Longrightarrow> eq_status (pl_q p) b = CSent"
    "\<And>b. length (eq_cmds (pl_q p)) \<le> b \<Longrightarrow> b < length (eq_cmds q') \<Longrightarrow> eq_status q' b = CPending"
    "ch_buf (eq_sendChan q') = ch_buf (eq_sendChan (pl_q p)) \<or>
     new \<noteq> [] \<and> ch_buf (eq_sendChan q') = ch_buf (eq_sendChan (pl_q p)) @ [length (eq_cmds (pl_q p))]"
    using eq_Push_effect[of "pl_q p" now cmd q' r] assms(1,3) unfolding pl_inv_def by blast
  have ids: "distinct (map cmd_ID (eq_cmds q'))"
  proof -
    have "distinct (map cmd_ID new)" using new(3) by (cases new) auto
    moreover have "set (map cmd_ID (eq_cmds (pl_q p))) \<inter> set (map cmd_ID new) = {}"
      using new(2) assms(2) unfolding eq_cmds_def by force
    ultimately show ?thesis using assms(1) new(1) by (simp add: pl_inv_def)
  qed
  let ?ts = "ch_buf (eq_sendChan (pl_q p)) @ ws_tokens (pl_workers p)" and ?l = "length (eq_cmds (pl_q p))"
  have old: "distinct ?ts" "\<And>a. a \<in> set ?ts \<Longrightarrow> a < ?l \<and> eq_status (pl_q p) a \<noteq> CSent"
    using assms(1) by (auto simp: pl_inv_def)
  have st: "a \<in> set ?ts \<Longrightarrow> a < length (eq_cmds q') \<and> eq_status q' a \<noteq> CSent" for a
    using old(2)[of a] new(1,4) by fastforce
  have fresh: "?l \<notin> set ?ts" using old(2) by blast
  have "distinct (ch_buf (eq_sendChan q') @ ws_tokens (pl_workers p)) \<and>
      (\<forall>a \<in> set (ch_buf (eq_sendChan q') @ ws_tokens (pl_workers p)). a < length (eq_cmds q') \<and> eq_status q' a \<noteq> CSent)"
    using new(6)
  proof
    assume "ch_buf (eq_sendChan q') = ch_buf (eq_sendChan (pl_q p))"
    then show ?thesis using old(1) st by simp
  next
    assume b: "new \<noteq> [] \<and> ch_buf (eq_sendChan q') = ch_buf (eq_sendChan (pl_q p)) @ [?l]"
    then have "?l < length (eq_cmds q')" using new(1) by simp
    then have "eq_status q' ?l = CPending" using new(5) by blast
    then show ?thesis using b old(1) st fresh \<open>?l < length (eq_cmds q')\<close> by auto
  qed
  then show ?thesis using assms(1) keep ids by (simp add: pl_inv_def)
qed

lemma pl_inv_sent:
  assumes "pl_inv n p" "SenderNew a x \<in> set (pl_workers p)"
    "eq_MarkCommandSent now (cmd_ID (pl_cmd p a)) (pl_q p) = (q', Ret r)"
  shows "pl_inv n ((pl_set_q q' p)\<lparr>pl_workers :=
          (if r = None then [SenderWaiting a x] else []) @ remove1 (SenderNew a x) (pl_workers p)\<rparr>)"
proof -
  note drop = drop_worker[OF assms(2)]
  have early: "list_all wk_early (pl_workers p)" using assms(1) by (simp add: pl_inv_def)
  have keep: "eq_wf n q' \<and> eq_locks q'"
    using eq_wf_Mark(1)[of n "pl_q p" now "cmd_ID (pl_cmd p a)"] eq_locks_Mark(1)[of "pl_q p" now "cmd_ID (pl_cmd p a)"]
      assms(1,3) by (simp add: pl_inv_def)
  from eq_MarkCommandSent_effect[OF assms(3)] show ?thesis
  proof
    assume "eq_tame (pl_q p) q' \<and> r \<noteq> None"
    then show ?thesis using pl_inv_tame[of n p q' "remove1 (SenderNew a x) (pl_workers p)"] assms(1) keep drop early by auto
  next
    assume "\<exists>b. gm_get (eq_commands (pl_q p)) (cmd_ID (pl_cmd p a)) = Some b \<and> r = None \<and>
        eq_sendChan q' = eq_sendChan (pl_q p) \<and> eq_cmds q' = eq_cmds (pl_q p) \<and>
        (\<forall>c. c \<noteq> b \<longrightarrow> eq_status q' c = eq_status (pl_q p) c)"
    then obtain b where b: "gm_get (eq_commands (pl_q p)) (cmd_ID (pl_cmd p a)) = Some b" "r = None"
      "eq_sendChan q' = eq_sendChan (pl_q p)" "eq_cmds q' = eq_cmds (pl_q p)"
      "\<And>c. c \<noteq> b \<Longrightarrow> eq_status q' c = eq_status (pl_q p) c" by blast
    have "b = a" using pl_inv_lookup[OF assms(1) _ b(1)] worker_token[OF assms(1,2)] by simp
    let ?b = "ch_buf (eq_sendChan (pl_q p))" and ?ws = "remove1 (SenderNew a x) (pl_workers p)"
    have "mset (?b @ ws_tokens (pl_workers p)) = mset (a # ?b @ ws_tokens ?ws)"
      using ws_tokens_remove1[OF assms(2)] by simp
    then have d: "distinct (a # ?b @ ws_tokens ?ws)" and s: "set (?b @ ws_tokens (pl_workers p)) = set (a # ?b @ ws_tokens ?ws)"
      using assms(1) mset_eq_imp_distinct_iff mset_eq_setD unfolding pl_inv_def by blast+
    have "eq_status q' c \<noteq> CSent \<and> c < length (eq_cmds q')" if "c \<in> set (?b @ ws_tokens ?ws)" for c
    proof -
      have "c \<noteq> a" using d that by auto
      moreover have "c \<in> set (?b @ ws_tokens (pl_workers p))" using s that by auto
      ultimately show ?thesis using assms(1) b(4,5) \<open>b = a\<close> unfolding pl_inv_def by metis
    qed
    then show ?thesis using assms(1) keep b drop early d by (auto simp: pl_inv_def)
  qed
qed

lemma pl_inv_exec:
  assumes "pl_inv n p" "op \<in> {OpClear, OpPop, OpPeek, OpSize, OpGetStatus} \<union> range OpGetByTaskID \<union> range OpRemoveByTaskID"
  shows "pl_inv n (pl_set_q (eq_exec op (pl_q p)) p)"
proof (rule pl_inv_tame'[OF assms(1)])
  have "eq_tame (pl_q p) (eq_exec op (pl_q p))"
    using assms(2) by (auto simp: eq_tame_queries eq_tame_Clear eq_tame_RemoveByTaskID)
  then show "eq_tame (pl_q p) (eq_exec op (pl_q p))" .
  show "eq_wf n (eq_exec op (pl_q p))" "eq_locks (eq_exec op (pl_q p))"
    using eq_exec_keeps[of n "pl_q p" op] assms(1) by (simp_all add: pl_inv_def)
qed

lemma pl_inv_step:
  assumes "pl_step ops oob p p'" "pl_inv n p" shows "pl_inv n p'"
  using assms(1)
proof cases
  case (pl_execute cmd now ce' r)
  show ?thesis
  proof (cases "ce_running (pl_ce p)")
    case True
    obtain q' where push: "eq_Push now cmd (pl_q p) = (q', r)" "ce' = (pl_ce p)\<lparr>ce_queue := q'\<rparr>"
      using pl_execute(3) True by (auto simp: ce_ExecuteCommand_def pl_q_def split: prod.splits)
    show ?thesis using pl_inv_Push[OF assms(2) pl_execute(2) push(1)] pl_execute(1) push(2) by (simp add: pl_set_q_def)
  next
    case False
    then show ?thesis using pl_execute assms(2) by (auto simp: ce_ExecuteCommand_def)
  qed
next
  case (pl_queue_turn c a)
  let ?q = "eq_sendCommandToExecutor a ((pl_q p)\<lparr>eq_sendChan := c\<rparr>)"
  have "map qc_Command ((eq_heap (pl_q p))[a := (eq_heap (pl_q p) ! a)\<lparr>qc_CancelFunc := Some (eq_nextCtx (pl_q p))\<rparr>]) =
      map qc_Command (eq_heap (pl_q p))"
    by (cases "a < length (eq_heap (pl_q p))") (simp_all add: map_update list_update_same_conv list_update_beyond)
  then have "eq_cmds ?q = eq_cmds (pl_q p)" by (simp add: eq_cmds_def eq_sendCommandToExecutor_def)
  moreover have "eq_status ?q = eq_status (pl_q p)"
    by (rule ext) (cases "a < length (eq_heap (pl_q p))",
        auto simp: eq_status_def eq_sendCommandToExecutor_def nth_list_update list_update_beyond)
  moreover have "eq_wf n ?q" "eq_locks ?q"
    using eq_turns_keep(1)[of n "pl_q p"] assms(2) pl_queue_turn(2) by (auto simp: eq_processCommands_def pl_inv_def)
  moreover have "eq_sendChan ?q = c" by (simp add: eq_sendCommandToExecutor_def)
  ultimately show ?thesis using pl_inv_receive[OF assms(2) pl_queue_turn(2)] pl_queue_turn(1) by simp
next
  case (pl_executor_turn c a)
  have "eq_wf n ((pl_q p)\<lparr>eq_sendChan := c\<rparr>)" "eq_locks ((pl_q p)\<lparr>eq_sendChan := c\<rparr>)"
    using eq_wf_chans(1)[OF _ ch_recv_sub] assms(2) pl_executor_turn(3) by (auto simp: pl_inv_def eq_locks_worker)
  then show ?thesis
    using pl_inv_receive[OF assms(2) pl_executor_turn(3), where w = "ProcNew a" and q' = "(pl_q p)\<lparr>eq_sendChan := c\<rparr>"]
      pl_executor_turn(1) by (simp add: eq_cmds_def)
next
  case (pl_sent a x now q' r)
  then show ?thesis using pl_inv_sent[OF assms(2)] by simp
next
  case (pl_timeout a x now q' r)
  let ?i = "cmd_ID (pl_cmd p a)" and ?e = "Some (Errorf ''command timeout'' [])"
  have "eq_tame (pl_q p) q'" "eq_wf n q'" "eq_locks q'"
    using eq_tame_MarkCommandCompleted[of "pl_q p" now ?i ?e] eq_wf_MarkCommandCompleted[of n "pl_q p" now ?i ?e]
      eq_locks_Mark(3)[of "pl_q p" now ?i ?e] pl_timeout(3) assms(2) by (simp_all add: pl_inv_def)
  then show ?thesis using pl_inv_drop[OF assms(2) pl_timeout(2)] pl_timeout(1) by simp
next
  case (pl_cancelled a x)
  have "pl_set_q (pl_q p) p = p" by (simp add: pl_set_q_def pl_q_def)
  then show ?thesis
    using pl_inv_drop[OF assms(2) pl_cancelled(2) eq_tame_refl] assms(2) pl_cancelled(1)
    unfolding pl_inv_def by simp
next
  case (pl_started a now q' r)
  have "r \<noteq> None"
  proof
    assume "r = None"
    then obtain b where b: "gm_get (eq_commands (pl_q p)) (cmd_ID (pl_cmd p a)) = Some b" "eq_status (pl_q p) b = CSent"
      using eq_MarkCommandStarted_ok pl_started(3) by blast
    then show False using pl_inv_lookup[OF assms(2) _ b(1)] worker_token[OF assms(2) pl_started(2)] by simp
  qed
  moreover have "eq_tame (pl_q p) q'" "eq_wf n q'" "eq_locks q'"
    using eq_tame_MarkCommandStarted[of "pl_q p" now "cmd_ID (pl_cmd p a)"]
      eq_wf_Mark(2)[of n "pl_q p" now "cmd_ID (pl_cmd p a)"] eq_locks_Mark(2)[of "pl_q p" now "cmd_ID (pl_cmd p a)"]
      pl_started(3) assms(2) by (simp_all add: pl_inv_def)
  ultimately show ?thesis
    using pl_inv_drop[OF assms(2) pl_started(2)] pl_started(1) by auto
next
  case (pl_write a now ce' h' r)
  then show ?thesis using assms(2) by (auto simp: pl_inv_def list_all_iff)
next
  case (pl_completed a r now q' e)
  then show ?thesis using assms(2) by (auto simp: pl_inv_def list_all_iff)
next
  case (pl_cleanup q' r)
  have "eq_exec OpCompleteTurn (pl_q p) = q'" using pl_cleanup(2) by simp
  then have "eq_wf n q' \<and> eq_locks q'" using eq_exec_keeps[of n "pl_q p" OpCompleteTurn] assms(2) by (simp add: pl_inv_def)
  then show ?thesis using pl_inv_tame'[OF assms(2) eq_tame_handleCompletions[OF pl_cleanup(2)]] pl_cleanup(1) by simp
next
  case (pl_drop c x)
  have "eq_wf n ((pl_q p)\<lparr>eq_completeChan := c\<rparr>)" "eq_locks ((pl_q p)\<lparr>eq_completeChan := c\<rparr>)"
    using eq_wf_chans(3)[OF _ ch_recv_sub] assms(2) pl_drop(2) by (auto simp: pl_inv_def eq_locks_worker)
  then show ?thesis using pl_inv_tame'[OF assms(2)] pl_drop(1) by simp
next
  case (pl_other op)
  then show ?thesis using pl_inv_exec[OF assms(2)] by simp
qed

lemma pl_reachable_inv: "pl_reachable ops oob p \<Longrightarrow> \<exists>n. pl_inv n p"
proof (induction rule: pl_reachable.induct)
  case (pl_init ds cfg h)
  have "eq_wf n (fst (eq_Start (NewExecutionQueue n)))" "eq_locks (fst (eq_Start (NewExecutionQueue n)))" for n
    using eq_reachable_inv[OF eq_step[OF eq_init], of n OpStart] by simp_all
  then have "pl_inv (cfg_QueueSize cfg)
     \<lparr>pl_ce = fst (ce_Start ((NewCommandExecutor cfg)\<lparr>ce_devices := ds\<rparr>)), pl_hw = h, pl_workers = [], pl_reached = []\<rparr>"
    by (simp add: pl_inv_def pl_q_def ce_Start_def NewCommandExecutor_def eq_Start_def NewExecutionQueue_def eq_cmds_def Let_def)
  then show ?case by blast
qed (use pl_inv_step in blast)

section \<open>Properties\<close>

text \<open>C3. In no run of the executor, with command IDs used once, does a command get as far as the look-up of
  its device.  A command received by the executor's own consumer is not marked sent and is refused;
  a command received by the queue's consumer is marked sent and waits for its timeout.\<close>

theorem no_command_reaches_a_device:
  assumes "pl_reachable ops oob p"
  shows "pl_reached p = [] \<and> ProcWrite a \<notin> set (pl_workers p)"
  using pl_reachable_inv[OF assms] by (auto simp: pl_inv_def list_all_iff)

definition demo_ops :: "unit hardware_ops" where
  "demo_ops =
     \<lparr>hw_Start = (\<lambda>h. (h, None)), hw_Stop = (\<lambda>h. (h, Ret None)), hw_AddDeviceFromConfig = (\<lambda>i c h. (h, None)),
      hw_ConnectDevice = (\<lambda>i h. (h, None)), hw_WriteDevice = (\<lambda>i a d h. (h, None)),
      hw_ReadDevice = (\<lambda>i a n h. (h, Ok [])), hw_ListDevices = (\<lambda>h. []), hw_CreateDeviceConfig = (\<lambda>i c. None)\<rparr>"

definition demo_cfg :: SystemConfig where
  "demo_cfg =
     \<lparr>cfg_EventLoopInterval = 10 * Millisecond, cfg_QueueSize = 100, cfg_Devices = [], cfg_Axes = [],
      cfg_Safety = \<lparr>sf_EnableLimits = True, sf_EnableEmergency = True, sf_MaxTemperature = f64_zero,
                    sf_MinVoltage = f64_zero, sf_WatchdogTimeout = Second\<rparr>,
      cfg_IPC = \<lparr>ipc_Type = ''tcp'', ipc_Address = ''127.0.0.1'', ipc_Port = 8080, ipc_Timeout = Second,
                 ipc_BufferSize = 1024\<rparr>,
      cfg_TaskTemplates = None, cfg_CommandMappings = None\<rparr>"

text \<open>An executor with a connected mock device; one command executed and received by the executor.\<close>

definition demo_p0 :: "unit pipeline" where
  "demo_p0 =
     \<lparr>pl_ce = fst (ce_Start ((NewCommandExecutor demo_cfg)\<lparr>ce_devices :=
        [(''d1'', DMock (fst (md_Connect 0 (NewMockDevice ''d1''
            \<lparr>dc_Type = ''mock'', dc_Protocol = ''mock'', dc_Endpoint = [], dc_Parameters = [], dc_Timeout = Second,
             dc_RetryCount = 3\<rparr>))))]\<rparr>)),
      pl_hw = (), pl_workers = [], pl_reached = []\<rparr>"

definition demo_p1 :: "unit pipeline" where
  "demo_p1 = demo_p0\<lparr>pl_ce := fst (ce_ExecuteCommand 5 (demo_cmd ''task-7-cmd-0'') (pl_ce demo_p0))\<rparr>"

definition demo_p2 :: "unit pipeline" where
  "demo_p2 =
     (pl_set_q ((pl_q demo_p1)\<lparr>eq_sendChan := mk_chan 10\<rparr>) demo_p1)\<lparr>pl_workers := [ProcNew 0]\<rparr>"

lemma demo_p0_queue: "pl_q demo_p0 = demo_q" "ce_running (pl_ce demo_p0)" "ce_workers (pl_ce demo_p0) = 1"
  "pl_workers demo_p0 = []"
  by (simp_all add: demo_p0_def pl_q_def ce_Start_def NewCommandExecutor_def demo_cfg_def demo_q_def Let_def eq_Start_def
      NewExecutionQueue_def)

lemma demo_p1_queue: "pl_q demo_p1 = demo_q1" "ce_workers (pl_ce demo_p1) = 1" "pl_workers demo_p1 = []"
proof -
  have "ce_queue (pl_ce demo_p0) = demo_q" using demo_p0_queue(1) by (simp add: pl_q_def)
  then show "pl_q demo_p1 = demo_q1" "ce_workers (pl_ce demo_p1) = 1" "pl_workers demo_p1 = []"
    using demo_p0_queue
    by (simp_all add: demo_p1_def ce_ExecuteCommand_def demo_q1_def eq_Push_quiet demo_q_facts)
qed

lemma demo_p2_reachable: "pl_reachable demo_ops oob demo_p2"
proof -
  have "pl_reachable demo_ops oob demo_p0"
    unfolding demo_p0_def by (rule pl_init)
  moreover have "pl_step demo_ops oob demo_p0 demo_p1"
    unfolding demo_p1_def
    by (rule pl_execute[OF _ prod.collapse[symmetric]]) (simp add: demo_p0_queue demo_q_facts)
  ultimately have r1: "pl_reachable demo_ops oob demo_p1" by (rule pl_next)
  have "eq_sendChan demo_q1 = (mk_chan 10)\<lparr>ch_buf := [0]\<rparr>"
    by (simp add: demo_q1_def eq_Push_quiet demo_q_facts)
  then have recv: "ch_recv (eq_sendChan (pl_q demo_p1)) = Some (mk_chan 10, Some 0)"
    by (simp add: demo_p1_queue ch_recv_def mk_chan_def)
  have "pl_step demo_ops oob demo_p1
      ((pl_set_q ((pl_q demo_p1)\<lparr>eq_sendChan := mk_chan 10\<rparr>) demo_p1)\<lparr>pl_workers := ProcNew 0 # pl_workers demo_p1\<rparr>)"
    by (rule pl_executor_turn[OF _ recv]) (simp add: demo_p1_queue)
  then have "pl_step demo_ops oob demo_p1 demo_p2" by (simp add: demo_p2_def demo_p1_queue(3))
  with r1 show ?thesis by (rule pl_next)
qed

lemma no_command_reaches_a_device_witness:
  "ProcNew 0 \<in> set (pl_workers demo_p2) \<and> pl_reached demo_p2 = []"
  using no_command_reaches_a_device[OF demo_p2_reachable[of "\<lambda>_. 0"], of 0]
  by (simp add: demo_p2_def pl_set_q_def)

end
