(* ===== verification/DecomposerProps.thy ===== *)
theory DecomposerProps
  imports Decomposer
begin

text \<open>
  What the two decomposers produce: one named command per configured axis, the concatenation of the
  children's commands for a sequence, and what a decomposer without devices can produce at all.
\<close>

section \<open>Numbering\<close>

lemma length_number_commands [simp]: "length (number_commands now task cmds) = length cmds"
  by (simp add: number_commands_def)

lemma nth_number_commands:
  "i < length cmds \<Longrightarrow> number_commands now task cmds ! i =
     (cmds ! i)\<lparr>cmd_ID := task_ID task @ ''-cmd-'' @ nat_dec i, cmd_Timestamp := now, cmd_Timeout := task_Timeout task\<rparr>"
  by (simp add: number_commands_def nth_enumerate_eq)

lemma number_commands_distinct: "distinct (map cmd_ID (number_commands now task cmds))"
  by (auto simp: distinct_conv_nth nth_number_commands)

lemma number_commands_device [simp]: "map cmd_DeviceID (number_commands now task cmds) = map cmd_DeviceID cmds"
  by (rule nth_equalityI) (simp_all add: nth_number_commands)

lemma number_commands_type [simp]: "map cmd_CommandType (number_commands now task cmds) = map cmd_CommandType cmds"
  by (rule nth_equalityI) (simp_all add: nth_number_commands)

section \<open>Axes of a validated task\<close>

lemma td_ValidateTask_axes:
  assumes "td_ValidateTask cfg (Some task) = None"
  shows "map (gm_get (cfg_Axes cfg)) (task_Axes task) = map Some (axes_of cfg task)" and "task_Axes task \<noteq> []"
proof -
  have ok: "\<forall>i \<in> set (task_Axes task). gm_get (cfg_Axes cfg) i \<noteq> None"
    using assms by (auto simp: td_ValidateTask_def first_error_None td_check_axis_def split: if_splits option.splits)
  have "\<forall>i \<in> set is. gm_get (cfg_Axes cfg) i \<noteq> None \<Longrightarrow>
      map (gm_get (cfg_Axes cfg)) is = map Some (List.map_filter (gm_get (cfg_Axes cfg)) is)" for "is"
    by (induction "is") (auto simp: List.map_filter_def)
  then show "map (gm_get (cfg_Axes cfg)) (task_Axes task) = map Some (axes_of cfg task)"
    using ok by (simp add: axes_of_def)
  show "task_Axes task \<noteq> []" using assms by (auto simp: td_ValidateTask_def split: if_splits)
qed

section \<open>A decomposer without devices\<close>

definition device_types :: "CommandType list" where
  "device_types = [CommandIO, CommandMotorControl, CommandMotorStatus]"

lemma move_types:
  "tnd_motion_commands cfg now task = Some cmds \<Longrightarrow> c \<in> set cmds \<Longrightarrow> cmd_CommandType c \<in> set motion_types"
  by (auto simp: tnd_motion_commands_def motion_types_def tnd_decomposeMoveTo_def tnd_decomposeMoveRelative_def
      tnd_move_commands_def tnd_decomposeHome_def tnd_decomposeStop_def tnd_decomposeJog_def home_command_def
      stop_command_def jog_command_def split: if_splits)

lemma motion_not_device: "ty \<in> set motion_types \<Longrightarrow> ty \<notin> set device_types"
  by (auto simp: motion_types_def device_types_def)

lemma tnd_motion_node_types:
  "tnd_decomposeMotionNode cfg now node = Ret (Ok cmds) \<Longrightarrow> c \<in> set cmds \<Longrightarrow> cmd_CommandType c \<notin> set device_types"
  by (auto simp: tnd_decomposeMotionNode_def ebind_Ret split: option.splits dest: move_types motion_not_device)

lemma tnd_no_device_nodes:
  assumes "tnd_devices tnd = []"
  shows "tnd_decomposeIONode fmt_any tnd now node \<noteq> Ret (Ok cmds)"
    and "tnd_decomposeMotorNode tnd now node \<noteq> Ret (Ok cmds)"
    and "tnd_decomposeMotorStatusNode tnd now node \<noteq> Ret (Ok cmds)"
  using assms
  by (auto simp: tnd_decomposeIONode_def tnd_decomposeMotorNode_def tnd_decomposeMotorStatusNode_def ebind_Ret Let_def)

lemma tnd_delay_condition_types:
  "tnd_decomposeDelayNode now node = Ret (Ok cmds) \<Longrightarrow> c \<in> set cmds \<Longrightarrow> cmd_CommandType c \<notin> set device_types"
  "tnd_decomposeConditionNode oob now node = Ret (Ok cmds) \<Longrightarrow> c \<in> set cmds \<Longrightarrow> cmd_CommandType c \<notin> set device_types"
  by (auto simp: tnd_decomposeDelayNode_def tnd_decomposeConditionNode_def ebind_Ret Let_def device_types_def
      split: option.splits goval.splits)

lemma append_rest_Ret:
  "ebind r (\<lambda>r'. Ret (case r' of Err e \<Rightarrow> Err e | Ok rest \<Rightarrow> Ok (cs @ rest))) = Ret (Ok cmds) \<longleftrightarrow>
     (\<exists>rest. r = Ret (Ok rest) \<and> cmds = cs @ rest)"
proof (cases r)
  case (Ret x)
  then show ?thesis by (cases x) (auto simp: ebind_Ret)
qed (auto simp: ebind_Ret)

lemma tnd_deviceless:
  assumes "tnd_devices tnd = []"
  shows "tnd_decomposeTaskNode oob fmt_any tnd now n = Ret (Ok cmds) \<Longrightarrow> c \<in> set cmds \<Longrightarrow>
      cmd_CommandType c \<notin> set device_types"
    and "tnd_decomposeSequenceNode oob fmt_any tnd now ns = Ret (Ok cmds) \<Longrightarrow> c \<in> set cmds \<Longrightarrow>
      cmd_CommandType c \<notin> set device_types"
  using assms
proof (induction oob fmt_any tnd now n and oob fmt_any tnd now ns arbitrary: cmds and cmds
    rule: tnd_decomposeTaskNode_tnd_decomposeSequenceNode.induct)
  case (1 oob fmt_any tnd now b k cs)
  then show ?case
    by (auto simp: Let_def tnd_no_device_nodes split: if_splits
        dest: tnd_motion_node_types tnd_delay_condition_types)
next
  case (3 oob fmt_any tnd now n ns)
  obtain a where a: "tnd_decomposeTaskNode oob fmt_any tnd now n = Ret a" using "3.prems"(1) by (auto simp: ebind_Ret)
  then obtain cs1 where cs1: "a = Ok cs1" using "3.prems"(1) by (cases a) auto
  then obtain cs2 where cs2: "tnd_decomposeSequenceNode oob fmt_any tnd now ns = Ret (Ok cs2)" "cmds = cs1 @ cs2"
    using "3.prems"(1) a by (auto simp: append_rest_Ret)
  show ?case using "3.IH"(1)[of cs1] "3.IH"(2)[OF cs2(1)] "3.prems" a cs1 cs2 by auto
qed simp

text \<open>A sequence's commands are its children's, in order.\<close>

lemma tnd_sequence_concat:
  "tnd_decomposeSequenceNode oob fmt_any tnd now ns = Ret (Ok cmds) \<longleftrightarrow>
     (\<exists>css. list_all2 (\<lambda>n cs. tnd_decomposeTaskNode oob fmt_any tnd now n = Ret (Ok cs)) ns css \<and> cmds = concat css)"
proof (induction ns arbitrary: cmds)
  case (Cons n ns)
  show ?case
  proof (cases "\<exists>cs. tnd_decomposeTaskNode oob fmt_any tnd now n = Ret (Ok cs)")
    case True
    then obtain cs where cs: "tnd_decomposeTaskNode oob fmt_any tnd now n = Ret (Ok cs)" by blast
    have "tnd_decomposeSequenceNode oob fmt_any tnd now (n # ns) = Ret (Ok cmds) \<longleftrightarrow>
        (\<exists>rest. tnd_decomposeSequenceNode oob fmt_any tnd now ns = Ret (Ok rest) \<and> cmds = cs @ rest)"
      using cs by (simp add: append_rest_Ret)
    then show ?thesis using cs Cons.IH by (auto simp: list_all2_Cons1)
  next
    case False
    then show ?thesis by (auto simp: ebind_Ret list_all2_Cons1 split: result.splits)
  qed
qed (auto)

section \<open>Motion nodes\<close>

lemma tnd_motion_unnamed:
  assumes "tnd_decomposeMotionNode cfg now node = Ret (Ok cmds)" "c \<in> set cmds"
  shows "cmd_ID c = [] \<and> cmd_Timeout c = 0"
  using assms
  by (auto simp: tnd_decomposeMotionNode_def ebind_Ret tnd_motion_commands_def tnd_decomposeMoveTo_def
      tnd_decomposeMoveRelative_def tnd_move_commands_def tnd_decomposeHome_def tnd_decomposeStop_def
      tnd_decomposeJog_def home_command_def stop_command_def jog_command_def zero_command_def
      split: if_splits option.splits)

section \<open>Properties\<close>

text \<open>C28. The two decomposers agree on tasks that need no trajectory: a validated homing, stop or jog task
  yields the same commands, one per axis in the task's order, addressed to the axis's device, with
  distinct IDs.\<close>

theorem simple_tasks_decompose:
  assumes "td_ValidateTask (td_config td) (Some task) = None" and "task_Type task \<in> {CommandHome, CommandStop, CommandJog}"
  shows "\<exists>cmds. td_Decompose td now task = Ok cmds \<and>
     tnd_decomposeLegacyTask (td_config td) now task = Ok cmds \<and>
     map (\<lambda>i. map_option ax_DeviceID (gm_get (cfg_Axes (td_config td)) i)) (task_Axes task) = map (Some \<circ> cmd_DeviceID) cmds \<and>
     distinct (map cmd_ID cmds)"
proof -
  let ?cfg = "td_config td"
  define f where "f = (if task_Type task = CommandHome then home_command
    else if task_Type task = CommandStop then stop_command else jog_command task)"
  let ?cmds = "number_commands now task (map f (axes_of ?cfg task))"
  have "td_Decompose td now task = Ok ?cmds" "tnd_decomposeLegacyTask ?cfg now task = Ok ?cmds"
    using assms
    by (auto simp: f_def td_Decompose_def Let_def tnd_decomposeLegacyTask_def tnd_motion_commands_def
        td_decomposeHome_def td_decomposeStop_def td_decomposeJog_def tnd_decomposeHome_def tnd_decomposeStop_def
        tnd_decomposeJog_def)
  moreover have "map (\<lambda>i. map_option ax_DeviceID (gm_get (cfg_Axes ?cfg) i)) (task_Axes task) = map (Some \<circ> cmd_DeviceID) ?cmds"
  proof -
    have "cmd_DeviceID (f ax) = ax_DeviceID ax" for ax
      by (simp add: f_def home_command_def stop_command_def jog_command_def)
    then have "map (Some \<circ> cmd_DeviceID) ?cmds = map (map_option ax_DeviceID) (map Some (axes_of ?cfg task))"
      by (simp add: map_map[symmetric] del: map_map) (simp add: comp_def)
    then show ?thesis by (simp only: td_ValidateTask_axes(1)[OF assms(1), symmetric]) (simp add: comp_def)
  qed
  ultimately show ?thesis using number_commands_distinct by blast
qed

text \<open>C29. A sequence decomposes exactly when each child does, and its commands are the children's in order.\<close>

theorem sequence_commands_in_order:
  "tnd_decomposeTaskNode oob fmt_any tnd now (TaskNode (b\<lparr>btn_nodeType := CommandSequence\<rparr>) k ns) = Ret (Ok cmds) \<longleftrightarrow>
     (\<exists>css. list_all2 (\<lambda>n cs. tnd_decomposeTaskNode oob fmt_any tnd now n = Ret (Ok cs)) ns css \<and> cmds = concat css)"
  by (simp add: motion_types_def tnd_sequence_concat[symmetric])

text \<open>C30. The decomposer the application builds has no devices, so no tree it accepts, however deep, yields
  an I/O, motor or motor-status command.\<close>

theorem fresh_decomposer_yields_no_device_commands:
  assumes "tnd_decomposeTaskNode oob fmt_any (NewTaskNodeDecomposer cfg) now n = Ret (Ok cmds)" "c \<in> set cmds"
  shows "cmd_CommandType c \<notin> set device_types"
  using tnd_deviceless(1)[OF _ assms] by (simp add: NewTaskNodeDecomposer_def)

text \<open>The commands of a motion node have no ID and no time limit.\<close>

theorem motion_node_commands_unnamed:
  assumes "tnd_decomposeMotionNode cfg now node = Ret (Ok cmds)" "c \<in> set cmds"
  shows "cmd_ID c = [] \<and> cmd_Timeout c = 0"
  using tnd_motion_unnamed[OF assms] .


section \<open>Witnesses\<close>

definition demo_td_axis :: AxisConfig where
  "demo_td_axis = \<lparr>ax_DeviceID = ''d1'', ax_MaxVelocity = Fin 10, ax_MaxAcceleration = Fin 5, ax_MinPosition = Fin 0,
     ax_MaxPosition = Fin 100, ax_HomePosition = Fin 0, ax_Units = ''mm'', ax_InvertDirection = False\<rparr>"

definition demo_td_cfg :: SystemConfig where
  "demo_td_cfg =
     \<lparr>cfg_EventLoopInterval = 10 * Millisecond, cfg_QueueSize = 100, cfg_Devices = [], cfg_Axes = [(''x'', demo_td_axis)],
      cfg_Safety = \<lparr>sf_EnableLimits = True, sf_EnableEmergency = True, sf_MaxTemperature = f64_zero,
                    sf_MinVoltage = f64_zero, sf_WatchdogTimeout = Second\<rparr>,
      cfg_IPC = \<lparr>ipc_Type = ''tcp'', ipc_Address = ''127.0.0.1'', ipc_Port = 8080, ipc_Timeout = Second,
                 ipc_BufferSize = 1024\<rparr>,
      cfg_TaskTemplates = None, cfg_CommandMappings = None\<rparr>"

definition demo_home :: Task where
  "demo_home = zero_task\<lparr>task_ID := ''t1'', task_Type := CommandHome, task_Axes := [''x''], task_Timeout := Second\<rparr>"

definition demo_td :: TaskDecomposer where
  "demo_td = \<lparr>td_planner = \<lparr>pln_PlanLinear = (\<lambda>_ _ _ _. Ok []), pln_PlanPointToPoint = (\<lambda>_ _ _ _. Ok [])\<rparr>,
     td_config = demo_td_cfg\<rparr>"

lemma demo_home_valid: "td_ValidateTask (td_config demo_td) (Some demo_home) = None"
  by (simp add: td_ValidateTask_def td_check_axis_def demo_td_def demo_td_cfg_def demo_home_def demo_td_axis_def zero_task_def
      gm_get_def f64_zero_def zero_velocity_def)

theorem simple_tasks_decompose_witness:
  "\<exists>cmds. td_Decompose demo_td 7 demo_home = Ok cmds \<and> tnd_decomposeLegacyTask demo_td_cfg 7 demo_home = Ok cmds"
  using simple_tasks_decompose[OF demo_home_valid, of 7] by (auto simp: demo_home_def demo_td_def)

definition demo_home_node :: tasknode where
  "demo_home_node =
     TaskNode (NewBaseTaskNode 0 ''h'' CommandHome [(''axes'', VList [VString ''x''])]) BaseTaskNode []"

definition home_node_command :: MotionCommand where
  "home_node_command = home_command demo_td_axis"

lemma demo_home_node_decomposes:
  "tnd_decomposeMotionNode demo_td_cfg 7 demo_home_node = Ret (Ok [home_node_command])"
  by (simp add: tnd_decomposeMotionNode_def motion_node_task_def demo_home_node_def btn_GetParameters_def gm_get_def
      NewBaseTaskNode_def tnd_motion_commands_def tnd_decomposeHome_def axes_of_def demo_td_cfg_def btn_GetID_def
      btn_GetType_def List.map_filter_def home_node_command_def Let_def)

theorem motion_node_commands_unnamed_witness: "cmd_ID home_node_command = [] \<and> cmd_Timeout home_node_command = 0"
  using motion_node_commands_unnamed[OF demo_home_node_decomposes] by simp

theorem fresh_decomposer_yields_no_device_commands_witness:
  "cmd_CommandType home_node_command \<notin> set device_types"
proof (rule fresh_decomposer_yields_no_device_commands)
  show "tnd_decomposeTaskNode (\<lambda>_. 0) (\<lambda>_. []) (NewTaskNodeDecomposer demo_td_cfg) 7 demo_home_node = Ret (Ok [home_node_command])"
    using demo_home_node_decomposes
    by (simp add: demo_home_node_def NewBaseTaskNode_def motion_types_def NewTaskNodeDecomposer_def)
qed simp



end
