(* ===== verification/ApplicationProps.thy ===== *)
theory ApplicationProps
  imports Management SchedulerProps PipelineProps DecomposerProps
begin

text \<open>
  What business commands lead to: how they are routed and answered, in which order their tasks are
  dispatched, what their tasks decompose to, and how the layers start and stop together.
\<close>

section \<open>Routing\<close>

abbreviation am_ready :: "ApplicationManager \<Rightarrow> bool" where
  "am_ready am \<equiv> \<forall>c. gm_get (cr_handlers (am_commandRouter am)) c =
     (if c \<in> set cfh_GetHandledCommands then Some HConfig
      else if c \<in> set bll_GetHandledCommands then Some HBusinessLogic else None)"

lemma am_SetupDependencies_ready: "am_ready (fst (am_SetupDependencies (NewApplicationManager cfg)))"
  by (simp add: am_SetupDependencies_def am_connectDevicesToHAL_def am_setupCommandHandlers_def cr_get_register
      am_handler_ops_def NewApplicationManager_def NewCommandRouter_def)

lemma am_ready_commands:
  "am_ready am \<Longrightarrow>
   (gm_get (cr_handlers (am_commandRouter am)) c \<noteq> None) = (c \<in> set (cfh_GetHandledCommands @ bll_GetHandledCommands))"
  by auto

lemma am_router_handler:
  assumes "am_ready am"
  shows "command_handler (cfh_GetHandledCommands @ bll_GetHandledCommands)
           (cr_RouteCommand am_handler_ops (am_commandRouter am))"
  by (rule am_routed.router_handler) (intro allI am_ready_commands[OF assms])

lemma am_route_facts:
  assumes "am_ready am" "am_routeBusinessCommand now msg am = (am', r)"
  shows "br_RequestID r = bm_RequestID msg"
    and "br_Status r = ''success'' \<Longrightarrow> bm_Command msg \<in> set (cfh_GetHandledCommands @ bll_GetHandledCommands)"
    and "am_commandRouter am' = am_commandRouter am"
proof -
  let ?route = "cr_RouteCommand am_handler_ops (am_commandRouter am)"
  obtain b where b: "?route now msg (am_businessLogic am) = (b, r)" "am' = am\<lparr>am_businessLogic := b\<rparr>"
    using assms(2) by (auto simp: am_routeBusinessCommand_def on_part_def split: prod.splits)
  note ch = am_router_handler[OF assms(1)]
  show "br_RequestID r = bm_RequestID msg"
    using command_handler.response_id[OF ch, of now msg "am_businessLogic am"] b by simp
  show "br_Status r = ''success'' \<Longrightarrow> bm_Command msg \<in> set (cfh_GetHandledCommands @ bll_GetHandledCommands)"
    using command_handler.success_only_if_handled[OF ch, of now msg "am_businessLogic am"] b by simp
  show "am_commandRouter am' = am_commandRouter am" using b by simp
qed

section \<open>Tasks of business commands\<close>

lemma zero_task_simps [simp]:
  "task_ID zero_task = []" "task_Axes zero_task = []" "task_RootNode zero_task = None"
  by (simp_all add: zero_task_def)

lemma bll_task_simps [simp]:
  "task_Axes (bll_task now c ps) = []" "task_RootNode (bll_task now c ps) = None"
  "task_Type (bll_task now c ps) = bll_mapBusinessToCommandType c"
  "task_Priority (bll_task now c ps) = bll_mapBusinessToPriority c"
  "task_ID (bll_task now c ps) = ''business-'' @ c @ ''-'' @ int_dec now"
  "task_Status (bll_task now c ps) = StatusPending"
  by (simp_all add: bll_task_def)

lemma axisless_decomposes:
  "task_Axes t = [] \<Longrightarrow> tnd_decomposeLegacyTask cfg now t = Ok cmds \<Longrightarrow> cmds = []"
  by (auto simp: tnd_decomposeLegacyTask_def tnd_motion_commands_def tnd_decomposeMoveTo_def tnd_decomposeMoveRelative_def
      tnd_move_commands_def tnd_decomposeHome_def tnd_decomposeStop_def tnd_decomposeJog_def axes_of_def
      map_filter_simps number_commands_def split: if_splits option.splits)


section \<open>Starting and stopping\<close>

lemma check_error_Ret: "f s = (s', Ret None) \<Longrightarrow> check_error fm f g s = g s'"
  by (simp add: check_error_def and_then_def)

lemma on_part_eq: "f (get s) = (c, r) \<Longrightarrow> on_part get put f s = (put (\<lambda>_. c) s, r)"
  by (simp add: on_part_def)

text \<open>Both queues and the executor are idle, respectively running, with their locks free and channels open.\<close>

definition scl_down :: "ServiceCoordinationLayer \<Rightarrow> bool" where
  "scl_down scl \<longleftrightarrow> eq_idle (scl_executionQueue scl) \<and> \<not> eq_running (scl_executionQueue scl) \<and>
     eq_idle (ce_queue (scl_commandExecutor scl)) \<and> \<not> eq_running (ce_queue (scl_commandExecutor scl)) \<and>
     \<not> ce_running (scl_commandExecutor scl)"

definition scl_up :: "ServiceCoordinationLayer \<Rightarrow> bool" where
  "scl_up scl \<longleftrightarrow> eq_idle (scl_executionQueue scl) \<and> eq_running (scl_executionQueue scl) \<and>
     eq_idle (ce_queue (scl_commandExecutor scl)) \<and> eq_running (ce_queue (scl_commandExecutor scl)) \<and>
     ce_running (scl_commandExecutor scl)"

definition scl_open :: "ServiceCoordinationLayer \<Rightarrow> bool" where
  "scl_open scl \<longleftrightarrow> \<not> ch_closed (eq_sendChan (scl_executionQueue scl)) \<and>
     \<not> ch_closed (eq_sendChan (ce_queue (scl_commandExecutor scl)))"

lemma scl_Start_up:
  assumes "scl_down scl"
  shows "\<exists>scl'. scl_Start scl = (scl', Ret None) \<and> scl_up scl' \<and> (scl_open scl' \<longleftrightarrow> scl_open scl) \<and> scl_hal scl' = scl_hal scl"
proof -
  obtain q where q: "eq_Start (scl_executionQueue scl) = (q, Ret None)" "eq_running q" "eq_idle q"
    "ch_closed (eq_sendChan q) = ch_closed (eq_sendChan (scl_executionQueue scl))"
    using assms eq_life.start_idle[of "scl_executionQueue scl"] eq_life.start_inv[of "scl_executionQueue scl"]
    by (cases "eq_Start (scl_executionQueue scl)") (auto simp: scl_down_def)
  let ?ce = "scl_commandExecutor scl"
  obtain q' where q': "eq_Start (ce_queue ?ce) = (q', Ret None)" "eq_running q'" "eq_idle q'"
    "ch_closed (eq_sendChan q') = ch_closed (eq_sendChan (ce_queue ?ce))"
    using assms eq_life.start_idle[of "ce_queue ?ce"] eq_life.start_inv[of "ce_queue ?ce"]
    by (cases "eq_Start (ce_queue ?ce)") (auto simp: scl_down_def)
  have "ce_Start ?ce = (?ce\<lparr>ce_ctx := Some False, ce_running := True, ce_queue := q', ce_workers := Suc (ce_workers ?ce)\<rparr>, Ret None)"
    using assms q' by (simp add: ce_Start_def scl_down_def Let_def)
  then show ?thesis using q q'
    by (simp add: scl_Start_def check_error_Ret[OF on_part_eq] scl_connectHALDevices_def check_error_Ret scl_up_def scl_open_def)
qed

lemma scl_Stop_down:
  assumes "scl_up scl" "scl_open scl"
  shows "\<exists>scl'. scl_Stop now scl = (scl', Ret None) \<and> scl_down scl' \<and> scl_hal scl' = scl_hal scl"
proof -
  let ?ce = "scl_commandExecutor scl"
  obtain q where q: "eq_Stop (scl_executionQueue scl) = (q, Ret None)" "\<not> eq_running q" "eq_idle q"
    using assms eq_life.stop_running[of "scl_executionQueue scl"] eq_life.stop_inv[of "scl_executionQueue scl"]
    by (cases "eq_Stop (scl_executionQueue scl)") (auto simp: scl_up_def scl_open_def)
  obtain q' where q': "eq_Stop (ce_queue ?ce) = (q', Ret None)" "\<not> eq_running q'" "eq_idle q'"
    using assms eq_life.stop_running[of "ce_queue ?ce"] eq_life.stop_inv[of "ce_queue ?ce"]
    by (cases "eq_Stop (ce_queue ?ce)") (auto simp: scl_up_def scl_open_def)
  have "\<exists>ce. ce_Stop now ?ce = (ce, Ret None) \<and> ce_queue ce = q' \<and> \<not> ce_running ce"
    using assms q' by (simp add: ce_Stop_def scl_up_def Let_def)
  then show ?thesis using q q'
    by (auto simp: scl_Stop_def and_then_def on_part_def wrap_error_def join_errors_def scl_down_def)
qed

definition tol_down :: "TaskOrchestrationLayer \<Rightarrow> bool" where
  "tol_down tol \<longleftrightarrow> \<not> tt_running (tol_taskTrigger tol) \<and> \<not> ts_running (tol_taskScheduler tol)"

definition tol_up :: "TaskOrchestrationLayer \<Rightarrow> bool" where
  "tol_up tol \<longleftrightarrow> tt_running (tol_taskTrigger tol) \<and> ts_running (tol_taskScheduler tol)"

definition tol_open :: "bool \<Rightarrow> TaskOrchestrationLayer \<Rightarrow> bool" where
  "tol_open b tol \<longleftrightarrow> (\<not> ch_closed (tt_taskChan (tol_taskTrigger tol))) = b \<and>
     (\<not> ch_closed (ts_taskChan (tol_taskScheduler tol))) = b"

lemma tol_Start_up:
  "tol_down tol \<Longrightarrow> tol_open b tol \<Longrightarrow> \<exists>tol'. tol_Start tol = (tol', Ret None) \<and> tol_up tol' \<and> tol_open b tol' \<and>
     tol_serviceCoordination tol' = tol_serviceCoordination tol"
  by (simp add: tol_Start_def check_error_Ret[OF on_part_eq] tt_Start_def ts_Start_def tol_down_def tol_up_def tol_open_def)

lemma tol_Stop_down:
  "tol_up tol \<Longrightarrow> tol_open True tol \<Longrightarrow> \<exists>tol'. tol_Stop tol = (tol', Ret None) \<and> tol_down tol' \<and> tol_open False tol' \<and>
     tol_serviceCoordination tol' = tol_serviceCoordination tol"
  by (simp add: tol_Stop_def and_then_def on_part_def tt_Stop_def ts_Stop_def tol_down_def tol_up_def tol_open_def
      ch_close_def wrap_error_def join_errors_def Let_def)

lemma tol_Stop_panics:
  "tol_up tol \<Longrightarrow> tol_open False tol \<Longrightarrow> \<exists>tol'. tol_Stop tol = (tol', Panic ''close of closed channel'')"
  by (simp add: tol_Stop_def and_then_def on_part_def tt_Stop_def tol_up_def tol_open_def ch_close_def Let_def)

lemma am_put_simps [simp]:
  "am_taskOrchestration (am_put_tol f am) = f (am_taskOrchestration am)"
  "am_taskOrchestration (am_put_scl g am) = tol_serviceCoordination_update g (am_taskOrchestration am)"
  "am_serviceCoordination (am_put_hal k am) = scl_hal_update k (am_serviceCoordination am)"
  "am_commandRouter (am_put_tol f am) = am_commandRouter am"
  "am_commandRouter (am_put_scl g am) = am_commandRouter am"
  "am_commandRouter (am_put_hal k am) = am_commandRouter am"
  "tol_taskTrigger (am_taskOrchestration (am_put_hal k am)) = tol_taskTrigger (am_taskOrchestration am)"
  "tol_taskScheduler (am_taskOrchestration (am_put_hal k am)) = tol_taskScheduler (am_taskOrchestration am)"
  by (simp_all add: am_put_tol_def am_put_scl_def am_put_hal_def)

lemma scl_hal_irrelevant [simp]:
  "scl_down (scl_hal_update k scl) = scl_down scl" "scl_up (scl_hal_update k scl) = scl_up scl"
  "scl_open (scl_hal_update k scl) = scl_open scl"
  by (simp_all add: scl_down_def scl_up_def scl_open_def)

lemma tol_scl_irrelevant [simp]:
  "tol_down (tol_serviceCoordination_update k tol) = tol_down tol"
  "tol_up (tol_serviceCoordination_update k tol) = tol_up tol"
  "tol_open b (tol_serviceCoordination_update k tol) = tol_open b tol"
  by (simp_all add: tol_down_def tol_up_def tol_open_def)

definition am_down :: "ApplicationManager \<Rightarrow> bool" where
  "am_down am \<longleftrightarrow> scl_down (am_serviceCoordination am) \<and> tol_down (am_taskOrchestration am)"

definition am_up :: "ApplicationManager \<Rightarrow> bool" where
  "am_up am \<longleftrightarrow> scl_up (am_serviceCoordination am) \<and> tol_up (am_taskOrchestration am)"

lemma am_Start_up:
  assumes "am_down am" "tol_open b (am_taskOrchestration am)"
  shows "\<exists>am'. am_Start now am = (am', Ret None) \<and> am_up am' \<and>
     (scl_open (am_serviceCoordination am') \<longleftrightarrow> scl_open (am_serviceCoordination am)) \<and>
     tol_open b (am_taskOrchestration am') \<and> am_commandRouter am' = am_commandRouter am"
proof -
  obtain hal where hal: "hal_Start now (am_hal am) = (hal, None)"
    using hal_Start_ok(1)[of now "am_hal am"] by (cases "hal_Start now (am_hal am)") simp
  let ?am1 = "am_put_hal (\<lambda>_. hal) am"
  have d1: "scl_down (am_serviceCoordination ?am1)"
    "scl_open (am_serviceCoordination ?am1) = scl_open (am_serviceCoordination am)"
    using assms by (simp_all add: am_down_def)
  obtain scl where scl: "scl_Start (am_serviceCoordination ?am1) = (scl, Ret None)" "scl_up scl"
    "scl_open scl \<longleftrightarrow> scl_open (am_serviceCoordination am)"
    using scl_Start_up[OF d1(1)] d1(2) by auto
  let ?am2 = "am_put_scl (\<lambda>_. scl) ?am1"
  have d2: "tol_down (am_taskOrchestration ?am2)" "tol_open b (am_taskOrchestration ?am2)"
    "am_serviceCoordination ?am2 = scl"
    using assms by (simp_all add: am_down_def tol_down_def tol_open_def)
  obtain tol where tol: "tol_Start (am_taskOrchestration ?am2) = (tol, Ret None)" "tol_up tol" "tol_open b tol"
    "tol_serviceCoordination tol = scl"
    using tol_Start_up[OF d2(1,2)] d2(3) by auto
  let ?am3 = "am_put_tol (\<lambda>_. tol) ?am2"
  have "am_Start now am = (am_businessLogic_update (\<lambda>_. am_businessLogic ?am3) ?am3, Ret None)"
    unfolding am_Start_def
    using hal scl(1) tol(1)
    by (simp add: check_error_Ret[OF on_part_eq] bll_Start_def)
  then show ?thesis using scl tol by (simp add: am_up_def)
qed

lemma am_Stop_down:
  assumes "am_up am" "scl_open (am_serviceCoordination am)" "tol_open True (am_taskOrchestration am)"
  shows "\<exists>am' r. am_Stop now am = (am', Ret r) \<and> am_down am' \<and> tol_open False (am_taskOrchestration am')"
proof -
  obtain tol where tol: "tol_Stop (am_taskOrchestration am) = (tol, Ret None)" "tol_down tol" "tol_open False tol"
    "tol_serviceCoordination tol = am_serviceCoordination am"
    using tol_Stop_down assms unfolding am_up_def by blast
  let ?am1 = "am_put_tol (\<lambda>_. tol) am"
  obtain scl where scl: "scl_Stop now (am_serviceCoordination am) = (scl, Ret None)" "scl_down scl"
    using scl_Stop_down assms unfolding am_up_def by blast
  let ?am2 = "am_put_scl (\<lambda>_. scl) ?am1"
  obtain hal r where hal: "hal_Stop (am_hal ?am2) = (hal, r)" by fastforce
  let ?am3 = "am_put_hal (\<lambda>_. hal) ?am2"
  have "\<exists>r. am_Stop now am = (?am3, Ret r)"
    using tol scl hal by (simp add: am_Stop_def and_then_def on_part_def bll_Stop_def)
  then show ?thesis using tol scl by (auto simp: am_down_def tol_down_def tol_open_def)
qed

lemma am_Stop_panics:
  assumes "am_up am" "tol_open False (am_taskOrchestration am)"
  shows "\<exists>am'. am_Stop now am = (am', Panic ''close of closed channel'')"
proof -
  obtain tol where "tol_Stop (am_taskOrchestration am) = (tol, Panic ''close of closed channel'')"
    using tol_Stop_panics assms unfolding am_up_def by blast
  then show ?thesis by (simp add: am_Stop_def and_then_def on_part_def bll_Stop_def)
qed

lemma am_new_down:
  "am_down (fst (am_SetupDependencies (NewApplicationManager cfg)))"
  "scl_open (am_serviceCoordination (fst (am_SetupDependencies (NewApplicationManager cfg))))"
  "tol_open True (am_taskOrchestration (fst (am_SetupDependencies (NewApplicationManager cfg))))"
  by (simp_all add: am_SetupDependencies_def am_connectDevicesToHAL_def am_setupCommandHandlers_def NewApplicationManager_def
      NewBusinessLogicLayer_def NewTaskOrchestrationLayer_def NewServiceCoordinationLayer_def am_down_def scl_down_def
      tol_down_def NewCommandExecutor_def NewExecutionQueue_def NewTaskScheduler_def NewTaskTrigger_def eq_idle_def
      eq_quiet_def scl_open_def tol_open_def)

section \<open>Properties\<close>

text \<open>C4. No business command moves anything: whatever the command and its parameters, the task made for it
  names no axis and has no tree, so it decomposes to no command at all, emergency stop and homing
  included, or is refused as an unsupported type.\<close>

theorem business_tasks_decompose_to_nothing:
  "tnd_DecomposeTask oob fmt_any tnd now' (bll_task now command params) =
     Ret (if command \<in> {CmdMove, CmdMoveRelative, CmdHome, CmdEmergencyStop} then Ok []
          else Err (Errorf ''unsupported legacy task type: %s'' [AStr CommandDelay]))"
proof (cases "command \<in> {CmdMove, CmdMoveRelative, CmdHome, CmdEmergencyStop}")
  case True
  then have "tnd_decomposeLegacyTask (tnd_config tnd) now' (bll_task now command params) \<noteq> Err e" for e
    by (auto simp: tnd_decomposeLegacyTask_def tnd_motion_commands_def bll_mapBusinessToCommandType_def)
  then have "tnd_decomposeLegacyTask (tnd_config tnd) now' (bll_task now command params) = Ok []"
    using axisless_decomposes[of "bll_task now command params" "tnd_config tnd" now']
    by (cases "tnd_decomposeLegacyTask (tnd_config tnd) now' (bll_task now command params)") auto
  then show ?thesis using True by (simp add: tnd_DecomposeTask_def)
next
  case False
  then show ?thesis
    by (simp add: tnd_DecomposeTask_def tnd_decomposeLegacyTask_def tnd_motion_commands_def bll_mapBusinessToCommandType_def)
qed

text \<open>C33. A business message gets exactly one reply, addressed to its source, with the message's ID as
  request ID; the reply reports success only for a command of one of the two handlers.\<close>

theorem business_message_reply:
  assumes "am_ready am" "gm_get (msg_Data m) ''command'' = Some (VString c)" "msg_Source m \<noteq> []"
  shows "\<exists>am' r. am_handleBusinessCommand now m am = (am', Some (msg_Source m, r)) \<and> am_ready am' \<and>
     msg_Target r = msg_Source m \<and> gm_get (msg_Data r) ''request_id'' = Some (VString (msg_ID m)) \<and>
     (gm_get (msg_Data r) ''status'' = Some (VString ''success'') \<longrightarrow>
        c \<in> set (cfh_GetHandledCommands @ bll_GetHandledCommands))"
proof -
  obtain msg where msg: "am_parseBusinessMessage now m = Ok msg" "bm_RequestID msg = msg_ID m" "bm_Command msg = c"
    using assms(2) by (simp add: am_parseBusinessMessage_def)
  obtain am' r where r: "am_routeBusinessCommand now msg am = (am', r)" by fastforce
  note facts = am_route_facts[OF assms(1) r]
  show ?thesis using assms facts msg r
    by (auto simp: am_handleBusinessCommand_def am_sendBusinessResponse_def gm_get_def)
qed

text \<open>Five of the fourteen business commands have no handler: moves, jogs, motion stops and resets are
  answered with an error and change nothing.\<close>

theorem commands_without_handler:
  assumes "am_ready am"
  shows "filter (\<lambda>c. gm_get (cr_handlers (am_commandRouter am)) c = None) all_business_commands =
     [CmdReset, CmdMove, CmdMoveRelative, CmdJog, CmdStopMotion]"
  using assms by (simp add: all_business_commands_def cfh_GetHandledCommands_def bll_GetHandledCommands_def)


text \<open>As long as the HAL has no devices, the task orchestration's own processing of a task leaves every
  layer and the hardware as they were: each command stops at the HAL, before the command executor.\<close>

theorem orchestration_executes_nothing:
  assumes "hal_devices (scl_hal (tol_serviceCoordination tol)) = []"
  shows "fst (tol_processTask ops oob fmt_any now task (tol, h)) = (tol, h)"
proof -
  have step: "scl_ExecuteCommand ops oob now cmd (tol_serviceCoordination tol, h) =
      ((tol_serviceCoordination tol, h), Ret (Some (Errorf ''failed to get device %s: %w''
        [AStr (cmd_DeviceID cmd), AErr (Errorf ''device %s not found'' [AStr (cmd_DeviceID cmd)])])))" for cmd
    using assms by (simp add: scl_ExecuteCommand_def hal_ExecuteCommand_def hdm_GetDevice_def Let_def)
  have "each_command (\<lambda>cmd (tol, h).
            let ((scl, h'), r) = scl_ExecuteCommand ops oob now cmd (tol_serviceCoordination tol, h)
            in ((tol\<lparr>tol_serviceCoordination := scl\<rparr>, h'), r)) cmds (tol, h) = ((tol, h), Ret ())" for cmds
    by (induction cmds) (simp_all add: step and_then_def)
  then show ?thesis by (auto simp: tol_processTask_def split: exec.splits result.splits)
qed

text \<open>The application starts, and stops, once.  It starts a second time without an error; its second stop
  panics when the task trigger closes its channel again, before anything but the trigger is stopped.\<close>

theorem second_stop_of_the_application_panics:
  "\<exists>am1 r am2 am3. am_Start t1 (fst (am_SetupDependencies (NewApplicationManager cfg))) = (am1, Ret None) \<and>
     am_Stop t2 am1 = (am2, Ret r) \<and> am_Start t3 am2 = (am3, Ret None) \<and>
     (\<exists>am4. am_Stop t4 am3 = (am4, Panic ''close of closed channel''))"
proof -
  obtain am1 where 1: "am_Start t1 (fst (am_SetupDependencies (NewApplicationManager cfg))) = (am1, Ret None)"
    "am_up am1" "scl_open (am_serviceCoordination am1)" "tol_open True (am_taskOrchestration am1)"
    using am_Start_up[OF am_new_down(1,3), of t1] am_new_down(2) by blast
  obtain am2 r where 2: "am_Stop t2 am1 = (am2, Ret r)" "am_down am2" "tol_open False (am_taskOrchestration am2)"
    using am_Stop_down[OF 1(2-4)] by blast
  obtain am3 where 3: "am_Start t3 am2 = (am3, Ret None)" "am_up am3" "tol_open False (am_taskOrchestration am3)"
    using am_Start_up[OF 2(2,3)] by blast
  show ?thesis using 1(1) 2(1) 3(1) am_Stop_panics[OF 3(2,3)] by blast
qed

section \<open>Witnesses\<close>

definition demo_am :: ApplicationManager where
  "demo_am = fst (am_SetupDependencies (NewApplicationManager demo_rm_cfg))"

definition demo_query :: IPCMessage where
  "demo_query = \<lparr>msg_Type = ''business_command'', msg_Source = ''client-1'', msg_Target = ''control_system'',
     msg_Data = [(''command'', VString CmdMove)], msg_Timestamp = 3, msg_ID = ''m1''\<rparr>"

lemma demo_am_ready: "am_ready demo_am"
  unfolding demo_am_def by (rule am_SetupDependencies_ready)

theorem business_message_reply_witness:
  "\<exists>am' r. am_handleBusinessCommand 5 demo_query demo_am = (am', Some (''client-1'', r)) \<and>
     gm_get (msg_Data r) ''request_id'' = Some (VString ''m1'') \<and> gm_get (msg_Data r) ''status'' \<noteq> Some (VString ''success'')"
proof -
  have "gm_get (msg_Data demo_query) ''command'' = Some (VString CmdMove)" "msg_Source demo_query \<noteq> []"
    by (simp_all add: demo_query_def gm_get_def)
  from business_message_reply[OF demo_am_ready this, of 5] show ?thesis
    by (auto simp: demo_query_def cfh_GetHandledCommands_def bll_GetHandledCommands_def)
qed

theorem commands_without_handler_witness:
  "filter (\<lambda>c. gm_get (cr_handlers (am_commandRouter demo_am)) c = None) all_business_commands =
     [CmdReset, CmdMove, CmdMoveRelative, CmdJog, CmdStopMotion]"
  by (rule commands_without_handler[OF demo_am_ready])




theorem orchestration_executes_nothing_witness:
  "fst (tol_processTask demo_ops (\<lambda>_. 0) (\<lambda>_. []) 7 demo_home (am_taskOrchestration demo_am, ())) =
     (am_taskOrchestration demo_am, ())"
proof (rule orchestration_executes_nothing)
  show "hal_devices (am_hal demo_am) = []"
    by (simp add: demo_am_def am_SetupDependencies_def am_connectDevicesToHAL_def am_setupCommandHandlers_def
        NewApplicationManager_def NewBusinessLogicLayer_def NewTaskOrchestrationLayer_def NewServiceCoordinationLayer_def
        NewHardwareAbstractionLayer_def NewHalDeviceManager_def)
qed

end
