(* ===== verification/Comm.thy ===== *)
theory Comm
  imports Interfaces GoFmt
begin

text \<open>
  The base of the hardware communication layer (\<open>internal/hardware/comm/\<close>): connection status,
  configuration, event handlers, error handling and the retry loop that the protocol clients embed.
  Event handlers are named by numbers; \<open>bc_trace\<close> lists the calls made on them, in order.  A panic of
  a handler is recovered by \<open>emitEvent\<close> and reaches nobody else.
\<close>

type_synonym bytes = "8 word list"

section \<open>Interfaces and data\<close>

datatype ConnectionStatus = Disconnected | Connecting | Connected | ConnError

record ConnectionConfig =
  cc_Timeout :: Duration
  cc_RetryCount :: int
  cc_RetryInterval :: Duration
  cc_KeepAlive :: bool

record DeviceInfo =
  di_ID :: string
  di_Address :: string
  di_Type :: string
  di_Model :: string
  di_Properties :: "(string, goval) gomap"

text \<open>The interface \<open>ErrorHandler\<close>; \<open>HandleError\<close> may turn an error into none.\<close>

record ErrorHandler =
  eh_HandleError :: "goerr \<Rightarrow> goerr option"
  eh_ShouldRetry :: "goerr \<Rightarrow> bool"
  eh_GetRetryDelay :: "goerr \<Rightarrow> Duration"

text \<open>The calls of the interface \<open>EventHandler\<close>.\<close>

datatype comm_event =
    OnConnected
  | OnDisconnected
  | OnError "goerr option"
  | OnDataReceived string bytes
  | OnDataWritten string bytes

record BaseCommunication =
  bc_config :: ConnectionConfig
  bc_status :: ConnectionStatus
  bc_lastError :: "goerr option"
  bc_eventHandlers :: "nat list"
  bc_errorHandler :: "ErrorHandler option"
  bc_cancelled :: bool
  bc_trace :: "(nat \<times> comm_event) list"

definition NewBaseCommunication :: "ConnectionConfig \<Rightarrow> BaseCommunication" where
  "NewBaseCommunication cfg =
     \<lparr>bc_config = cfg, bc_status = Disconnected, bc_lastError = None, bc_eventHandlers = [],
      bc_errorHandler = None, bc_cancelled = False, bc_trace = []\<rparr>"

section \<open>Status, handlers and events\<close>

definition bc_GetStatus :: "BaseCommunication \<Rightarrow> ConnectionStatus" where
  "bc_GetStatus bc = bc_status bc"

definition bc_SetStatus :: "ConnectionStatus \<Rightarrow> BaseCommunication \<Rightarrow> BaseCommunication" where
  "bc_SetStatus st bc = bc\<lparr>bc_status := st\<rparr>"

definition bc_SetLastError :: "goerr option \<Rightarrow> BaseCommunication \<Rightarrow> BaseCommunication" where
  "bc_SetLastError e bc = bc\<lparr>bc_lastError := e\<rparr>"

definition bc_GetLastError :: "BaseCommunication \<Rightarrow> goerr option" where
  "bc_GetLastError bc = bc_lastError bc"

definition bc_IsConnected :: "BaseCommunication \<Rightarrow> bool" where
  "bc_IsConnected bc = (bc_GetStatus bc = Connected)"

definition bc_AddEventHandler :: "nat \<Rightarrow> BaseCommunication \<Rightarrow> BaseCommunication" where
  "bc_AddEventHandler h bc = bc\<lparr>bc_eventHandlers := bc_eventHandlers bc @ [h]\<rparr>"

definition bc_RemoveEventHandler :: "nat \<Rightarrow> BaseCommunication \<Rightarrow> BaseCommunication" where
  "bc_RemoveEventHandler h bc = bc\<lparr>bc_eventHandlers := remove1 h (bc_eventHandlers bc)\<rparr>"

definition bc_SetErrorHandler :: "ErrorHandler \<Rightarrow> BaseCommunication \<Rightarrow> BaseCommunication" where
  "bc_SetErrorHandler eh bc = bc\<lparr>bc_errorHandler := Some eh\<rparr>"

definition bc_emitEvent :: "comm_event \<Rightarrow> BaseCommunication \<Rightarrow> BaseCommunication" where
  "bc_emitEvent ev bc = bc\<lparr>bc_trace := bc_trace bc @ map (\<lambda>h. (h, ev)) (bc_eventHandlers bc)\<rparr>"

definition bc_EmitConnected :: "BaseCommunication \<Rightarrow> BaseCommunication" where
  "bc_EmitConnected = bc_emitEvent OnConnected"

definition bc_EmitDisconnected :: "BaseCommunication \<Rightarrow> BaseCommunication" where
  "bc_EmitDisconnected = bc_emitEvent OnDisconnected"

definition bc_EmitError :: "goerr option \<Rightarrow> BaseCommunication \<Rightarrow> BaseCommunication" where
  "bc_EmitError e = bc_emitEvent (OnError e)"

definition bc_EmitDataReceived :: "string \<Rightarrow> bytes \<Rightarrow> BaseCommunication \<Rightarrow> BaseCommunication" where
  "bc_EmitDataReceived addr d = bc_emitEvent (OnDataReceived addr d)"

definition bc_EmitDataWritten :: "string \<Rightarrow> bytes \<Rightarrow> BaseCommunication \<Rightarrow> BaseCommunication" where
  "bc_EmitDataWritten addr d = bc_emitEvent (OnDataWritten addr d)"

definition bc_Cancel :: "BaseCommunication \<Rightarrow> BaseCommunication" where
  "bc_Cancel bc = bc\<lparr>bc_cancelled := True\<rparr>"

text \<open>The error is recorded, handed to the error handler if there is one, reported and returned.\<close>

definition bc_HandleWithError :: "goerr \<Rightarrow> BaseCommunication \<Rightarrow> BaseCommunication \<times> goerr option" where
  "bc_HandleWithError e bc =
     (let bc1 = bc_SetLastError (Some e) bc;
          r = (case bc_errorHandler bc1 of None \<Rightarrow> Some e | Some eh \<Rightarrow> eh_HandleError eh e)
      in (bc_EmitError r bc1, r))"

definition isNetworkError :: "goerr \<Rightarrow> bool" where
  "isNetworkError e = False"

definition isTimeoutError :: "goerr \<Rightarrow> bool" where
  "isTimeoutError e = False"

definition DefaultErrorHandler :: ErrorHandler where
  "DefaultErrorHandler =
     \<lparr>eh_HandleError = Some, eh_ShouldRetry = (\<lambda>e. isNetworkError e \<or> isTimeoutError e),
      eh_GetRetryDelay = (\<lambda>e. 0)\<rparr>"

section \<open>The retry loop\<close>

text \<open>
  What the loop observes of its context: at the head of iteration \<open>i\<close>, and while it waits for a
  delay after the attempt of iteration \<open>i\<close> (\<open>CtxLive\<close> there means that the timer fired first).
\<close>

record retry_env =
  re_before :: "nat \<Rightarrow> ctx"
  re_wait :: "nat \<Rightarrow> Duration \<Rightarrow> ctx"

text \<open>\<open>%w\<close> of the last error, which is nil when no attempt was made.\<close>

definition last_error_arg :: "goerr option \<Rightarrow> farg" where
  "last_error_arg e = (case e of None \<Rightarrow> AStr ''%!w(<nil>)'' | Some e' \<Rightarrow> AErr e')"

definition retries_exhausted :: "int \<Rightarrow> goerr option \<Rightarrow> goerr" where
  "retries_exhausted n e =
     Errorf ''operation failed after %d retries, last error: %w'' [AInt n, last_error_arg e]"

definition retry_delay :: "BaseCommunication \<Rightarrow> goerr \<Rightarrow> Duration" where
  "retry_delay bc e =
     (case bc_errorHandler bc of
        None \<Rightarrow> cc_RetryInterval (bc_config bc)
      | Some eh \<Rightarrow> if eh_GetRetryDelay eh e > 0 then eh_GetRetryDelay eh e else cc_RetryInterval (bc_config bc))"

text \<open>\<open>n\<close> iterations are left, the next is number \<open>i\<close>.\<close>

fun retry_loop ::
  "retry_env \<Rightarrow> BaseCommunication \<Rightarrow> ('w \<Rightarrow> 'w \<times> goerr option exec) \<Rightarrow> nat \<Rightarrow> nat \<Rightarrow> goerr option \<Rightarrow> 'w \<Rightarrow>
   'w \<times> goerr option exec" where
  "retry_loop env bc op 0 i lastErr w =
     (w, Ret (Some (retries_exhausted (cc_RetryCount (bc_config bc)) lastErr)))"
| "retry_loop env bc op (Suc n) i lastErr w =
     (case re_before env i of
        CtxDone e \<Rightarrow> (w, Ret (Some e))
      | CtxLive \<Rightarrow>
          (case op w of
             (w', Panic m) \<Rightarrow> (w', Panic m)
           | (w', Blocked) \<Rightarrow> (w', Blocked)
           | (w', Ret None) \<Rightarrow> (w', Ret None)
           | (w', Ret (Some e)) \<Rightarrow>
               if (case bc_errorHandler bc of None \<Rightarrow> False | Some eh \<Rightarrow> \<not> eh_ShouldRetry eh e)
               then (w', Ret (Some e))
               else if int i = cc_RetryCount (bc_config bc)
               then (w', Ret (Some (retries_exhausted (cc_RetryCount (bc_config bc)) (Some e))))
               else (case re_wait env i (retry_delay bc e) of
                       CtxDone c \<Rightarrow> (w', Ret (Some c))
                     | CtxLive \<Rightarrow> retry_loop env bc op n (Suc i) (Some e) w')))"

definition bc_RetryWithTimeout ::
  "retry_env \<Rightarrow> BaseCommunication \<Rightarrow> ('w \<Rightarrow> 'w \<times> goerr option exec) \<Rightarrow> 'w \<Rightarrow> 'w \<times> goerr option exec" where
  "bc_RetryWithTimeout env bc op w =
     retry_loop env bc op (nat (cc_RetryCount (bc_config bc) + 1)) 0 None w"

section \<open>Bulk operations\<close>

text \<open>
  \<open>BulkRead\<close> and \<open>BulkWrite\<close> have the same body in every client: reads of length 1, and writes of
  the entries of a map, up to the first error.
\<close>

fun bulk_read_from ::
  "(string \<Rightarrow> 'c \<Rightarrow> 'c \<times> bytes result exec) \<Rightarrow> string list \<Rightarrow> (string, bytes) gomap \<Rightarrow> 'c \<Rightarrow>
   'c \<times> (string, bytes) gomap result exec" where
  "bulk_read_from rd [] acc c = (c, Ret (Ok acc))"
| "bulk_read_from rd (a # as) acc c =
     (case rd a c of
        (c', Ret (Ok d)) \<Rightarrow> bulk_read_from rd as (gm_set a d acc) c'
      | (c', Ret (Err e)) \<Rightarrow> (c', Ret (Err e))
      | (c', Panic m) \<Rightarrow> (c', Panic m)
      | (c', Blocked) \<Rightarrow> (c', Blocked))"

definition bulk_read ::
  "(string \<Rightarrow> 'c \<Rightarrow> 'c \<times> bytes result exec) \<Rightarrow> string list \<Rightarrow> 'c \<Rightarrow> 'c \<times> (string, bytes) gomap result exec" where
  "bulk_read rd as = bulk_read_from rd as []"

fun bulk_write ::
  "(string \<Rightarrow> bytes \<Rightarrow> 'c \<Rightarrow> 'c \<times> goerr option exec) \<Rightarrow> (string, bytes) gomap \<Rightarrow> 'c \<Rightarrow> 'c \<times> goerr option exec" where
  "bulk_write wt [] c = (c, Ret None)"
| "bulk_write wt ((a, d) # m) c =
     (case wt a d c of
        (c', Ret None) \<Rightarrow> bulk_write wt m c'
      | (c', Ret (Some e)) \<Rightarrow> (c', Ret (Some e))
      | (c', Panic msg) \<Rightarrow> (c', Panic msg)
      | (c', Blocked) \<Rightarrow> (c', Blocked))"

section \<open>Base lemmas\<close>

lemma bc_status_simps [simp]:
  "bc_status (bc_SetStatus st bc) = st"
  "bc_status (bc_emitEvent ev bc) = bc_status bc"
  "bc_status (bc_SetLastError e bc) = bc_status bc"
  "bc_status (fst (bc_HandleWithError err bc)) = bc_status bc"
  "bc_status (bc_AddEventHandler h bc) = bc_status bc"
  "bc_status (bc_RemoveEventHandler h bc) = bc_status bc"
  by (simp_all add: bc_SetStatus_def bc_emitEvent_def bc_SetLastError_def bc_HandleWithError_def
      bc_EmitError_def bc_AddEventHandler_def bc_RemoveEventHandler_def Let_def)

lemmas emit_defs = bc_EmitConnected_def bc_EmitDisconnected_def bc_EmitError_def
  bc_EmitDataReceived_def bc_EmitDataWritten_def

lemma bc_IsConnected_iff: "bc_IsConnected bc \<longleftrightarrow> bc_status bc = Connected"
  by (simp add: bc_IsConnected_def bc_GetStatus_def)

lemma HandleWithError_no_handler:
  "bc_errorHandler bc = None \<Longrightarrow>
     bc_HandleWithError e bc = (bc_EmitError (Some e) (bc_SetLastError (Some e) bc), Some e)"
  by (simp add: bc_HandleWithError_def bc_SetLastError_def Let_def)

text \<open>Adding a handler and removing it again.\<close>

lemma add_then_remove_handler:
  "h \<notin> set (bc_eventHandlers bc) \<Longrightarrow> bc_RemoveEventHandler h (bc_AddEventHandler h bc) = bc"
  by (simp add: bc_RemoveEventHandler_def bc_AddEventHandler_def remove1_append)

section \<open>The contract of a client\<close>

text \<open>
  What the device layer relies on in a \<open>CommunicationInterface\<close>: a client that is not connected
  refuses reads and writes without any effect, and a \<open>plain\<close> client that was disconnected without an
  error is not connected (an error handler may turn the error of a disconnection into none; plain
  clients have no error handler).  \<open>'e\<close> is what a call observes of its context.
\<close>

locale comm_client =
  fixes plain :: "'c \<Rightarrow> bool"
    and connected :: "'c \<Rightarrow> bool"
    and rd :: "'e \<Rightarrow> string \<Rightarrow> int \<Rightarrow> 'c \<Rightarrow> 'c \<times> bytes result exec"
    and wt :: "'e \<Rightarrow> string \<Rightarrow> bytes \<Rightarrow> 'c \<Rightarrow> 'c \<times> goerr option exec"
    and disconnect :: "'c \<Rightarrow> 'c \<times> goerr option exec"
  assumes read_off: "\<not> connected c \<Longrightarrow> \<exists>e. rd env a n c = (c, Ret (Err e))"
    and write_off: "\<not> connected c \<Longrightarrow> \<exists>e. wt env a d c = (c, Ret (Some e))"
    and disconnect_off: "plain c \<Longrightarrow> snd (disconnect c) = Ret None \<Longrightarrow> \<not> connected (fst (disconnect c))"
begin

lemma bulk_read_off:
  assumes "\<not> connected c" "as \<noteq> []"
  shows "\<exists>e. bulk_read (\<lambda>a. rd env a n) as c = (c, Ret (Err e))"
proof -
  obtain a as' where as: "as = a # as'" using assms(2) by (cases as) auto
  obtain e where "rd env a n c = (c, Ret (Err e))" using read_off[OF assms(1)] by blast
  then show ?thesis using as by (simp add: bulk_read_def)
qed

lemma bulk_write_off:
  assumes "\<not> connected c" "m \<noteq> []"
  shows "\<exists>e. bulk_write (wt env) m c = (c, Ret (Some e))"
proof -
  obtain a d m' where m: "m = (a, d) # m'" using assms(2) by (cases m) auto
  obtain e where "wt env a d c = (c, Ret (Some e))" using write_off[OF assms(1)] by blast
  then show ?thesis using m by simp
qed

lemma no_traffic_after_disconnect:
  assumes "plain c" "snd (disconnect c) = Ret None"
  defines "c' \<equiv> fst (disconnect c)"
  shows "(\<exists>e. rd env a n c' = (c', Ret (Err e))) \<and> (\<exists>e. wt env a d c' = (c', Ret (Some e)))"
  using disconnect_off[OF assms(1,2)] read_off write_off by (auto simp: c'_def)

end

section \<open>Properties of the retry loop\<close>



lemma retry_loop_live:
  assumes live: "\<And>j. re_before env j = CtxLive" "\<And>j d. re_wait env j d = CtxLive"
    and noh: "bc_errorHandler bc = None" and n: "cc_RetryCount (bc_config bc) = int m"
  shows "i + n = Suc m \<Longrightarrow> 0 < n \<Longrightarrow>
     retry_loop env bc (\<lambda>k. (Suc k, Ret (r k))) n i lastErr i =
       (case find (\<lambda>k. r k = None) [i ..< Suc m] of
          Some k \<Rightarrow> (Suc k, Ret None)
        | None \<Rightarrow> (Suc m, Ret (Some (retries_exhausted (int m) (r m)))))"
proof (induction n arbitrary: i lastErr)
  case 0
  then show ?case by simp
next
  case (Suc n)
  have im: "i \<le> m" using Suc.prems by simp
  then have up: "[i ..< Suc m] = i # [Suc i ..< Suc m]" by (simp add: upt_conv_Cons)
  show ?case
  proof (cases "r i")
    case None
    then show ?thesis unfolding up by (simp add: live)
  next
    case (Some e)
    show ?thesis
    proof (cases "i = m")
      case True
      then show ?thesis using Some unfolding up by (simp add: live noh n)
    next
      case False
      then have "0 < n" "Suc i + n = Suc m" using Suc.prems im by simp_all
      then show ?thesis using Suc.IH[of "Suc i" "Some e"] Some False unfolding up by (simp add: live noh n)
    qed
  qed
qed


text \<open>
  On a live context, with the clients' missing error handler and a count of \<open>m\<close>, the loop
  succeeds exactly when one of the first \<open>m + 1\<close> attempts does, after that attempt; otherwise it
  reports the error of the last attempt.
\<close>

theorem retry_exact:
  assumes "\<And>j. re_before env j = CtxLive" "\<And>j d. re_wait env j d = CtxLive"
    and "bc_errorHandler bc = None" "cc_RetryCount (bc_config bc) = int m"
  shows "bc_RetryWithTimeout env bc (\<lambda>k. (Suc k, Ret (r k))) 0 =
       (case find (\<lambda>k. r k = None) [0 ..< Suc m] of
          Some k \<Rightarrow> (Suc k, Ret None)
        | None \<Rightarrow> (Suc m, Ret (Some (retries_exhausted (int m) (r m)))))"
proof -
  have "nat (int m + 1) = Suc m" by simp
  then show ?thesis
    unfolding bc_RetryWithTimeout_def assms(4) using retry_loop_live[OF assms, of 0 "Suc m" r None] by simp
qed

definition live_env :: retry_env where
  "live_env = \<lparr>re_before = (\<lambda>_. CtxLive), re_wait = (\<lambda>_ _. CtxLive)\<rparr>"

definition demo_base :: "int \<Rightarrow> BaseCommunication" where
  "demo_base n = NewBaseCommunication
     \<lparr>cc_Timeout = 0, cc_RetryCount = n, cc_RetryInterval = Second, cc_KeepAlive = False\<rparr>"

text \<open>Two failures, then a success, with two retries.\<close>

theorem retry_exact_witness:
  "bc_RetryWithTimeout live_env (demo_base 2)
     (\<lambda>k. (Suc k, Ret (if k < 2 then Some CtxCanceled else None))) 0 = (3, Ret None)"
proof -
  have "find (\<lambda>k. (if k < 2 then Some CtxCanceled else None) = None) [0 ..< Suc 2] = Some 2"
    by code_simp
  then show ?thesis
    using retry_exact[of live_env "demo_base 2" 2 "\<lambda>k. if k < 2 then Some CtxCanceled else None"]
    by (simp add: live_env_def demo_base_def NewBaseCommunication_def)
qed

text \<open>
  With the default error handler the loop makes one attempt and returns its outcome: the handler
  classifies no error as one worth retrying.
\<close>

theorem default_handler_never_retries:
  assumes "bc_errorHandler bc = Some DefaultErrorHandler" "0 \<le> cc_RetryCount (bc_config bc)"
    and "re_before env 0 = CtxLive"
  shows "bc_RetryWithTimeout env bc op w = op w"
proof -
  obtain n where "nat (cc_RetryCount (bc_config bc) + 1) = Suc n"
    using assms(2) by (metis Suc_nat_eq_nat_zadd1 add.commute)
  moreover obtain w' r where "op w = (w', r)" by (cases "op w")
  ultimately show ?thesis
    using assms
    by (auto simp: bc_RetryWithTimeout_def DefaultErrorHandler_def isNetworkError_def isTimeoutError_def
        split: exec.split option.split)
qed

theorem default_handler_never_retries_witness:
  "bc_RetryWithTimeout live_env (bc_SetErrorHandler DefaultErrorHandler (demo_base 5))
     (\<lambda>k. (Suc k, Ret (Some CtxCanceled))) (0 :: nat) = (1, Ret (Some CtxCanceled))"
  using default_handler_never_retries[of "bc_SetErrorHandler DefaultErrorHandler (demo_base 5)" live_env
      "\<lambda>k. (Suc k, Ret (Some CtxCanceled))" "0 :: nat"]
  by (simp add: bc_SetErrorHandler_def live_env_def demo_base_def NewBaseCommunication_def)

end
