(* ===== verification/Crc16.thy ===== *)
theory Crc16
  imports Comm
begin

unbundle bit_operations_syntax

text \<open>
  The CRC-16 (polynomial 0xA001, reflected, initial value 0xFFFF) that the serial and the custom
  protocol client compute with the same loop, and its algebra: every step is linear and injective,
  a message followed by its CRC leaves the residue 0, and no corruption confined to two adjacent
  bytes does.
\<close>

section \<open>The loop\<close>

text \<open>One turn of the inner loop.\<close>

definition crc_bit :: "16 word \<Rightarrow> 16 word" where
  "crc_bit crc = (if crc AND 1 \<noteq> 0 then drop_bit 1 crc XOR 0xA001 else drop_bit 1 crc)"

definition crc_bits :: "16 word \<Rightarrow> 16 word" where
  "crc_bits crc = (crc_bit ^^ 8) crc"

text \<open>One turn of the outer loop.\<close>

definition crc_byte :: "8 word \<Rightarrow> 16 word \<Rightarrow> 16 word" where
  "crc_byte b crc = crc_bits (crc XOR ucast b)"

definition crc_from :: "16 word \<Rightarrow> bytes \<Rightarrow> 16 word" where
  "crc_from init d = fold crc_byte d init"

definition crc16 :: "bytes \<Rightarrow> 16 word" where
  "crc16 d = crc_from 0xFFFF d"

text \<open>The two bytes of a CRC, low byte first.\<close>

definition crc_tail :: "16 word \<Rightarrow> bytes" where
  "crc_tail c = [ucast (c AND 0xFF), ucast (drop_bit 8 c)]"

section \<open>Linearity and injectivity\<close>

lemma and_one_iff: "(x :: 16 word) AND 1 \<noteq> 0 \<longleftrightarrow> bit x 0"
  by (simp add: and_one_eq bit_0 odd_iff_mod_2_eq_one)

lemma crc_bit_alt: "crc_bit x = drop_bit 1 x XOR (if bit x 0 then 0xA001 else 0)"
  by (simp add: crc_bit_def and_one_iff)

lemma crc_bit_xor: "crc_bit (x XOR y) = crc_bit x XOR crc_bit y"
  by (simp add: crc_bit_alt bit_xor_iff ac_simps)

lemma crc_bit_0 [simp]: "crc_bit 0 = 0"
  by (simp add: crc_bit_def)

lemma crc_bit_eq_0: "crc_bit x = 0 \<Longrightarrow> x = 0"
proof -
  assume 0: "crc_bit x = 0"
  have "bit (crc_bit x) 15 = bit x 0"
    by (auto simp: crc_bit_alt bit_xor_iff bit_drop_bit_eq dest: bit_imp_le_length)
  then have "\<not> bit x 0" using 0 by simp
  then have "drop_bit 1 x = 0" using 0 by (simp add: crc_bit_alt)
  then have "\<not> bit (drop_bit 1 x) n" for n by simp
  then have "\<not> bit x (Suc n)" for n by (simp add: bit_drop_bit_eq)
  with \<open>\<not> bit x 0\<close> have "\<not> bit x n" for n by (cases n) auto
  then show "x = 0" by (intro bit_word_eqI) simp
qed

lemma crc_bits_xor: "crc_bits (x XOR y) = crc_bits x XOR crc_bits y"
proof -
  have "(crc_bit ^^ n) (x XOR y) = (crc_bit ^^ n) x XOR (crc_bit ^^ n) y" for n
    by (induction n) (simp_all add: crc_bit_xor)
  then show ?thesis by (simp add: crc_bits_def)
qed

lemma crc_bits_0 [simp]: "crc_bits 0 = 0"
  by (simp add: crc_bits_def numeral_eq_Suc)

lemma crc_bits_eq_0: "crc_bits x = 0 \<Longrightarrow> x = 0"
proof -
  have "(crc_bit ^^ n) x = 0 \<Longrightarrow> x = 0" for n
    by (induction n) (auto dest: crc_bit_eq_0)
  then show "crc_bits x = 0 \<Longrightarrow> x = 0" by (auto simp: crc_bits_def)
qed

lemma crc_from_simps [simp]:
  "crc_from c [] = c"
  "crc_from c (b # d) = crc_from (crc_byte b c) d"
  by (simp_all add: crc_from_def)

lemma crc_from_append: "crc_from c (d @ d') = crc_from (crc_from c d) d'"
  by (simp add: crc_from_def)

lemma crc_byte_xor: "crc_byte (a XOR b) (x XOR y) = crc_byte a x XOR crc_byte b y"
proof -
  have "ucast (a XOR b) = (ucast a XOR ucast b :: 16 word)" by (simp add: unsigned_xor_eq)
  then show ?thesis
    by (simp add: crc_byte_def flip: crc_bits_xor) (simp add: ac_simps)
qed

lemma crc_from_xor:
  "length d = length d' \<Longrightarrow> crc_from (x XOR y) (map2 (XOR) d d') = crc_from x d XOR crc_from y d'"
  by (induction d d' arbitrary: x y rule: list_induct2) (simp_all add: crc_byte_xor)

lemma crc_from_zeros: "crc_from c (replicate n 0) = 0 \<Longrightarrow> c = 0"
  by (induction n arbitrary: c) (auto simp: crc_byte_def dest: crc_bits_eq_0)

section \<open>Shifting whole bytes\<close>

lemma crc_bit_even: "\<not> bit x 0 \<Longrightarrow> crc_bit x = drop_bit 1 x"
  by (simp add: crc_bit_alt)

lemma crc_bits_high:
  assumes "\<And>n. n < 8 \<Longrightarrow> \<not> bit x n"
  shows "crc_bits x = drop_bit 8 x"
proof -
  have "k \<le> 8 \<Longrightarrow> (crc_bit ^^ k) x = drop_bit k x" for k
  proof (induction k)
    case (Suc k)
    then have "\<not> bit (drop_bit k x) 0" using assms[of k] by (simp add: bit_drop_bit_eq)
    then show ?case using Suc by (simp add: crc_bit_even drop_bit_drop_bit)
  qed simp
  then show ?thesis by (simp add: crc_bits_def)
qed

text \<open>The low and the high byte of a word.\<close>

lemma low_byte_mask: "(0xFF :: 16 word) = mask 8"
  by (simp add: mask_eq_exp_minus_1)

lemma ucast_low: "ucast (ucast (c AND 0xFF) :: 8 word) = (c AND 0xFF :: 16 word)"
  unfolding low_byte_mask by (rule bit_word_eqI) (auto simp: bit_simps)

lemma ucast_high: "ucast (ucast (drop_bit 8 c) :: 8 word) = (drop_bit 8 c :: 16 word)"
  by (rule bit_word_eqI) (auto simp: bit_simps dest: bit_imp_le_length)

lemma crc_tail_residue: "crc_from c (crc_tail c) = 0"
proof -
  have "\<not> bit (c XOR (c AND 0xFF)) n" if "n < 8" for n
    using that unfolding low_byte_mask by (auto simp: bit_simps)
  then have "crc_byte (ucast (c AND 0xFF)) c = drop_bit 8 (c XOR (c AND 0xFF))"
    by (simp add: crc_byte_def ucast_low crc_bits_high)
  also have "\<dots> = drop_bit 8 c"
    unfolding low_byte_mask by (rule bit_word_eqI) (auto simp: bit_simps)
  finally show ?thesis by (simp add: crc_tail_def crc_byte_def ucast_high)
qed

lemma crc_two_bytes:
  assumes "crc_from 0 [a, b] = 0"
  shows "a = 0 \<and> b = 0"
proof -
  let ?a = "ucast a :: 16 word" and ?b = "push_bit 8 (ucast b) :: 16 word"
  have "crc_bits (ucast a) XOR ucast b = (0 :: 16 word)"
    using assms by (auto simp: crc_byte_def dest: crc_bits_eq_0)
  moreover have "crc_bits ?b = ucast b"
  proof -
    have "crc_bits ?b = drop_bit 8 ?b" by (rule crc_bits_high) (simp add: bit_simps)
    also have "\<dots> = ucast b" by (rule bit_word_eqI) (auto simp: bit_simps dest: bit_imp_le_length)
    finally show ?thesis .
  qed
  ultimately have "crc_bits (?a XOR ?b) = 0" by (simp add: crc_bits_xor)
  then have ab: "?a XOR ?b = 0" by (rule crc_bits_eq_0)
  have "\<not> bit a n" for n
  proof
    assume "bit a n"
    then have "bit (?a XOR ?b) n" by (auto simp: bit_simps dest: bit_imp_le_length)
    then show False using ab by simp
  qed
  moreover have "\<not> bit b n" for n
  proof
    assume n: "bit b n"
    then have "n < 8" by (auto dest: bit_imp_le_length)
    with n have "bit (?a XOR ?b) (8 + n)" by (auto simp: bit_simps dest: bit_imp_le_length)
    then show False using ab by simp
  qed
  ultimately show ?thesis by (auto intro: bit_word_eqI)
qed

lemma xor_eq_0 [simp]: "x XOR y = 0 \<longleftrightarrow> x = y" for x y :: "'a::len word"
  by (metis bit.xor_self xor.left_neutral xor.right_neutral xor.assoc)

lemma crc_from_diff: "length d = length d' \<Longrightarrow> crc_from c d XOR crc_from c d' = crc_from 0 (map2 (XOR) d d')"
  using crc_from_xor[of d d' c c] by simp

lemma residue_iff: "crc_from c [l, h] = 0 \<longleftrightarrow> [l, h] = crc_tail c"
proof
  assume 0: "crc_from c [l, h] = 0"
  obtain l' h' where t: "crc_tail c = [l', h']" by (simp add: crc_tail_def)
  have "crc_from 0 [l XOR l', h XOR h'] = 0"
    using crc_from_diff[of "[l, h]" "[l', h']" c] 0 crc_tail_residue[of c] t
    by (simp del: crc_from_simps)
  then show "[l, h] = crc_tail c" using t crc_two_bytes by fastforce
next
  assume "[l, h] = crc_tail c"
  then show "crc_from c [l, h] = 0" by (metis crc_tail_residue)
qed

section \<open>Burst errors\<close>

text \<open>Two messages of one length that differ only in two adjacent bytes have different CRCs.\<close>

lemma burst_changes_crc:
  assumes "crc_from c (xs @ [a, b] @ ys) = crc_from c (xs @ [a', b'] @ ys)"
  shows "a = a' \<and> b = b'"
proof -
  let ?z = "crc_from c xs"
  have eq: "crc_from (crc_from ?z [a, b]) ys = crc_from (crc_from ?z [a', b']) ys"
    using assms by (simp add: crc_from_append)
  have "map2 (XOR) ys ys = replicate (length ys) 0" by (induction ys) auto
  then have "crc_from (crc_from ?z [a, b] XOR crc_from ?z [a', b']) (replicate (length ys) 0) = 0"
    using eq crc_from_xor[of ys ys "crc_from ?z [a, b]" "crc_from ?z [a', b']"] by simp
  then have "crc_from ?z [a, b] XOR crc_from ?z [a', b'] = 0" by (rule crc_from_zeros)
  then have "crc_from 0 [a XOR a', b XOR b'] = 0"
    using crc_from_diff[of "[a, b]" "[a', b']" ?z] by (simp del: crc_from_simps)
  then show ?thesis using crc_two_bytes by fastforce
qed

text \<open>Evaluation: a byte is eight unrolled turns.\<close>

lemma crc_bits_unroll:
  "crc_bits x = crc_bit (crc_bit (crc_bit (crc_bit (crc_bit (crc_bit (crc_bit (crc_bit x)))))))"
  by (simp add: crc_bits_def numeral_eq_Suc)

lemmas crc_eval = crc16_def crc_byte_def crc_bits_unroll crc_bit_def

lemma crc16_example: "crc16 [0x01, 0x03, 0x00, 0x00, 0x00, 0x0A] = 0xCDC5"
  by (simp add: crc_eval)

end
