(* ===== verification/Serial.thy ===== *)
theory Serial
  imports Crc16
begin

unbundle bit_operations_syntax

text \<open>
  The serial client (\<open>internal/hardware/protocols/serial/serial.go\<close>): connection, framed reads and writes
  with a CRC, the listening goroutine, discovery.  The port driver (\<open>github.com/jacobsa/go-serial\<close>)
  is the parameter \<open>port_ops\<close> over the outside world \<open>'w\<close>; a reader never reports more bytes than its
  buffer holds, and the slice expression panics if it does.  The mutex \<open>mu\<close> is taken by one call at a
  time and never re-entered by the code of the repository; it is not modelled.
\<close>

section \<open>Configuration and state\<close>

record SerialConfig =
  sf_conn :: ConnectionConfig
  sf_PortName :: string
  sf_BaudRate :: int
  sf_DataBits :: int
  sf_StopBits :: int
  sf_Parity :: string
  sf_FlowControl :: bool
  sf_RS485 :: bool

datatype parity_mode = PARITY_NONE | PARITY_EVEN | PARITY_ODD

record OpenOptions =
  oo_PortName :: string
  oo_BaudRate :: "64 word"
  oo_DataBits :: "64 word"
  oo_StopBits :: "64 word"
  oo_MinimumReadSize :: "64 word"
  oo_ParityMode :: parity_mode
  oo_RTSCTSFlowControl :: bool

record 'w port_ops =
  po_open :: "OpenOptions \<Rightarrow> 'w \<Rightarrow> 'w \<times> nat result"
  po_close :: "nat \<Rightarrow> 'w \<Rightarrow> 'w \<times> goerr option"
  po_write :: "nat \<Rightarrow> bytes \<Rightarrow> 'w \<Rightarrow> 'w \<times> goerr option"
  po_read :: "nat \<Rightarrow> nat \<Rightarrow> 'w \<Rightarrow> 'w \<times> bytes \<times> goerr option"

definition io_EOF :: goerr where
  "io_EOF = Errorf ''EOF'' []"

text \<open>\<open>sc_listeners\<close> counts the listening goroutines that were started and have not returned.\<close>

record SerialClient =
  sc_base :: BaseCommunication
  sc_config :: SerialConfig
  sc_port :: "nat option"
  sc_listeners :: nat

type_synonym 'w serial_state = "SerialClient \<times> 'w"

definition NewSerialClient :: "SerialConfig \<Rightarrow> SerialClient" where
  "NewSerialClient cfg =
     \<lparr>sc_base = NewBaseCommunication (sf_conn cfg), sc_config = cfg, sc_port = None, sc_listeners = 0\<rparr>"

abbreviation sc_on_base :: "(BaseCommunication \<Rightarrow> BaseCommunication) \<Rightarrow> SerialClient \<Rightarrow> SerialClient" where
  "sc_on_base f sc \<equiv> sc\<lparr>sc_base := f (sc_base sc)\<rparr>"

definition sc_IsConnected :: "'w serial_state \<Rightarrow> bool" where
  "sc_IsConnected s = bc_IsConnected (sc_base (fst s))"

section \<open>Connection\<close>

definition sc_mode :: "SerialConfig \<Rightarrow> OpenOptions" where
  "sc_mode cfg =
     \<lparr>oo_PortName = sf_PortName cfg, oo_BaudRate = word_of_int (sf_BaudRate cfg),
      oo_DataBits = word_of_int (sf_DataBits cfg), oo_StopBits = word_of_int (sf_StopBits cfg),
      oo_MinimumReadSize = 1,
      oo_ParityMode =
        (if sf_Parity cfg \<in> {''N'', ''n''} then PARITY_NONE
         else if sf_Parity cfg \<in> {''E'', ''e''} then PARITY_EVEN
         else if sf_Parity cfg \<in> {''O'', ''o''} then PARITY_ODD
         else PARITY_NONE),
      oo_RTSCTSFlowControl = sf_FlowControl cfg\<rparr>"

definition sc_Connect :: "'w port_ops \<Rightarrow> 'w serial_state \<Rightarrow> 'w serial_state \<times> goerr option exec" where
  "sc_Connect ops s =
     (let sc = sc_on_base (bc_SetStatus Connecting) (fst s)
      in case po_open ops (sc_mode (sc_config sc)) (snd s) of
           (w, Err e) \<Rightarrow>
             ((sc_on_base (bc_SetStatus ConnError) sc, w),
              Ret (Some (Errorf ''failed to open serial port %s: %w''
                           [AStr (sf_PortName (sc_config sc)), AErr e])))
         | (w, Ok p) \<Rightarrow>
             (((sc_on_base (bc_EmitConnected \<circ> bc_SetStatus Connected) (sc\<lparr>sc_port := Some p\<rparr>))
                 \<lparr>sc_listeners := Suc (sc_listeners sc)\<rparr>, w), Ret None))"

definition sc_Disconnect :: "'w port_ops \<Rightarrow> 'w serial_state \<Rightarrow> 'w serial_state \<times> goerr option exec" where
  "sc_Disconnect ops s =
     (let (sc, w) = s;
          off = (\<lambda>sc w. ((sc_on_base (bc_EmitDisconnected \<circ> bc_SetStatus Disconnected) sc, w), Ret None))
      in case sc_port sc of
           None \<Rightarrow> off sc w
         | Some p \<Rightarrow>
             (case po_close ops p w of
                (w', None) \<Rightarrow> off (sc\<lparr>sc_port := None\<rparr>) w'
              | (w', Some e) \<Rightarrow>
                  (let (b, r) = bc_HandleWithError (Errorf ''failed to close serial port: %w'' [AErr e]) (sc_base sc)
                   in ((sc\<lparr>sc_port := None, sc_base := b\<rparr>, w'), Ret r))))"

text \<open>\<open>Reconnect\<close> stops at the error of its disconnection.\<close>

definition sc_Reconnect :: "'w port_ops \<Rightarrow> 'w serial_state \<Rightarrow> 'w serial_state \<times> goerr option exec" where
  "sc_Reconnect ops =
     and_then (sc_Disconnect ops)
       (\<lambda>r s. case r of Some e \<Rightarrow> (s, Ret (Some e)) | None \<Rightarrow> sc_Connect ops s)"

section \<open>Frames\<close>

definition sc_calculateCRC :: "bytes \<Rightarrow> 16 word" where
  "sc_calculateCRC d = crc16 d"

definition sc_append_crc :: "bytes \<Rightarrow> bytes" where
  "sc_append_crc d = d @ crc_tail (sc_calculateCRC d)"

definition sc_buildReadCommand :: "string \<Rightarrow> int \<Rightarrow> bytes" where
  "sc_buildReadCommand address len =
     (case go_Atoi address of
        None \<Rightarrow> []
      | Some addr \<Rightarrow>
          sc_append_crc
            [1, 0x03, word_of_int (drop_bit 8 addr), word_of_int (addr AND 0xFF),
             word_of_int (drop_bit 8 len), word_of_int (len AND 0xFF)])"

definition sc_buildWriteCommand :: "string \<Rightarrow> bytes \<Rightarrow> bytes" where
  "sc_buildWriteCommand address d =
     (case go_Atoi address of
        None \<Rightarrow> []
      | Some addr \<Rightarrow>
          sc_append_crc
            ([1, 0x10, word_of_int (drop_bit 8 addr), word_of_int (addr AND 0xFF),
              word_of_nat (drop_bit 1 (length d)), word_of_nat (length d AND 1),
              word_of_nat (length d)] @ d))"

text \<open>\<open>[]\<close> stands for the nil slice of a rejected response; accepted data is never empty.\<close>

definition sc_processReadResponse :: "bytes \<Rightarrow> bytes" where
  "sc_processReadResponse resp =
     (let n = length resp in
      if n < 5 then []
      else if crc_tail (sc_calculateCRC (take (n - 2) resp)) \<noteq> [resp ! (n - 2), resp ! (n - 1)] then []
      else drop 2 (take (n - 2) resp))"

section \<open>Reading and writing\<close>

text \<open>\<open>return nil, sc.HandleWithError(err)\<close>.\<close>

definition sc_read_failed :: "goerr \<Rightarrow> 'w serial_state \<Rightarrow> 'w serial_state \<times> bytes result exec" where
  "sc_read_failed e s =
     (let (b, r) = bc_HandleWithError e (sc_base (fst s))
      in (((fst s)\<lparr>sc_base := b\<rparr>, snd s), Ret (case r of None \<Rightarrow> Ok [] | Some e' \<Rightarrow> Err e')))"

definition sc_Read :: "'w port_ops \<Rightarrow> string \<Rightarrow> int \<Rightarrow> 'w serial_state \<Rightarrow> 'w serial_state \<times> bytes result exec" where
  "sc_Read ops address len s =
     (let (sc, w) = s in
      if \<not> bc_IsConnected (sc_base sc) then (s, Ret (Err (Errorf ''serial client not connected'' [])))
      else case sc_port sc of
        None \<Rightarrow> (s, Ret (Err (Errorf ''serial port not open'' [])))
      | Some p \<Rightarrow>
          (let command = sc_buildReadCommand address len in
           if command = [] then (s, Ret (Err (Errorf ''invalid read address: %s'' [AStr address])))
           else case po_write ops p command w of
             (w1, Some e) \<Rightarrow> sc_read_failed (Errorf ''failed to write read command: %w'' [AErr e]) (sc, w1)
           | (w1, None) \<Rightarrow>
               (let m = wrap64 (len + 2) in
                if m < 0 then ((sc, w1), Panic ''makeslice: len out of range'')
                else case po_read ops p (nat m) w1 of
                  (w2, resp, Some e) \<Rightarrow> sc_read_failed (Errorf ''failed to read response: %w'' [AErr e]) (sc, w2)
                | (w2, resp, None) \<Rightarrow>
                    if nat m < length resp then ((sc, w2), Panic ''slice bounds out of range'')
                    else let d = sc_processReadResponse resp
                         in ((sc_on_base (bc_EmitDataReceived address d) sc, w2), Ret (Ok d)))))"

definition sc_Write :: "'w port_ops \<Rightarrow> string \<Rightarrow> bytes \<Rightarrow> 'w serial_state \<Rightarrow> 'w serial_state \<times> goerr option exec" where
  "sc_Write ops address d s =
     (let (sc, w) = s in
      if \<not> bc_IsConnected (sc_base sc) then (s, Ret (Some (Errorf ''serial client not connected'' [])))
      else case sc_port sc of
        None \<Rightarrow> (s, Ret (Some (Errorf ''serial port not open'' [])))
      | Some p \<Rightarrow>
          (let command = sc_buildWriteCommand address d in
           if command = [] then (s, Ret (Some (Errorf ''invalid write address: %s'' [AStr address])))
           else case po_write ops p command w of
             (w1, Some e) \<Rightarrow>
               (let (b, r) = bc_HandleWithError (Errorf ''failed to write data: %w'' [AErr e]) (sc_base sc)
                in ((sc\<lparr>sc_base := b\<rparr>, w1), Ret r))
           | (w1, None) \<Rightarrow> ((sc_on_base (bc_EmitDataWritten address d) sc, w1), Ret None)))"

definition sc_BulkRead ::
  "'w port_ops \<Rightarrow> string list \<Rightarrow> 'w serial_state \<Rightarrow> 'w serial_state \<times> (string, bytes) gomap result exec" where
  "sc_BulkRead ops = bulk_read (\<lambda>a. sc_Read ops a 1)"

definition sc_BulkWrite ::
  "'w port_ops \<Rightarrow> (string, bytes) gomap \<Rightarrow> 'w serial_state \<Rightarrow> 'w serial_state \<times> goerr option exec" where
  "sc_BulkWrite ops = bulk_write (sc_Write ops)"

definition sc_GetConfig :: "SerialClient \<Rightarrow> SerialConfig" where
  "sc_GetConfig sc = sc_config sc"

text \<open>\<open>SetConfig\<close>; \<open>None\<close> is an argument of another type.  The base keeps its old configuration.\<close>

definition sc_SetConfig :: "SerialConfig option \<Rightarrow> SerialClient \<Rightarrow> SerialClient \<times> goerr option" where
  "sc_SetConfig c sc =
     (case c of Some cfg \<Rightarrow> (sc\<lparr>sc_config := cfg\<rparr>, None)
      | None \<Rightarrow> (sc, Some (Errorf ''invalid config type for SerialClient'' [])))"

section \<open>The listening goroutine\<close>

text \<open>
  One turn; the result tells whether the goroutine goes on.  \<open>Disconnect\<close> closes \<open>stopChan\<close> and puts a
  new one in its place before it returns, so between the operations the channel is always open.
\<close>

definition sc_listen_turn :: "'w port_ops \<Rightarrow> 'w serial_state \<Rightarrow> 'w serial_state \<times> bool exec" where
  "sc_listen_turn ops s =
     (let (sc, w) = s in
      if bc_cancelled (sc_base sc) then ((sc\<lparr>sc_listeners := sc_listeners sc - 1\<rparr>, w), Ret False)
      else case sc_port sc of
        None \<Rightarrow> (s, Ret True)
      | Some p \<Rightarrow>
          (case po_read ops p 1024 w of
             (w', d, Some e) \<Rightarrow>
               (if e \<noteq> io_EOF
                then ((sc_on_base (fst \<circ> bc_HandleWithError (Errorf ''serial read error: %w'' [AErr e])) sc, w'), Ret True)
                else ((sc, w'), Ret True))
           | (w', d, None) \<Rightarrow>
               if 1024 < length d then ((sc, w'), Panic ''slice bounds out of range'')
               else if d \<noteq> [] then ((sc_on_base (bc_EmitDataReceived ''unknown'' d) sc, w'), Ret True)
               else ((sc, w'), Ret True)))"

section \<open>Discovery\<close>

definition sd_DiscoverDevices :: "SerialConfig \<Rightarrow> DeviceInfo list result" where
  "sd_DiscoverDevices cfg = Ok
     [\<lparr>di_ID = ''serial-device-001'', di_Address = sf_PortName cfg, di_Type = ''serial'',
       di_Model = ''Generic Serial Device'',
       di_Properties = [(''baud_rate'', VInt (sf_BaudRate cfg)), (''data_bits'', VInt (sf_DataBits cfg)),
                        (''stop_bits'', VInt (sf_StopBits cfg)), (''parity'', VString (sf_Parity cfg)),
                        (''flow_control'', VBool (sf_FlowControl cfg))]\<rparr>]"

text \<open>
  The reply (reachable, error).  The deferred \<open>Disconnect\<close> runs after the read, also when it panics.
\<close>

definition sd_PingDevice ::
  "'w port_ops \<Rightarrow> SerialConfig \<Rightarrow> string \<Rightarrow> 'w \<Rightarrow> 'w serial_state \<times> (bool \<times> goerr option) exec" where
  "sd_PingDevice ops cfg address w =
     and_then (sc_Connect ops)
       (\<lambda>r s. case r of
          Some e \<Rightarrow> (s, Ret (False, Some e))
        | None \<Rightarrow>
            (let (s1, rd) = sc_Read ops ''0'' 1 s;
                 s2 = fst (sc_Disconnect ops s1)
             in case rd of
                  Ret (Ok d) \<Rightarrow> (s2, Ret (True, None))
                | Ret (Err e) \<Rightarrow> (s2, Ret (False, None))
                | Panic m \<Rightarrow> (s2, Panic m)
                | Blocked \<Rightarrow> (s1, Blocked)))
       (NewSerialClient cfg, w)"

end
