(* ===== verification/ModbusComm.thy ===== *)
theory ModbusComm
  imports Comm
begin

unbundle bit_operations_syntax

text \<open>
  The Modbus client of the hardware layer (\<open>internal/hardware/protocols/modbus/modbus.go\<close>).  The protocol
  library (\<open>github.com/goburrow/modbus\<close>) is the parameter \<open>modbus_ops\<close> over the outside world \<open>'w\<close>: a
  handler configuration is connected, giving a client by number, whose calls are two functions.  A
  method call on the nil client panics.
\<close>

section \<open>Configuration and state\<close>

record ModbusConfig =
  mf_conn :: ConnectionConfig
  mf_Type :: string
  mf_Address :: string
  mf_Port :: int
  mf_BaudRate :: int
  mf_DataBits :: int
  mf_StopBits :: int
  mf_Parity :: string
  mf_SlaveID :: "8 word"
  mf_Timeout :: string

record serial_handler =
  sh_Address :: string
  sh_BaudRate :: int
  sh_DataBits :: int
  sh_StopBits :: int
  sh_Parity :: string
  sh_SlaveId :: "8 word"
  sh_Timeout :: Duration

datatype modbus_handler =
    TCPHandler string Duration
  | RTUHandler serial_handler
  | ASCIIHandler serial_handler

record 'w modbus_ops =
  mo_connect :: "modbus_handler \<Rightarrow> 'w \<Rightarrow> 'w \<times> nat result"
  mo_ReadHoldingRegisters :: "nat \<Rightarrow> 16 word \<Rightarrow> 16 word \<Rightarrow> 'w \<Rightarrow> 'w \<times> bytes \<times> goerr option"
  mo_WriteMultipleRegisters :: "nat \<Rightarrow> 16 word \<Rightarrow> 16 word \<Rightarrow> bytes \<Rightarrow> 'w \<Rightarrow> 'w \<times> bytes \<times> goerr option"

text \<open>\<open>handler\<close> and \<open>client\<close> are set and cleared together; one field holds both.\<close>

record CommModbusClient =
  mc_base :: BaseCommunication
  mc_config :: ModbusConfig
  mc_client :: "nat option"

type_synonym 'w modbus_state = "CommModbusClient \<times> 'w"

definition NewCommModbusClient :: "ModbusConfig \<Rightarrow> CommModbusClient" where
  "NewCommModbusClient cfg =
     \<lparr>mc_base = NewBaseCommunication (mf_conn cfg), mc_config = cfg, mc_client = None\<rparr>"

abbreviation mc_on_base :: "(BaseCommunication \<Rightarrow> BaseCommunication) \<Rightarrow> CommModbusClient \<Rightarrow> CommModbusClient" where
  "mc_on_base f mc \<equiv> mc\<lparr>mc_base := f (mc_base mc)\<rparr>"

definition mc_IsConnected :: "'w modbus_state \<Rightarrow> bool" where
  "mc_IsConnected s = bc_IsConnected (mc_base (fst s))"

text \<open>\<open>return mc.HandleWithError(err)\<close>.\<close>

definition mc_failed :: "goerr \<Rightarrow> 'w modbus_state \<Rightarrow> 'w modbus_state \<times> goerr option exec" where
  "mc_failed e s =
     (let (b, r) = bc_HandleWithError e (mc_base (fst s)) in (((fst s)\<lparr>mc_base := b\<rparr>, snd s), Ret r))"

section \<open>Connection\<close>

definition host_port :: "string \<Rightarrow> int \<Rightarrow> string" where
  "host_port addr p = addr @ '':'' @ int_dec p"

definition mc_open ::
  "'w modbus_ops \<Rightarrow> modbus_handler \<Rightarrow> string \<Rightarrow> 'w modbus_state \<Rightarrow> 'w modbus_state \<times> goerr option" where
  "mc_open ops h what s =
     (case mo_connect ops h (snd s) of
        (w, Err e) \<Rightarrow> ((fst s, w), Some (Errorf (''failed to connect '' @ what @ '' Modbus: %w'') [AErr e]))
      | (w, Ok c) \<Rightarrow> (((fst s)\<lparr>mc_client := Some c\<rparr>, w), None))"

definition mc_connectTCP :: "'w modbus_ops \<Rightarrow> 'w modbus_state \<Rightarrow> 'w modbus_state \<times> goerr option" where
  "mc_connectTCP ops s =
     (let cfg = mc_config (fst s);
          timeout = (case go_ParseDuration (mf_Timeout cfg) of None \<Rightarrow> 10 * Second | Some d \<Rightarrow> d)
      in mc_open ops (TCPHandler (host_port (mf_Address cfg) (mf_Port cfg)) timeout) ''TCP'' s)"

definition mc_serial_handler :: "ModbusConfig \<Rightarrow> serial_handler" where
  "mc_serial_handler cfg =
     \<lparr>sh_Address = mf_Address cfg, sh_BaudRate = mf_BaudRate cfg, sh_DataBits = mf_DataBits cfg,
      sh_StopBits = mf_StopBits cfg, sh_Parity = mf_Parity cfg, sh_SlaveId = mf_SlaveID cfg,
      sh_Timeout = 5 * Second\<rparr>"

definition mc_connectRTU :: "'w modbus_ops \<Rightarrow> 'w modbus_state \<Rightarrow> 'w modbus_state \<times> goerr option" where
  "mc_connectRTU ops s = mc_open ops (RTUHandler (mc_serial_handler (mc_config (fst s)))) ''RTU'' s"

definition mc_connectASCII :: "'w modbus_ops \<Rightarrow> 'w modbus_state \<Rightarrow> 'w modbus_state \<times> goerr option" where
  "mc_connectASCII ops s = mc_open ops (ASCIIHandler (mc_serial_handler (mc_config (fst s)))) ''ASCII'' s"

text \<open>The end of \<open>Connect\<close>, after one of the three connections.\<close>

definition mc_connected :: "'w modbus_state \<times> goerr option \<Rightarrow> 'w modbus_state \<times> goerr option exec" where
  "mc_connected c =
     (case snd c of
        Some e \<Rightarrow> mc_failed e (mc_on_base (bc_SetStatus ConnError) (fst (fst c)), snd (fst c))
      | None \<Rightarrow>
          ((mc_on_base (bc_EmitConnected \<circ> bc_SetStatus Connected) (fst (fst c)), snd (fst c)), Ret None))"

definition mc_Connect :: "'w modbus_ops \<Rightarrow> 'w modbus_state \<Rightarrow> 'w modbus_state \<times> goerr option exec" where
  "mc_Connect ops s =
     (let s0 = (mc_on_base (bc_SetStatus Connecting) (fst s), snd s);
          ty = mf_Type (mc_config (fst s))
      in if ty = ''tcp'' then mc_connected (mc_connectTCP ops s0)
         else if ty = ''rtu'' then mc_connected (mc_connectRTU ops s0)
         else if ty = ''ascii'' then mc_connected (mc_connectASCII ops s0)
         else (s0, Ret (Some (Errorf ''unsupported Modbus type: %s'' [AStr ty]))))"

definition mc_Disconnect :: "'w modbus_state \<Rightarrow> 'w modbus_state \<times> goerr option exec" where
  "mc_Disconnect s =
     ((mc_on_base (bc_EmitDisconnected \<circ> bc_SetStatus Disconnected) ((fst s)\<lparr>mc_client := None\<rparr>), snd s),
      Ret None)"

definition mc_Reconnect :: "'w modbus_ops \<Rightarrow> 'w modbus_state \<Rightarrow> 'w modbus_state \<times> goerr option exec" where
  "mc_Reconnect ops =
     and_then mc_Disconnect
       (\<lambda>r s. case r of Some e \<Rightarrow> (s, Ret (Some e)) | None \<Rightarrow> mc_Connect ops s)"

section \<open>Reading and writing\<close>

definition mc_parseAddress :: "string \<Rightarrow> int \<Rightarrow> (16 word \<times> 16 word) result" where
  "mc_parseAddress address len =
     (case go_Atoi address of
        None \<Rightarrow> Err (Errorf ''invalid Modbus address: %s'' [AStr address])
      | Some n \<Rightarrow> Ok (word_of_int (if n > 0 then n - 1 else n), word_of_int len))"

text \<open>The operation that \<open>Read\<close> retries; it assigns \<open>results\<close> also when it fails.\<close>

definition mc_read_op ::
  "'w modbus_ops \<Rightarrow> nat option \<Rightarrow> 16 word \<Rightarrow> 16 word \<Rightarrow> 'w \<times> bytes \<Rightarrow> ('w \<times> bytes) \<times> goerr option exec" where
  "mc_read_op ops client addr quantity = (\<lambda>(w, results).
     case client of
       None \<Rightarrow> ((w, results), Panic ''nil pointer dereference'')
     | Some c \<Rightarrow> (let (w', d, e) = mo_ReadHoldingRegisters ops c addr quantity w in ((w', d), Ret e)))"

definition mc_Read ::
  "'w modbus_ops \<Rightarrow> retry_env \<Rightarrow> string \<Rightarrow> int \<Rightarrow> 'w modbus_state \<Rightarrow> 'w modbus_state \<times> bytes result exec" where
  "mc_Read ops env address len s =
     (if \<not> mc_IsConnected s then (s, Ret (Err (Errorf ''Modbus client not connected'' [])))
      else case mc_parseAddress address len of
        Err e \<Rightarrow> (s, Ret (Err e))
      | Ok (addr, quantity) \<Rightarrow>
          (let mc = fst s in
           case bc_RetryWithTimeout env (mc_base mc) (mc_read_op ops (mc_client mc) addr quantity) (snd s, []) of
             ((w, results), Ret None) \<Rightarrow>
               ((mc_on_base (bc_EmitDataReceived address results) mc, w), Ret (Ok results))
           | ((w, results), Ret (Some e)) \<Rightarrow>
               (let (b, r) = bc_HandleWithError e (mc_base mc)
                in ((mc\<lparr>mc_base := b\<rparr>, w), Ret (case r of None \<Rightarrow> Ok [] | Some e' \<Rightarrow> Err e')))
           | ((w, results), Panic m) \<Rightarrow> ((mc, w), Panic m)
           | ((w, results), Blocked) \<Rightarrow> ((mc, w), Blocked)))"

text \<open>Big-endian registers of the byte pairs; an odd last byte is not used.\<close>

fun mc_values :: "bytes \<Rightarrow> 16 word list" where
  "mc_values (a # b # d) = (push_bit 8 (ucast a) OR ucast b) # mc_values d"
| "mc_values _ = []"

definition mc_byteValues :: "16 word list \<Rightarrow> bytes" where
  "mc_byteValues vs = concat (map (\<lambda>v. [ucast (drop_bit 8 v), ucast (v AND 0xFF)]) vs)"

definition mc_write_op ::
  "'w modbus_ops \<Rightarrow> nat option \<Rightarrow> 16 word \<Rightarrow> 16 word list \<Rightarrow> 'w \<Rightarrow> 'w \<times> goerr option exec" where
  "mc_write_op ops client addr vs = (\<lambda>w.
     case client of
       None \<Rightarrow> (w, Panic ''nil pointer dereference'')
     | Some c \<Rightarrow>
         (let (w', d, e) = mo_WriteMultipleRegisters ops c addr (word_of_nat (length vs)) (mc_byteValues vs) w
          in (w', Ret e)))"

definition mc_Write ::
  "'w modbus_ops \<Rightarrow> retry_env \<Rightarrow> string \<Rightarrow> bytes \<Rightarrow> 'w modbus_state \<Rightarrow> 'w modbus_state \<times> goerr option exec" where
  "mc_Write ops env address d s =
     (if \<not> mc_IsConnected s then (s, Ret (Some (Errorf ''Modbus client not connected'' [])))
      else case mc_parseAddress address (int (length d div 2)) of
        Err e \<Rightarrow> (s, Ret (Some e))
      | Ok (addr, q) \<Rightarrow>
          (let mc = fst s in
           case bc_RetryWithTimeout env (mc_base mc) (mc_write_op ops (mc_client mc) addr (mc_values d)) (snd s) of
             (w, Ret None) \<Rightarrow> ((mc_on_base (bc_EmitDataWritten address d) mc, w), Ret None)
           | (w, Ret (Some e)) \<Rightarrow> mc_failed e (mc, w)
           | (w, Panic m) \<Rightarrow> ((mc, w), Panic m)
           | (w, Blocked) \<Rightarrow> ((mc, w), Blocked)))"

definition mc_BulkRead ::
  "'w modbus_ops \<Rightarrow> retry_env \<Rightarrow> string list \<Rightarrow> 'w modbus_state \<Rightarrow>
   'w modbus_state \<times> (string, bytes) gomap result exec" where
  "mc_BulkRead ops env = bulk_read (\<lambda>a. mc_Read ops env a 1)"

definition mc_BulkWrite ::
  "'w modbus_ops \<Rightarrow> retry_env \<Rightarrow> (string, bytes) gomap \<Rightarrow> 'w modbus_state \<Rightarrow> 'w modbus_state \<times> goerr option exec" where
  "mc_BulkWrite ops env = bulk_write (mc_Write ops env)"

definition mc_GetConfig :: "CommModbusClient \<Rightarrow> ModbusConfig" where
  "mc_GetConfig mc = mc_config mc"

definition mc_SetConfig :: "ModbusConfig option \<Rightarrow> CommModbusClient \<Rightarrow> CommModbusClient \<times> goerr option" where
  "mc_SetConfig c mc =
     (case c of Some cfg \<Rightarrow> (mc\<lparr>mc_config := cfg\<rparr>, None)
      | None \<Rightarrow> (mc, Some (Errorf ''invalid config type for ModbusClient'' [])))"

text \<open>The padding conversion of the file, which nothing calls.\<close>

definition modbusBytesToUint16 :: "bytes \<Rightarrow> 16 word list" where
  "modbusBytesToUint16 d = mc_values (if odd (length d) then d @ [0] else d)"

section \<open>Discovery\<close>

definition mdisc_discoverTCPDevices :: "ModbusConfig \<Rightarrow> DeviceInfo list" where
  "mdisc_discoverTCPDevices cfg =
     [\<lparr>di_ID = ''modbus-tcp-001'', di_Address = host_port (mf_Address cfg) (mf_Port cfg),
       di_Type = ''modbus-tcp'', di_Model = ''Generic Modbus TCP Device'',
       di_Properties = [(''type'', VString ''tcp''), (''slave_id'', VOther (nat_dec (unat (mf_SlaveID cfg))))]\<rparr>]"

definition mdisc_discoverSerialDevices :: "ModbusConfig \<Rightarrow> DeviceInfo list" where
  "mdisc_discoverSerialDevices cfg =
     [\<lparr>di_ID = ''modbus-serial-001'', di_Address = mf_Address cfg,
       di_Type = ''modbus-serial'', di_Model = ''Generic Modbus Serial Device'',
       di_Properties = [(''type'', VString (mf_Type cfg)), (''baud_rate'', VInt (mf_BaudRate cfg)),
                        (''slave_id'', VOther (nat_dec (unat (mf_SlaveID cfg))))]\<rparr>]"

definition mdisc_DiscoverDevices :: "ModbusConfig \<Rightarrow> DeviceInfo list result" where
  "mdisc_DiscoverDevices cfg = Ok
     ((if mf_Type cfg = ''tcp'' then mdisc_discoverTCPDevices cfg else []) @
      (if mf_Type cfg = ''rtu'' \<or> mf_Type cfg = ''ascii'' then mdisc_discoverSerialDevices cfg else []))"

definition mdisc_PingDevice ::
  "'w modbus_ops \<Rightarrow> retry_env \<Rightarrow> ModbusConfig \<Rightarrow> string \<Rightarrow> 'w \<Rightarrow> 'w modbus_state \<times> (bool \<times> goerr option) exec" where
  "mdisc_PingDevice ops env cfg address w =
     and_then (mc_Connect ops)
       (\<lambda>r s. case r of
          Some e \<Rightarrow> (s, Ret (False, Some e))
        | None \<Rightarrow>
            (let (s1, rd) = mc_Read ops env ''0'' 1 s;
                 s2 = fst (mc_Disconnect s1)
             in case rd of
                  Ret (Ok d) \<Rightarrow> (s2, Ret (True, None))
                | Ret (Err e) \<Rightarrow> (s2, Ret (False, None))
                | Panic m \<Rightarrow> (s2, Panic m)
                | Blocked \<Rightarrow> (s1, Blocked)))
       (NewCommModbusClient cfg, w)"

end
