(* ===== verification/Custom.thy ===== *)
theory Custom
  imports Crc16
begin

unbundle bit_operations_syntax

text \<open>
  The client for custom protocols (\<open>internal/hardware/protocols/custom/custom.go\<close>): command frames from
  configured definitions, field encoding and decoding in either byte order, checksums, the wait for
  a response, discovery.  The connection of the code is a mock object that holds an address; nothing
  is sent.  \<open>oob\<close> is what the machine yields for a conversion of a float outside the target type, and
  \<open>ord\<close> the order in which \<open>range\<close> delivers the fields of a decoded response.
\<close>

section \<open>Configuration and state\<close>

record CustomProtocolConfig =
  pc_conn :: ConnectionConfig
  pc_ProtocolType :: string
  pc_Address :: string
  pc_Port :: int
  pc_Timeout :: string
  pc_FrameDelimiter :: string
  pc_Header :: string
  pc_Trailer :: string
  pc_ChecksumMethod :: string
  pc_BigEndian :: bool
  pc_MaxFrameSize :: int
  pc_Encoding :: string

record FieldDefinition =
  fd_Name :: string
  fd_Type :: string
  fd_Size :: int
  fd_Offset :: int
  fd_Scale :: f64
  fd_Encoding :: string

record CommandDefinition =
  cd_Name :: string
  cd_CommandCode :: string
  cd_Format :: string
  cd_Fields :: "FieldDefinition list"

record ResponseDefinition =
  rd_CommandCode :: string
  rd_Format :: string
  rd_Fields :: "FieldDefinition list"

record CustomProtocolClient =
  cpc_base :: BaseCommunication
  cpc_config :: CustomProtocolConfig
  cpc_commands :: "(string, CommandDefinition) gomap"
  cpc_responses :: "(string, ResponseDefinition) gomap"
  cpc_connection :: "string option"
  cpc_isNetwork :: bool
  cpc_responseChannels :: "(string, bytes chan) gomap"

definition NewCustomProtocolClient :: "CustomProtocolConfig \<Rightarrow> CustomProtocolClient" where
  "NewCustomProtocolClient cfg =
     \<lparr>cpc_base = NewBaseCommunication (pc_conn cfg), cpc_config = cfg, cpc_commands = [], cpc_responses = [],
      cpc_connection = None, cpc_isNetwork = (CHR '':'' \<in> set (pc_Address cfg) \<or> pc_Port cfg > 0),
      cpc_responseChannels = []\<rparr>"

abbreviation cpc_on_base ::
  "(BaseCommunication \<Rightarrow> BaseCommunication) \<Rightarrow> CustomProtocolClient \<Rightarrow> CustomProtocolClient" where
  "cpc_on_base f c \<equiv> c\<lparr>cpc_base := f (cpc_base c)\<rparr>"

definition cpc_IsConnected :: "CustomProtocolClient \<Rightarrow> bool" where
  "cpc_IsConnected c = bc_IsConnected (cpc_base c)"

definition cpc_RegisterCommand :: "CommandDefinition \<Rightarrow> CustomProtocolClient \<Rightarrow> CustomProtocolClient" where
  "cpc_RegisterCommand cmd c = c\<lparr>cpc_commands := gm_set (cd_Name cmd) cmd (cpc_commands c)\<rparr>"

definition cpc_RegisterResponse :: "ResponseDefinition \<Rightarrow> CustomProtocolClient \<Rightarrow> CustomProtocolClient" where
  "cpc_RegisterResponse resp c = c\<lparr>cpc_responses := gm_set (rd_CommandCode resp) resp (cpc_responses c)\<rparr>"

section \<open>Connection\<close>

definition cpc_connectNetwork :: "CustomProtocolClient \<Rightarrow> CustomProtocolClient \<times> goerr option" where
  "cpc_connectNetwork c = (c\<lparr>cpc_connection := Some (pc_Address (cpc_config c))\<rparr>, None)"

definition cpc_connectSerial :: "CustomProtocolClient \<Rightarrow> CustomProtocolClient \<times> goerr option" where
  "cpc_connectSerial c = (c\<lparr>cpc_connection := Some (pc_Address (cpc_config c))\<rparr>, None)"

definition cpc_Connect :: "CustomProtocolClient \<Rightarrow> CustomProtocolClient \<times> goerr option exec" where
  "cpc_Connect c =
     (let c0 = cpc_on_base (bc_SetStatus Connecting) c
      in case (if cpc_isNetwork c then cpc_connectNetwork c0 else cpc_connectSerial c0) of
           (c1, Some e) \<Rightarrow>
             (let (b, r) = bc_HandleWithError e (bc_SetStatus ConnError (cpc_base c1))
              in (c1\<lparr>cpc_base := b\<rparr>, Ret r))
         | (c1, None) \<Rightarrow> (cpc_on_base (bc_EmitConnected \<circ> bc_SetStatus Connected) c1, Ret None))"

definition cpc_Disconnect :: "CustomProtocolClient \<Rightarrow> CustomProtocolClient \<times> goerr option exec" where
  "cpc_Disconnect c =
     (cpc_on_base (bc_EmitDisconnected \<circ> bc_SetStatus Disconnected) (c\<lparr>cpc_connection := None\<rparr>), Ret None)"

definition cpc_Reconnect :: "CustomProtocolClient \<Rightarrow> CustomProtocolClient \<times> goerr option exec" where
  "cpc_Reconnect =
     and_then cpc_Disconnect (\<lambda>r c. case r of Some e \<Rightarrow> (c, Ret (Some e)) | None \<Rightarrow> cpc_Connect c)"

section \<open>Hexadecimal strings\<close>

definition hex_digit :: "char \<Rightarrow> nat option" where
  "hex_digit c =
     (let n = of_char c :: nat in
      if 48 \<le> n \<and> n \<le> 57 then Some (n - 48)
      else if 97 \<le> n \<and> n \<le> 102 then Some (n - 87)
      else if 65 \<le> n \<and> n \<le> 70 then Some (n - 55)
      else None)"

definition hex_invalid :: "char \<Rightarrow> goerr" where
  "hex_invalid c = Errorf ''encoding/hex: invalid byte: %#U'' [AInt (of_char c)]"

text \<open>\<open>hex.DecodeString\<close>.\<close>

fun hex_DecodeString :: "string \<Rightarrow> bytes result" where
  "hex_DecodeString [] = Ok []"
| "hex_DecodeString [c] =
     Err (case hex_digit c of None \<Rightarrow> hex_invalid c | Some _ \<Rightarrow> Errorf ''encoding/hex: odd length hex string'' [])"
| "hex_DecodeString (c # d # s) =
     (case hex_digit c of
        None \<Rightarrow> Err (hex_invalid c)
      | Some a \<Rightarrow>
          (case hex_digit d of
             None \<Rightarrow> Err (hex_invalid d)
           | Some b \<Rightarrow>
               (case hex_DecodeString s of
                  Err e \<Rightarrow> Err e
                | Ok bs \<Rightarrow> Ok (word_of_nat (16 * a + b) # bs))))"

section \<open>Integers in either byte order\<close>

fun le_bytes :: "nat \<Rightarrow> 'a::len word \<Rightarrow> bytes" where
  "le_bytes 0 v = []"
| "le_bytes (Suc n) v = ucast v # le_bytes n (drop_bit 8 v)"

fun le_value :: "bytes \<Rightarrow> 'a::len word" where
  "le_value [] = 0"
| "le_value (b # d) = ucast b OR push_bit 8 (le_value d)"

definition put_uint :: "bool \<Rightarrow> nat \<Rightarrow> 'a::len word \<Rightarrow> bytes" where
  "put_uint be n v = (if be then rev (le_bytes n v) else le_bytes n v)"

text \<open>Reading \<open>n\<close> bytes: the library checks the bounds and ignores what follows.\<close>

definition get_uint :: "bool \<Rightarrow> nat \<Rightarrow> bytes \<Rightarrow> 'a::len word exec" where
  "get_uint be n d =
     (if length d < n then Panic ''index out of range''
      else Ret (le_value (if be then rev (take n d) else take n d)))"

definition cpc_encodeUint16 :: "CustomProtocolClient \<Rightarrow> 16 word \<Rightarrow> bytes" where
  "cpc_encodeUint16 c v = put_uint (pc_BigEndian (cpc_config c)) 2 v"

definition cpc_encodeUint32 :: "CustomProtocolClient \<Rightarrow> 32 word \<Rightarrow> bytes" where
  "cpc_encodeUint32 c v = put_uint (pc_BigEndian (cpc_config c)) 4 v"

definition cpc_encodeUint64 :: "CustomProtocolClient \<Rightarrow> 64 word \<Rightarrow> bytes" where
  "cpc_encodeUint64 c v = put_uint (pc_BigEndian (cpc_config c)) 8 v"

definition cpc_decodeUint16 :: "CustomProtocolClient \<Rightarrow> bytes \<Rightarrow> 16 word exec" where
  "cpc_decodeUint16 c d = get_uint (pc_BigEndian (cpc_config c)) 2 d"

definition cpc_decodeUint32 :: "CustomProtocolClient \<Rightarrow> bytes \<Rightarrow> 32 word exec" where
  "cpc_decodeUint32 c d = get_uint (pc_BigEndian (cpc_config c)) 4 d"

definition cpc_decodeUint64 :: "CustomProtocolClient \<Rightarrow> bytes \<Rightarrow> 64 word exec" where
  "cpc_decodeUint64 c d = get_uint (pc_BigEndian (cpc_config c)) 8 d"

text \<open>\<open>float32\<close>: 24 significant bits.\<close>

definition f32_round :: "rat \<Rightarrow> f64" where
  "f32_round q =
     (if q = 0 then Fin 0
      else let e = max (floor_log2 \<bar>q\<bar> - 23) (- 149);
               r = of_int (Float64.round_half_even (q / pow2 e)) * pow2 e
           in if \<bar>r\<bar> < 2 ^ 128 then Fin r else if 0 < r then PInf else NInf)"

definition f32_of_f64 :: "f64 \<Rightarrow> f64" where
  "f32_of_f64 x = (case x of Fin q \<Rightarrow> f32_round q | y \<Rightarrow> y)"

section \<open>Command frames\<close>

text \<open>A value whose dynamic type does not fit the field falls through to the error.\<close>

definition cpc_encodeFieldValue ::
  "(f64 \<Rightarrow> int) \<Rightarrow> CustomProtocolClient \<Rightarrow> FieldDefinition \<Rightarrow> goval \<Rightarrow> bytes result" where
  "cpc_encodeFieldValue oob c field v =
     (let ty = fd_Type field;
          unsupported = Err (Errorf ''unsupported field type: %s'' [AStr ty])
      in if ty \<in> {''int8'', ''uint8''} then
           (case v of VInt n \<Rightarrow> Ok [word_of_int n] | _ \<Rightarrow> unsupported)
         else if ty \<in> {''int16'', ''uint16''} then
           (case v of VInt n \<Rightarrow> Ok (cpc_encodeUint16 c (word_of_int n)) | _ \<Rightarrow> unsupported)
         else if ty \<in> {''int32'', ''uint32''} then
           (case v of VInt n \<Rightarrow> Ok (cpc_encodeUint32 c (word_of_int n)) | _ \<Rightarrow> unsupported)
         else if ty = ''float32'' then
           (case v of
              VFloat x \<Rightarrow> Ok (cpc_encodeUint32 c (word_of_int (f64_to_int oob 0 (2 ^ 32 - 1) (f32_of_f64 x))))
            | _ \<Rightarrow> unsupported)
         else if ty = ''float64'' then
           (case v of
              VFloat x \<Rightarrow> Ok (cpc_encodeUint64 c (word_of_int (f64_to_int oob 0 (2 ^ 64 - 1) x)))
            | _ \<Rightarrow> unsupported)
         else if ty = ''string'' then
           (case v of VString s \<Rightarrow> Ok (map (\<lambda>ch. word_of_nat (of_char ch)) s) | _ \<Rightarrow> unsupported)
         else if ty = ''bytes'' then (case v of VBytes d \<Rightarrow> Ok d | _ \<Rightarrow> unsupported)
         else unsupported)"

text \<open>Fields without a parameter are skipped.\<close>

fun cpc_encodeParameters ::
  "(f64 \<Rightarrow> int) \<Rightarrow> CustomProtocolClient \<Rightarrow> FieldDefinition list \<Rightarrow> (string, goval) gomap \<Rightarrow> bytes result" where
  "cpc_encodeParameters oob c [] params = Ok []"
| "cpc_encodeParameters oob c (f # fs) params =
     (case gm_get params (fd_Name f) of
        None \<Rightarrow> cpc_encodeParameters oob c fs params
      | Some v \<Rightarrow>
          (case cpc_encodeFieldValue oob c f v of
             Err e \<Rightarrow> Err e
           | Ok d \<Rightarrow>
               (case cpc_encodeParameters oob c fs params of
                  Err e \<Rightarrow> Err e
                | Ok d' \<Rightarrow> Ok (d @ d'))))"

definition cpc_calculateCRC8 :: "bytes \<Rightarrow> 8 word" where
  "cpc_calculateCRC8 d = fold (\<lambda>b crc. crc XOR b) d 0"

definition cpc_calculateXOR :: "bytes \<Rightarrow> 8 word" where
  "cpc_calculateXOR d = fold (\<lambda>b res. res XOR b) d 0"

definition cpc_calculateCRC16 :: "bytes \<Rightarrow> 16 word" where
  "cpc_calculateCRC16 d = crc16 d"

text \<open>An unknown method, which \<open>buildCommandFrame\<close> does not tell from a known one, adds nothing.\<close>

definition cpc_calculateChecksum :: "CustomProtocolClient \<Rightarrow> bytes \<Rightarrow> bytes" where
  "cpc_calculateChecksum c d =
     (let m = pc_ChecksumMethod (cpc_config c) in
      if m = ''crc8'' then [cpc_calculateCRC8 d]
      else if m = ''crc16'' then
        (let s = cpc_calculateCRC16 d in [ucast (drop_bit 8 s), ucast s])
      else if m = ''xor'' then [cpc_calculateXOR d]
      else [])"

definition hex_part :: "string \<Rightarrow> string \<Rightarrow> bytes result" where
  "hex_part what s =
     (case hex_DecodeString s of
        Err e \<Rightarrow> Err (Errorf (''invalid '' @ what @ '': %w'') [AErr e])
      | Ok d \<Rightarrow> Ok d)"

definition cpc_buildCommandFrame ::
  "(f64 \<Rightarrow> int) \<Rightarrow> CustomProtocolClient \<Rightarrow> CommandDefinition \<Rightarrow> (string, goval) gomap \<Rightarrow> bytes result" where
  "cpc_buildCommandFrame oob c cmd params =
     (case (if pc_Header (cpc_config c) \<noteq> [] then hex_part ''header'' (pc_Header (cpc_config c)) else Ok []) of
        Err e \<Rightarrow> Err e
      | Ok header \<Rightarrow>
     (case hex_part ''command code'' (cd_CommandCode cmd) of
        Err e \<Rightarrow> Err e
      | Ok code \<Rightarrow>
     (case cpc_encodeParameters oob c (cd_Fields cmd) params of
        Err e \<Rightarrow> Err e
      | Ok d \<Rightarrow>
          (let body = header @ code @ d;
               summed = (if pc_ChecksumMethod (cpc_config c) \<noteq> ''none''
                         then body @ cpc_calculateChecksum c body else body)
           in case (if pc_Trailer (cpc_config c) \<noteq> [] then hex_part ''trailer'' (pc_Trailer (cpc_config c)) else Ok []) of
                Err e \<Rightarrow> Err e
              | Ok trailer \<Rightarrow> Ok (summed @ trailer)))))"

section \<open>Responses\<close>

datatype field_value =
    FInt8 int | FUint8 "8 word" | FInt16 int | FUint16 "16 word" | FInt32 int | FUint32 "32 word"
  | FFloat32 f64 | FFloat64 f64 | FString string | FBytes bytes

definition cpc_decodeFieldValue ::
  "CustomProtocolClient \<Rightarrow> FieldDefinition \<Rightarrow> bytes \<Rightarrow> field_value result exec" where
  "cpc_decodeFieldValue c field d =
     (let ty = fd_Type field in
      if ty = ''int8'' then
        (if d = [] then Panic ''index out of range'' else Ret (Ok (FInt8 (sint (hd d)))))
      else if ty = ''uint8'' then
        (if d = [] then Panic ''index out of range'' else Ret (Ok (FUint8 (hd d))))
      else if ty = ''int16'' then ebind (cpc_decodeUint16 c d) (\<lambda>w. Ret (Ok (FInt16 (sint w))))
      else if ty = ''uint16'' then ebind (cpc_decodeUint16 c d) (\<lambda>w. Ret (Ok (FUint16 w)))
      else if ty = ''int32'' then ebind (cpc_decodeUint32 c d) (\<lambda>w. Ret (Ok (FInt32 (sint w))))
      else if ty = ''uint32'' then ebind (cpc_decodeUint32 c d) (\<lambda>w. Ret (Ok (FUint32 w)))
      else if ty = ''float32'' then
        ebind (cpc_decodeUint32 c d) (\<lambda>w. Ret (Ok (FFloat32 (f32_round (of_int (uint w))))))
      else if ty = ''float64'' then
        ebind (cpc_decodeUint64 c d) (\<lambda>w. Ret (Ok (FFloat64 (f64_of_int (uint w)))))
      else if ty = ''string'' then Ret (Ok (FString (map (\<lambda>b. char_of (unat b)) d)))
      else if ty = ''bytes'' then Ret (Ok (FBytes d))
      else Ret (Err (Errorf ''unsupported field type: %s'' [AStr ty])))"

text \<open>
  The loop over the fields of a response definition: fields that reach past the data, or of an
  unknown type, are skipped; a negative offset or size makes the slice expression panic.
\<close>

fun cpc_decode_fields ::
  "CustomProtocolClient \<Rightarrow> FieldDefinition list \<Rightarrow> bytes \<Rightarrow> (string, field_value) gomap \<Rightarrow>
   (string, field_value) gomap exec" where
  "cpc_decode_fields c [] d acc = Ret acc"
| "cpc_decode_fields c (f # fs) d acc =
     (let hi = wrap64 (fd_Offset f + fd_Size f) in
      if hi > int (length d) then cpc_decode_fields c fs d acc
      else if fd_Offset f < 0 \<or> hi < fd_Offset f then Panic ''slice bounds out of range''
      else ebind (cpc_decodeFieldValue c f (take (nat (hi - fd_Offset f)) (drop (nat (fd_Offset f)) d)))
             (\<lambda>r. case r of
                Err e \<Rightarrow> cpc_decode_fields c fs d acc
              | Ok v \<Rightarrow> cpc_decode_fields c fs d (gm_set (fd_Name f) v acc)))"

fun first_bytes :: "(string \<times> field_value) list \<Rightarrow> bytes option" where
  "first_bytes [] = None"
| "first_bytes ((n, FBytes d) # m) = Some d"
| "first_bytes (_ # m) = first_bytes m"

definition cpc_parseResponse ::
  "((string \<times> field_value) list \<Rightarrow> (string \<times> field_value) list) \<Rightarrow> CustomProtocolClient \<Rightarrow> string \<Rightarrow> bytes \<Rightarrow>
   bytes result exec" where
  "cpc_parseResponse ord c code d =
     (case gm_get (cpc_responses c) code of
        None \<Rightarrow> Ret (Ok d)
      | Some rdef \<Rightarrow>
          ebind (cpc_decode_fields c (rd_Fields rdef) d [])
            (\<lambda>m. Ret (Ok (case first_bytes (ord m) of Some b \<Rightarrow> b | None \<Rightarrow> d))))"

section \<open>Sending a command\<close>

text \<open>
  What a call observes: the clock, whether the wait ends by the timer (\<open>CtxLive\<close>) or by the context,
  and the two implementation-defined choices.
\<close>

record custom_env =
  ce_now :: int
  ce_wait :: ctx
  ce_oob :: "f64 \<Rightarrow> int"
  ce_ord :: "(string \<times> field_value) list \<Rightarrow> (string \<times> field_value) list"

definition cpc_sendRawData :: "bytes \<Rightarrow> CustomProtocolClient \<Rightarrow> CustomProtocolClient \<times> goerr option" where
  "cpc_sendRawData d c = (c, None)"

text \<open>
  The three-way \<open>select\<close>.  The channel is the one stored under the message ID; the only code that
  touches the table of channels adds and deletes entries.
\<close>

definition cpc_await ::
  "custom_env \<Rightarrow> CommandDefinition \<Rightarrow> string \<Rightarrow> CustomProtocolClient \<Rightarrow> bytes result exec" where
  "cpc_await env cmd mid c =
     (case Option.bind (gm_get (cpc_responseChannels c) mid) ch_recv of
        Some (ch, Some resp) \<Rightarrow> cpc_parseResponse (ce_ord env) c (cd_CommandCode cmd) resp
      | Some (ch, None) \<Rightarrow> cpc_parseResponse (ce_ord env) c (cd_CommandCode cmd) []
      | None \<Rightarrow>
          (case ce_wait env of
             CtxLive \<Rightarrow> Ret (Err (Errorf ''command timeout'' []))
           | CtxDone e \<Rightarrow> Ret (Err e)))"

definition cpc_sendCommandAndWaitForResponse ::
  "custom_env \<Rightarrow> CommandDefinition \<Rightarrow> (string, goval) gomap \<Rightarrow> CustomProtocolClient \<Rightarrow>
   CustomProtocolClient \<times> bytes result exec" where
  "cpc_sendCommandAndWaitForResponse env cmd params c =
     (case cpc_buildCommandFrame (ce_oob env) c cmd params of
        Err e \<Rightarrow> (c, Ret (Err e))
      | Ok frame \<Rightarrow>
          (let mid = ''cmd_'' @ int_dec (ce_now env);
               c1 = c\<lparr>cpc_responseChannels := gm_set mid (mk_chan 1) (cpc_responseChannels c)\<rparr>;
               forget = (\<lambda>c. c\<lparr>cpc_responseChannels := gm_del mid (cpc_responseChannels c)\<rparr>)
           in case cpc_sendRawData frame c1 of
                (c2, Some e) \<Rightarrow> (forget c2, Ret (Err e))
              | (c2, None) \<Rightarrow> (forget c2, cpc_await env cmd mid c2)))"

definition cpc_Read ::
  "custom_env \<Rightarrow> string \<Rightarrow> int \<Rightarrow> CustomProtocolClient \<Rightarrow> CustomProtocolClient \<times> bytes result exec" where
  "cpc_Read env address len c =
     (if \<not> cpc_IsConnected c then (c, Ret (Err (Errorf ''custom protocol client not connected'' [])))
      else case gm_get (cpc_commands c) ''read'' of
        None \<Rightarrow> (c, Ret (Err (Errorf ''read command not defined'' [])))
      | Some cmd \<Rightarrow>
          (case cpc_sendCommandAndWaitForResponse env cmd [(''address'', VString address), (''length'', VInt len)] c of
             (c', Ret (Ok resp)) \<Rightarrow> (cpc_on_base (bc_EmitDataReceived address resp) c', Ret (Ok resp))
           | (c', r) \<Rightarrow> (c', r)))"

definition cpc_Write ::
  "custom_env \<Rightarrow> string \<Rightarrow> bytes \<Rightarrow> CustomProtocolClient \<Rightarrow> CustomProtocolClient \<times> goerr option exec" where
  "cpc_Write env address d c =
     (if \<not> cpc_IsConnected c then (c, Ret (Some (Errorf ''custom protocol client not connected'' [])))
      else case gm_get (cpc_commands c) ''write'' of
        None \<Rightarrow> (c, Ret (Some (Errorf ''write command not defined'' [])))
      | Some cmd \<Rightarrow>
          (case cpc_sendCommandAndWaitForResponse env cmd [(''address'', VString address), (''data'', VBytes d)] c of
             (c', Ret (Ok resp)) \<Rightarrow> (cpc_on_base (bc_EmitDataWritten address d) c', Ret None)
           | (c', Ret (Err e)) \<Rightarrow> (c', Ret (Some e))
           | (c', Panic m) \<Rightarrow> (c', Panic m)
           | (c', Blocked) \<Rightarrow> (c', Blocked)))"

definition cpc_BulkRead ::
  "custom_env \<Rightarrow> string list \<Rightarrow> CustomProtocolClient \<Rightarrow> CustomProtocolClient \<times> (string, bytes) gomap result exec" where
  "cpc_BulkRead env = bulk_read (\<lambda>a. cpc_Read env a 1)"

definition cpc_BulkWrite ::
  "custom_env \<Rightarrow> (string, bytes) gomap \<Rightarrow> CustomProtocolClient \<Rightarrow> CustomProtocolClient \<times> goerr option exec" where
  "cpc_BulkWrite env = bulk_write (cpc_Write env)"

definition cpc_GetConfig :: "CustomProtocolClient \<Rightarrow> CustomProtocolConfig" where
  "cpc_GetConfig c = cpc_config c"

definition cpc_SetConfig ::
  "CustomProtocolConfig option \<Rightarrow> CustomProtocolClient \<Rightarrow> CustomProtocolClient \<times> goerr option" where
  "cpc_SetConfig cfg c =
     (case cfg of Some x \<Rightarrow> (c\<lparr>cpc_config := x\<rparr>, None)
      | None \<Rightarrow> (c, Some (Errorf ''invalid config type for CustomProtocolClient'' [])))"

section \<open>Discovery\<close>

definition cdisc_DiscoverDevices :: "CustomProtocolConfig \<Rightarrow> DeviceInfo list result" where
  "cdisc_DiscoverDevices cfg = Ok
     [\<lparr>di_ID = ''custom-protocol-001'', di_Address = pc_Address cfg, di_Type = ''custom'',
       di_Model = ''Custom Protocol Device'',
       di_Properties = [(''protocol_type'', VString (pc_ProtocolType cfg)), (''encoding'', VString (pc_Encoding cfg))]\<rparr>]"

definition ping_command :: CommandDefinition where
  "ping_command = \<lparr>cd_Name = ''ping'', cd_CommandCode = ''01'', cd_Format = ''binary'', cd_Fields = []\<rparr>"

definition ping_response :: ResponseDefinition where
  "ping_response = \<lparr>rd_CommandCode = ''01'', rd_Format = ''binary'', rd_Fields = []\<rparr>"

definition cdisc_PingDevice ::
  "custom_env \<Rightarrow> CustomProtocolConfig \<Rightarrow> string \<Rightarrow> CustomProtocolClient \<times> (bool \<times> goerr option) exec" where
  "cdisc_PingDevice env cfg address =
     and_then cpc_Connect
       (\<lambda>r c. case r of
          Some e \<Rightarrow> (c, Ret (False, Some e))
        | None \<Rightarrow>
            (let (c1, rd) = cpc_sendCommandAndWaitForResponse env ping_command [] c;
                 c2 = fst (cpc_Disconnect c1)
             in case rd of
                  Ret (Ok d) \<Rightarrow> (c2, Ret (True, None))
                | Ret (Err e) \<Rightarrow> (c2, Ret (False, None))
                | Panic m \<Rightarrow> (c2, Panic m)
                | Blocked \<Rightarrow> (c1, Blocked)))
       (cpc_RegisterResponse ping_response (cpc_RegisterCommand ping_command (NewCustomProtocolClient cfg)))"

end
