(* ===== verification/HwManager.thy ===== *)
theory HwManager
  imports Serial ModbusComm Custom
begin

text \<open>
  The device manager of the hardware layer (\<open>internal/hardware/devices/manager.go\<close>).  A device is a base
  device around one of the three protocol clients; devices are shared by reference, so they live in a
  store (\<open>hm_heap\<close>) and the table holds addresses.  The manager's mutex is explicit because \<open>Stop\<close>
  re-enters it; the devices' own mutexes are held for one call at a time and never re-entered, since
  the only event handler the program registers, the manager itself (handler 0), does nothing.
  Goroutines the manager starts are listed in \<open>hm_spawned\<close> and \<open>hm_scanners\<close> until they run.
\<close>

section \<open>The communication interface\<close>

record 'w bus_ops =
  bo_port :: "'w port_ops"
  bo_modbus :: "'w modbus_ops"

record bus_env =
  be_retry :: retry_env
  be_custom :: custom_env

datatype comm_value = CoModbus CommModbusClient | CoSerial SerialClient | CoCustom CustomProtocolClient

fun co_base :: "comm_value \<Rightarrow> BaseCommunication" where
  "co_base (CoModbus c) = mc_base c"
| "co_base (CoSerial c) = sc_base c"
| "co_base (CoCustom c) = cpc_base c"

fun co_map_base :: "(BaseCommunication \<Rightarrow> BaseCommunication) \<Rightarrow> comm_value \<Rightarrow> comm_value" where
  "co_map_base f (CoModbus c) = CoModbus (c\<lparr>mc_base := f (mc_base c)\<rparr>)"
| "co_map_base f (CoSerial c) = CoSerial (c\<lparr>sc_base := f (sc_base c)\<rparr>)"
| "co_map_base f (CoCustom c) = CoCustom (c\<lparr>cpc_base := f (cpc_base c)\<rparr>)"

text \<open>A call on the client inside the interface value.\<close>

definition co_lift :: "('c \<Rightarrow> comm_value) \<Rightarrow> ('c \<times> 'w \<Rightarrow> ('c \<times> 'w) \<times> 'a) \<Rightarrow> 'c \<times> 'w \<Rightarrow> (comm_value \<times> 'w) \<times> 'a" where
  "co_lift k f s = (let ((c, w), r) = f s in ((k c, w), r))"

definition co_pure :: "('c \<Rightarrow> comm_value) \<Rightarrow> ('c \<Rightarrow> 'c \<times> 'a) \<Rightarrow> 'c \<times> 'w \<Rightarrow> (comm_value \<times> 'w) \<times> 'a" where
  "co_pure k f s = (let (c, r) = f (fst s) in ((k c, snd s), r))"

fun co_Connect :: "'w bus_ops \<Rightarrow> comm_value \<times> 'w \<Rightarrow> (comm_value \<times> 'w) \<times> goerr option exec" where
  "co_Connect ops (CoModbus c, w) = co_lift CoModbus (mc_Connect (bo_modbus ops)) (c, w)"
| "co_Connect ops (CoSerial c, w) = co_lift CoSerial (sc_Connect (bo_port ops)) (c, w)"
| "co_Connect ops (CoCustom c, w) = co_pure CoCustom cpc_Connect (c, w)"

fun co_Disconnect :: "'w bus_ops \<Rightarrow> comm_value \<times> 'w \<Rightarrow> (comm_value \<times> 'w) \<times> goerr option exec" where
  "co_Disconnect ops (CoModbus c, w) = co_lift CoModbus mc_Disconnect (c, w)"
| "co_Disconnect ops (CoSerial c, w) = co_lift CoSerial (sc_Disconnect (bo_port ops)) (c, w)"
| "co_Disconnect ops (CoCustom c, w) = co_pure CoCustom cpc_Disconnect (c, w)"

fun co_Reconnect :: "'w bus_ops \<Rightarrow> comm_value \<times> 'w \<Rightarrow> (comm_value \<times> 'w) \<times> goerr option exec" where
  "co_Reconnect ops (CoModbus c, w) = co_lift CoModbus (mc_Reconnect (bo_modbus ops)) (c, w)"
| "co_Reconnect ops (CoSerial c, w) = co_lift CoSerial (sc_Reconnect (bo_port ops)) (c, w)"
| "co_Reconnect ops (CoCustom c, w) = co_pure CoCustom cpc_Reconnect (c, w)"

fun co_Read ::
  "'w bus_ops \<Rightarrow> bus_env \<Rightarrow> string \<Rightarrow> int \<Rightarrow> comm_value \<times> 'w \<Rightarrow> (comm_value \<times> 'w) \<times> bytes result exec" where
  "co_Read ops env a n (CoModbus c, w) = co_lift CoModbus (mc_Read (bo_modbus ops) (be_retry env) a n) (c, w)"
| "co_Read ops env a n (CoSerial c, w) = co_lift CoSerial (sc_Read (bo_port ops) a n) (c, w)"
| "co_Read ops env a n (CoCustom c, w) = co_pure CoCustom (cpc_Read (be_custom env) a n) (c, w)"

fun co_Write ::
  "'w bus_ops \<Rightarrow> bus_env \<Rightarrow> string \<Rightarrow> bytes \<Rightarrow> comm_value \<times> 'w \<Rightarrow> (comm_value \<times> 'w) \<times> goerr option exec" where
  "co_Write ops env a d (CoModbus c, w) = co_lift CoModbus (mc_Write (bo_modbus ops) (be_retry env) a d) (c, w)"
| "co_Write ops env a d (CoSerial c, w) = co_lift CoSerial (sc_Write (bo_port ops) a d) (c, w)"
| "co_Write ops env a d (CoCustom c, w) = co_pure CoCustom (cpc_Write (be_custom env) a d) (c, w)"

section \<open>Devices\<close>

datatype DeviceType =
    DeviceTypeUnknown | DeviceTypeModbusTCP | DeviceTypeModbusRTU | DeviceTypeModbusASCII
  | DeviceTypeSerial | DeviceTypeCustom

text \<open>The dynamic types the code asserts on \<open>Config\<close>.\<close>

datatype protocol_config =
    NoConfig | CfgModbus ModbusConfig | CfgSerial SerialConfig | CfgCustom CustomProtocolConfig

text \<open>
  \<open>hc_commands\<close> and \<open>hc_responses\<close> are the two entries of \<open>Properties\<close> that are ever read, \<open>None\<close> when
  they are missing or of another type.
\<close>

record HwDeviceConfig =
  hc_ID :: string
  hc_Name :: string
  hc_Type :: DeviceType
  hc_Protocol :: string
  hc_Enabled :: bool
  hc_Config :: protocol_config
  hc_commands :: "CommandDefinition list option"
  hc_responses :: "ResponseDefinition list option"
  hc_Parameters :: "(string, goval) gomap"
  hc_Timeout :: Duration
  hc_RetryCount :: int
  hc_AutoConnect :: bool

record HwDevice =
  hb_config :: HwDeviceConfig
  hb_comm :: "comm_value option"
  hb_status :: ConnectionStatus
  hb_lastError :: "goerr option"
  hb_eventHandler :: "nat list"

definition NewHwDevice :: "HwDeviceConfig \<Rightarrow> HwDevice" where
  "NewHwDevice cfg =
     \<lparr>hb_config = cfg, hb_comm = None, hb_status = Disconnected, hb_lastError = None, hb_eventHandler = []\<rparr>"

definition hb_GetStatus :: "HwDevice \<Rightarrow> ConnectionStatus" where
  "hb_GetStatus d = (case hb_comm d of Some c \<Rightarrow> bc_GetStatus (co_base c) | None \<Rightarrow> hb_status d)"

definition hb_IsConnected :: "HwDevice \<Rightarrow> bool" where
  "hb_IsConnected d = (hb_GetStatus d = Connected)"

definition no_comm :: goerr where
  "no_comm = Errorf ''communication interface not initialized'' []"

text \<open>What \<open>Connect\<close> and \<open>Reconnect\<close> do with the outcome of the client's call.\<close>

definition hb_opened :: "HwDevice \<Rightarrow> (comm_value \<times> 'w) \<times> goerr option exec \<Rightarrow> (HwDevice \<times> 'w) \<times> goerr option exec" where
  "hb_opened d out =
     (let ((c, w), r) = out; d1 = d\<lparr>hb_comm := Some c\<rparr> in
      case r of
        Ret None \<Rightarrow> ((d1\<lparr>hb_status := Connected, hb_lastError := None\<rparr>, w), Ret None)
      | Ret (Some e) \<Rightarrow> ((d1\<lparr>hb_status := ConnError, hb_lastError := Some e\<rparr>, w), Ret (Some e))
      | Panic m \<Rightarrow> ((d1, w), Panic m)
      | Blocked \<Rightarrow> ((d1, w), Blocked))"

definition hb_Connect :: "'w bus_ops \<Rightarrow> HwDevice \<times> 'w \<Rightarrow> (HwDevice \<times> 'w) \<times> goerr option exec" where
  "hb_Connect ops s =
     (case hb_comm (fst s) of
        None \<Rightarrow> (s, Ret (Some no_comm))
      | Some c \<Rightarrow> hb_opened ((fst s)\<lparr>hb_status := Connecting\<rparr>) (co_Connect ops (c, snd s)))"

definition hb_Disconnect :: "'w bus_ops \<Rightarrow> HwDevice \<times> 'w \<Rightarrow> (HwDevice \<times> 'w) \<times> goerr option exec" where
  "hb_Disconnect ops s =
     (case hb_comm (fst s) of
        None \<Rightarrow> (s, Ret None)
      | Some c \<Rightarrow>
          (let ((c', w), r) = co_Disconnect ops (c, snd s); d1 = (fst s)\<lparr>hb_comm := Some c'\<rparr> in
           case r of
             Ret e \<Rightarrow> ((d1\<lparr>hb_status := Disconnected, hb_lastError := e\<rparr>, w), Ret e)
           | Panic m \<Rightarrow> ((d1, w), Panic m)
           | Blocked \<Rightarrow> ((d1, w), Blocked)))"

definition hb_Reconnect :: "'w bus_ops \<Rightarrow> HwDevice \<times> 'w \<Rightarrow> (HwDevice \<times> 'w) \<times> goerr option exec" where
  "hb_Reconnect ops s =
     (case hb_comm (fst s) of
        None \<Rightarrow> (s, Ret (Some no_comm))
      | Some c \<Rightarrow> hb_opened (fst s) (co_Reconnect ops (c, snd s)))"

text \<open>A call that is passed on to the client and changes nothing else.\<close>

definition hb_pass ::
  "(comm_value \<times> 'w \<Rightarrow> (comm_value \<times> 'w) \<times> 'a) \<Rightarrow> 'a \<Rightarrow> HwDevice \<times> 'w \<Rightarrow> (HwDevice \<times> 'w) \<times> 'a" where
  "hb_pass f none s =
     (case hb_comm (fst s) of
        None \<Rightarrow> (s, none)
      | Some c \<Rightarrow> (let ((c', w), r) = f (c, snd s) in (((fst s)\<lparr>hb_comm := Some c'\<rparr>, w), r)))"

definition hb_Read ::
  "'w bus_ops \<Rightarrow> bus_env \<Rightarrow> string \<Rightarrow> int \<Rightarrow> HwDevice \<times> 'w \<Rightarrow> (HwDevice \<times> 'w) \<times> bytes result exec" where
  "hb_Read ops env a n = hb_pass (co_Read ops env a n) (Ret (Err no_comm))"

definition hb_Write ::
  "'w bus_ops \<Rightarrow> bus_env \<Rightarrow> string \<Rightarrow> bytes \<Rightarrow> HwDevice \<times> 'w \<Rightarrow> (HwDevice \<times> 'w) \<times> goerr option exec" where
  "hb_Write ops env a d = hb_pass (co_Write ops env a d) (Ret (Some no_comm))"

text \<open>The clients' \<open>BulkRead\<close> and \<open>BulkWrite\<close>, which all loop over their own reads and writes.\<close>

definition hb_BulkRead ::
  "'w bus_ops \<Rightarrow> bus_env \<Rightarrow> string list \<Rightarrow> HwDevice \<times> 'w \<Rightarrow> (HwDevice \<times> 'w) \<times> (string, bytes) gomap result exec" where
  "hb_BulkRead ops env as = hb_pass (bulk_read (\<lambda>a. co_Read ops env a 1) as) (Ret (Err no_comm))"

definition hb_BulkWrite ::
  "'w bus_ops \<Rightarrow> bus_env \<Rightarrow> (string, bytes) gomap \<Rightarrow> HwDevice \<times> 'w \<Rightarrow> (HwDevice \<times> 'w) \<times> goerr option exec" where
  "hb_BulkWrite ops env m = hb_pass (bulk_write (co_Write ops env) m) (Ret (Some no_comm))"

definition hb_AddEventHandler :: "nat \<Rightarrow> HwDevice \<Rightarrow> HwDevice" where
  "hb_AddEventHandler h d =
     d\<lparr>hb_eventHandler := hb_eventHandler d @ [h],
       hb_comm := map_option (co_map_base (bc_AddEventHandler h)) (hb_comm d)\<rparr>"

definition hb_RemoveEventHandler :: "nat \<Rightarrow> HwDevice \<Rightarrow> HwDevice" where
  "hb_RemoveEventHandler h d =
     d\<lparr>hb_eventHandler := remove1 h (hb_eventHandler d),
       hb_comm := map_option (co_map_base (bc_RemoveEventHandler h)) (hb_comm d)\<rparr>"

text \<open>
  The handlers of the device move to the new client.  The result also holds the old client, which
  keeps existing for whoever else refers to it.
\<close>

definition hb_setCommunication :: "comm_value option \<Rightarrow> HwDevice \<Rightarrow> HwDevice \<times> comm_value option" where
  "hb_setCommunication c d =
     (d\<lparr>hb_comm := map_option (fold (\<lambda>h. co_map_base (bc_AddEventHandler h)) (hb_eventHandler d)) c\<rparr>,
      map_option (fold (\<lambda>h. co_map_base (bc_RemoveEventHandler h)) (hb_eventHandler d)) (hb_comm d))"

definition NewHwModbusDevice :: "HwDeviceConfig \<Rightarrow> HwDevice result" where
  "NewHwModbusDevice cfg =
     (case hc_Config cfg of
        CfgModbus mcfg \<Rightarrow> Ok (fst (hb_setCommunication (Some (CoModbus (NewCommModbusClient mcfg))) (NewHwDevice cfg)))
      | _ \<Rightarrow> Err (Errorf ''invalid Modbus config'' []))"

definition NewHwSerialDevice :: "HwDeviceConfig \<Rightarrow> HwDevice result" where
  "NewHwSerialDevice cfg =
     (case hc_Config cfg of
        CfgSerial scfg \<Rightarrow> Ok (fst (hb_setCommunication (Some (CoSerial (NewSerialClient scfg))) (NewHwDevice cfg)))
      | _ \<Rightarrow> Err (Errorf ''invalid serial config'' []))"

definition NewHwCustomDevice :: "HwDeviceConfig \<Rightarrow> HwDevice result" where
  "NewHwCustomDevice cfg =
     (case hc_Config cfg of
        CfgCustom ccfg \<Rightarrow>
          (let c = fold cpc_RegisterResponse (case hc_responses cfg of None \<Rightarrow> [] | Some rs \<Rightarrow> rs)
                     (fold cpc_RegisterCommand (case hc_commands cfg of None \<Rightarrow> [] | Some cs \<Rightarrow> cs)
                       (NewCustomProtocolClient ccfg))
           in Ok (fst (hb_setCommunication (Some (CoCustom c)) (NewHwDevice cfg))))
      | _ \<Rightarrow> Err (Errorf ''invalid custom protocol config'' []))"

section \<open>The manager\<close>

record hw_event =
  he_Type :: string
  he_DeviceID :: string
  he_Timestamp :: int
  he_Data :: "HwDeviceConfig option"

datatype hw_task = HtAutoConnect nat | HtReconnect string

text \<open>A scanning goroutine waits in its \<open>select\<close>, or is inside \<open>scanDevices\<close>.\<close>

datatype scan_pc = ScanWaiting | ScanBusy

record 'w HwManager =
  hm_heap :: "HwDevice list"
  hm_devices :: "(string, nat) gomap"
  hm_configs :: "(string, HwDeviceConfig) gomap"
  hm_mu :: rwmutex
  hm_cancelled :: bool
  hm_eventChan :: "hw_event chan"
  hm_autoScan :: bool
  hm_scanTicker :: "Duration option"
  hm_spawned :: "hw_task list"
  hm_scanners :: "scan_pc list"
  hm_world :: 'w

definition NewHwManager :: "'w \<Rightarrow> 'w HwManager" where
  "NewHwManager w =
     \<lparr>hm_heap = [], hm_devices = [], hm_configs = [], hm_mu = Unlocked, hm_cancelled = False,
      hm_eventChan = mk_chan 100, hm_autoScan = False, hm_scanTicker = None, hm_spawned = [],
      hm_scanners = [], hm_world = w\<rparr>"

abbreviation hm_locked :: "('w HwManager \<Rightarrow> 'w HwManager \<times> 'a exec) \<Rightarrow> 'w HwManager \<Rightarrow> 'w HwManager \<times> 'a exec" where
  "hm_locked \<equiv> with_lock hm_mu hm_mu_update"

abbreviation hm_rlocked :: "('w HwManager \<Rightarrow> 'w HwManager \<times> 'a exec) \<Rightarrow> 'w HwManager \<Rightarrow> 'w HwManager \<times> 'a exec" where
  "hm_rlocked \<equiv> with_rlock hm_mu hm_mu_update"

text \<open>A call on the device at an address.\<close>

definition hm_call ::
  "(HwDevice \<times> 'w \<Rightarrow> (HwDevice \<times> 'w) \<times> 'a) \<Rightarrow> nat \<Rightarrow> 'w HwManager \<Rightarrow> 'w HwManager \<times> 'a" where
  "hm_call f a m =
     (let ((d, w), r) = f (hm_heap m ! a, hm_world m)
      in (m\<lparr>hm_heap := (hm_heap m)[a := d], hm_world := w\<rparr>, r))"

text \<open>A full channel drops the event; a closed one panics.\<close>

definition hm_emitEvent :: "hw_event \<Rightarrow> 'w HwManager \<Rightarrow> 'w HwManager \<times> unit exec" where
  "hm_emitEvent ev m =
     (case ch_try_send ev (hm_eventChan m) of
        (c, Ret _) \<Rightarrow> (m\<lparr>hm_eventChan := c\<rparr>, Ret ())
      | (c, Panic msg) \<Rightarrow> (m, Panic msg)
      | (c, Blocked) \<Rightarrow> (m, Blocked))"

definition hm_createDevice :: "HwDeviceConfig \<Rightarrow> HwDevice result" where
  "hm_createDevice cfg =
     (case hc_Type cfg of
        DeviceTypeModbusTCP \<Rightarrow> NewHwModbusDevice cfg
      | DeviceTypeModbusRTU \<Rightarrow> NewHwModbusDevice cfg
      | DeviceTypeModbusASCII \<Rightarrow> NewHwModbusDevice cfg
      | DeviceTypeSerial \<Rightarrow> NewHwSerialDevice cfg
      | DeviceTypeCustom \<Rightarrow> NewHwCustomDevice cfg
      | DeviceTypeUnknown \<Rightarrow> Err (Errorf ''unsupported device type: %v'' [AInt 0]))"

definition hm_add_locked :: "int \<Rightarrow> HwDeviceConfig \<Rightarrow> 'w HwManager \<Rightarrow> 'w HwManager \<times> goerr option exec" where
  "hm_add_locked now cfg m =
     (if gm_has (hm_devices m) (hc_ID cfg)
      then (m, Ret (Some (Errorf ''device %s already exists'' [AStr (hc_ID cfg)])))
      else
        let m1 = m\<lparr>hm_configs := gm_set (hc_ID cfg) cfg (hm_configs m)\<rparr>
        in case hm_createDevice cfg of
             Err e \<Rightarrow> (m1, Ret (Some (Errorf ''failed to create device %s: %w'' [AStr (hc_ID cfg), AErr e])))
           | Ok d \<Rightarrow>
               (let a = length (hm_heap m1);
                    m2 = m1\<lparr>hm_heap := hm_heap m1 @ [hb_AddEventHandler 0 d],
                            hm_devices := gm_set (hc_ID cfg) a (hm_devices m1),
                            hm_spawned := hm_spawned m1 @ (if hc_AutoConnect cfg then [HtAutoConnect a] else [])\<rparr>
                in and_then
                     (hm_emitEvent \<lparr>he_Type = ''device_added'', he_DeviceID = hc_ID cfg, he_Timestamp = now,
                                    he_Data = Some cfg\<rparr>)
                     (\<lambda>_ m. (m, Ret None)) m2))"

definition hm_AddDevice :: "int \<Rightarrow> HwDeviceConfig \<Rightarrow> 'w HwManager \<Rightarrow> 'w HwManager \<times> goerr option exec" where
  "hm_AddDevice now cfg = hm_locked (hm_add_locked now cfg)"

text \<open>Disconnecting a connected device; its error is only logged.\<close>

definition hm_drop_connection :: "'w bus_ops \<Rightarrow> nat \<Rightarrow> 'w HwManager \<Rightarrow> 'w HwManager \<times> unit exec" where
  "hm_drop_connection ops a m =
     (if hb_IsConnected (hm_heap m ! a)
      then and_then (hm_call (hb_Disconnect ops) a) (\<lambda>_ m. (m, Ret ())) m
      else (m, Ret ()))"

definition hm_RemoveDevice :: "'w bus_ops \<Rightarrow> int \<Rightarrow> string \<Rightarrow> 'w HwManager \<Rightarrow> 'w HwManager \<times> goerr option exec" where
  "hm_RemoveDevice ops now i = hm_locked (\<lambda>m.
     case gm_get (hm_devices m) i of
       None \<Rightarrow> (m, Ret (Some (Errorf ''device %s not found'' [AStr i])))
     | Some a \<Rightarrow>
         and_then (hm_drop_connection ops a)
           (\<lambda>_ m1. and_then
              (hm_emitEvent \<lparr>he_Type = ''device_removed'', he_DeviceID = i, he_Timestamp = now, he_Data = None\<rparr>)
              (\<lambda>_ m2. (m2, Ret None))
              (m1\<lparr>hm_devices := gm_del i (hm_devices m1), hm_configs := gm_del i (hm_configs m1)\<rparr>)) m)"

definition hm_GetDevice :: "string \<Rightarrow> 'w HwManager \<Rightarrow> 'w HwManager \<times> nat result exec" where
  "hm_GetDevice i = hm_rlocked (\<lambda>m.
     (m, Ret (case gm_get (hm_devices m) i of
                None \<Rightarrow> Err (Errorf ''device %s not found'' [AStr i])
              | Some a \<Rightarrow> Ok a)))"

definition hm_ListDevices :: "'w HwManager \<Rightarrow> 'w HwManager \<times> nat list exec" where
  "hm_ListDevices = hm_rlocked (\<lambda>m. (m, Ret (map snd (hm_devices m))))"

definition hm_ListDeviceConfigs :: "'w HwManager \<Rightarrow> 'w HwManager \<times> HwDeviceConfig list exec" where
  "hm_ListDeviceConfigs = hm_rlocked (\<lambda>m. (m, Ret (map snd (hm_configs m))))"

text \<open>Look a device up, then call it; \<open>fail\<close> makes the result of a failed look-up.\<close>

definition hm_on_device ::
  "string \<Rightarrow> (goerr \<Rightarrow> 'a) \<Rightarrow> (HwDevice \<times> 'w \<Rightarrow> (HwDevice \<times> 'w) \<times> 'a exec) \<Rightarrow> 'w HwManager \<Rightarrow> 'w HwManager \<times> 'a exec" where
  "hm_on_device i fail f =
     and_then (hm_GetDevice i) (\<lambda>r m. case r of Err e \<Rightarrow> (m, Ret (fail e)) | Ok a \<Rightarrow> hm_call f a m)"

definition hm_ConnectDevice :: "'w bus_ops \<Rightarrow> string \<Rightarrow> 'w HwManager \<Rightarrow> 'w HwManager \<times> goerr option exec" where
  "hm_ConnectDevice ops i = hm_on_device i Some (hb_Connect ops)"

definition hm_DisconnectDevice :: "'w bus_ops \<Rightarrow> string \<Rightarrow> 'w HwManager \<Rightarrow> 'w HwManager \<times> goerr option exec" where
  "hm_DisconnectDevice ops i = hm_on_device i Some (hb_Disconnect ops)"

definition hm_ReconnectDevice :: "'w bus_ops \<Rightarrow> string \<Rightarrow> 'w HwManager \<Rightarrow> 'w HwManager \<times> goerr option exec" where
  "hm_ReconnectDevice ops i = hm_on_device i Some (hb_Reconnect ops)"

definition hm_ReadDevice ::
  "'w bus_ops \<Rightarrow> bus_env \<Rightarrow> string \<Rightarrow> string \<Rightarrow> int \<Rightarrow> 'w HwManager \<Rightarrow> 'w HwManager \<times> bytes result exec" where
  "hm_ReadDevice ops env i a n = hm_on_device i Err (hb_Read ops env a n)"

definition hm_WriteDevice ::
  "'w bus_ops \<Rightarrow> bus_env \<Rightarrow> string \<Rightarrow> string \<Rightarrow> bytes \<Rightarrow> 'w HwManager \<Rightarrow> 'w HwManager \<times> goerr option exec" where
  "hm_WriteDevice ops env i a d = hm_on_device i Some (hb_Write ops env a d)"

definition hm_GetDeviceStatus :: "int \<Rightarrow> string \<Rightarrow> 'w HwManager \<Rightarrow> 'w HwManager \<times> DeviceStatus exec" where
  "hm_GetDeviceStatus now i =
     and_then (hm_GetDevice i)
       (\<lambda>r m.
          let st = (\<lambda>c e. \<lparr>ds_ID = i, ds_Connected = c, ds_Error = e, ds_LastSeen = now,
                           ds_Position = zero_point, ds_Velocity = zero_velocity\<rparr>)
          in case r of
               Err e \<Rightarrow> (m, Ret (st False (Some e)))
             | Ok a \<Rightarrow>
                 (let d = hm_heap m ! a in
                  if hb_IsConnected d then (m, Ret (st True None))
                  else if hb_GetStatus d = ConnError then
                    (case hb_comm d of
                       None \<Rightarrow> (m, Panic ''nil pointer dereference'')
                     | Some c \<Rightarrow> (m, Ret (st False (bc_GetLastError (co_base c)))))
                  else (m, Ret (st False None))))"

section \<open>Scanning\<close>

definition hm_StartAutoScan :: "Duration \<Rightarrow> 'w HwManager \<Rightarrow> 'w HwManager \<times> unit exec" where
  "hm_StartAutoScan interval = hm_locked (\<lambda>m.
     if hm_autoScan m then (m, Ret ())
     else if interval \<le> 0 then (m\<lparr>hm_autoScan := True\<rparr>, Panic ''non-positive interval for NewTicker'')
     else (m\<lparr>hm_autoScan := True, hm_scanTicker := Some interval,
             hm_scanners := hm_scanners m @ [ScanWaiting]\<rparr>, Ret ()))"

definition hm_StopAutoScan :: "'w HwManager \<Rightarrow> 'w HwManager \<times> unit exec" where
  "hm_StopAutoScan = hm_locked (\<lambda>m.
     if \<not> hm_autoScan m then (m, Ret ())
     else (m\<lparr>hm_autoScan := False, hm_scanTicker := None\<rparr>, Ret ()))"

text \<open>The loop of \<open>scanDevices\<close>: a reconnecting goroutine for every listed device that is not connected.\<close>

fun hm_scan_configs :: "HwDeviceConfig list \<Rightarrow> 'w HwManager \<Rightarrow> 'w HwManager \<times> unit exec" where
  "hm_scan_configs [] m = (m, Ret ())"
| "hm_scan_configs (cfg # cfgs) m =
     and_then (hm_GetDevice (hc_ID cfg))
       (\<lambda>r m. case r of
          Err e \<Rightarrow> hm_scan_configs cfgs m
        | Ok a \<Rightarrow>
            hm_scan_configs cfgs
              (if hb_IsConnected (hm_heap m ! a) then m
               else m\<lparr>hm_spawned := hm_spawned m @ [HtReconnect (hc_ID cfg)]\<rparr>)) m"

definition hm_scanDevices :: "'w HwManager \<Rightarrow> 'w HwManager \<times> unit exec" where
  "hm_scanDevices = and_then hm_ListDeviceConfigs (\<lambda>cfgs m. hm_scan_configs cfgs m)"

text \<open>A tick wakes scanner \<open>k\<close>, which scans.\<close>

definition hm_scan_begin :: "nat \<Rightarrow> 'w HwManager \<Rightarrow> 'w HwManager \<times> unit exec" where
  "hm_scan_begin k m =
     (if k < length (hm_scanners m) \<and> hm_scanners m ! k = ScanWaiting \<and> hm_scanTicker m \<noteq> None
      then hm_scanDevices (m\<lparr>hm_scanners := (hm_scanners m)[k := ScanBusy]\<rparr>)
      else (m, Ret ()))"

text \<open>Back at the head of its loop it evaluates \<open>dm.scanTicker.C\<close>.\<close>

definition hm_scan_return :: "nat \<Rightarrow> 'w HwManager \<Rightarrow> 'w HwManager \<times> unit exec" where
  "hm_scan_return k m =
     (if k < length (hm_scanners m) \<and> hm_scanners m ! k = ScanBusy
      then (case hm_scanTicker m of
              None \<Rightarrow> (m, Panic ''nil pointer dereference'')
            | Some _ \<Rightarrow> (m\<lparr>hm_scanners := (hm_scanners m)[k := ScanWaiting]\<rparr>, Ret ()))
      else (m, Ret ()))"

text \<open>The oldest goroutine that was started and has not run.  Its errors are logged.\<close>

definition hm_run_task :: "'w bus_ops \<Rightarrow> 'w HwManager \<Rightarrow> 'w HwManager \<times> unit exec" where
  "hm_run_task ops m =
     (case hm_spawned m of
        [] \<Rightarrow> (m, Ret ())
      | HtAutoConnect a # ts \<Rightarrow>
          and_then (hm_call (hb_Connect ops) a) (\<lambda>_ m. (m, Ret ())) (m\<lparr>hm_spawned := ts\<rparr>)
      | HtReconnect i # ts \<Rightarrow>
          and_then (hm_ReconnectDevice ops i) (\<lambda>_ m. (m, Ret ())) (m\<lparr>hm_spawned := ts\<rparr>))"

section \<open>Stopping\<close>

fun hm_drop_all :: "'w bus_ops \<Rightarrow> nat list \<Rightarrow> 'w HwManager \<Rightarrow> 'w HwManager \<times> unit exec" where
  "hm_drop_all ops [] m = (m, Ret ())"
| "hm_drop_all ops (a # as) m = and_then (hm_drop_connection ops a) (\<lambda>_. hm_drop_all ops as) m"

definition hm_Stop :: "'w bus_ops \<Rightarrow> 'w HwManager \<Rightarrow> 'w HwManager \<times> goerr option exec" where
  "hm_Stop ops m =
     hm_locked (\<lambda>m.
       and_then (hm_drop_all ops (map snd (hm_devices m)))
         (\<lambda>_. and_then (\<lambda>m. if hm_autoScan m then hm_StopAutoScan m else (m, Ret ()))
            (\<lambda>_ m. case ch_close (hm_eventChan m) of
                     (c, Ret _) \<Rightarrow> (m\<lparr>hm_eventChan := c\<rparr>, Ret None)
                   | (c, Panic msg) \<Rightarrow> (m, Panic msg)
                   | (c, Blocked) \<Rightarrow> (m, Blocked))) m)
       (m\<lparr>hm_cancelled := True\<rparr>)"

end
