(* ===== verification/HwFactory.thy ===== *)
theory HwFactory
  imports HwManager
begin

text \<open>
  The factory over the hardware layer (\<open>internal/hardware/factory.go\<close>): it turns the device entries of the
  system configuration into protocol configurations and passes every other call to the device
  manager.  The parameters of an entry are strings; the code asserts other types on some of them.
  \<open>fmtv\<close> renders with \<open>%v\<close> the values for which \<open>go_fmt_v\<close> has no rule.
\<close>

section \<open>Typed parameters\<close>

definition convertStringParamsToInterface :: "(string, string) gomap \<Rightarrow> (string, goval) gomap" where
  "convertStringParamsToInterface params = map (map_prod id VString) params"

definition get_str :: "(string, goval) gomap \<Rightarrow> string \<Rightarrow> string \<Rightarrow> string" where
  "get_str m k old = (case gm_get m k of Some (VString s) \<Rightarrow> s | _ \<Rightarrow> old)"

definition get_int :: "(string, goval) gomap \<Rightarrow> string \<Rightarrow> int \<Rightarrow> int" where
  "get_int m k old = (case gm_get m k of Some (VInt n) \<Rightarrow> n | _ \<Rightarrow> old)"

definition get_bool :: "(string, goval) gomap \<Rightarrow> string \<Rightarrow> bool \<Rightarrow> bool" where
  "get_bool m k old = (case gm_get m k of Some (VBool b) \<Rightarrow> b | _ \<Rightarrow> old)"

definition getString :: "(string, goval) gomap \<Rightarrow> string \<Rightarrow> string" where
  "getString m k = (case gm_get m k of Some (VString s) \<Rightarrow> s | _ \<Rightarrow> [])"

definition getMap :: "(string, goval) gomap \<Rightarrow> string \<Rightarrow> (string, goval) gomap" where
  "getMap m k = (case gm_get m k of Some (VMap s) \<Rightarrow> s | _ \<Rightarrow> [])"

definition go_fmt_v :: "(goval \<Rightarrow> string) \<Rightarrow> goval \<Rightarrow> string" where
  "go_fmt_v fmtv v =
     (case v of
        VString s \<Rightarrow> s
      | VInt n \<Rightarrow> int_dec n
      | VInt64 n \<Rightarrow> int_dec n
      | VBool b \<Rightarrow> (if b then ''true'' else ''false'')
      | VNil \<Rightarrow> ''<nil>''
      | _ \<Rightarrow> fmtv v)"

section \<open>Protocol configurations\<close>

definition CreateModbusConfig :: "DeviceConfig \<Rightarrow> ModbusConfig result" where
  "CreateModbusConfig dc =
     (let m = convertStringParamsToInterface (dc_Parameters dc) in Ok
      \<lparr>mf_conn = \<lparr>cc_Timeout = 10 * Second, cc_RetryCount = 3, cc_RetryInterval = 1 * Second, cc_KeepAlive = True\<rparr>,
       mf_Type = get_str m ''type'' [], mf_Address = get_str m ''address'' [], mf_Port = get_int m ''port'' 0,
       mf_BaudRate = get_int m ''baud_rate'' 0, mf_DataBits = get_int m ''data_bits'' 0,
       mf_StopBits = get_int m ''stop_bits'' 0, mf_Parity = get_str m ''parity'' [],
       mf_SlaveID = word_of_int (get_int m ''slave_id'' 0), mf_Timeout = get_str m ''timeout'' []\<rparr>)"

definition CreateSerialConfig :: "DeviceConfig \<Rightarrow> SerialConfig result" where
  "CreateSerialConfig dc =
     (let m = convertStringParamsToInterface (dc_Parameters dc) in Ok
      \<lparr>sf_conn = \<lparr>cc_Timeout = 5 * Second, cc_RetryCount = 3, cc_RetryInterval = 1 * Second, cc_KeepAlive = False\<rparr>,
       sf_PortName = get_str m ''port_name'' [], sf_BaudRate = get_int m ''baud_rate'' 0,
       sf_DataBits = get_int m ''data_bits'' 0, sf_StopBits = get_int m ''stop_bits'' 0,
       sf_Parity = get_str m ''parity'' [], sf_FlowControl = get_bool m ''flow_control'' False,
       sf_RS485 = get_bool m ''rs485'' False\<rparr>)"

definition CreateCustomConfig :: "DeviceConfig \<Rightarrow> CustomProtocolConfig result" where
  "CreateCustomConfig dc =
     (let m = convertStringParamsToInterface (dc_Parameters dc) in Ok
      \<lparr>pc_conn = \<lparr>cc_Timeout = 5 * Second, cc_RetryCount = 3, cc_RetryInterval = 1 * Second, cc_KeepAlive = True\<rparr>,
       pc_ProtocolType = get_str m ''protocol_type'' [], pc_Address = get_str m ''address'' [],
       pc_Port = get_int m ''port'' 0, pc_Timeout = get_str m ''timeout'' [],
       pc_FrameDelimiter = get_str m ''frame_delimiter'' [], pc_Header = get_str m ''header'' [],
       pc_Trailer = get_str m ''trailer'' [], pc_ChecksumMethod = get_str m ''checksum_method'' [],
       pc_BigEndian = get_bool m ''big_endian'' False, pc_MaxFrameSize = get_int m ''max_frame_size'' 0,
       pc_Encoding = get_str m ''encoding'' []\<rparr>)"

definition ConvertDeviceType :: "DeviceConfig \<Rightarrow> DeviceType result" where
  "ConvertDeviceType dc =
     (let p = dc_Protocol dc in
      if p = ''modbus_tcp'' then Ok DeviceTypeModbusTCP
      else if p = ''modbus_rtu'' then Ok DeviceTypeModbusRTU
      else if p = ''modbus_ascii'' then Ok DeviceTypeModbusASCII
      else if p = ''serial'' then Ok DeviceTypeSerial
      else if p = ''custom'' then Ok DeviceTypeCustom
      else case gm_get (convertStringParamsToInterface (dc_Parameters dc)) ''type'' of
        Some (VString t) \<Rightarrow>
          (if t = ''tcp'' then Ok DeviceTypeModbusTCP
           else if t = ''rtu'' then Ok DeviceTypeModbusRTU
           else if t = ''ascii'' then Ok DeviceTypeModbusASCII
           else Err (Errorf ''unknown protocol type: %s'' [AStr p]))
      | _ \<Rightarrow> Err (Errorf ''unknown protocol type: %s'' [AStr p]))"

text \<open>Command and response definitions of a list of maps; entries of another type are skipped.\<close>

fun parse_commands :: "goval list \<Rightarrow> CommandDefinition list" where
  "parse_commands [] = []"
| "parse_commands (v # vs) =
     (case v of
        VMap m \<Rightarrow>
          \<lparr>cd_Name = getString m ''name'', cd_CommandCode = getString m ''command_code'',
           cd_Format = getString m ''format'', cd_Fields = []\<rparr> # parse_commands vs
      | _ \<Rightarrow> parse_commands vs)"

fun parse_responses :: "goval list \<Rightarrow> ResponseDefinition list" where
  "parse_responses [] = []"
| "parse_responses (v # vs) =
     (case v of
        VMap m \<Rightarrow>
          \<lparr>rd_CommandCode = getString m ''command_code'', rd_Format = getString m ''format'', rd_Fields = []\<rparr>
          # parse_responses vs
      | _ \<Rightarrow> parse_responses vs)"

definition hf_CreateDeviceConfig :: "string \<Rightarrow> DeviceConfig \<Rightarrow> HwDeviceConfig result" where
  "hf_CreateDeviceConfig i dc =
     (case ConvertDeviceType dc of
        Err e \<Rightarrow> Err e
      | Ok ty \<Rightarrow>
          (let params = convertStringParamsToInterface (dc_Parameters dc);
               cfg = \<lparr>hc_ID = i, hc_Name = dc_Type dc, hc_Type = ty, hc_Protocol = dc_Protocol dc,
                      hc_Enabled = True, hc_Config = NoConfig, hc_commands = None, hc_responses = None,
                      hc_Parameters = params, hc_Timeout = dc_Timeout dc, hc_RetryCount = dc_RetryCount dc,
                      hc_AutoConnect = True\<rparr>
           in if ty \<in> {DeviceTypeModbusTCP, DeviceTypeModbusRTU, DeviceTypeModbusASCII} then
                (case CreateModbusConfig dc of Err e \<Rightarrow> Err e | Ok c \<Rightarrow> Ok (cfg\<lparr>hc_Config := CfgModbus c\<rparr>))
              else if ty = DeviceTypeSerial then
                (case CreateSerialConfig dc of Err e \<Rightarrow> Err e | Ok c \<Rightarrow> Ok (cfg\<lparr>hc_Config := CfgSerial c\<rparr>))
              else if ty = DeviceTypeCustom then
                (case CreateCustomConfig dc of
                   Err e \<Rightarrow> Err e
                 | Ok c \<Rightarrow> Ok (cfg\<lparr>hc_Config := CfgCustom c,
                     hc_commands := (case gm_get params ''commands'' of Some (VList l) \<Rightarrow> Some (parse_commands l) | _ \<Rightarrow> None),
                     hc_responses := (case gm_get params ''responses'' of Some (VList l) \<Rightarrow> Some (parse_responses l) | _ \<Rightarrow> None)\<rparr>))
              else Err (Errorf ''unsupported device type: %v'' [AInt 0])))"

section \<open>The factory's calls\<close>

text \<open>The factory holds nothing but its device manager.\<close>

definition NewHardwareFactory :: "'w \<Rightarrow> 'w HwManager" where
  "NewHardwareFactory w = NewHwManager w"

definition hf_AddDeviceFromConfig ::
  "int \<Rightarrow> string \<Rightarrow> DeviceConfig \<Rightarrow> 'w HwManager \<Rightarrow> 'w HwManager \<times> goerr option exec" where
  "hf_AddDeviceFromConfig now i dc m =
     (case hf_CreateDeviceConfig i dc of
        Err e \<Rightarrow> (m, Ret (Some (Errorf ''failed to create device config: %w'' [AErr e])))
      | Ok cfg \<Rightarrow> hm_AddDevice now cfg m)"

definition hf_AddDeviceFromConfigMap ::
  "(goval \<Rightarrow> string) \<Rightarrow> int \<Rightarrow> (string, goval) gomap \<Rightarrow> 'w HwManager \<Rightarrow> 'w HwManager \<times> goerr option exec" where
  "hf_AddDeviceFromConfigMap fmtv now cmap m =
     (let i = getString cmap ''id'' in
      if i = [] then (m, Ret (Some (Errorf ''device ID is required'' [])))
      else
        let params = map (map_prod id (go_fmt_v fmtv)) (getMap cmap ''parameters'');
            timeout = (case gm_get cmap ''timeout'' of
                Some (VString s) \<Rightarrow> (case go_ParseDuration s of Some d \<Rightarrow> d | None \<Rightarrow> 10 * Second)
              | _ \<Rightarrow> 10 * Second)
        in hf_AddDeviceFromConfig now i
             \<lparr>dc_Type = getString cmap ''type'', dc_Protocol = getString cmap ''protocol'',
              dc_Endpoint = getString cmap ''endpoint'', dc_Parameters = params,
              dc_Timeout = timeout, dc_RetryCount = 3\<rparr> m)"

definition hf_Start :: "'w HwManager \<Rightarrow> 'w HwManager \<times> goerr option exec" where
  "hf_Start = and_then (hm_StartAutoScan (30 * Second)) (\<lambda>_ m. (m, Ret None))"

definition hf_Stop :: "'w bus_ops \<Rightarrow> 'w HwManager \<Rightarrow> 'w HwManager \<times> goerr option exec" where
  "hf_Stop ops = hm_Stop ops"

definition hf_GetDeviceStatus :: "int \<Rightarrow> string \<Rightarrow> 'w HwManager \<Rightarrow> 'w HwManager \<times> DeviceStatus exec" where
  "hf_GetDeviceStatus now i = hm_GetDeviceStatus now i"

fun hf_statuses ::
  "int \<Rightarrow> HwDeviceConfig list \<Rightarrow> DeviceStatus list \<Rightarrow> 'w HwManager \<Rightarrow> 'w HwManager \<times> DeviceStatus list exec" where
  "hf_statuses now [] acc m = (m, Ret acc)"
| "hf_statuses now (cfg # cfgs) acc m =
     and_then (hm_GetDeviceStatus now (hc_ID cfg)) (\<lambda>st. hf_statuses now cfgs (acc @ [st])) m"

definition hf_ListDevices :: "int \<Rightarrow> 'w HwManager \<Rightarrow> 'w HwManager \<times> DeviceStatus list exec" where
  "hf_ListDevices now = and_then hm_ListDeviceConfigs (\<lambda>cfgs. hf_statuses now cfgs [])"

definition hf_ReadDevice ::
  "'w bus_ops \<Rightarrow> bus_env \<Rightarrow> string \<Rightarrow> string \<Rightarrow> int \<Rightarrow> 'w HwManager \<Rightarrow> 'w HwManager \<times> bytes result exec" where
  "hf_ReadDevice ops env i a n = hm_ReadDevice ops env i a n"

definition hf_WriteDevice ::
  "'w bus_ops \<Rightarrow> bus_env \<Rightarrow> string \<Rightarrow> string \<Rightarrow> bytes \<Rightarrow> 'w HwManager \<Rightarrow> 'w HwManager \<times> goerr option exec" where
  "hf_WriteDevice ops env i a d = hm_WriteDevice ops env i a d"

definition hf_ConnectDevice :: "'w bus_ops \<Rightarrow> string \<Rightarrow> 'w HwManager \<Rightarrow> 'w HwManager \<times> goerr option exec" where
  "hf_ConnectDevice ops i = hm_ConnectDevice ops i"

definition hf_DisconnectDevice :: "'w bus_ops \<Rightarrow> string \<Rightarrow> 'w HwManager \<Rightarrow> 'w HwManager \<times> goerr option exec" where
  "hf_DisconnectDevice ops i = hm_DisconnectDevice ops i"

end
