(* ===== verification/SerialProps.thy ===== *)
theory SerialProps
  imports Serial
begin

unbundle bit_operations_syntax

text \<open>
  What the serial client guarantees: which responses it accepts, what corruption it detects, what its
  reads can return, and the contract of a communication client.
\<close>

section \<open>The contract of a client\<close>

lemma sc_Read_off:
  "\<not> sc_IsConnected s \<Longrightarrow> sc_Read ops a n s = (s, Ret (Err (Errorf ''serial client not connected'' [])))"
  by (cases s) (simp add: sc_Read_def sc_IsConnected_def)

lemma sc_Write_off:
  "\<not> sc_IsConnected s \<Longrightarrow> sc_Write ops a d s = (s, Ret (Some (Errorf ''serial client not connected'' [])))"
  by (cases s) (simp add: sc_Write_def sc_IsConnected_def)

lemma sc_Disconnect_off:
  assumes "bc_errorHandler (sc_base (fst s)) = None" "snd (sc_Disconnect ops s) = Ret None"
  shows "\<not> sc_IsConnected (fst (sc_Disconnect ops s))"
  using assms
  by (cases s)
    (auto simp: sc_Disconnect_def sc_IsConnected_def bc_IsConnected_iff HandleWithError_no_handler
      emit_defs split: option.splits prod.splits)

interpretation serial: comm_client
  "\<lambda>s. bc_errorHandler (sc_base (fst s)) = None" sc_IsConnected "\<lambda>ops. sc_Read ops" "\<lambda>ops. sc_Write ops"
  "sc_Disconnect ops" for ops
  by unfold_locales (auto simp: sc_Read_off sc_Write_off sc_Disconnect_off)

section \<open>Responses\<close>

lemma split_last_two:
  assumes "2 \<le> length xs"
  shows "xs = take (length xs - 2) xs @ [xs ! (length xs - 2), xs ! (length xs - 1)]"
proof -
  obtain zs b where zs: "xs = zs @ [b]" using assms by (cases xs rule: rev_cases) auto
  then obtain ys a where "zs = ys @ [a]" using assms by (cases zs rule: rev_cases) auto
  then have xs: "xs = ys @ [a, b]" using zs by simp
  show ?thesis unfolding xs by (simp add: nth_append)
qed

lemma crc_check_iff_residue:
  assumes "2 \<le> length resp"
  shows "crc_tail (sc_calculateCRC (take (length resp - 2) resp))
           = [resp ! (length resp - 2), resp ! (length resp - 1)] \<longleftrightarrow> crc16 resp = 0"
proof -
  let ?d = "take (length resp - 2) resp" and ?t = "[resp ! (length resp - 2), resp ! (length resp - 1)]"
  have "crc16 resp = crc_from (crc16 ?d) ?t"
    by (subst split_last_two[OF assms]) (simp add: crc16_def crc_from_append)
  then show ?thesis unfolding sc_calculateCRC_def using residue_iff[of "crc16 ?d"] by metis
qed

lemma processed_response:
  "sc_processReadResponse resp =
     (if 5 \<le> length resp \<and> crc16 resp = 0 then drop 2 (take (length resp - 2) resp) else [])"
  using crc_check_iff_residue[of resp] by (auto simp: sc_processReadResponse_def Let_def)

text \<open>
  C18. The CRC check of the code, which recomputes the CRC of all but the last two bytes and compares
  it byte by byte, is equivalent to a residue test over the whole response: data is returned exactly
  for responses of at least five bytes with residue 0, and it is what lies between the first two
  bytes and the last two.
\<close>

theorem serial_accepts_iff_residue:
  "sc_processReadResponse resp = d \<and> d \<noteq> [] \<longleftrightarrow>
     crc16 resp = 0 \<and> (\<exists>a b l h. resp = [a, b] @ d @ [l, h]) \<and> d \<noteq> []"
proof
  assume L: "sc_processReadResponse resp = d \<and> d \<noteq> []"
  then have n: "5 \<le> length resp" and 0: "crc16 resp = 0"
    and d: "d = drop 2 (take (length resp - 2) resp)"
    by (auto simp: processed_response split: if_splits)
  let ?t = "take (length resp - 2) resp"
  have resp: "resp = ?t @ [resp ! (length resp - 2), resp ! (length resp - 1)]"
    using n by (intro split_last_two) simp
  have "2 \<le> length ?t" using n by simp
  then obtain a b rest where t: "?t = a # b # rest" by (cases ?t; cases "tl ?t") fastforce+
  then have "?t = [a, b] @ d" unfolding d by simp
  then show "crc16 resp = 0 \<and> (\<exists>a b l h. resp = [a, b] @ d @ [l, h]) \<and> d \<noteq> []"
    using 0 L resp by (metis append.assoc)
next
  assume R: "crc16 resp = 0 \<and> (\<exists>a b l h. resp = [a, b] @ d @ [l, h]) \<and> d \<noteq> []"
  then obtain a b l h where r: "resp = [a, b] @ d @ [l, h]" by blast
  then have "5 \<le> length resp" using R by (cases d) auto
  moreover have "drop 2 (take (length resp - 2) resp) = d" unfolding r by simp
  ultimately show "sc_processReadResponse resp = d \<and> d \<noteq> []"
    using R by (simp add: processed_response)
qed

text \<open>
  C17. Two responses of one length that differ only within two adjacent bytes are never both accepted:
  any corruption of one byte or of two neighbours of a valid response is rejected.
\<close>

theorem serial_rejects_bursts:
  assumes "sc_processReadResponse (xs @ [a, b] @ ys) \<noteq> []" "(a, b) \<noteq> (a', b')"
  shows "sc_processReadResponse (xs @ [a', b'] @ ys) = []"
proof -
  have "crc16 (xs @ [a, b] @ ys) = 0" using assms(1) by (auto simp: processed_response split: if_splits)
  moreover have "crc16 (xs @ [a', b'] @ ys) \<noteq> crc16 (xs @ [a, b] @ ys)"
    using burst_changes_crc[of "0xFFFF" xs a b ys a' b'] assms(2) by (auto simp: crc16_def)
  ultimately show ?thesis by (simp add: processed_response)
qed

text \<open>The answer of device 1 to a read of one register that holds 10.\<close>

definition demo_response :: bytes where
  "demo_response = [0x01, 0x03, 0x02, 0x00, 0x0A, 0x38, 0x43]"

lemma demo_response_residue: "crc16 demo_response = 0"
  by (simp add: demo_response_def crc_eval)

theorem serial_rejects_bursts_witness:
  "sc_processReadResponse [0x01, 0x03, 0x02, 0x00, 0x0B, 0x38, 0x43] = []"
  using serial_rejects_bursts[of "[0x01, 0x03, 0x02]" "0x00" "0x0A" "[0x38, 0x43]" "0x00" "0x0B"]
    demo_response_residue
  by (simp add: demo_response_def processed_response)

text \<open>
  The frames the client builds carry a valid CRC (residue 0), whatever the address and the data;
  and a response made of two header bytes, data and the CRC is decoded to that data.
\<close>

lemma append_crc_residue: "crc16 (sc_append_crc d) = 0"
  using crc_tail_residue[of "crc16 d"]
  by (simp add: sc_append_crc_def sc_calculateCRC_def crc16_def crc_from_append)

theorem serial_frame_round_trip:
  "sc_processReadResponse (sc_append_crc ([a, b] @ d)) = d \<and>
   (\<forall>addr n. sc_buildReadCommand addr n = [] \<or> crc16 (sc_buildReadCommand addr n) = 0) \<and>
   (\<forall>addr. sc_buildWriteCommand addr d = [] \<or> crc16 (sc_buildWriteCommand addr d) = 0)"
proof (intro conjI allI)
  have "sc_append_crc ([a, b] @ d) = a # b # d @ crc_tail (crc16 (a # b # d))"
    by (simp add: sc_append_crc_def sc_calculateCRC_def)
  moreover have "length (crc_tail c) = 2" for c by (simp add: crc_tail_def)
  ultimately show "sc_processReadResponse (sc_append_crc ([a, b] @ d)) = d"
    using append_crc_residue[of "[a, b] @ d"] by (cases d) (auto simp: processed_response)
qed (auto simp: sc_buildReadCommand_def sc_buildWriteCommand_def append_crc_residue split: option.split)

section \<open>What reads return\<close>

lemma processed_length: "sc_processReadResponse resp \<noteq> [] \<Longrightarrow> length (sc_processReadResponse resp) + 4 = length resp"
  by (auto simp: processed_response split: if_splits)

lemma sc_read_failed_nil: "snd (sc_read_failed e s) = Ret (Ok d) \<Longrightarrow> d = []"
  by (auto simp: sc_read_failed_def Let_def split: prod.splits option.splits)

lemma sc_Read_bound:
  assumes "- (2 ^ 63) \<le> n" "n < 2 ^ 63 - 2" "snd (sc_Read ops a n s) = Ret (Ok d)" "d \<noteq> []"
  shows "int (length d) + 4 \<le> n + 2"
proof -
  have w: "wrap64 (n + 2) = n + 2" using assms(1,2) by (intro wrap64_id) simp_all
  from assms(3,4) obtain resp where "d = sc_processReadResponse resp" "length resp \<le> nat (n + 2)" "0 \<le> n + 2"
    by (cases s)
      (auto simp: sc_Read_def Let_def w not_less split: if_splits option.splits prod.splits
        dest: sc_read_failed_nil)
  then show ?thesis using processed_length[of resp] assms(4) by auto
qed

text \<open>
  C36. The response buffer has two bytes more than the requested length, and a frame has four bytes
  around its data: a read returns at most \<open>length - 2\<close> bytes, so a read of one or two bytes never
  returns any data, whatever the device answers.
\<close>

theorem serial_short_reads_return_nothing:
  assumes "- (2 ^ 63) \<le> n" "n \<le> 2" "snd (sc_Read ops a n s) = Ret (Ok d)"
  shows "d = []"
proof (rule ccontr)
  assume "d \<noteq> []"
  then have "int (length d) + 4 \<le> n + 2" using assms by (intro sc_Read_bound[of n ops a s]) simp_all
  then show False using assms(2) \<open>d \<noteq> []\<close> by (cases d) auto
qed

lemma bulk_read_from_nothing:
  assumes "\<And>a c d. snd (rd a c) = Ret (Ok d) \<Longrightarrow> d = []"
  shows "snd (bulk_read_from rd as acc c) = Ret (Ok m) \<Longrightarrow> set m \<subseteq> set acc \<union> UNIV \<times> {[]}"
proof (induction as arbitrary: acc c)
  case Nil
  then show ?case by auto
next
  case (Cons a as)
  obtain c' r where rd: "rd a c = (c', r)" by (cases "rd a c")
  obtain d where r: "r = Ret (Ok d)"
    using Cons.prems by (auto simp: rd split: exec.splits result.splits)
  have d: "d = []" using assms[of a c d] rd r by simp
  have "set (gm_set a [] acc) \<subseteq> set acc \<union> UNIV \<times> {[]}"
    unfolding gm_set_def by (induction acc) auto
  moreover have "set m \<subseteq> set (gm_set a [] acc) \<union> UNIV \<times> {[]}"
    using Cons.prems by (intro Cons.IH[of "gm_set a [] acc" c']) (simp add: rd r d)
  ultimately show ?case by blast
qed

lemma serial_bulk_read_returns_nothing:
  assumes "snd (sc_BulkRead ops as s) = Ret (Ok m)"
  shows "set m \<subseteq> UNIV \<times> {[]}"
proof -
  have "snd (sc_Read ops a 1 c) = Ret (Ok d) \<Longrightarrow> d = []" for a c and d :: bytes
    using sc_Read_bound[of 1 ops a c d] by fastforce
  then show ?thesis
    using assms bulk_read_from_nothing[of "\<lambda>a. sc_Read ops a 1" as "[]" s m]
    unfolding sc_BulkRead_def bulk_read_def by auto
qed

text \<open>A port that answers every read with as much of a canned response as the buffer takes.\<close>

definition demo_port :: "bytes \<Rightarrow> bytes list port_ops" where
  "demo_port resp =
     \<lparr>po_open = (\<lambda>m w. (w, Ok 0)), po_close = (\<lambda>p w. (w, None)),
      po_write = (\<lambda>p c w. (w @ [c], None)), po_read = (\<lambda>p k w. (w, take k resp, None))\<rparr>"

definition demo_serial_config :: SerialConfig where
  "demo_serial_config =
     \<lparr>sf_conn = \<lparr>cc_Timeout = Second, cc_RetryCount = 3, cc_RetryInterval = Second, cc_KeepAlive = False\<rparr>,
      sf_PortName = ''/dev/ttyUSB0'', sf_BaudRate = 9600, sf_DataBits = 8, sf_StopBits = 1,
      sf_Parity = ''N'', sf_FlowControl = False, sf_RS485 = False\<rparr>"

definition demo_serial :: "bytes list serial_state" where
  "demo_serial = fst (sc_Connect (demo_port demo_response) (NewSerialClient demo_serial_config, []))"

lemmas demo_serial_simps = demo_serial_def sc_Connect_def Let_def demo_port_def NewSerialClient_def
  demo_serial_config_def NewBaseCommunication_def bc_SetStatus_def bc_emitEvent_def emit_defs
  bc_IsConnected_def bc_GetStatus_def

text \<open>A register holds two bytes; its answer fits only when five bytes are asked for.\<close>

lemma demo_serial_read:
  "snd (sc_Read (demo_port demo_response) ''0'' 2 demo_serial) = Ret (Ok []) \<and>
   snd (sc_Read (demo_port demo_response) ''0'' 5 demo_serial) = Ret (Ok [0x02, 0x00, 0x0A])"
proof -
  have "go_Atoi ''0'' = Some 0" by code_simp
  moreover have "wrap64 4 = 4" "wrap64 7 = 7" by (simp_all add: wrap64_def)
  moreover have "sc_append_crc d \<noteq> []" for d by (simp add: sc_append_crc_def crc_tail_def)
  ultimately show ?thesis
    using demo_response_residue
    by (simp add: demo_serial_simps sc_Read_def sc_buildReadCommand_def processed_response)
      (simp add: demo_response_def)
qed

theorem serial_short_reads_return_nothing_witness:
  "\<exists>d. snd (sc_Read (demo_port demo_response) ''0'' 2 demo_serial) = Ret (Ok d) \<and> d = []"
  using serial_short_reads_return_nothing[of 2 "demo_port demo_response" "''0''" demo_serial] demo_serial_read
  by auto

section \<open>The register count of a write\<close>

text \<open>
  A write command announces \<open>256 * (len / 2) + len mod 2\<close> registers (modulo 65536) where
  \<open>len / 2\<close> follow: for data of 1 to 511 bytes the count is always wrong.
\<close>

theorem serial_write_announces_wrong_count:
  assumes "go_Atoi address = Some addr" "0 < length d" "length d < 512"
  shows "\<exists>pre post hi lo. sc_buildWriteCommand address d = pre @ [hi, lo] @ post \<and> length pre = 4 \<and>
           256 * unat hi + unat lo \<noteq> length d div 2"
proof -
  let ?hi = "word_of_nat (drop_bit 1 (length d)) :: 8 word" and ?lo = "word_of_nat (length d AND 1) :: 8 word"
  have hi: "unat ?hi = length d div 2"
    using assms(3) by (simp add: drop_bit_eq_div unat_of_nat)
  have lo: "unat ?lo = length d mod 2"
    by (simp add: and_one_eq unat_of_nat)
  have cnt: "256 * unat ?hi + unat ?lo \<noteq> length d div 2"
    unfolding hi lo using assms(2) div_mult_mod_eq[of "length d" 2] by linarith
  let ?pre = "[1, 0x10, word_of_int (drop_bit 8 addr), word_of_int (addr AND 0xFF)] :: bytes"
  have frame: "sc_buildWriteCommand address d =
      ?pre @ [?hi, ?lo] @ drop 6 (sc_buildWriteCommand address d)"
    unfolding sc_buildWriteCommand_def sc_append_crc_def assms(1) option.case by simp
  show ?thesis
    by (rule exI[of _ ?pre], rule exI[of _ "drop 6 (sc_buildWriteCommand address d)"],
        rule exI[of _ ?hi], rule exI[of _ ?lo], intro conjI, rule frame, simp, rule cnt)
qed

theorem serial_write_announces_wrong_count_witness:
  "\<exists>pre post hi lo. sc_buildWriteCommand ''7'' [0x12, 0x34] = pre @ [hi, lo] @ post \<and> length pre = 4 \<and>
     256 * unat hi + unat lo \<noteq> 1"
proof -
  have "go_Atoi ''7'' = Some 7" by code_simp
  then show ?thesis using serial_write_announces_wrong_count[of "''7''" 7 "[0x12, 0x34]"] by simp
qed

section \<open>Listening goroutines\<close>

fun sc_reconnect_times :: "'w port_ops \<Rightarrow> nat \<Rightarrow> 'w serial_state \<Rightarrow> 'w serial_state \<times> goerr option exec" where
  "sc_reconnect_times ops 0 s = (s, Ret None)"
| "sc_reconnect_times ops (Suc k) s =
     and_then (sc_Reconnect ops)
       (\<lambda>r s'. case r of Some e \<Rightarrow> (s', Ret (Some e)) | None \<Rightarrow> sc_reconnect_times ops k s') s"

lemma sc_Disconnect_listeners: "sc_listeners (fst (fst (sc_Disconnect ops s))) = sc_listeners (fst s)"
  by (cases s) (auto simp: sc_Disconnect_def split: option.split prod.split)

lemma sc_Connect_listeners:
  "snd (sc_Connect ops s) = Ret None \<Longrightarrow>
     sc_listeners (fst (fst (sc_Connect ops s))) = Suc (sc_listeners (fst s))"
  by (auto simp: sc_Connect_def Let_def split: result.splits prod.splits)

lemma sc_Reconnect_listeners:
  assumes "snd (sc_Reconnect ops s) = Ret None"
  shows "sc_listeners (fst (fst (sc_Reconnect ops s))) = Suc (sc_listeners (fst s))"
proof -
  obtain s1 r where d: "sc_Disconnect ops s = (s1, r)" by (cases "sc_Disconnect ops s")
  then have "r = Ret None" "snd (sc_Connect ops s1) = Ret None"
    using assms by (cases r; auto simp: sc_Reconnect_def and_then_def split: option.splits)+
  then show ?thesis
    using d sc_Disconnect_listeners[of ops s] sc_Connect_listeners[of ops s1] by (simp add: sc_Reconnect_def)
qed

text \<open>
  Disconnecting ends no listening goroutine, and every connection starts one: after \<open>k\<close>
  reconnections without an error, \<open>k\<close> more goroutines read from the port than before.
\<close>

theorem serial_reconnect_leaks_listeners:
  "snd (sc_reconnect_times ops k s) = Ret None \<Longrightarrow>
     sc_listeners (fst (fst (sc_reconnect_times ops k s))) = sc_listeners (fst s) + k"
proof (induction k arbitrary: s)
  case 0
  then show ?case by simp
next
  case (Suc k)
  obtain s1 r where c: "sc_Reconnect ops s = (s1, r)" by (cases "sc_Reconnect ops s")
  have r: "r = Ret None" and rest: "snd (sc_reconnect_times ops k s1) = Ret None"
    using Suc.prems c by (cases r; auto simp: and_then_def split: option.splits)+
  then show ?case using c Suc.IH[OF rest] sc_Reconnect_listeners[of ops s] by simp
qed

theorem serial_reconnect_leaks_listeners_witness:
  "sc_listeners (fst (fst (sc_reconnect_times (demo_port []) 2 demo_serial))) = 3"
proof -
  have "snd (sc_reconnect_times (demo_port []) 2 demo_serial) = Ret None" "sc_listeners (fst demo_serial) = 1"
    by (simp_all add: demo_serial_simps numeral_2_eq_2 sc_Reconnect_def and_then_def sc_Disconnect_def)
  then show ?thesis using serial_reconnect_leaks_listeners[of "demo_port []" 2 demo_serial] by simp
qed

end
