(* ===== verification/ModbusCommProps.thy ===== *)
theory ModbusCommProps
  imports ModbusComm
begin

unbundle bit_operations_syntax

text \<open>
  What the Modbus client of the hardware layer guarantees: no call of it panics, how text addresses
  become registers, which bytes a write transfers, and the contract of a communication client.
\<close>

section \<open>The contract of a client\<close>

lemma mc_Read_off:
  "\<not> mc_IsConnected s \<Longrightarrow> mc_Read ops env a n s = (s, Ret (Err (Errorf ''Modbus client not connected'' [])))"
  by (simp add: mc_Read_def)

lemma mc_Write_off:
  "\<not> mc_IsConnected s \<Longrightarrow> mc_Write ops env a d s = (s, Ret (Some (Errorf ''Modbus client not connected'' [])))"
  by (simp add: mc_Write_def)

lemma mc_Disconnect_off: "\<not> mc_IsConnected (fst (mc_Disconnect s))"
  by (simp add: mc_Disconnect_def mc_IsConnected_def bc_IsConnected_iff emit_defs)

interpretation modbus: comm_client
  "\<lambda>s. True" mc_IsConnected "\<lambda>env. mc_Read ops env" "\<lambda>env. mc_Write ops env" mc_Disconnect for ops
  by unfold_locales (auto simp: mc_Read_off mc_Write_off mc_Disconnect_off)

section \<open>No call panics\<close>

text \<open>A connected client has a client of the protocol library.\<close>

definition mc_wf :: "'w modbus_state \<Rightarrow> bool" where
  "mc_wf s \<longleftrightarrow> (mc_IsConnected s \<longrightarrow> mc_client (fst s) \<noteq> None)"

lemma retry_loop_returns:
  assumes "\<And>w. returns (snd (op w))"
  shows "returns (snd (retry_loop env bc op n i e w))"
proof (induction n arbitrary: i e w)
  case 0
  then show ?case by simp
next
  case (Suc n)
  obtain w' r where "op w = (w', Ret r)" using assms[of w] by (cases "op w"; cases "snd (op w)") auto
  then show ?case using Suc by (auto split: ctx.split option.split)
qed

lemma retry_returns: "(\<And>w. returns (snd (op w))) \<Longrightarrow> returns (snd (bc_RetryWithTimeout env bc op w))"
  by (simp add: bc_RetryWithTimeout_def retry_loop_returns)

lemma mc_open_wf:
  "\<not> mc_IsConnected (fst (mc_open ops h what s)) \<longleftrightarrow> \<not> mc_IsConnected s"
  "snd (mc_open ops h what s) = None \<Longrightarrow> mc_client (fst (fst (mc_open ops h what s))) \<noteq> None"
  by (auto simp: mc_open_def mc_IsConnected_def split: prod.splits result.splits)

lemma mc_failed_simps [simp]:
  "mc_IsConnected (fst (mc_failed e s)) = mc_IsConnected s"
  "mc_client (fst (fst (mc_failed e s))) = mc_client (fst s)"
  "returns (snd (mc_failed e s))"
  by (simp_all add: mc_failed_def mc_IsConnected_def bc_IsConnected_iff case_prod_unfold Let_def)

lemma mc_connected_wf:
  assumes "snd c = None \<Longrightarrow> mc_client (fst (fst c)) \<noteq> None"
  shows "mc_wf (fst (mc_connected c)) \<and> returns (snd (mc_connected c))"
  using assms
  by (cases "snd c") (auto simp: mc_connected_def mc_wf_def, auto simp: mc_IsConnected_def bc_IsConnected_iff)

lemma mc_Connect_wf: "mc_wf (fst (mc_Connect ops s)) \<and> returns (snd (mc_Connect ops s))"
proof -
  have off: "mc_wf (mc_on_base (bc_SetStatus Connecting) (fst s), snd s)"
    by (simp add: mc_wf_def mc_IsConnected_def bc_IsConnected_iff)
  show ?thesis
    unfolding mc_Connect_def Let_def mc_connectTCP_def mc_connectRTU_def mc_connectASCII_def
    using off by (simp add: mc_connected_wf mc_open_wf(2))
qed

lemma mc_Disconnect_wf: "mc_wf (fst (mc_Disconnect s)) \<and> snd (mc_Disconnect s) = Ret None"
  by (simp add: mc_wf_def mc_Disconnect_off) (simp add: mc_Disconnect_def)

lemma mc_Reconnect_wf: "mc_wf (fst (mc_Reconnect ops s)) \<and> returns (snd (mc_Reconnect ops s))"
proof -
  obtain s1 where "mc_Disconnect s = (s1, Ret None)" using mc_Disconnect_wf[of s] by (metis prod.collapse)
  then show ?thesis using mc_Connect_wf[of ops s1] by (simp add: mc_Reconnect_def)
qed

lemma mc_Read_wf:
  assumes "mc_wf s"
  shows "mc_wf (fst (mc_Read ops env a n s)) \<and> returns (snd (mc_Read ops env a n s))"
proof (cases "mc_IsConnected s")
  case False
  then show ?thesis using assms by (simp add: mc_Read_off)
next
  case True
  then obtain c where c: "mc_client (fst s) = Some c" using assms by (auto simp: mc_wf_def)
  then have ret: "returns (snd (bc_RetryWithTimeout env bc (mc_read_op ops (mc_client (fst s)) ad q) w))" for bc ad q w
    by (intro retry_returns) (auto simp: mc_read_op_def split: prod.splits)
  show ?thesis
  proof (cases "mc_parseAddress a n")
    case (Ok p)
    obtain ad q where p: "p = (ad, q)" by (cases p)
    let ?r = "bc_RetryWithTimeout env (mc_base (fst s)) (mc_read_op ops (mc_client (fst s)) ad q) (snd s, [])"
    obtain w res e where r: "?r = ((w, res), Ret e)"
      using ret[of "mc_base (fst s)" ad q "(snd s, [])"] by (cases ?r; cases "snd ?r") auto
    show ?thesis
      using c True
      by (cases e) (simp_all add: mc_Read_def Ok p Let_def r[unfolded c] mc_wf_def case_prod_unfold)
  qed (use assms True in \<open>simp add: mc_Read_def\<close>)
qed

lemma mc_Write_wf:
  assumes "mc_wf s"
  shows "mc_wf (fst (mc_Write ops env a d s)) \<and> returns (snd (mc_Write ops env a d s))"
proof (cases "mc_IsConnected s")
  case False
  then show ?thesis using assms by (simp add: mc_Write_off)
next
  case True
  then obtain c where c: "mc_client (fst s) = Some c" using assms by (auto simp: mc_wf_def)
  then have ret: "returns (snd (bc_RetryWithTimeout env bc (mc_write_op ops (mc_client (fst s)) ad vs) w))" for bc ad vs w
    by (intro retry_returns) (auto simp: mc_write_op_def split: prod.splits)
  show ?thesis
  proof (cases "mc_parseAddress a (int (length d div 2))")
    case (Ok p)
    obtain ad q where p: "p = (ad, q)" by (cases p)
    let ?r = "bc_RetryWithTimeout env (mc_base (fst s)) (mc_write_op ops (mc_client (fst s)) ad (mc_values d)) (snd s)"
    obtain w e where r: "?r = (w, Ret e)"
      using ret[of "mc_base (fst s)" ad "mc_values d" "snd s"] by (cases ?r; cases "snd ?r") auto
    show ?thesis
      using c True
      by (cases e) (simp_all add: mc_Write_def Ok p Let_def r[unfolded c] mc_wf_def)
  qed (use assms True in \<open>simp add: mc_Write_def\<close>)
qed

text \<open>The calls of the interface.\<close>

datatype mc_call =
    MConnect | MDisconnect | MReconnect
  | MRead retry_env string int
  | MWrite retry_env string bytes

fun mc_do :: "'w modbus_ops \<Rightarrow> mc_call \<Rightarrow> 'w modbus_state \<Rightarrow> 'w modbus_state \<times> bool" where
  "mc_do ops MConnect s = map_prod id returns (mc_Connect ops s)"
| "mc_do ops MDisconnect s = map_prod id returns (mc_Disconnect s)"
| "mc_do ops MReconnect s = map_prod id returns (mc_Reconnect ops s)"
| "mc_do ops (MRead env a n) s = map_prod id returns (mc_Read ops env a n s)"
| "mc_do ops (MWrite env a d) s = map_prod id returns (mc_Write ops env a d s)"

lemma mc_do_wf: "mc_wf s \<Longrightarrow> mc_wf (fst (mc_do ops c s)) \<and> snd (mc_do ops c s)"
  using mc_Connect_wf[of ops s] mc_Disconnect_wf[of s] mc_Reconnect_wf[of ops s]
    mc_Read_wf[of s ops] mc_Write_wf[of s ops]
  by (cases c) auto

text \<open>
  Whatever calls a new client has served, and whatever the protocol library answered, the next
  call returns: the nil client is never called.
\<close>

theorem modbus_calls_never_panic:
  "snd (mc_do ops c (fold (\<lambda>c s. fst (mc_do ops c s)) cs (NewCommModbusClient cfg, w)))"
proof -
  have "mc_wf (NewCommModbusClient cfg, w)"
    by (simp add: mc_wf_def mc_IsConnected_def bc_IsConnected_iff NewCommModbusClient_def
        NewBaseCommunication_def)
  then have "mc_wf (fold (\<lambda>c s. fst (mc_do ops c s)) cs (NewCommModbusClient cfg, w))"
    by (induction cs rule: rev_induct) (simp_all add: mc_do_wf)
  then show ?thesis by (simp add: mc_do_wf)
qed

section \<open>Addresses\<close>

definition register_offset :: "int \<Rightarrow> int" where
  "register_offset n = (if n > 0 then n - 1 else n)"

lemma parse_decimal:
  "- (2 ^ 63) \<le> n \<Longrightarrow> n < 2 ^ 63 \<Longrightarrow>
     mc_parseAddress (int_dec n) len = Ok (word_of_int (register_offset n), word_of_int len)"
  by (simp add: mc_parseAddress_def Atoi_int_dec register_offset_def)

text \<open>
  Two decimal addresses name the same register exactly when their zero-based offsets agree
  modulo 65536: the addresses 0 and 1 do, and so do 1 and 65537, and none of them is refused.
\<close>

theorem modbus_address_collisions:
  assumes "- (2 ^ 63) \<le> m" "m < 2 ^ 63" "- (2 ^ 63) \<le> n" "n < 2 ^ 63"
  shows "mc_parseAddress (int_dec m) len = mc_parseAddress (int_dec n) len \<longleftrightarrow>
           (register_offset m - register_offset n) mod 65536 = 0"
  using assms
  by (simp add: parse_decimal word_of_int_eq_iff take_bit_eq_mod mod_eq_dvd_iff dvd_eq_mod_eq_0)

theorem modbus_address_collisions_witness:
  "mc_parseAddress (int_dec 0) 1 = mc_parseAddress (int_dec 1) 1 \<and>
   mc_parseAddress (int_dec 1) 1 = mc_parseAddress (int_dec 65537) 1"
  using modbus_address_collisions[of 0 1 1] modbus_address_collisions[of 1 65537 1]
  by (simp add: register_offset_def)

section \<open>Writes\<close>

lemma length_mc_values: "length (mc_values d) = length d div 2"
  by (induction d rule: mc_values.induct) auto

lemma register_bytes:
  "ucast (drop_bit 8 (push_bit 8 (ucast a) OR ucast b :: 16 word)) = (a :: 8 word)"
  "ucast ((push_bit 8 (ucast a) OR ucast b :: 16 word) AND 0xFF) = (b :: 8 word)"
proof -
  have mask: "(0xFF :: 16 word) = mask 8" by (simp add: mask_eq_exp_minus_1)
  show "ucast (drop_bit 8 (push_bit 8 (ucast a) OR ucast b :: 16 word)) = a"
    by (rule bit_word_eqI) (auto simp: bit_simps dest: bit_imp_le_length)
  show "ucast ((push_bit 8 (ucast a) OR ucast b :: 16 word) AND 0xFF) = b"
    unfolding mask by (rule bit_word_eqI) (auto simp: bit_simps dest: bit_imp_le_length)
qed

lemma byteValues_values: "mc_byteValues (mc_values d) = take (2 * (length d div 2)) d"
  by (induction d rule: mc_values.induct) (simp_all add: mc_byteValues_def register_bytes del: drop_bit_or)

text \<open>
  A write whose first attempt succeeds hands the library the register of its address, the number
  of whole registers in the data, and the data itself less an odd last byte; it then reports the
  whole data as written.
\<close>

theorem modbus_write_exact:
  assumes "mc_IsConnected s" "mc_client (fst s) = Some c"
    and "- (2 ^ 63) \<le> n" "n < 2 ^ 63"
    and "re_before env 0 = CtxLive" "0 \<le> cc_RetryCount (bc_config (mc_base (fst s)))"
    and "mo_WriteMultipleRegisters ops c (word_of_int (register_offset n)) (word_of_nat (length d div 2))
           (take (2 * (length d div 2)) d) (snd s) = (w', reply, None)"
  shows "mc_Write ops env (int_dec n) d s =
           ((mc_on_base (bc_EmitDataWritten (int_dec n) d) (fst s), w'), Ret None)"
proof -
  obtain k where k: "nat (cc_RetryCount (bc_config (mc_base (fst s))) + 1) = Suc k"
    using assms(6) by (metis Suc_nat_eq_nat_zadd1 add.commute)
  have "bc_RetryWithTimeout env (mc_base (fst s))
          (mc_write_op ops (Some c) (word_of_int (register_offset n)) (mc_values d)) (snd s) = (w', Ret None)"
    unfolding bc_RetryWithTimeout_def k
    using assms(5,7) by (simp add: mc_write_op_def length_mc_values byteValues_values)
  then show ?thesis
    using assms(1-4) by (simp add: mc_Write_def parse_decimal Let_def)
qed

definition demo_modbus_config :: ModbusConfig where
  "demo_modbus_config =
     \<lparr>mf_conn = \<lparr>cc_Timeout = Second, cc_RetryCount = 3, cc_RetryInterval = Second, cc_KeepAlive = False\<rparr>,
      mf_Type = ''tcp'', mf_Address = ''10.0.0.5'', mf_Port = 502, mf_BaudRate = 0, mf_DataBits = 0,
      mf_StopBits = 0, mf_Parity = [], mf_SlaveID = 1, mf_Timeout = ''10s''\<rparr>"

text \<open>A library whose client records the register writes.\<close>

definition demo_modbus_ops :: "(16 word \<times> 16 word \<times> bytes) list modbus_ops" where
  "demo_modbus_ops =
     \<lparr>mo_connect = (\<lambda>h w. (w, Ok 7)),
      mo_ReadHoldingRegisters = (\<lambda>c a q w. (w, [], None)),
      mo_WriteMultipleRegisters = (\<lambda>c a q d w. (w @ [(a, q, d)], [], None))\<rparr>"

definition demo_modbus :: "(16 word \<times> 16 word \<times> bytes) list modbus_state" where
  "demo_modbus = fst (mc_Connect demo_modbus_ops (NewCommModbusClient demo_modbus_config, []))"

lemmas demo_modbus_simps = demo_modbus_def mc_connected_def demo_modbus_ops_def demo_modbus_config_def mc_Connect_def Let_def
  mc_connectTCP_def mc_open_def NewCommModbusClient_def NewBaseCommunication_def emit_defs
  bc_emitEvent_def bc_SetStatus_def mc_IsConnected_def bc_IsConnected_def bc_GetStatus_def

theorem modbus_write_exact_witness:
  "snd (fst (mc_Write demo_modbus_ops live_env (int_dec 3) [0x12, 0x34, 0x56] demo_modbus)) = [(2, 1, [0x12, 0x34])]"
  using modbus_write_exact[of demo_modbus 7 3 live_env demo_modbus_ops "[0x12, 0x34, 0x56]" "[(2, 1, [0x12, 0x34])]" "[]"]
  by (simp add: demo_modbus_simps live_env_def register_offset_def)

section \<open>Connecting\<close>

text \<open>
  Connecting with a type other than tcp, rtu and ascii fails before anything is opened and leaves
  the status at \<open>Connecting\<close>, without an error recorded.
\<close>

theorem modbus_unsupported_type_stays_connecting:
  assumes "mf_Type (mc_config mc) \<notin> {''tcp'', ''rtu'', ''ascii''}"
  shows "mc_Connect ops (mc, w) =
           ((mc_on_base (bc_SetStatus Connecting) mc, w),
            Ret (Some (Errorf ''unsupported Modbus type: %s'' [AStr (mf_Type (mc_config mc))])))"
  using assms by (simp add: mc_Connect_def Let_def)

theorem modbus_unsupported_type_stays_connecting_witness:
  "bc_status (mc_base (fst (fst (mc_Connect demo_modbus_ops
     (NewCommModbusClient (demo_modbus_config\<lparr>mf_Type := ''TCP''\<rparr>), []))))) = Connecting"
  using modbus_unsupported_type_stays_connecting[of "NewCommModbusClient (demo_modbus_config\<lparr>mf_Type := ''TCP''\<rparr>)"
      demo_modbus_ops "[]"]
  by (simp add: NewCommModbusClient_def)

end
