(* ===== verification/CustomProps.thy ===== *)
theory CustomProps
  imports Custom
begin

unbundle bit_operations_syntax

text \<open>
  What the custom protocol client guarantees: no command is ever answered, integers survive encoding
  and decoding in both byte orders, and what the layout and the checksum of a frame are worth.
\<close>

section \<open>No answer\<close>

lemma await_fresh:
  "gm_get (cpc_responseChannels c) mid = Some (mk_chan n) \<Longrightarrow> \<exists>e. cpc_await env cmd mid c = Ret (Err e)"
  by (auto simp: cpc_await_def ch_recv_def split: ctx.split)

lemma send_fails:
  obtains e c' where "cpc_sendCommandAndWaitForResponse env cmd params c = (c', Ret (Err e))"
    "cpc_base c' = cpc_base c" "cpc_config c' = cpc_config c"
proof (cases "cpc_buildCommandFrame (ce_oob env) c cmd params")
  case (Err e)
  then show ?thesis using that by (simp add: cpc_sendCommandAndWaitForResponse_def)
next
  case (Ok frame)
  define mid where "mid = ''cmd_'' @ int_dec (ce_now env)"
  define c1 where "c1 = c\<lparr>cpc_responseChannels := gm_set mid (mk_chan 1) (cpc_responseChannels c)\<rparr>"
  obtain e where "cpc_await env cmd mid c1 = Ret (Err e)"
    using await_fresh[of c1 mid 1 env cmd] by (auto simp: c1_def)
  then have "cpc_sendCommandAndWaitForResponse env cmd params c =
      (c1\<lparr>cpc_responseChannels := gm_del mid (cpc_responseChannels c1)\<rparr>, Ret (Err e))"
    by (simp add: cpc_sendCommandAndWaitForResponse_def Ok Let_def cpc_sendRawData_def mid_def c1_def)
  then show ?thesis using that by (auto simp: c1_def)
qed

lemma cpc_Read_fails: "\<exists>c' e. cpc_Read env a n c = (c', Ret (Err e)) \<and> cpc_base c' = cpc_base c"
proof (cases "cpc_IsConnected c \<and> gm_get (cpc_commands c) ''read'' \<noteq> None")
  case True
  then obtain cmd where "gm_get (cpc_commands c) ''read'' = Some cmd" by auto
  moreover obtain e c' where "cpc_sendCommandAndWaitForResponse env cmd
      [(''address'', VString a), (''length'', VInt n)] c = (c', Ret (Err e))" "cpc_base c' = cpc_base c"
    by (rule send_fails)
  ultimately show ?thesis using True by (simp add: cpc_Read_def)
qed (auto simp: cpc_Read_def)

lemma cpc_Write_fails: "\<exists>c' e. cpc_Write env a d c = (c', Ret (Some e)) \<and> cpc_base c' = cpc_base c"
proof (cases "cpc_IsConnected c \<and> gm_get (cpc_commands c) ''write'' \<noteq> None")
  case True
  then obtain cmd where "gm_get (cpc_commands c) ''write'' = Some cmd" by auto
  moreover obtain e c' where "cpc_sendCommandAndWaitForResponse env cmd
      [(''address'', VString a), (''data'', VBytes d)] c = (c', Ret (Err e))" "cpc_base c' = cpc_base c"
    by (rule send_fails)
  ultimately show ?thesis using True by (simp add: cpc_Write_def)
qed (auto simp: cpc_Write_def)

lemma cdisc_PingDevice_false: "snd (cdisc_PingDevice env cfg address) = Ret (False, None)"
proof -
  let ?c = "cpc_RegisterResponse ping_response (cpc_RegisterCommand ping_command (NewCustomProtocolClient cfg))"
  obtain c1 where c1: "cpc_Connect ?c = (c1, Ret None)"
    by (simp add: cpc_Connect_def cpc_connectNetwork_def cpc_connectSerial_def Let_def)
  obtain e c2 where "cpc_sendCommandAndWaitForResponse env ping_command [] c1 = (c2, Ret (Err e))"
    by (rule send_fails)
  then show ?thesis using c1 by (simp add: cdisc_PingDevice_def)
qed

text \<open>
  In every state of a custom client, every read and every write fails, without an event or a
  change of status: nothing ever writes to the channel a command waits on.  The discovery therefore
  reports every device as unreachable.
\<close>

theorem custom_client_gets_no_answer:
  "(\<exists>c' e. cpc_Read env a n c = (c', Ret (Err e)) \<and> cpc_base c' = cpc_base c) \<and>
   (\<exists>c' e. cpc_Write env a d c = (c', Ret (Some e)) \<and> cpc_base c' = cpc_base c) \<and>
   snd (cdisc_PingDevice env cfg address) = Ret (False, None)"
  using cpc_Read_fails cpc_Write_fails cdisc_PingDevice_false by blast

section \<open>The contract of a client\<close>

lemma cpc_off:
  "\<not> cpc_IsConnected c \<Longrightarrow> \<exists>e. cpc_Read env a n c = (c, Ret (Err e))"
  "\<not> cpc_IsConnected c \<Longrightarrow> \<exists>e. cpc_Write env a d c = (c, Ret (Some e))"
  "\<not> cpc_IsConnected (fst (cpc_Disconnect c))"
  by (simp_all add: cpc_Read_def cpc_Write_def)
    (simp add: cpc_Disconnect_def cpc_IsConnected_def bc_IsConnected_iff emit_defs)

interpretation custom: comm_client "\<lambda>c. True" cpc_IsConnected cpc_Read cpc_Write cpc_Disconnect
  by unfold_locales (auto simp: cpc_off)

section \<open>Byte orders\<close>

lemma length_le_bytes [simp]: "length (le_bytes n v) = n"
  by (induction n arbitrary: v) auto

lemma bit_le_value_bytes: "bit (le_value (le_bytes n v) :: 'a::len word) i \<longleftrightarrow> i < 8 * n \<and> bit v i"
  for v :: "'a::len word"
proof (induction n arbitrary: v i)
  case 0
  then show ?case by simp
next
  case (Suc n)
  show ?case
  proof (cases "i < 8")
    case True
    then show ?thesis by (auto simp: bit_simps dest: bit_imp_le_length)
  next
    case False
    then have "bit (le_value (le_bytes (Suc n) v) :: 'a word) i \<longleftrightarrow>
        i < LENGTH('a) \<and> bit (le_value (le_bytes n (drop_bit 8 v)) :: 'a word) (i - 8)"
      by (auto simp: bit_simps dest: bit_imp_le_length)
    also have "\<dots> \<longleftrightarrow> i < LENGTH('a) \<and> i - 8 < 8 * n \<and> bit v (8 + (i - 8))"
      by (simp add: Suc bit_drop_bit_eq)
    finally show ?thesis using False by (auto dest: bit_imp_le_length)
  qed
qed

lemma le_value_bytes: "LENGTH('a) \<le> 8 * n \<Longrightarrow> le_value (le_bytes n v) = v" for v :: "'a::len word"
  by (rule bit_word_eqI) (simp add: bit_le_value_bytes)

lemma get_put_uint: "LENGTH('a) \<le> 8 * n \<Longrightarrow> get_uint be n (put_uint be n v @ rest) = Ret v" for v :: "'a::len word"
  by (simp add: get_uint_def put_uint_def le_value_bytes)

text \<open>
  C19. In either byte order, what the client encodes as 16, 32 or 64 bits it decodes to the same value,
  whatever follows; and decoding fewer bytes than the width panics.
\<close>

theorem custom_integers_round_trip:
  "cpc_decodeUint16 c (cpc_encodeUint16 c v16 @ rest) = Ret v16 \<and>
   cpc_decodeUint32 c (cpc_encodeUint32 c v32 @ rest) = Ret v32 \<and>
   cpc_decodeUint64 c (cpc_encodeUint64 c v64 @ rest) = Ret v64 \<and>
   cpc_decodeUint16 c [b] = Panic ''index out of range''"
  by (simp add: cpc_decodeUint16_def cpc_encodeUint16_def cpc_decodeUint32_def cpc_encodeUint32_def
      cpc_decodeUint64_def cpc_encodeUint64_def get_put_uint)
    (simp add: get_uint_def)

section \<open>Checksums\<close>

lemma xor_is_crc8: "cpc_calculateCRC8 d = cpc_calculateXOR d"
  by (simp add: cpc_calculateCRC8_def cpc_calculateXOR_def)

lemma xor_fold_swap: "fold (\<lambda>b r. r XOR b) (a # b # d) x = fold (\<lambda>b r. r XOR b) (b # a # d) (x :: 8 word)"
  by (simp add: ac_simps)

lemma hex_part_Ok: "hex_part what s = Ok d \<longleftrightarrow> hex_DecodeString s = Ok d"
  by (auto simp: hex_part_def split: result.split)

lemma frame_layout:
  assumes "cpc_buildCommandFrame oob c cmd params = Ok frame"
  obtains header code d trailer where
    "frame = header @ code @ d @
       (if pc_ChecksumMethod (cpc_config c) = ''none'' then []
        else cpc_calculateChecksum c (header @ code @ d)) @ trailer"
    "hex_DecodeString (pc_Header (cpc_config c)) = Ok header"
    "hex_DecodeString (cd_CommandCode cmd) = Ok code"
    "cpc_encodeParameters oob c (cd_Fields cmd) params = Ok d"
    "hex_DecodeString (pc_Trailer (cpc_config c)) = Ok trailer"
proof -
  from assms obtain header where h: "hex_DecodeString (pc_Header (cpc_config c)) = Ok header"
    and "(if pc_Header (cpc_config c) \<noteq> [] then hex_part ''header'' (pc_Header (cpc_config c)) else Ok []) = Ok header"
    by (auto simp: cpc_buildCommandFrame_def hex_part_Ok split: result.splits if_splits)
  moreover from assms obtain code where "hex_DecodeString (cd_CommandCode cmd) = Ok code"
    and "hex_part ''command code'' (cd_CommandCode cmd) = Ok code"
    by (auto simp: cpc_buildCommandFrame_def hex_part_Ok split: result.splits)
  moreover from assms obtain d where "cpc_encodeParameters oob c (cd_Fields cmd) params = Ok d"
    by (auto simp: cpc_buildCommandFrame_def split: result.splits)
  moreover from assms obtain trailer where "hex_DecodeString (pc_Trailer (cpc_config c)) = Ok trailer"
    and "(if pc_Trailer (cpc_config c) \<noteq> [] then hex_part ''trailer'' (pc_Trailer (cpc_config c)) else Ok []) = Ok trailer"
    by (auto simp: cpc_buildCommandFrame_def Let_def hex_part_Ok split: result.splits if_splits)
  ultimately show ?thesis
    using assms that[of header code d trailer] by (simp add: cpc_buildCommandFrame_def Let_def split: if_splits)
qed

lemma crc16_swapped_tail:
  "crc16 (d @ [ucast (drop_bit 8 (crc16 d)), ucast (crc16 d)]) = 0 \<longleftrightarrow>
     (ucast (drop_bit 8 (crc16 d)) :: 8 word) = ucast (crc16 d)"
proof -
  have low: "(ucast (c AND 0xFF) :: 8 word) = ucast c" for c :: "16 word"
    unfolding low_byte_mask by (rule bit_word_eqI) (auto simp: bit_simps dest: bit_imp_le_length)
  show ?thesis
    unfolding crc16_def crc_from_append residue_iff crc_tail_def low by auto
qed

text \<open>
  A command frame is header, command code, parameters, checksum and trailer, and what a receiver
  can conclude from the checksum depends on the method: \<open>crc8\<close> computes the same byte as \<open>xor\<close>, which
  does not see two neighbouring bytes exchanged; \<open>crc16\<close> appends the high byte first, so that the usual
  residue test of the receiver fails unless both bytes are equal.
\<close>

theorem custom_frame_checksums:
  assumes "cpc_buildCommandFrame oob c cmd params = Ok frame" "pc_Trailer (cpc_config c) = []"
    and "pc_ChecksumMethod (cpc_config c) \<in> {''crc8'', ''xor'', ''crc16''}"
  shows "\<exists>body. frame = body @ cpc_calculateChecksum c body \<and>
    (if pc_ChecksumMethod (cpc_config c) = ''crc16''
     then crc16 frame = 0 \<longleftrightarrow> (ucast (drop_bit 8 (crc16 body)) :: 8 word) = ucast (crc16 body)
     else cpc_calculateChecksum c body = [cpc_calculateXOR body] \<and>
          (\<forall>a b rest. body = a # b # rest \<longrightarrow> cpc_calculateChecksum c (b # a # rest) = cpc_calculateChecksum c body))"
proof -
  obtain header code d trailer where f: "frame = header @ code @ d @
       (if pc_ChecksumMethod (cpc_config c) = ''none'' then []
        else cpc_calculateChecksum c (header @ code @ d)) @ trailer"
    and t: "hex_DecodeString (pc_Trailer (cpc_config c)) = Ok trailer"
    by (rule frame_layout[OF assms(1)])
  have "trailer = []" using t assms(2) by simp
  then have frame: "frame = (header @ code @ d) @ cpc_calculateChecksum c (header @ code @ d)"
    using f assms(3) by auto
  show ?thesis
  proof (intro exI[of _ "header @ code @ d"] conjI frame)
    show "if pc_ChecksumMethod (cpc_config c) = ''crc16''
     then crc16 frame = 0 \<longleftrightarrow>
       (ucast (drop_bit 8 (crc16 (header @ code @ d))) :: 8 word) = ucast (crc16 (header @ code @ d))
     else cpc_calculateChecksum c (header @ code @ d) = [cpc_calculateXOR (header @ code @ d)] \<and>
          (\<forall>a b rest. header @ code @ d = a # b # rest \<longrightarrow>
             cpc_calculateChecksum c (b # a # rest) = cpc_calculateChecksum c (header @ code @ d))"
      using assms(3) frame crc16_swapped_tail[of "header @ code @ d"]
      by (auto simp: cpc_calculateChecksum_def Let_def xor_is_crc8 cpc_calculateCRC16_def
          cpc_calculateXOR_def ac_simps)
  qed
qed

definition demo_custom_config :: "string \<Rightarrow> CustomProtocolConfig" where
  "demo_custom_config m =
     \<lparr>pc_conn = \<lparr>cc_Timeout = Second, cc_RetryCount = 3, cc_RetryInterval = Second, cc_KeepAlive = False\<rparr>,
      pc_ProtocolType = ''binary'', pc_Address = ''10.0.0.9:9000'', pc_Port = 0, pc_Timeout = ''5s'',
      pc_FrameDelimiter = [], pc_Header = ''AA55'', pc_Trailer = [], pc_ChecksumMethod = m,
      pc_BigEndian = True, pc_MaxFrameSize = 256, pc_Encoding = ''ascii''\<rparr>"

definition demo_command :: CommandDefinition where
  "demo_command =
     \<lparr>cd_Name = ''read'', cd_CommandCode = ''03'', cd_Format = ''binary'',
      cd_Fields = [\<lparr>fd_Name = ''length'', fd_Type = ''uint16'', fd_Size = 2, fd_Offset = 0,
                    fd_Scale = f64_zero, fd_Encoding = []\<rparr>]\<rparr>"

lemmas demo_custom_simps = demo_custom_config_def demo_command_def NewCustomProtocolClient_def
  cpc_buildCommandFrame_def hex_part_def cpc_encodeFieldValue_def gm_get_def
  cpc_encodeUint16_def

theorem custom_frame_checksums_witness:
  "\<exists>body. [0xAA, 0x55, 0x03, 0x01, 0x02, 0xFF] =
     body @ cpc_calculateChecksum (NewCustomProtocolClient (demo_custom_config ''crc8'')) body"
proof -
  let ?c = "NewCustomProtocolClient (demo_custom_config ''crc8'')"
  have "cpc_buildCommandFrame (\<lambda>_. 0) ?c demo_command [(''length'', VInt 258)] =
      Ok [0xAA, 0x55, 0x03, 0x01, 0x02, 0xFF]"
  proof -
    have "hex_DecodeString ''AA55'' = Ok [0xAA, 0x55]" "hex_DecodeString ''03'' = Ok [0x03]"
      by (simp_all add: hex_digit_def)
    moreover have "put_uint True 2 (258 :: 16 word) = [0x01, 0x02]"
    proof -
      have two: "le_bytes 2 v = [ucast v, ucast (drop_bit 8 v)]" for v :: "16 word"
        by (simp add: numeral_2_eq_2)
      show ?thesis unfolding put_uint_def two by simp
    qed
    ultimately show ?thesis
      by (simp add: demo_custom_simps cpc_calculateChecksum_def cpc_calculateCRC8_def del: hex_DecodeString.simps)
  qed
  moreover have "pc_Trailer (cpc_config ?c) = []"
    "pc_ChecksumMethod (cpc_config ?c) \<in> {''crc8'', ''xor'', ''crc16''}"
    by (simp_all add: NewCustomProtocolClient_def demo_custom_config_def)
  ultimately show ?thesis using custom_frame_checksums by blast
qed

end
