(* ===== verification/HwProps.thy ===== *)
theory HwProps
  imports HwFactory SerialProps ModbusCommProps CustomProps Devices
begin

text \<open>
  The hardware layer as a whole: what a configuration can express, what becomes of the calls the
  device package makes, the representation invariant of the device manager, and its stop.
\<close>

section \<open>Representation invariant\<close>

text \<open>
  Every device in the table is in the store, has the ID it is listed under, a client, and a
  configuration in the configuration table.
\<close>

definition hm_wf :: "'w HwManager \<Rightarrow> bool" where
  "hm_wf m \<longleftrightarrow>
     gm_wf (hm_devices m) \<and> gm_wf (hm_configs m) \<and>
     (\<forall>i a. gm_get (hm_devices m) i = Some a \<longrightarrow>
        a < length (hm_heap m) \<and> hc_ID (hb_config (hm_heap m ! a)) = i \<and> gm_has (hm_configs m) i) \<and>
     (\<forall>d \<in> set (hm_heap m). hb_comm d \<noteq> None) \<and>
     (\<forall>a. HtAutoConnect a \<in> set (hm_spawned m) \<longrightarrow> a < length (hm_heap m))"

text \<open>Calls on a device that keep its configuration and its client.\<close>

definition hb_keeps :: "(HwDevice \<times> 'w \<Rightarrow> (HwDevice \<times> 'w) \<times> 'a) \<Rightarrow> bool" where
  "hb_keeps f \<longleftrightarrow> (\<forall>s. hb_config (fst (fst (f s))) = hb_config (fst s) \<and>
     (hb_comm (fst s) \<noteq> None \<longrightarrow> hb_comm (fst (fst (f s))) \<noteq> None))"

lemma hb_opened_keeps:
  "hb_config (fst (fst (hb_opened d out))) = hb_config d \<and> hb_comm (fst (fst (hb_opened d out))) \<noteq> None"
  by (auto simp: hb_opened_def Let_def split: prod.split exec.split option.split)

lemma hb_keeps_Connect: "hb_keeps (hb_Connect ops)"
  unfolding hb_keeps_def
proof
  fix s
  show "hb_config (fst (fst (hb_Connect ops s))) = hb_config (fst s) \<and>
     (hb_comm (fst s) \<noteq> None \<longrightarrow> hb_comm (fst (fst (hb_Connect ops s))) \<noteq> None)"
    by (cases "hb_comm (fst s)") (simp_all add: hb_Connect_def hb_opened_keeps del: not_None_eq)
qed

lemma hb_keeps_Reconnect: "hb_keeps (hb_Reconnect ops)"
  unfolding hb_keeps_def
proof
  fix s
  show "hb_config (fst (fst (hb_Reconnect ops s))) = hb_config (fst s) \<and>
     (hb_comm (fst s) \<noteq> None \<longrightarrow> hb_comm (fst (fst (hb_Reconnect ops s))) \<noteq> None)"
    by (cases "hb_comm (fst s)") (simp_all add: hb_Reconnect_def hb_opened_keeps del: not_None_eq)
qed

lemma hb_keeps_Disconnect: "hb_keeps (hb_Disconnect ops)"
  by (auto simp: hb_keeps_def hb_Disconnect_def case_prod_unfold Let_def split: option.split exec.split)

lemma hb_keeps_pass: "hb_keeps (hb_pass f none)"
  by (auto simp: hb_keeps_def hb_pass_def case_prod_unfold Let_def split: option.split)

lemma hb_keeps_intros [wf_intros]:
  "hb_keeps (hb_Connect ops)" "hb_keeps (hb_Disconnect ops)" "hb_keeps (hb_Reconnect ops)"
  "hb_keeps (hb_Read ops env a n)" "hb_keeps (hb_Write ops env a d)"
  unfolding hb_Read_def hb_Write_def
  by (rule hb_keeps_Connect hb_keeps_Disconnect hb_keeps_Reconnect hb_keeps_pass)+

lemma hm_call_wf:
  assumes "hb_keeps f" "a < length (hm_heap m)" "hm_wf m"
  shows "hm_wf (fst (hm_call f a m))"
proof -
  obtain d w r where f: "f (hm_heap m ! a, hm_world m) = ((d, w), r)" by (metis prod.exhaust)
  have "hb_config d = hb_config (hm_heap m ! a)" "hb_comm (hm_heap m ! a) \<noteq> None \<Longrightarrow> hb_comm d \<noteq> None"
    using assms(1) f unfolding hb_keeps_def by (metis fst_conv)+
  moreover have "hb_comm (hm_heap m ! a) \<noteq> None" using assms(2,3) by (simp add: hm_wf_def)
  ultimately show ?thesis
    using assms(2,3)
    by (auto simp: hm_call_def f hm_wf_def nth_list_update dest: set_update_subset_insert[THEN subsetD])
qed

lemma hm_wf_simps [simp]:
  "hm_wf (hm_mu_update f m) = hm_wf m"
  "hm_wf (m\<lparr>hm_cancelled := b\<rparr>) = hm_wf m"
  "hm_wf (m\<lparr>hm_eventChan := c\<rparr>) = hm_wf m"
  "hm_wf (m\<lparr>hm_scanners := sc\<rparr>) = hm_wf m"
  "hm_wf (m\<lparr>hm_autoScan := b, hm_scanTicker := t\<rparr>) = hm_wf m"
  "hm_wf (m\<lparr>hm_autoScan := b, hm_scanTicker := t, hm_scanners := sc\<rparr>) = hm_wf m"
  "hm_wf (m\<lparr>hm_autoScan := b\<rparr>) = hm_wf m"
  by (simp_all add: hm_wf_def)

text \<open>Looking a device up changes nothing but the mutex.\<close>

lemma hm_GetDevice_cases:
  obtains "hm_GetDevice i m = (m, Blocked)"
  | e f where "hm_GetDevice i m = (hm_mu_update f m, Ret (Err e))" "gm_get (hm_devices m) i = None"
  | a f where "hm_GetDevice i m = (hm_mu_update f m, Ret (Ok a))" "gm_get (hm_devices m) i = Some a"
proof -
  have *: "hm_GetDevice i m = (m, Blocked) \<or>
      (\<exists>f. hm_GetDevice i m = (hm_mu_update f m,
         Ret (case gm_get (hm_devices m) i of
                None \<Rightarrow> Err (Errorf ''device %s not found'' [AStr i]) | Some a \<Rightarrow> Ok a)))"
  proof (cases "hm_mu m")
    case WLocked
    then show ?thesis by (simp add: hm_GetDevice_def with_rlock_held)
  next
    case Unlocked
    then have "hm_GetDevice i m = (hm_mu_update (\<lambda>_. Unlocked) m,
         Ret (case gm_get (hm_devices m) i of
                None \<Rightarrow> Err (Errorf ''device %s not found'' [AStr i]) | Some a \<Rightarrow> Ok a))"
      by (simp add: hm_GetDevice_def with_rlock_free)
    then show ?thesis by blast
  next
    case (RLocked n)
    then have "hm_GetDevice i m = (hm_mu_update (\<lambda>_. mu_runlock (RLocked (Suc n))) m,
         Ret (case gm_get (hm_devices m) i of
                None \<Rightarrow> Err (Errorf ''device %s not found'' [AStr i]) | Some a \<Rightarrow> Ok a))"
      by (simp add: hm_GetDevice_def with_rlock_shared del: mu_runlock.simps)
    then show ?thesis by blast
  qed
  then show ?thesis using that by (cases "gm_get (hm_devices m) i") auto
qed

lemma hm_on_device_wf:
  assumes "hb_keeps f" "hm_wf m"
  shows "hm_wf (fst (hm_on_device i fail f m))"
proof (cases rule: hm_GetDevice_cases[of i m])
  case (3 a g)
  then have "a < length (hm_heap m)" using assms(2) by (simp add: hm_wf_def)
  then have "hm_wf (fst (hm_call f a (hm_mu_update g m)))" using assms by (intro hm_call_wf) simp_all
  then show ?thesis using 3 by (simp add: hm_on_device_def)
qed (use assms in \<open>simp_all add: hm_on_device_def\<close>)

lemmas hm_then_wf = and_then_inv[where P = hm_wf]
lemmas hm_lock_wf = with_lock_inv[where P = hm_wf and put = hm_mu_update] with_rlock_inv[where P = hm_wf and put = hm_mu_update]

lemma hm_emitEvent_wf: "hm_wf (fst (hm_emitEvent ev m)) = hm_wf m"
  by (auto simp: hm_emitEvent_def split: prod.split exec.split)

lemma created_device:
  assumes "hm_createDevice cfg = Ok d"
  shows "hb_config d = cfg \<and> hb_comm d \<noteq> None"
  using assms
  by (auto simp: hm_createDevice_def NewHwModbusDevice_def NewHwSerialDevice_def NewHwCustomDevice_def
      hb_setCommunication_def NewHwDevice_def Let_def split: DeviceType.splits protocol_config.splits)

lemma hm_add_locked_wf:
  assumes "hm_wf m"
  shows "hm_wf (fst (hm_add_locked now cfg m))"
proof (cases "gm_has (hm_devices m) (hc_ID cfg)")
  case True
  then show ?thesis using assms by (simp add: hm_add_locked_def)
next
  case new: False
  define m1 where "m1 = m\<lparr>hm_configs := gm_set (hc_ID cfg) cfg (hm_configs m)\<rparr>"
  have m1: "hm_wf m1" using assms by (auto simp: m1_def hm_wf_def gm_has_def)
  show ?thesis
  proof (cases "hm_createDevice cfg")
    case (Err e)
    then show ?thesis using new m1 by (simp add: hm_add_locked_def m1_def Let_def)
  next
    case (Ok d)
    define m2 where "m2 = m1\<lparr>hm_heap := hm_heap m1 @ [hb_AddEventHandler 0 d],
        hm_devices := gm_set (hc_ID cfg) (length (hm_heap m1)) (hm_devices m1),
        hm_spawned := hm_spawned m1 @ (if hc_AutoConnect cfg then [HtAutoConnect (length (hm_heap m1))] else [])\<rparr>"
    have "hb_config (hb_AddEventHandler 0 d) = cfg" "hb_comm (hb_AddEventHandler 0 d) \<noteq> None"
      using created_device[OF Ok] by (simp_all add: hb_AddEventHandler_def)
    then have "hm_wf m2"
      using m1 by (auto simp: hm_wf_def m2_def nth_append m1_def gm_has_def split: if_split_asm)
    then have "hm_wf (fst (and_then (hm_emitEvent ev) (\<lambda>_ m. (m, Ret None)) m2))" for ev
      by (intro hm_then_wf) (simp_all add: hm_emitEvent_wf)
    then show ?thesis using new Ok by (simp add: hm_add_locked_def m1_def[symmetric] m2_def[symmetric] Let_def)
  qed
qed

lemma hm_drop_connection_wf:
  assumes "a < length (hm_heap m)" "hm_wf m"
  shows "hm_wf (fst (hm_drop_connection ops a m))"
proof -
  have "hm_wf (fst (hm_call (hb_Disconnect ops) a m))" using assms by (intro hm_call_wf hb_keeps_intros)
  then have "hm_wf (fst (and_then (hm_call (hb_Disconnect ops) a) (\<lambda>_ m. (m, Ret ())) m))"
    by (rule hm_then_wf) simp
  then show ?thesis using assms by (simp add: hm_drop_connection_def)
qed

text \<open>Disconnecting keeps the tables, the mutex and the length of the store, and always returns.\<close>

lemma co_Disconnect_returns: "\<exists>e. snd (co_Disconnect ops s) = Ret e"
proof (cases s)
  case (Pair c w)
  then show ?thesis
    by (cases c)
      (auto simp: co_lift_def co_pure_def mc_Disconnect_def cpc_Disconnect_def sc_Disconnect_def
        case_prod_unfold Let_def split: option.split)
qed

lemma hb_Disconnect_returns: "\<exists>e. snd (hb_Disconnect ops s) = Ret e"
proof (cases "hb_comm (fst s)")
  case (Some c)
  obtain e where "snd (co_Disconnect ops (c, snd s)) = Ret e" using co_Disconnect_returns by blast
  then show ?thesis using Some by (simp add: hb_Disconnect_def case_prod_unfold Let_def)
qed (simp add: hb_Disconnect_def)

definition same_tables :: "'w HwManager \<Rightarrow> 'w HwManager \<Rightarrow> bool" where
  "same_tables m m' \<longleftrightarrow> hm_devices m' = hm_devices m \<and> hm_configs m' = hm_configs m \<and> hm_mu m' = hm_mu m \<and>
     hm_autoScan m' = hm_autoScan m \<and> hm_eventChan m' = hm_eventChan m \<and>
     length (hm_heap m') = length (hm_heap m) \<and> hm_scanTicker m' = hm_scanTicker m"

lemma hm_call_tables: "same_tables m (fst (hm_call f a m))"
  by (simp add: hm_call_def same_tables_def case_prod_unfold Let_def)

lemma hm_drop_connection_returns:
  "\<exists>m'. hm_drop_connection ops a m = (m', Ret ()) \<and> same_tables m m'"
proof (cases "hb_IsConnected (hm_heap m ! a)")
  case True
  obtain m' r where c: "hm_call (hb_Disconnect ops) a m = (m', r)" by fastforce
  moreover obtain e where "r = Ret e"
    using c hb_Disconnect_returns[of ops "(hm_heap m ! a, hm_world m)"]
    by (auto simp: hm_call_def case_prod_unfold Let_def)
  ultimately show ?thesis
    using True hm_call_tables[of m "hb_Disconnect ops" a] by (simp add: hm_drop_connection_def)
qed (simp add: hm_drop_connection_def same_tables_def)

lemma hm_drop_all_returns: "\<exists>m'. hm_drop_all ops as m = (m', Ret ()) \<and> same_tables m m'"
proof (induction as arbitrary: m)
  case Nil
  then show ?case by (simp add: same_tables_def)
next
  case (Cons a as)
  obtain m1 where m1: "hm_drop_connection ops a m = (m1, Ret ())" "same_tables m m1"
    using hm_drop_connection_returns by blast
  obtain m2 where "hm_drop_all ops as m1 = (m2, Ret ())" "same_tables m1 m2" using Cons by blast
  then show ?case using m1 by (auto simp: same_tables_def)
qed

lemma hm_drop_all_wf:
  "(\<forall>a \<in> set as. a < length (hm_heap m)) \<Longrightarrow> hm_wf m \<Longrightarrow> hm_wf (fst (hm_drop_all ops as m))"
proof (induction as arbitrary: m)
  case (Cons a as)
  obtain m1 where m1: "hm_drop_connection ops a m = (m1, Ret ())" "same_tables m m1"
    using hm_drop_connection_returns by blast
  then have "hm_wf m1" using hm_drop_connection_wf[of a m ops] Cons.prems by simp
  then show ?case using Cons m1 by (simp add: same_tables_def)
qed simp

lemma hm_RemoveDevice_wf: "hm_wf m \<Longrightarrow> hm_wf (fst (hm_RemoveDevice ops now i m))"
  unfolding hm_RemoveDevice_def
proof (rule hm_lock_wf(1), simp)
  fix s :: "'a HwManager"
  assume 1: "hm_wf s"
  show "hm_wf (fst (case gm_get (hm_devices s) i of
       None \<Rightarrow> (s, Ret (Some (Errorf ''device %s not found'' [AStr i])))
     | Some a \<Rightarrow>
         and_then (hm_drop_connection ops a)
           (\<lambda>_ m1. and_then
              (hm_emitEvent \<lparr>he_Type = ''device_removed'', he_DeviceID = i, he_Timestamp = now, he_Data = None\<rparr>)
              (\<lambda>_ m2. (m2, Ret None))
              (m1\<lparr>hm_devices := gm_del i (hm_devices m1), hm_configs := gm_del i (hm_configs m1)\<rparr>)) s))"
  proof (cases "gm_get (hm_devices s) i")
    case (Some a)
    then have "a < length (hm_heap s)" using 1 by (simp add: hm_wf_def)
    then have drop: "hm_wf (fst (hm_drop_connection ops a s))" using 1 by (simp add: hm_drop_connection_wf)
    have del: "hm_wf (m1\<lparr>hm_devices := gm_del i (hm_devices m1), hm_configs := gm_del i (hm_configs m1)\<rparr>)"
      if "hm_wf m1" for m1 :: "'a HwManager"
      using that by (auto simp: hm_wf_def gm_has_def)
    have "hm_wf (fst (and_then (hm_drop_connection ops a)
           (\<lambda>_ m1. and_then (hm_emitEvent ev) (\<lambda>_ m2. (m2, Ret None))
              (m1\<lparr>hm_devices := gm_del i (hm_devices m1), hm_configs := gm_del i (hm_configs m1)\<rparr>)) s))" for ev
      by (rule hm_then_wf, rule drop, rule hm_then_wf) (simp_all add: hm_emitEvent_wf del)
    then show ?thesis using Some by simp
  qed (use 1 in simp)
qed

lemma hm_scan_configs_wf: "hm_wf m \<Longrightarrow> hm_wf (fst (hm_scan_configs cfgs m))"
proof (induction cfgs arbitrary: m)
  case (Cons cfg cfgs)
  have spawn: "hm_wf (hm_mu_update f m\<lparr>hm_spawned := hm_spawned m @ [HtReconnect i]\<rparr>)" for f i
    using Cons.prems by (auto simp: hm_wf_def)
  show ?case
    using Cons spawn by (cases rule: hm_GetDevice_cases[of "hc_ID cfg" m]) simp_all
qed simp

lemma hm_scanDevices_wf: "hm_wf m \<Longrightarrow> hm_wf (fst (hm_scanDevices m))"
  unfolding hm_scanDevices_def hm_ListDeviceConfigs_def
  by (rule hm_then_wf) (rule hm_lock_wf(2), simp_all add: hm_scan_configs_wf)

lemma hm_run_task_wf:
  assumes "hm_wf m"
  shows "hm_wf (fst (hm_run_task ops m))"
proof (cases "hm_spawned m")
  case (Cons t ts)
  then have wf: "hm_wf (m\<lparr>hm_spawned := ts\<rparr>)" using assms by (auto simp: hm_wf_def)
  show ?thesis
  proof (cases t)
    case (HtAutoConnect a)
    then have "a < length (hm_heap m)" using assms Cons by (simp add: hm_wf_def)
    then have "hm_wf (fst (hm_call (hb_Connect ops) a (m\<lparr>hm_spawned := ts\<rparr>)))"
      using wf by (intro hm_call_wf hb_keeps_intros) simp_all
    then have "hm_wf (fst (and_then (hm_call (hb_Connect ops) a) (\<lambda>_ m. (m, Ret ())) (m\<lparr>hm_spawned := ts\<rparr>)))"
      by (rule hm_then_wf) simp
    then show ?thesis using Cons HtAutoConnect by (simp add: hm_run_task_def)
  next
    case (HtReconnect i)
    have "hm_wf (fst (hm_ReconnectDevice ops i (m\<lparr>hm_spawned := ts\<rparr>)))"
      unfolding hm_ReconnectDevice_def using wf by (intro hm_on_device_wf hb_keeps_intros)
    then have "hm_wf (fst (and_then (hm_ReconnectDevice ops i) (\<lambda>_ m. (m, Ret ())) (m\<lparr>hm_spawned := ts\<rparr>)))"
      by (rule hm_then_wf) simp
    then show ?thesis using Cons HtReconnect by (simp add: hm_run_task_def)
  qed
qed (use assms in \<open>simp add: hm_run_task_def\<close>)

lemma hm_StopAutoScan_wf: "hm_wf m \<Longrightarrow> hm_wf (fst (hm_StopAutoScan m))"
  unfolding hm_StopAutoScan_def by (rule hm_lock_wf(1)) simp_all

lemma hm_Stop_wf:
  assumes "hm_wf m"
  shows "hm_wf (fst (hm_Stop ops m))"
  unfolding hm_Stop_def
proof (rule hm_lock_wf(1), simp)
  fix s :: "'a HwManager"
  assume 1: "hm_wf s"
  then have "\<forall>a \<in> set (map snd (hm_devices s)). a < length (hm_heap s)"
    by (auto simp: hm_wf_def gm_get_iff)
  then have "hm_wf (fst (hm_drop_all ops (map snd (hm_devices s)) s))" using 1 by (rule hm_drop_all_wf)
  then show "hm_wf (fst (and_then (hm_drop_all ops (map snd (hm_devices s)))
         (\<lambda>_. and_then (\<lambda>m. if hm_autoScan m then hm_StopAutoScan m else (m, Ret ()))
            (\<lambda>_ m. case ch_close (hm_eventChan m) of
                     (c, Ret _) \<Rightarrow> (m\<lparr>hm_eventChan := c\<rparr>, Ret None)
                   | (c, Panic msg) \<Rightarrow> (m, Panic msg)
                   | (c, Blocked) \<Rightarrow> (m, Blocked))) s))"
    by (rule hm_then_wf) (rule hm_then_wf, auto simp: hm_StopAutoScan_wf split: prod.split exec.split)
qed (use assms in simp)

section \<open>Every call keeps the invariant\<close>

datatype hm_op =
    HAdd int HwDeviceConfig | HRemove int string | HGet string | HList | HListConfigs
  | HConnect string | HDisconnect string | HReconnect string
  | HRead bus_env string string int | HWrite bus_env string string bytes | HStatus int string
  | HStartScan Duration | HStopScan | HScanBegin nat | HScanReturn nat | HTask | HStop

fun hm_do :: "'w bus_ops \<Rightarrow> hm_op \<Rightarrow> 'w HwManager \<Rightarrow> 'w HwManager" where
  "hm_do ops (HAdd now cfg) m = fst (hm_AddDevice now cfg m)"
| "hm_do ops (HRemove now i) m = fst (hm_RemoveDevice ops now i m)"
| "hm_do ops (HGet i) m = fst (hm_GetDevice i m)"
| "hm_do ops HList m = fst (hm_ListDevices m)"
| "hm_do ops HListConfigs m = fst (hm_ListDeviceConfigs m)"
| "hm_do ops (HConnect i) m = fst (hm_ConnectDevice ops i m)"
| "hm_do ops (HDisconnect i) m = fst (hm_DisconnectDevice ops i m)"
| "hm_do ops (HReconnect i) m = fst (hm_ReconnectDevice ops i m)"
| "hm_do ops (HRead env i a n) m = fst (hm_ReadDevice ops env i a n m)"
| "hm_do ops (HWrite env i a d) m = fst (hm_WriteDevice ops env i a d m)"
| "hm_do ops (HStatus now i) m = fst (hm_GetDeviceStatus now i m)"
| "hm_do ops (HStartScan d) m = fst (hm_StartAutoScan d m)"
| "hm_do ops HStopScan m = fst (hm_StopAutoScan m)"
| "hm_do ops (HScanBegin k) m = fst (hm_scan_begin k m)"
| "hm_do ops (HScanReturn k) m = fst (hm_scan_return k m)"
| "hm_do ops HTask m = fst (hm_run_task ops m)"
| "hm_do ops HStop m = fst (hm_Stop ops m)"

lemma hm_GetDevice_wf: "hm_wf m \<Longrightarrow> hm_wf (fst (hm_GetDevice i m))"
  by (cases rule: hm_GetDevice_cases[of i m]) simp_all

lemma hm_GetDeviceStatus_wf: "hm_wf m \<Longrightarrow> hm_wf (fst (hm_GetDeviceStatus now i m))"
  by (cases rule: hm_GetDevice_cases[of i m])
    (simp_all add: hm_GetDeviceStatus_def Let_def split: option.split)

lemma hm_do_wf: "hm_wf m \<Longrightarrow> hm_wf (hm_do ops op m)"
proof (cases op)
  case (HStartScan d)
  then show "hm_wf m \<Longrightarrow> ?thesis" by (auto simp: hm_StartAutoScan_def intro!: hm_lock_wf(1))
next
  case (HScanBegin k)
  then show "hm_wf m \<Longrightarrow> ?thesis" by (simp add: hm_scan_begin_def hm_scanDevices_wf)
next
  case (HScanReturn k)
  then show "hm_wf m \<Longrightarrow> ?thesis" by (simp add: hm_scan_return_def split: option.split)
next
  case (HAdd now cfg)
  then show "hm_wf m \<Longrightarrow> ?thesis" by (auto simp: hm_AddDevice_def intro!: hm_lock_wf(1) hm_add_locked_wf)
next
  case HList
  then show "hm_wf m \<Longrightarrow> ?thesis" by (auto simp: hm_ListDevices_def intro!: hm_lock_wf(2))
next
  case HListConfigs
  then show "hm_wf m \<Longrightarrow> ?thesis" by (auto simp: hm_ListDeviceConfigs_def intro!: hm_lock_wf(2))
qed (simp_all add: hm_RemoveDevice_wf hm_GetDevice_wf hm_ConnectDevice_def hm_DisconnectDevice_def hm_ReconnectDevice_def
    hm_ReadDevice_def hm_WriteDevice_def hm_on_device_wf hb_keeps_intros hm_GetDeviceStatus_wf hm_StopAutoScan_wf
    hm_run_task_wf hm_Stop_wf)

text \<open>
  C16. Whatever calls the device manager has served and whatever the buses answered, blocked and
  panicking calls included, every device of its table exists, has the ID it is listed under, a client,
  and a configuration; so the status of a device in error never dereferences a nil client.
\<close>

theorem hm_reachable_wf:
  "hm_wf (fold (hm_do ops) opers (NewHwManager w)) \<and>
   snd (hm_GetDeviceStatus now i (fold (hm_do ops) opers (NewHwManager w))) \<noteq> Panic msg"
proof -
  let ?m = "fold (hm_do ops) opers (NewHwManager w)"
  have "hm_wf (NewHwManager w)" by (simp add: hm_wf_def NewHwManager_def)
  then have wf: "hm_wf ?m" by (induction opers rule: rev_induct) (simp_all add: hm_do_wf)
  then have "hb_comm (hm_heap ?m ! a) \<noteq> None" if "gm_get (hm_devices ?m) i = Some a" for a
    using that by (auto simp: hm_wf_def)
  then have "snd (hm_GetDeviceStatus now i ?m) \<noteq> Panic msg"
    by (cases rule: hm_GetDevice_cases[of i ?m])
      (auto simp: hm_GetDeviceStatus_def Let_def split: option.split)
  then show ?thesis using wf by blast
qed

section \<open>The calls of the device package\<close>

text \<open>The register names a hardware device writes to and reads from.\<close>

definition motion_registers :: "string list" where
  "motion_registers = [''position'', ''velocity'', ''stop'', ''home'', ''status'']"

lemma motion_registers_not_numbers: "a \<in> set motion_registers \<Longrightarrow> go_Atoi a = None"
proof -
  have "list_all (\<lambda>a. go_Atoi a = None) motion_registers" by code_simp
  then show "a \<in> set motion_registers \<Longrightarrow> go_Atoi a = None" by (simp add: list_all_iff)
qed

lemma co_Write_motion:
  assumes "a \<in> set motion_registers"
  shows "\<exists>c' e. co_Write ops env a d (c, w) = ((c', w), Ret (Some e))"
proof (cases c)
  case (CoModbus m)
  have "\<exists>e. mc_Write (bo_modbus ops) (be_retry env) a d (m, w) = ((m, w), Ret (Some e))"
    using motion_registers_not_numbers[OF assms] by (simp add: mc_Write_def mc_parseAddress_def)
  then show ?thesis using CoModbus by (auto simp: co_lift_def)
next
  case (CoSerial s)
  have "\<exists>e. sc_Write (bo_port ops) a d (s, w) = ((s, w), Ret (Some e))"
    using motion_registers_not_numbers[OF assms]
    by (simp add: sc_Write_def sc_buildWriteCommand_def split: option.split)
  then show ?thesis using CoSerial by (auto simp: co_lift_def)
next
  case (CoCustom p)
  obtain p' e where "cpc_Write (be_custom env) a d p = (p', Ret (Some e))" using cpc_Write_fails by metis
  then show ?thesis using CoCustom by (simp add: co_pure_def)
qed

lemma co_Read_motion:
  assumes "a \<in> set motion_registers"
  shows "\<exists>c' e. co_Read ops env a n (c, w) = ((c', w), Ret (Err e))"
proof (cases c)
  case (CoModbus m)
  have "\<exists>e. mc_Read (bo_modbus ops) (be_retry env) a n (m, w) = ((m, w), Ret (Err e))"
    using motion_registers_not_numbers[OF assms] by (simp add: mc_Read_def mc_parseAddress_def)
  then show ?thesis using CoModbus by (auto simp: co_lift_def)
next
  case (CoSerial s)
  have "\<exists>e. sc_Read (bo_port ops) a n (s, w) = ((s, w), Ret (Err e))"
    using motion_registers_not_numbers[OF assms]
    by (simp add: sc_Read_def sc_buildReadCommand_def split: option.split)
  then show ?thesis using CoSerial by (auto simp: co_lift_def)
next
  case (CoCustom p)
  obtain p' e where "cpc_Read (be_custom env) a n p = (p', Ret (Err e))" using cpc_Read_fails by metis
  then show ?thesis using CoCustom by (simp add: co_pure_def)
qed

lemma hb_pass_motion:
  assumes "\<And>c w. \<exists>c' e. f (c, w) = ((c', w), Ret (k e))" "none = Ret (k e0)"
  shows "\<exists>s' e. hb_pass f none s = (s', Ret (k e)) \<and> snd s' = snd s"
proof (cases "hb_comm (fst s)")
  case (Some c)
  obtain c' e where "f (c, snd s) = ((c', snd s), Ret (k e))" using assms(1) by metis
  then show ?thesis using Some by (auto simp: hb_pass_def)
qed (use assms(2) in \<open>auto simp: hb_pass_def\<close>)

lemma hm_on_device_motion:
  assumes "\<And>s. \<exists>s' e. f s = (s', Ret (k e)) \<and> snd s' = snd s"
  shows "\<exists>m' r. hm_on_device i k f m = (m', r) \<and> hm_world m' = hm_world m \<and> (r = Blocked \<or> (\<exists>e. r = Ret (k e)))"
proof (cases rule: hm_GetDevice_cases[of i m])
  case (3 a g)
  obtain d w e where "f (hm_heap m ! a, hm_world m) = ((d, w), Ret (k e))" "w = hm_world m"
    using assms[of "(hm_heap m ! a, hm_world m)"] by auto
  then show ?thesis using 3 by (auto simp: hm_on_device_def hm_call_def)
qed (auto simp: hm_on_device_def)

text \<open>
  Every write and every read that the device package makes on the hardware layer (position,
  velocity, stop, home, status) fails, or never returns when the manager is locked, and nothing
  reaches a bus: the Modbus and the serial client take decimal addresses only, and the custom client
  gets no answer.
\<close>

theorem hardware_refuses_every_motion:
  assumes "a \<in> set motion_registers"
  shows "(\<exists>m' r. hf_WriteDevice ops env i a d m = (m', r) \<and> hm_world m' = hm_world m \<and>
            (r = Blocked \<or> (\<exists>e. r = Ret (Some e)))) \<and>
         (\<exists>m' r. hf_ReadDevice ops env i a n m = (m', r) \<and> hm_world m' = hm_world m \<and>
            (r = Blocked \<or> (\<exists>e. r = Ret (Err e))))"
proof
  have "\<exists>s' e. hb_Write ops env a d s = (s', Ret (Some e)) \<and> snd s' = snd s" for s
    unfolding hb_Write_def by (rule hb_pass_motion[where k = Some]) (use assms co_Write_motion in auto)
  then show "\<exists>m' r. hf_WriteDevice ops env i a d m = (m', r) \<and> hm_world m' = hm_world m \<and>
            (r = Blocked \<or> (\<exists>e. r = Ret (Some e)))"
    unfolding hf_WriteDevice_def hm_WriteDevice_def by (rule hm_on_device_motion)
  have "\<exists>s' e. hb_Read ops env a n s = (s', Ret (Err e)) \<and> snd s' = snd s" for s
    unfolding hb_Read_def by (rule hb_pass_motion[where k = Err]) (use assms co_Read_motion in auto)
  then show "\<exists>m' r. hf_ReadDevice ops env i a n m = (m', r) \<and> hm_world m' = hm_world m \<and>
            (r = Blocked \<or> (\<exists>e. r = Ret (Err e)))"
    unfolding hf_ReadDevice_def hm_ReadDevice_def by (rule hm_on_device_motion)
qed

text \<open>A bus on which every operation succeeds.\<close>

definition demo_bus :: "unit bus_ops" where
  "demo_bus =
     \<lparr>bo_port = \<lparr>po_open = (\<lambda>m w. (w, Ok 0)), po_close = (\<lambda>p w. (w, None)), po_write = (\<lambda>p c w. (w, None)),
                 po_read = (\<lambda>p k w. (w, [], None))\<rparr>,
      bo_modbus = \<lparr>mo_connect = (\<lambda>h w. (w, Ok 0)), mo_ReadHoldingRegisters = (\<lambda>c a q w. (w, [], None)),
                   mo_WriteMultipleRegisters = (\<lambda>c a q d w. (w, [], None))\<rparr>\<rparr>"

definition demo_bus_env :: bus_env where
  "demo_bus_env =
     \<lparr>be_retry = live_env, be_custom = \<lparr>ce_now = 0, ce_wait = CtxLive, ce_oob = (\<lambda>_. 0), ce_ord = id\<rparr>\<rparr>"

definition demo_entry :: DeviceConfig where
  "demo_entry =
     \<lparr>dc_Type = ''axis'', dc_Protocol = ''modbus_tcp'', dc_Endpoint = [],
      dc_Parameters = [(''type'', ''tcp''), (''address'', ''10.0.0.5''), (''port'', ''502'')],
      dc_Timeout = 5 * Second, dc_RetryCount = 3\<rparr>"

text \<open>The layer after its start, with one device added and connected.\<close>

definition demo_hw :: "unit HwManager" where
  "demo_hw = fst (hm_run_task demo_bus (fst (hf_AddDeviceFromConfig 0 ''axis-x'' demo_entry
     (fst (hf_Start (NewHardwareFactory ()))))))"

theorem hardware_refuses_every_motion_witness:
  "\<exists>m' r. hf_WriteDevice demo_bus demo_bus_env ''axis-x'' ''stop'' [0] demo_hw = (m', r) \<and>
     hm_world m' = () \<and> (r = Blocked \<or> (\<exists>e. r = Ret (Some e)))"
  using hardware_refuses_every_motion[of "''stop''" demo_bus demo_bus_env "''axis-x''" "[0]" demo_hw]
  by (simp add: motion_registers_def)

section \<open>Stopping the layer\<close>

lemma hf_Start_result:
  assumes "hm_mu m = Unlocked"
  shows "snd (hf_Start m) = Ret None \<and> hm_autoScan (fst (hf_Start m)) \<and> hm_mu (fst (hf_Start m)) = Unlocked"
  using assms by (auto simp: hf_Start_def hm_StartAutoScan_def with_lock_free and_then_def Let_def)

text \<open>
  Stopping the hardware layer after it was started never returns: \<open>Stop\<close> holds the manager's mutex
  when it calls \<open>StopAutoScan\<close>, which locks it again.  The mutex stays locked, so that every later
  look-up, read, write or addition of a device, by any goroutine, waits for ever too.
\<close>

theorem hardware_stop_deadlocks:
  assumes "hm_mu m = Unlocked"
  shows "let m1 = fst (hf_Start m); m2 = fst (hf_Stop ops m1) in
     snd (hf_Start m) = Ret None \<and> snd (hf_Stop ops m1) = Blocked \<and>
     snd (hm_GetDevice i m2) = Blocked \<and> snd (hf_WriteDevice ops env i a d m2) = Blocked \<and>
     snd (hm_AddDevice now cfg m2) = Blocked \<and> snd (hf_ListDevices now m2) = Blocked"
proof -
  define m1 where "m1 = fst (hf_Start m)"
  have m1: "hm_autoScan m1" "hm_mu m1 = Unlocked" "snd (hf_Start m) = Ret None"
    using hf_Start_result[OF assms(1)] by (simp_all add: m1_def)
  let ?s = "hm_mu_update (\<lambda>_. WLocked) (m1\<lparr>hm_cancelled := True\<rparr>)"
  obtain s' where s': "hm_drop_all ops (map snd (hm_devices ?s)) ?s = (s', Ret ())" "same_tables ?s s'"
    using hm_drop_all_returns by blast
  then have l: "hm_mu s' = WLocked" "hm_autoScan s'" using m1 by (simp_all add: same_tables_def)
  then have "hf_Stop ops m1 = (s', Blocked)"
    using m1(2) s'(1) by (simp add: hf_Stop_def hm_Stop_def with_lock_free hm_StopAutoScan_def with_lock_held and_then_def)
  moreover have "snd (hm_GetDevice i s') = Blocked" "snd (hf_WriteDevice ops env i a d s') = Blocked"
    "snd (hm_AddDevice now cfg s') = Blocked" "snd (hf_ListDevices now s') = Blocked"
    using l(1)
    by (simp_all add: hm_GetDevice_def with_rlock_held hf_WriteDevice_def hm_WriteDevice_def hm_on_device_def
        and_then_def hm_AddDevice_def with_lock_held hf_ListDevices_def hm_ListDeviceConfigs_def)
  ultimately show ?thesis using m1(3) unfolding m1_def[symmetric] Let_def by simp
qed

theorem hardware_stop_deadlocks_witness:
  "snd (hf_Stop demo_bus (fst (hf_Start (NewHardwareFactory ())))) = Blocked"
  using hardware_stop_deadlocks[of "NewHardwareFactory ()" demo_bus]
  by (simp add: NewHardwareFactory_def NewHwManager_def Let_def)

section \<open>What a configuration can express\<close>

lemma converted_is_string:
  "gm_get (convertStringParamsToInterface p) k = map_option VString (gm_get p k)"
  unfolding convertStringParamsToInterface_def gm_get_def by (induction p) auto

lemma get_other_types [simp]:
  "get_int (convertStringParamsToInterface p) k n = n"
  "get_bool (convertStringParamsToInterface p) k b = b"
  by (simp_all add: get_int_def get_bool_def converted_is_string split: option.split)

text \<open>
  The parameters of a device entry are strings, so the numeric and Boolean settings are never taken
  from them: every Modbus configuration has port 0, baud rate 0 and slave 0, every serial
  configuration has baud rate, data bits and stop bits 0 and no flow control, and a custom
  device has little-endian fields and no command and response definitions.
\<close>

theorem factory_ignores_numbers:
  "(\<exists>c. CreateModbusConfig dc = Ok c \<and> mf_Port c = 0 \<and> mf_BaudRate c = 0 \<and> mf_DataBits c = 0 \<and>
        mf_StopBits c = 0 \<and> mf_SlaveID c = 0) \<and>
   (\<exists>c. CreateSerialConfig dc = Ok c \<and> sf_BaudRate c = 0 \<and> sf_DataBits c = 0 \<and> sf_StopBits c = 0 \<and>
        \<not> sf_FlowControl c \<and> \<not> sf_RS485 c) \<and>
   (\<exists>c. CreateCustomConfig dc = Ok c \<and> pc_Port c = 0 \<and> \<not> pc_BigEndian c \<and> pc_MaxFrameSize c = 0) \<and>
   (case hf_CreateDeviceConfig i dc of
      Err e \<Rightarrow> True
    | Ok cfg \<Rightarrow> hc_ID cfg = i \<and> hc_commands cfg = None \<and> hc_responses cfg = None \<and> hc_AutoConnect cfg)"
proof -
  have "case hf_CreateDeviceConfig i dc of
      Err e \<Rightarrow> True
    | Ok cfg \<Rightarrow> hc_ID cfg = i \<and> hc_commands cfg = None \<and> hc_responses cfg = None \<and> hc_AutoConnect cfg"
    by (auto simp: hf_CreateDeviceConfig_def Let_def converted_is_string split: result.split option.split)
  then show ?thesis
    by (simp add: CreateModbusConfig_def CreateSerialConfig_def CreateCustomConfig_def Let_def)
qed

text \<open>Entries whose protocol the factory does not know.\<close>

definition known_protocols :: "string list" where
  "known_protocols = [''modbus_tcp'', ''modbus_rtu'', ''modbus_ascii'', ''serial'', ''custom'']"

lemma unknown_protocol:
  assumes "dc_Protocol dc \<notin> set known_protocols" "gm_get (dc_Parameters dc) ''type'' \<notin> Some ` {''tcp'', ''rtu'', ''ascii''}"
  shows "\<exists>e. hf_CreateDeviceConfig i dc = Err e"
  using assms
  by (auto simp: hf_CreateDeviceConfig_def ConvertDeviceType_def known_protocols_def converted_is_string Let_def
      split: option.split)

text \<open>
  The device manager of the device package creates a device only for an entry that the factory
  accepts, and the factory rejects the protocols \<open>mock\<close> and \<open>modbus\<close> that this manager implements: with
  the shipped configuration, whose one device is a mock, no device exists after the start, whatever
  the hardware layer does on calls for accepted entries.
\<close>

theorem mock_entries_yield_no_device:
  assumes "\<And>i dc h. (\<exists>e. hf_CreateDeviceConfig i dc = Err e) \<Longrightarrow> snd (hw_AddDeviceFromConfig hops i dc h) \<noteq> None"
    and "\<And>i dc. (i, dc) \<in> set (cfg_Devices cfg) \<Longrightarrow> dc_Protocol dc \<in> {''mock'', ''modbus''} \<and> gm_get (dc_Parameters dc) ''type'' = None"
  shows "dm_devices (fst (dm_Start hops now (NewDeviceManager cfg h))) = []"
proof -
  let ?m = "fst (dm_Start hops now (NewDeviceManager cfg h))"
  have refused: "snd (hw_AddDeviceFromConfig hops i dc h') \<noteq> None" if "(i, dc) \<in> set (cfg_Devices cfg)" for i dc h'
  proof (rule assms(1), rule unknown_protocol)
    show "dc_Protocol dc \<notin> set known_protocols" using assms(2)[OF that] by (auto simp: known_protocols_def)
    show "gm_get (dc_Parameters dc) ''type'' \<notin> Some ` {''tcp'', ''rtu'', ''ascii''}" using assms(2)[OF that] by auto
  qed
  have none: "\<not> gm_has (dm_devices ?m) j" for j
    unfolding dm_Start_def Let_def fst_conv
    by (rule dm_start_fold_keys) (use refused in \<open>auto simp: NewDeviceManager_def gm_has_def\<close>)
  have "fst ` set (dm_devices ?m) = {}" by (rule equals0I) (use none in \<open>simp only: gm_has_iff\<close>)
  then show ?thesis by (simp only: image_is_empty set_empty)
qed

text \<open>The hardware calls of the device package on an idle layer that only checks entries.\<close>

definition demo_hardware_ops :: "unit hardware_ops" where
  "demo_hardware_ops =
     \<lparr>hw_Start = (\<lambda>h. (h, None)), hw_Stop = (\<lambda>h. (h, Ret None)),
      hw_AddDeviceFromConfig = (\<lambda>i dc h. (h, case hf_CreateDeviceConfig i dc of Err e \<Rightarrow> Some e | Ok _ \<Rightarrow> None)),
      hw_ConnectDevice = (\<lambda>i h. (h, None)), hw_WriteDevice = (\<lambda>i a d h. (h, None)),
      hw_ReadDevice = (\<lambda>i a n h. (h, Ok [])), hw_ListDevices = (\<lambda>h. []),
      hw_CreateDeviceConfig = (\<lambda>i dc. case hf_CreateDeviceConfig i dc of Err e \<Rightarrow> Some e | Ok _ \<Rightarrow> None)\<rparr>"

text \<open>The devices of \<open>config.yaml\<close>.\<close>

definition shipped_devices :: "(DeviceID, DeviceConfig) gomap" where
  "shipped_devices =
     [(''device-1'', \<lparr>dc_Type = ''controller'', dc_Protocol = ''mock'', dc_Endpoint = ''mock://device-1'',
                     dc_Parameters = [], dc_Timeout = 10 * Second, dc_RetryCount = 0\<rparr>)]"

definition shipped_config :: SystemConfig where
  "shipped_config =
     \<lparr>cfg_EventLoopInterval = 10 * Millisecond, cfg_QueueSize = 1000, cfg_Devices = shipped_devices, cfg_Axes = [],
      cfg_Safety = \<lparr>sf_EnableLimits = True, sf_EnableEmergency = True, sf_MaxTemperature = f64_zero,
                    sf_MinVoltage = f64_zero, sf_WatchdogTimeout = 10 * Second\<rparr>,
      cfg_IPC = \<lparr>ipc_Type = ''tcp'', ipc_Address = ''127.0.0.1'', ipc_Port = 18080, ipc_Timeout = 5 * Second,
                 ipc_BufferSize = 1024\<rparr>,
      cfg_TaskTemplates = None, cfg_CommandMappings = None\<rparr>"

theorem mock_entries_yield_no_device_witness:
  "dm_devices (fst (dm_Start demo_hardware_ops 0 (NewDeviceManager shipped_config ()))) = []"
proof (rule mock_entries_yield_no_device)
  show "snd (hw_AddDeviceFromConfig demo_hardware_ops i dc h) \<noteq> None" if "\<exists>e. hf_CreateDeviceConfig i dc = Err e" for i dc h
    using that by (auto simp: demo_hardware_ops_def)
  show "dc_Protocol dc \<in> {''mock'', ''modbus''} \<and> gm_get (dc_Parameters dc) ''type'' = None"
    if "(i, dc) \<in> set (cfg_Devices shipped_config)" for i dc
    using that by (simp add: shipped_config_def shipped_devices_def)
qed

end
