(* ===== verification/ConfigMgr.thy ===== *)
theory ConfigMgr
  imports Interfaces
begin

text \<open>
  The configuration manager (\<open>internal/config/manager.go\<close>).  The YAML codec (\<open>gopkg.in/yaml.v3\<close>) and the
  file system are the parameter \<open>cfg_ops\<close> over the outside world \<open>'w\<close> and an abstract type \<open>'b\<close> of file
  contents.  \<open>configLock\<close> is explicit, since calls of the manager re-enter it; \<open>watchersLock\<close> guards
  single accesses to the list of watchers.  Watchers are named by numbers; \<open>cm_calls\<close> lists the calls
  \<open>go watcher(config)\<close> that were started.  The maps inside a configuration are values here: in the code
  the copies that \<open>GetConfig\<close> hands out share them with the manager.
\<close>

section \<open>State\<close>

record ('b, 'w) cfg_ops =
  fo_read :: "string \<Rightarrow> 'w \<Rightarrow> 'b result"
  fo_write :: "string \<Rightarrow> 'b \<Rightarrow> 'w \<Rightarrow> 'w \<times> goerr option"
  fo_modtime :: "string \<Rightarrow> 'w \<Rightarrow> int result"
  fo_decode :: "'b \<Rightarrow> SystemConfig result"
  fo_encode :: "SystemConfig \<Rightarrow> 'b result"

text \<open>\<open>cm_stuck\<close>: the watching goroutine waits for a lock that is never released.\<close>

record 'w ConfigManager =
  cm_config :: SystemConfig
  cm_configPath :: string
  cm_configLock :: rwmutex
  cm_watchers :: "nat list"
  cm_lastModified :: int
  cm_cancelled :: bool
  cm_watching :: bool
  cm_stuck :: bool
  cm_calls :: "(nat \<times> SystemConfig) list"
  cm_world :: 'w

definition zero_config :: SystemConfig where
  "zero_config =
     \<lparr>cfg_EventLoopInterval = 0, cfg_QueueSize = 0, cfg_Devices = [], cfg_Axes = [],
      cfg_Safety = \<lparr>sf_EnableLimits = False, sf_EnableEmergency = False, sf_MaxTemperature = f64_zero,
                    sf_MinVoltage = f64_zero, sf_WatchdogTimeout = 0\<rparr>,
      cfg_IPC = \<lparr>ipc_Type = [], ipc_Address = [], ipc_Port = 0, ipc_Timeout = 0, ipc_BufferSize = 0\<rparr>,
      cfg_TaskTemplates = None, cfg_CommandMappings = None\<rparr>"

definition NewConfigManager :: "string \<Rightarrow> 'w \<Rightarrow> 'w ConfigManager" where
  "NewConfigManager path w =
     \<lparr>cm_config = zero_config, cm_configPath = path, cm_configLock = Unlocked, cm_watchers = [],
      cm_lastModified = 0, cm_cancelled = False, cm_watching = False, cm_stuck = False, cm_calls = [],
      cm_world = w\<rparr>"

abbreviation cm_locked :: "('w ConfigManager \<Rightarrow> 'w ConfigManager \<times> 'a exec) \<Rightarrow> 'w ConfigManager \<Rightarrow> 'w ConfigManager \<times> 'a exec" where
  "cm_locked \<equiv> with_lock cm_configLock cm_configLock_update"

abbreviation cm_rlocked :: "('w ConfigManager \<Rightarrow> 'w ConfigManager \<times> 'a exec) \<Rightarrow> 'w ConfigManager \<Rightarrow> 'w ConfigManager \<times> 'a exec" where
  "cm_rlocked \<equiv> with_rlock cm_configLock cm_configLock_update"

section \<open>Validation\<close>

definition cm_defaults :: "SystemConfig \<Rightarrow> SystemConfig" where
  "cm_defaults c =
     c\<lparr>cfg_EventLoopInterval := (if cfg_EventLoopInterval c \<le> 0 then 10 * Millisecond else cfg_EventLoopInterval c),
       cfg_QueueSize := (if cfg_QueueSize c \<le> 0 then 1000 else cfg_QueueSize c),
       cfg_IPC := (cfg_IPC c)
         \<lparr>ipc_BufferSize := (if ipc_BufferSize (cfg_IPC c) \<le> 0 then 1024 else ipc_BufferSize (cfg_IPC c)),
          ipc_Timeout := (if ipc_Timeout (cfg_IPC c) \<le> 0 then 5 * Second else ipc_Timeout (cfg_IPC c))\<rparr>,
       cfg_TaskTemplates := (case cfg_TaskTemplates c of None \<Rightarrow> Some [] | Some t \<Rightarrow> Some t),
       cfg_CommandMappings := (case cfg_CommandMappings c of None \<Rightarrow> Some [] | Some t \<Rightarrow> Some t)\<rparr>"

definition cm_check_device :: "DeviceID \<times> DeviceConfig \<Rightarrow> goerr option" where
  "cm_check_device ic =
     (let (i, d) = ic in
      if dc_Type d = [] then Some (Errorf ''device %s must have a type'' [AStr i])
      else if dc_Protocol d = [] then Some (Errorf ''device %s must have a protocol'' [AStr i])
      else if dc_Endpoint d = [] then Some (Errorf ''device %s must have an endpoint'' [AStr i])
      else None)"

definition cm_check_axis :: "AxisID \<times> AxisConfig \<Rightarrow> goerr option" where
  "cm_check_axis ia =
     (let (i, a) = ia in
      if ax_DeviceID a = [] then Some (Errorf ''axis %s must have a device ID'' [AStr i])
      else if f64_le (ax_MaxVelocity a) f64_zero then Some (Errorf ''axis %s must have a positive max velocity'' [AStr i])
      else if f64_le (ax_MaxAcceleration a) f64_zero then Some (Errorf ''axis %s must have a positive max acceleration'' [AStr i])
      else if f64_ge (ax_MinPosition a) (ax_MaxPosition a) then Some (Errorf ''axis %s must have min position < max position'' [AStr i])
      else None)"

text \<open>The configuration with its defaults filled in, and the error.\<close>

definition cm_validateConfig :: "SystemConfig \<Rightarrow> SystemConfig \<times> goerr option" where
  "cm_validateConfig c0 =
     (let c = cm_defaults c0 in
      (c, if cfg_Devices c = [] then Some (Errorf ''at least one device must be configured'' [])
          else case first_error cm_check_device (cfg_Devices c) of
            Some e \<Rightarrow> Some e
          | None \<Rightarrow> first_error cm_check_axis (cfg_Axes c)))"

section \<open>Loading, reading, notifying\<close>

definition cm_LoadConfig :: "('b, 'w) cfg_ops \<Rightarrow> int \<Rightarrow> string \<Rightarrow> 'w ConfigManager \<Rightarrow> 'w ConfigManager \<times> goerr option exec" where
  "cm_LoadConfig ops now path cm0 =
     cm_locked (\<lambda>cm.
       case fo_read ops (cm_configPath cm) (cm_world cm) of
         Err e \<Rightarrow> (cm, Ret (Some (Errorf ''failed to read config file: %w'' [AErr e])))
       | Ok b \<Rightarrow>
           (case fo_decode ops b of
              Err e \<Rightarrow> (cm, Ret (Some (Errorf ''failed to parse config file: %w'' [AErr e])))
            | Ok c \<Rightarrow>
                (case cm_validateConfig c of
                   (c', Some e) \<Rightarrow> (cm, Ret (Some (Errorf ''config validation failed: %w'' [AErr e])))
                 | (c', None) \<Rightarrow> (cm\<lparr>cm_config := c', cm_lastModified := now\<rparr>, Ret None))))
       (if path \<noteq> [] then cm0\<lparr>cm_configPath := path\<rparr> else cm0)"

definition cm_Reload :: "('b, 'w) cfg_ops \<Rightarrow> int \<Rightarrow> 'w ConfigManager \<Rightarrow> 'w ConfigManager \<times> goerr option exec" where
  "cm_Reload ops now cm = cm_LoadConfig ops now (cm_configPath cm) cm"

definition cm_GetConfig :: "'w ConfigManager \<Rightarrow> 'w ConfigManager \<times> SystemConfig exec" where
  "cm_GetConfig = cm_rlocked (\<lambda>cm. (cm, Ret (cm_config cm)))"

definition cm_notifyWatchers :: "'w ConfigManager \<Rightarrow> 'w ConfigManager \<times> unit exec" where
  "cm_notifyWatchers cm =
     (let ws = cm_watchers cm in
      and_then cm_GetConfig
        (\<lambda>c cm. (cm\<lparr>cm_calls := cm_calls cm @ map (\<lambda>w. (w, c)) ws\<rparr>, Ret ())) cm)"

text \<open>The part of \<open>SetConfig\<close> inside the lock.\<close>

definition cm_set_locked ::
  "('b, 'w) cfg_ops \<Rightarrow> int \<Rightarrow> SystemConfig \<Rightarrow> 'w ConfigManager \<Rightarrow> 'w ConfigManager \<times> goerr option exec" where
  "cm_set_locked ops now c cm =
     (case cm_validateConfig c of
        (c', Some e) \<Rightarrow> (cm, Ret (Some (Errorf ''config validation failed: %w'' [AErr e])))
      | (c', None) \<Rightarrow>
          (case fo_encode ops c' of
             Err e \<Rightarrow> (cm, Ret (Some (Errorf ''failed to marshal config: %w'' [AErr e])))
           | Ok b \<Rightarrow>
               (case fo_write ops (cm_configPath cm) b (cm_world cm) of
                  (w, Some e) \<Rightarrow> (cm\<lparr>cm_world := w\<rparr>, Ret (Some (Errorf ''failed to write config file: %w'' [AErr e])))
                | (w, None) \<Rightarrow>
                    and_then cm_notifyWatchers (\<lambda>_ cm. (cm, Ret None))
                      (cm\<lparr>cm_world := w, cm_config := c', cm_lastModified := now\<rparr>))))"

definition cm_SetConfig ::
  "('b, 'w) cfg_ops \<Rightarrow> int \<Rightarrow> SystemConfig \<Rightarrow> 'w ConfigManager \<Rightarrow> 'w ConfigManager \<times> goerr option exec" where
  "cm_SetConfig ops now c = cm_locked (cm_set_locked ops now c)"

section \<open>Watching the file\<close>

definition cm_WatchChanges :: "nat \<Rightarrow> 'w ConfigManager \<Rightarrow> 'w ConfigManager" where
  "cm_WatchChanges callback cm = cm\<lparr>cm_watchers := cm_watchers cm @ [callback]\<rparr>"

definition cm_StartWatching :: "'w ConfigManager \<Rightarrow> 'w ConfigManager \<times> goerr option" where
  "cm_StartWatching cm =
     (if cm_watching cm then (cm, Some (Errorf ''config watcher is already running'' []))
      else (cm\<lparr>cm_cancelled := False, cm_watching := True, cm_stuck := False\<rparr>, None))"

text \<open>\<open>wg.Wait()\<close> does not return when the goroutine waits for the lock.\<close>

definition cm_StopWatching :: "'w ConfigManager \<Rightarrow> 'w ConfigManager \<times> goerr option exec" where
  "cm_StopWatching cm =
     (if \<not> cm_watching cm then (cm, Ret (Some (Errorf ''config watcher is not running'' [])))
      else if cm_stuck cm then (cm\<lparr>cm_cancelled := True\<rparr>, Blocked)
      else (cm\<lparr>cm_cancelled := True, cm_watching := False\<rparr>, Ret None))"

definition cm_checkFileChanges :: "('b, 'w) cfg_ops \<Rightarrow> int \<Rightarrow> 'w ConfigManager \<Rightarrow> 'w ConfigManager \<times> unit exec" where
  "cm_checkFileChanges ops now cm =
     (case fo_modtime ops (cm_configPath cm) (cm_world cm) of
        Err e \<Rightarrow> (cm, Ret ())
      | Ok t \<Rightarrow>
          (if t > cm_lastModified cm
           then and_then (cm_Reload ops now)
                  (\<lambda>r cm. case r of Some e \<Rightarrow> (cm, Ret ()) | None \<Rightarrow> cm_notifyWatchers cm) cm
           else (cm, Ret ())))"

text \<open>A tick of the watching goroutine.\<close>

definition cm_watch_tick :: "('b, 'w) cfg_ops \<Rightarrow> int \<Rightarrow> 'w ConfigManager \<Rightarrow> 'w ConfigManager \<times> unit exec" where
  "cm_watch_tick ops now cm =
     (if \<not> cm_watching cm \<or> cm_cancelled cm \<or> cm_stuck cm then (cm, Ret ())
      else case cm_checkFileChanges ops now cm of
        (cm', Blocked) \<Rightarrow> (cm'\<lparr>cm_stuck := True\<rparr>, Blocked)
      | out \<Rightarrow> out)"

section \<open>Parts of the configuration\<close>

definition cm_GetDeviceConfig :: "DeviceID \<Rightarrow> 'w ConfigManager \<Rightarrow> 'w ConfigManager \<times> DeviceConfig result exec" where
  "cm_GetDeviceConfig i = cm_rlocked (\<lambda>cm.
     (cm, Ret (case gm_get (cfg_Devices (cm_config cm)) i of
                 None \<Rightarrow> Err (Errorf ''device %s not found in configuration'' [AStr i])
               | Some c \<Rightarrow> Ok c)))"

definition cm_GetAxisConfig :: "AxisID \<Rightarrow> 'w ConfigManager \<Rightarrow> 'w ConfigManager \<times> AxisConfig result exec" where
  "cm_GetAxisConfig i = cm_rlocked (\<lambda>cm.
     (cm, Ret (case gm_get (cfg_Axes (cm_config cm)) i of
                 None \<Rightarrow> Err (Errorf ''axis %s not found in configuration'' [AStr i])
               | Some c \<Rightarrow> Ok c)))"

text \<open>The four updates change the configuration in place and call \<open>SetConfig\<close> with the lock held.\<close>

definition cm_update_with ::
  "('b, 'w) cfg_ops \<Rightarrow> int \<Rightarrow> (SystemConfig \<Rightarrow> SystemConfig exec) \<Rightarrow> 'w ConfigManager \<Rightarrow> 'w ConfigManager \<times> goerr option exec" where
  "cm_update_with ops now f cm =
     (case f (cm_config cm) of
        Panic m \<Rightarrow> (cm, Panic m)
      | Blocked \<Rightarrow> (cm, Blocked)
      | Ret c \<Rightarrow> cm_SetConfig ops now c (cm\<lparr>cm_config := c\<rparr>))"

definition cm_UpdateDeviceConfig ::
  "('b, 'w) cfg_ops \<Rightarrow> int \<Rightarrow> DeviceID \<Rightarrow> DeviceConfig \<Rightarrow> 'w ConfigManager \<Rightarrow> 'w ConfigManager \<times> goerr option exec" where
  "cm_UpdateDeviceConfig ops now i d = cm_locked (\<lambda>cm.
     if \<not> gm_has (cfg_Devices (cm_config cm)) i
     then (cm, Ret (Some (Errorf ''device %s not found in configuration'' [AStr i])))
     else cm_update_with ops now (\<lambda>c. Ret (c\<lparr>cfg_Devices := gm_set i d (cfg_Devices c)\<rparr>)) cm)"

definition cm_UpdateAxisConfig ::
  "('b, 'w) cfg_ops \<Rightarrow> int \<Rightarrow> AxisID \<Rightarrow> AxisConfig \<Rightarrow> 'w ConfigManager \<Rightarrow> 'w ConfigManager \<times> goerr option exec" where
  "cm_UpdateAxisConfig ops now i a = cm_locked (\<lambda>cm.
     if \<not> gm_has (cfg_Axes (cm_config cm)) i
     then (cm, Ret (Some (Errorf ''axis %s not found in configuration'' [AStr i])))
     else cm_update_with ops now (\<lambda>c. Ret (c\<lparr>cfg_Axes := gm_set i a (cfg_Axes c)\<rparr>)) cm)"

definition cm_templates :: "SystemConfig \<Rightarrow> (string, TaskTemplate) gomap" where
  "cm_templates c = (case cfg_TaskTemplates c of None \<Rightarrow> [] | Some t \<Rightarrow> t)"

text \<open>Storing into a nil map panics.\<close>

definition cm_put_template :: "string \<Rightarrow> TaskTemplate \<Rightarrow> SystemConfig \<Rightarrow> SystemConfig exec" where
  "cm_put_template name t c =
     (case cfg_TaskTemplates c of
        None \<Rightarrow> Panic ''assignment to entry in nil map''
      | Some m \<Rightarrow> Ret (c\<lparr>cfg_TaskTemplates := Some (gm_set name t m)\<rparr>))"

definition template_missing :: "string \<Rightarrow> goerr" where
  "template_missing name = Errorf (''task template '' @ [CHR 0x27] @ ''%s'' @ [CHR 0x27] @ '' not found'') [AStr name]"

definition template_exists :: "string \<Rightarrow> goerr" where
  "template_exists name = Errorf (''task template '' @ [CHR 0x27] @ ''%s'' @ [CHR 0x27] @ '' already exists'') [AStr name]"

definition cm_GetTaskTemplate :: "string \<Rightarrow> 'w ConfigManager \<Rightarrow> 'w ConfigManager \<times> TaskTemplate result exec" where
  "cm_GetTaskTemplate name = cm_rlocked (\<lambda>cm.
     (cm, Ret (case gm_get (cm_templates (cm_config cm)) name of
                 None \<Rightarrow> Err (template_missing name)
               | Some t \<Rightarrow> Ok t)))"

definition cm_AddTaskTemplate ::
  "('b, 'w) cfg_ops \<Rightarrow> int \<Rightarrow> string \<Rightarrow> TaskTemplate \<Rightarrow> 'w ConfigManager \<Rightarrow> 'w ConfigManager \<times> goerr option exec" where
  "cm_AddTaskTemplate ops now name t = cm_locked (\<lambda>cm.
     if gm_has (cm_templates (cm_config cm)) name then (cm, Ret (Some (template_exists name)))
     else cm_update_with ops now (cm_put_template name t) cm)"

definition cm_UpdateTaskTemplate ::
  "('b, 'w) cfg_ops \<Rightarrow> int \<Rightarrow> string \<Rightarrow> TaskTemplate \<Rightarrow> 'w ConfigManager \<Rightarrow> 'w ConfigManager \<times> goerr option exec" where
  "cm_UpdateTaskTemplate ops now name t = cm_locked (\<lambda>cm.
     if \<not> gm_has (cm_templates (cm_config cm)) name then (cm, Ret (Some (template_missing name)))
     else cm_update_with ops now (cm_put_template name t) cm)"

definition cm_RemoveTaskTemplate ::
  "('b, 'w) cfg_ops \<Rightarrow> int \<Rightarrow> string \<Rightarrow> 'w ConfigManager \<Rightarrow> 'w ConfigManager \<times> goerr option exec" where
  "cm_RemoveTaskTemplate ops now name = cm_locked (\<lambda>cm.
     if \<not> gm_has (cm_templates (cm_config cm)) name then (cm, Ret (Some (template_missing name)))
     else cm_update_with ops now
            (\<lambda>c. Ret (c\<lparr>cfg_TaskTemplates := map_option (gm_del name) (cfg_TaskTemplates c)\<rparr>)) cm)"

definition cm_ListTaskTemplates :: "'w ConfigManager \<Rightarrow> 'w ConfigManager \<times> string list exec" where
  "cm_ListTaskTemplates = cm_rlocked (\<lambda>cm. (cm, Ret (gm_keys (cm_templates (cm_config cm)))))"

section \<open>Export, import, default\<close>

definition cm_ExportConfig :: "('b, 'w) cfg_ops \<Rightarrow> string \<Rightarrow> 'w ConfigManager \<Rightarrow> 'w ConfigManager \<times> goerr option exec" where
  "cm_ExportConfig ops path = cm_rlocked (\<lambda>cm.
     case fo_encode ops (cm_config cm) of
       Err e \<Rightarrow> (cm, Ret (Some (Errorf ''failed to marshal config: %w'' [AErr e])))
     | Ok b \<Rightarrow>
         (case fo_write ops path b (cm_world cm) of
            (w, Some e) \<Rightarrow> (cm\<lparr>cm_world := w\<rparr>, Ret (Some (Errorf ''failed to write export file: %w'' [AErr e])))
          | (w, None) \<Rightarrow> (cm\<lparr>cm_world := w\<rparr>, Ret None)))"

definition cm_ImportConfig :: "('b, 'w) cfg_ops \<Rightarrow> int \<Rightarrow> string \<Rightarrow> 'w ConfigManager \<Rightarrow> 'w ConfigManager \<times> goerr option exec" where
  "cm_ImportConfig ops now path =
     and_then (cm_LoadConfig ops now path)
       (\<lambda>r cm. case r of
          Some e \<Rightarrow> (cm, Ret (Some (Errorf ''failed to import config: %w'' [AErr e])))
        | None \<Rightarrow>
            and_then cm_GetConfig
              (\<lambda>c. and_then (cm_SetConfig ops now c)
                 (\<lambda>r cm. (cm, Ret (map_option (\<lambda>e. Errorf ''failed to save imported config: %w'' [AErr e]) r)))) cm)"

definition seq_params :: "(string, goval) gomap" where
  "seq_params = [(''mode'', VString ''sequential''), (''stop_on_error'', VBool True)]"

definition home_node :: "string \<Rightarrow> string \<Rightarrow> TaskNodeConfig" where
  "home_node i axis = TaskNodeConfig i CommandHome [(''axes'', VStrings [axis])] []"

definition read_node :: "string \<Rightarrow> string \<Rightarrow> TaskNodeConfig" where
  "read_node i channel = TaskNodeConfig i CommandIO
     [(''device_id'', VString ''device-1''), (''channel'', VString channel), (''action'', VString ''read'')] []"

definition motor_node :: "string \<Rightarrow> string \<Rightarrow> f64 \<Rightarrow> TaskNodeConfig" where
  "motor_node i motor speed = TaskNodeConfig i CommandMotorControl
     [(''device_id'', VString ''device-1''), (''motor_id'', VString motor), (''action'', VString ''start''),
      (''speed'', VFloat speed)] []"

definition default_axis :: "rat \<Rightarrow> rat \<Rightarrow> rat \<Rightarrow> AxisConfig" where
  "default_axis v a p =
     \<lparr>ax_DeviceID = ''device-1'', ax_MaxVelocity = Fin v, ax_MaxAcceleration = Fin a, ax_MinPosition = Fin (- p),
      ax_MaxPosition = Fin p, ax_HomePosition = Fin 0, ax_Units = ''mm'', ax_InvertDirection = False\<rparr>"

definition default_config :: SystemConfig where
  "default_config =
     \<lparr>cfg_EventLoopInterval = 10 * Millisecond, cfg_QueueSize = 1000,
      cfg_Devices = [(''device-1'', \<lparr>dc_Type = ''controller'', dc_Protocol = ''mock'', dc_Endpoint = ''mock://device-1'',
                                    dc_Parameters = [], dc_Timeout = 10 * Second, dc_RetryCount = 0\<rparr>)],
      cfg_Axes = [(''axis-x'', default_axis 100 50 1000), (''axis-y'', default_axis 100 50 1000),
                  (''axis-z'', default_axis 50 25 500)],
      cfg_Safety = \<lparr>sf_EnableLimits = True, sf_EnableEmergency = True, sf_MaxTemperature = Fin 80,
                    sf_MinVoltage = Fin 12, sf_WatchdogTimeout = 10 * Second\<rparr>,
      cfg_IPC = \<lparr>ipc_Type = ''tcp'', ipc_Address = ''127.0.0.1'', ipc_Port = 8080, ipc_Timeout = 5 * Second,
                 ipc_BufferSize = 1024\<rparr>,
      cfg_TaskTemplates = Some
        [(''home_all'', \<lparr>tpl_Name = ''Home All Axes'', tpl_Description = ''Home all axes to their home positions'',
            tpl_Type = CommandSequence, tpl_Parameters = seq_params,
            tpl_Nodes = [home_node ''home-x'' ''axis-x'', home_node ''home-y'' ''axis-y'', home_node ''home-z'' ''axis-z''],
            tpl_Timeout = 30 * Second, tpl_Priority = PriorityHigh\<rparr>),
         (''io_check'', \<lparr>tpl_Name = ''IO Status Check'', tpl_Description = ''Check IO status before operation'',
            tpl_Type = CommandSequence, tpl_Parameters = seq_params,
            tpl_Nodes = [read_node ''check-sensor-1'' ''sensor-1'', read_node ''check-sensor-2'' ''sensor-2''],
            tpl_Timeout = 5 * Second, tpl_Priority = PriorityMedium\<rparr>),
         (''motor_start_sequence'', \<lparr>tpl_Name = ''Motor Start Sequence'',
            tpl_Description = ''Start motors with delay between each'',
            tpl_Type = CommandSequence, tpl_Parameters = seq_params,
            tpl_Nodes = [motor_node ''start-motor-1'' ''motor-1'' (Fin 100),
                         TaskNodeConfig ''delay-1'' CommandDelay
                           [(''duration'', VDuration (2 * Second)), (''unit'', VString ''s'')] [],
                         motor_node ''start-motor-2'' ''motor-2'' (Fin 150)],
            tpl_Timeout = 10 * Second, tpl_Priority = PriorityMedium\<rparr>)],
      cfg_CommandMappings = Some []\<rparr>"

definition cm_CreateDefaultConfig :: "('b, 'w) cfg_ops \<Rightarrow> int \<Rightarrow> 'w ConfigManager \<Rightarrow> 'w ConfigManager \<times> goerr option exec" where
  "cm_CreateDefaultConfig ops now = cm_SetConfig ops now default_config"

end
