(* ===== verification/ConfigMgrProps.thy ===== *)
theory ConfigMgrProps
  imports ConfigMgr
begin

text \<open>
  What validation accepts, what a reload does, and which calls of the configuration manager never
  return.
\<close>

section \<open>Validation\<close>

definition device_complete :: "DeviceConfig \<Rightarrow> bool" where
  "device_complete d \<longleftrightarrow> dc_Type d \<noteq> [] \<and> dc_Protocol d \<noteq> [] \<and> dc_Endpoint d \<noteq> []"

definition axis_acceptable :: "AxisConfig \<Rightarrow> bool" where
  "axis_acceptable a \<longleftrightarrow> ax_DeviceID a \<noteq> [] \<and> \<not> f64_le (ax_MaxVelocity a) f64_zero \<and>
     \<not> f64_le (ax_MaxAcceleration a) f64_zero \<and> \<not> f64_ge (ax_MinPosition a) (ax_MaxPosition a)"

definition config_valid :: "SystemConfig \<Rightarrow> bool" where
  "config_valid c \<longleftrightarrow>
     cfg_EventLoopInterval c > 0 \<and> cfg_QueueSize c > 0 \<and> ipc_BufferSize (cfg_IPC c) > 0 \<and> ipc_Timeout (cfg_IPC c) > 0 \<and>
     cfg_TaskTemplates c \<noteq> None \<and> cfg_CommandMappings c \<noteq> None \<and> cfg_Devices c \<noteq> [] \<and>
     (\<forall>(i, d) \<in> set (cfg_Devices c). device_complete d) \<and> (\<forall>(i, a) \<in> set (cfg_Axes c). axis_acceptable a)"

lemma check_device_None: "cm_check_device (i, d) = None \<longleftrightarrow> device_complete d"
  by (simp add: cm_check_device_def device_complete_def)

lemma check_axis_None: "cm_check_axis (i, a) = None \<longleftrightarrow> axis_acceptable a"
  by (simp add: cm_check_axis_def axis_acceptable_def)

lemma defaults_simps [simp]:
  "cfg_Devices (cm_defaults c) = cfg_Devices c" "cfg_Axes (cm_defaults c) = cfg_Axes c"
  "cfg_EventLoopInterval (cm_defaults c) > 0" "cfg_QueueSize (cm_defaults c) > 0"
  "ipc_BufferSize (cfg_IPC (cm_defaults c)) > 0" "ipc_Timeout (cfg_IPC (cm_defaults c)) > 0"
  "cfg_TaskTemplates (cm_defaults c) \<noteq> None" "cfg_CommandMappings (cm_defaults c) \<noteq> None"
  by (auto simp: cm_defaults_def split: option.split)

lemma defaults_idem: "cm_defaults (cm_defaults c) = cm_defaults c"
  by (auto simp: cm_defaults_def split: option.split)

lemma validate_fst: "fst (cm_validateConfig c) = cm_defaults c"
  by (simp add: cm_validateConfig_def Let_def)

lemma validate_ok_iff: "snd (cm_validateConfig c) = None \<longleftrightarrow> config_valid (cm_defaults c)"
proof -
  have dev: "first_error cm_check_device ds = None \<longleftrightarrow> (\<forall>(i, d) \<in> set ds. device_complete d)" for ds
    unfolding first_error_None using check_device_None by (auto split: prod.split)
  have ax: "first_error cm_check_axis as = None \<longleftrightarrow> (\<forall>(i, a) \<in> set as. axis_acceptable a)" for as
    unfolding first_error_None using check_axis_None by (auto split: prod.split)
  show ?thesis
    unfolding cm_validateConfig_def config_valid_def Let_def snd_conv dev[symmetric] ax[symmetric]
    by (simp split: option.split)
qed

lemma validate_cases:
  obtains "cm_validateConfig c = (cm_defaults c, None)" "config_valid (cm_defaults c)"
  | e where "cm_validateConfig c = (cm_defaults c, Some e)" "\<not> config_valid (cm_defaults c)"
  using validate_ok_iff[of c] validate_fst[of c] by (cases "cm_validateConfig c"; cases "snd (cm_validateConfig c)") auto

text \<open>
  Validation fills in the defaults once and for all (a second validation changes nothing) and
  accepts a configuration exactly when what results has positive sizes and times, at least one
  device, complete devices and acceptable axes.  Acceptable is what the comparisons of the code let
  through: a velocity, an acceleration or a position limit that is not a number is accepted.
\<close>

theorem config_validation_exact:
  "(snd (cm_validateConfig c) = None \<longleftrightarrow> config_valid (fst (cm_validateConfig c))) \<and>
   cm_validateConfig (fst (cm_validateConfig c)) = cm_validateConfig c \<and>
   axis_acceptable \<lparr>ax_DeviceID = ''d'', ax_MaxVelocity = NaN, ax_MaxAcceleration = NaN, ax_MinPosition = NaN,
     ax_MaxPosition = Fin 0, ax_HomePosition = NaN, ax_Units = [], ax_InvertDirection = False\<rparr>"
proof (intro conjI)
  show "snd (cm_validateConfig c) = None \<longleftrightarrow> config_valid (fst (cm_validateConfig c))"
    by (simp add: validate_ok_iff validate_fst)
  show "cm_validateConfig (fst (cm_validateConfig c)) = cm_validateConfig c"
    by (simp add: cm_validateConfig_def defaults_idem Let_def)
qed (simp add: axis_acceptable_def f64_ge_def)

section \<open>Saving\<close>

lemma notify_blocked:
  assumes "cm_configLock cm = WLocked"
  shows "cm_notifyWatchers cm = (cm, Blocked)"
  using assms by (simp add: cm_notifyWatchers_def cm_GetConfig_def with_rlock_held Let_def)

text \<open>When the configuration can be saved.\<close>

definition saves :: "('b, 'w) cfg_ops \<Rightarrow> SystemConfig \<Rightarrow> 'w ConfigManager \<Rightarrow> 'b \<Rightarrow> 'w \<Rightarrow> bool" where
  "saves ops c cm b w \<longleftrightarrow> snd (cm_validateConfig c) = None \<and> fo_encode ops (fst (cm_validateConfig c)) = Ok b \<and>
     fo_write ops (cm_configPath cm) b (cm_world cm) = (w, None)"

lemma SetConfig_saves:
  assumes "cm_configLock cm = Unlocked" "saves ops c cm b w"
  shows "cm_SetConfig ops now c cm =
     (cm\<lparr>cm_configLock := WLocked, cm_world := w, cm_config := fst (cm_validateConfig c), cm_lastModified := now\<rparr>, Blocked)"
proof -
  obtain c' where v: "cm_validateConfig c = (c', None)"
    using assms(2) by (cases "cm_validateConfig c") (simp add: saves_def)
  then show ?thesis
    using assms by (simp add: cm_SetConfig_def with_lock_free cm_set_locked_def saves_def notify_blocked)
qed

lemma SetConfig_fails:
  assumes "cm_configLock cm = Unlocked" "\<nexists>b w. saves ops c cm b w"
  obtains e w where "cm_SetConfig ops now c cm = (cm\<lparr>cm_configLock := Unlocked, cm_world := w\<rparr>, Ret (Some e))"
proof (cases "cm_validateConfig c")
  case (Pair c' r)
  have same: "cm\<lparr>cm_configLock := Unlocked, cm_world := cm_world cm\<rparr> = cm\<lparr>cm_configLock := Unlocked\<rparr>" by simp
  show ?thesis
  proof (cases r)
    case (Some e)
    then have "\<exists>e. cm_SetConfig ops now c cm = (cm\<lparr>cm_configLock := Unlocked, cm_world := cm_world cm\<rparr>, Ret (Some e))"
      using Pair assms(1) by (simp add: cm_SetConfig_def with_lock_free cm_set_locked_def)
    then show ?thesis using that by blast
  next
    case None
    show ?thesis
    proof (cases "fo_encode ops c'")
      case (Err e)
      then have "\<exists>e. cm_SetConfig ops now c cm = (cm\<lparr>cm_configLock := Unlocked, cm_world := cm_world cm\<rparr>, Ret (Some e))"
        using Pair None assms(1) by (simp add: cm_SetConfig_def with_lock_free cm_set_locked_def)
      then show ?thesis using that by blast
    next
      case (Ok b)
      obtain w e where "fo_write ops (cm_configPath cm) b (cm_world cm) = (w, Some e)"
        using assms(2) Pair None Ok
        by (cases "fo_write ops (cm_configPath cm) b (cm_world cm)"; cases "snd (fo_write ops (cm_configPath cm) b (cm_world cm))")
          (auto simp: saves_def)
      then have "\<exists>e. cm_SetConfig ops now c cm = (cm\<lparr>cm_configLock := Unlocked, cm_world := w\<rparr>, Ret (Some e))"
        using Pair None Ok assms(1) by (simp add: cm_SetConfig_def with_lock_free cm_set_locked_def)
      then show ?thesis using that by blast
    qed
  qed
qed

text \<open>
  C37. Saving a configuration returns only when it fails.  If it is valid and can be encoded and
  written, the file is written, the new configuration is in force, and the call waits for ever for
  the lock it holds (it notifies the watchers, which reads the configuration); from then on every
  access to the configuration waits too.  Otherwise it reports the error and changes no configuration.
\<close>

theorem set_config_returns_iff_it_fails:
  assumes "cm_configLock cm = Unlocked"
  shows "(\<forall>b w. saves ops c cm b w \<longrightarrow>
            (let (cm', r) = cm_SetConfig ops now c cm in
             r = Blocked \<and> cm_world cm' = w \<and> cm_config cm' = fst (cm_validateConfig c) \<and>
             snd (cm_GetConfig cm') = Blocked \<and> snd (cm_SetConfig ops now c cm') = Blocked \<and>
             snd (cm_Reload ops now cm') = Blocked)) \<and>
         ((\<nexists>b w. saves ops c cm b w) \<longrightarrow>
            (\<exists>cm' e. cm_SetConfig ops now c cm = (cm', Ret (Some e)) \<and> cm_config cm' = cm_config cm))"
proof (intro conjI impI allI)
  fix b w assume s: "saves ops c cm b w"
  show "let (cm', r) = cm_SetConfig ops now c cm in
             r = Blocked \<and> cm_world cm' = w \<and> cm_config cm' = fst (cm_validateConfig c) \<and>
             snd (cm_GetConfig cm') = Blocked \<and> snd (cm_SetConfig ops now c cm') = Blocked \<and>
             snd (cm_Reload ops now cm') = Blocked"
    unfolding SetConfig_saves[OF assms s]
    by (simp add: cm_GetConfig_def with_rlock_held cm_SetConfig_def with_lock_held cm_Reload_def cm_LoadConfig_def)
next
  assume "\<nexists>b w. saves ops c cm b w"
  then obtain e w where "cm_SetConfig ops now c cm = (cm\<lparr>cm_configLock := Unlocked, cm_world := w\<rparr>, Ret (Some e))"
    using SetConfig_fails[OF assms] by blast
  then show "\<exists>cm' e. cm_SetConfig ops now c cm = (cm', Ret (Some e)) \<and> cm_config cm' = cm_config cm" by simp
qed

text \<open>A file system of one file, whose content is the configuration itself; \<open>None\<close> is a missing file.\<close>

definition demo_fs :: "(SystemConfig, SystemConfig option) cfg_ops" where
  "demo_fs =
     \<lparr>fo_read = (\<lambda>p w. case w of None \<Rightarrow> Err (Errorf ''no such file'' []) | Some b \<Rightarrow> Ok b),
      fo_write = (\<lambda>p b w. (Some b, None)),
      fo_modtime = (\<lambda>p w. case w of None \<Rightarrow> Err (Errorf ''no such file'' []) | Some b \<Rightarrow> Ok 7),
      fo_decode = Ok, fo_encode = Ok\<rparr>"

lemma default_config_valid: "cm_validateConfig default_config = (default_config, None)"
  by (simp add: cm_validateConfig_def cm_defaults_def default_config_def Let_def cm_check_device_def cm_check_axis_def
      default_axis_def f64_zero_def)

theorem set_config_returns_iff_it_fails_witness:
  "snd (cm_SetConfig demo_fs 0 default_config (NewConfigManager ''config.yaml'' None)) = Blocked"
  using set_config_returns_iff_it_fails[of "NewConfigManager ''config.yaml'' None" demo_fs default_config 0]
  by (simp add: NewConfigManager_def saves_def demo_fs_def default_config_valid case_prod_unfold Let_def)

text \<open>
  Without a configuration file the program never starts: loading fails, and creating the default
  configuration writes the file and never returns.
\<close>

theorem first_run_never_returns:
  assumes "cm_configLock cm = Unlocked" "fo_read ops (cm_configPath cm) (cm_world cm) = Err e"
    and "fo_encode ops default_config = Ok b" "fo_write ops (cm_configPath cm) b (cm_world cm) = (w, None)"
  shows "(let (cm1, r1) = cm_LoadConfig ops now [] cm; (cm2, r2) = cm_CreateDefaultConfig ops now cm1 in
          r1 = Ret (Some (Errorf ''failed to read config file: %w'' [AErr e])) \<and> r2 = Blocked \<and> cm_world cm2 = w)"
proof -
  have load: "cm_LoadConfig ops now [] cm = (cm, Ret (Some (Errorf ''failed to read config file: %w'' [AErr e])))"
    using assms(1,2) by (simp add: cm_LoadConfig_def with_lock_free)
  have "saves ops default_config cm b w" using assms(3,4) by (simp add: saves_def default_config_valid)
  from SetConfig_saves[OF assms(1) this] load show ?thesis by (simp add: cm_CreateDefaultConfig_def)
qed

theorem first_run_never_returns_witness:
  "snd (cm_CreateDefaultConfig demo_fs 0 (fst (cm_LoadConfig demo_fs 0 [] (NewConfigManager ''config.yaml'' None)))) = Blocked"
  using first_run_never_returns[of "NewConfigManager ''config.yaml'' None" demo_fs _ default_config "Some default_config" 0]
  by (simp add: NewConfigManager_def demo_fs_def case_prod_unfold Let_def)

text \<open>
  Updating a device, an axis or a task template that exists, removing a template, and adding a new
  one to a loaded configuration never return: each calls \<open>SetConfig\<close> with the lock held.
\<close>

theorem config_updates_never_return:
  assumes "cm_configLock cm = Unlocked" "cfg_TaskTemplates (cm_config cm) = Some ts"
  shows "(gm_has (cfg_Devices (cm_config cm)) i \<longrightarrow> snd (cm_UpdateDeviceConfig ops now i d cm) = Blocked) \<and>
         (gm_has (cfg_Axes (cm_config cm)) x \<longrightarrow> snd (cm_UpdateAxisConfig ops now x a cm) = Blocked) \<and>
         (gm_has ts name \<longrightarrow> snd (cm_UpdateTaskTemplate ops now name t cm) = Blocked \<and>
                            snd (cm_RemoveTaskTemplate ops now name cm) = Blocked) \<and>
         (\<not> gm_has ts name \<longrightarrow> snd (cm_AddTaskTemplate ops now name t cm) = Blocked)"
  using assms
  by (simp add: cm_UpdateDeviceConfig_def cm_UpdateAxisConfig_def cm_UpdateTaskTemplate_def cm_RemoveTaskTemplate_def
      cm_AddTaskTemplate_def with_lock_free cm_update_with_def cm_SetConfig_def with_lock_held cm_templates_def
      cm_put_template_def)

theorem config_updates_never_return_witness:
  "snd (cm_UpdateDeviceConfig demo_fs 0 ''device-1'' (snd (hd (cfg_Devices default_config)))
     ((NewConfigManager ''config.yaml'' None)\<lparr>cm_config := default_config\<rparr>)) = Blocked"
  using config_updates_never_return[of "(NewConfigManager ''config.yaml'' None)\<lparr>cm_config := default_config\<rparr>" "the (cfg_TaskTemplates default_config)" "''device-1''"
      demo_fs 0 "snd (hd (cfg_Devices default_config))"]
  by (simp add: NewConfigManager_def default_config_def gm_has_def gm_get_def)

section \<open>Reloading\<close>

lemma cm_Reload_eq: "cm_Reload ops now cm = cm_LoadConfig ops now [] cm"
proof -
  have "(if cm_configPath cm \<noteq> [] then cm\<lparr>cm_configPath := cm_configPath cm\<rparr> else cm) = cm" by simp
  then show ?thesis unfolding cm_Reload_def cm_LoadConfig_def by simp
qed

text \<open>
  C38. A tick of the file watcher with a free lock returns, and either leaves the configuration in force
  and calls nobody, or puts the validated content of a newer file in force and hands it to every
  watcher once; an invalid file never replaces a configuration.
\<close>

theorem config_reload_keeps_last_good:
  assumes "cm_configLock cm = Unlocked"
  shows "snd (cm_watch_tick ops now cm) = Ret () \<and>
    (let cm' = fst (cm_watch_tick ops now cm) in
     cm_config cm' = cm_config cm \<and> cm_calls cm' = cm_calls cm \<or>
     (\<exists>b c t. fo_read ops (cm_configPath cm) (cm_world cm) = Ok b \<and> fo_decode ops b = Ok c \<and>
        fo_modtime ops (cm_configPath cm) (cm_world cm) = Ok t \<and> t > cm_lastModified cm \<and>
        cm_config cm' = cm_defaults c \<and> config_valid (cm_config cm') \<and>
        cm_calls cm' = cm_calls cm @ map (\<lambda>w. (w, cm_config cm')) (cm_watchers cm)))"
proof (cases "cm_watching cm \<and> \<not> cm_cancelled cm \<and> \<not> cm_stuck cm")
  case False
  then show ?thesis by (auto simp: cm_watch_tick_def Let_def)
next
  case on: True
  show ?thesis
  proof (cases "fo_modtime ops (cm_configPath cm) (cm_world cm)")
    case (Err e)
    then show ?thesis using on by (simp add: cm_watch_tick_def cm_checkFileChanges_def)
  next
    case time: (Ok t)
    show ?thesis
    proof (cases "t > cm_lastModified cm")
      case False
      then show ?thesis using on time by (simp add: cm_watch_tick_def cm_checkFileChanges_def)
    next
      case newer: True
      note tick = cm_watch_tick_def cm_checkFileChanges_def cm_Reload_eq on time newer
      show ?thesis
      proof (cases "fo_read ops (cm_configPath cm) (cm_world cm)")
        case (Err e)
        then show ?thesis using assms by (simp add: tick cm_LoadConfig_def with_lock_free and_then_def)
      next
        case read: (Ok b)
        show ?thesis
        proof (cases "fo_decode ops b")
          case (Err e)
          then show ?thesis
            using assms read by (simp add: tick cm_LoadConfig_def with_lock_free and_then_def)
        next
          case dec: (Ok c)
          show ?thesis
          proof (cases rule: validate_cases[of c])
            case 1
            then show ?thesis
              using assms read dec
              by (simp add: tick cm_LoadConfig_def with_lock_free and_then_def cm_notifyWatchers_def cm_GetConfig_def
                  with_rlock_free Let_def)
          next
            case (2 e)
            then show ?thesis
              using assms read dec by (simp add: tick cm_LoadConfig_def with_lock_free and_then_def)
          qed
        qed
      qed
    qed
  qed
qed

definition demo_cm :: "SystemConfig option ConfigManager" where
  "demo_cm = fst (cm_StartWatching (cm_WatchChanges 1 (NewConfigManager ''config.yaml'' (Some default_config))))"

theorem config_reload_keeps_last_good_witness:
  "snd (cm_watch_tick demo_fs 9 demo_cm) = Ret ()"
  using config_reload_keeps_last_good[of demo_cm demo_fs 9]
  by (simp add: demo_cm_def NewConfigManager_def cm_WatchChanges_def cm_StartWatching_def)

end
