(* ===== verification/Ipc.thy ===== *)
theory Ipc
  imports Interfaces
begin

text \<open>
  The IPC server and client (\<open>internal/ipc/server.go\<close>, \<open>internal/ipc/client.go\<close>).  The TCP stack and the
  JSON codec of the standard library are the parameters \<open>net_ops\<close> over the outside world \<open>'w\<close>:
  connections are numbers, a frame is a value of type \<open>'b\<close>.  Message handlers are named by numbers, and
  their calls are listed in order.  Goroutines are turns: one pass of the goroutine's loop; where a
  \<open>select\<close> has several ready cases the turn takes the choice as an argument.  Clients are shared by
  reference, so they live in a store and the table holds addresses.
\<close>

record ('b, 'w) net_ops =
  no_listen :: "string \<Rightarrow> int \<Rightarrow> 'w \<Rightarrow> 'w \<times> goerr option"
  no_dial :: "string \<Rightarrow> int \<Rightarrow> Duration \<Rightarrow> 'w \<Rightarrow> 'w \<times> nat result"
  no_close :: "nat \<Rightarrow> 'w \<Rightarrow> 'w"
  no_set_deadline :: "nat \<Rightarrow> 'w \<Rightarrow> 'w \<times> goerr option"
  no_send :: "nat \<Rightarrow> 'b \<Rightarrow> 'w \<Rightarrow> 'w \<times> goerr option"
  no_marshal :: "IPCMessage \<Rightarrow> 'b result"

section \<open>Server state\<close>

record 'b ipc_conn =
  ic_ID :: string
  ic_Conn :: nat
  ic_Send :: "'b chan"
  ic_Active :: bool
  ic_closed :: bool

record ('b, 'w) IPCServer =
  is_config :: IPCConfig
  is_heap :: "'b ipc_conn list"
  is_clients :: "(string, nat) gomap"
  is_handlers :: "(string, nat) gomap"
  is_listening :: bool
  is_ctxDone :: bool
  is_acceptors :: nat
  is_readers :: "nat list"
  is_senders :: "nat list"
  is_calls :: "(nat \<times> IPCMessage) list"
  is_world :: 'w

definition NewIPCServer :: "IPCConfig \<Rightarrow> 'w \<Rightarrow> ('b, 'w) IPCServer" where
  "NewIPCServer cfg w =
     \<lparr>is_config = cfg, is_heap = [], is_clients = [], is_handlers = [], is_listening = False,
      is_ctxDone = False, is_acceptors = 0, is_readers = [], is_senders = [], is_calls = [], is_world = w\<rparr>"

definition is_Start :: "('b, 'w) net_ops \<Rightarrow> ('b, 'w) IPCServer \<Rightarrow> ('b, 'w) IPCServer \<times> goerr option" where
  "is_Start net s =
     (case no_listen net (ipc_Address (is_config s)) (ipc_Port (is_config s)) (is_world s) of
        (w, Some e) \<Rightarrow> (s\<lparr>is_world := w\<rparr>, Some (Errorf ''failed to start IPC server: %w'' [AErr e]))
      | (w, None) \<Rightarrow>
          (s\<lparr>is_world := w, is_listening := True, is_acceptors := Suc (is_acceptors s)\<rparr>, None))"

section \<open>Closing a client\<close>

text \<open>
  The \<open>select\<close> that looks whether the send channel is closed receives from it: a buffered frame is
  taken out, and then the channel stays open.
\<close>

definition is_safeCloseClient :: "('b, 'w) net_ops \<Rightarrow> nat \<Rightarrow> ('b, 'w) IPCServer \<Rightarrow> ('b, 'w) IPCServer" where
  "is_safeCloseClient net a s =
     (let c = is_heap s ! a in
      if ic_closed c then s
      else
        let send = (case ch_recv (ic_Send c) of
              Some (ch, _) \<Rightarrow> ch
            | None \<Rightarrow> fst (ch_close (ic_Send c)))
        in s\<lparr>is_heap := (is_heap s)[a := c\<lparr>ic_closed := True, ic_Send := send, ic_Active := False\<rparr>],
             is_world := no_close net (ic_Conn c) (is_world s)\<rparr>)"

section \<open>The server's goroutines\<close>

text \<open>One pass of the accepting goroutine; \<open>conn\<close> is what \<open>Accept\<close> returned.\<close>

definition is_accept_turn ::
  "int \<Rightarrow> nat result \<Rightarrow> ('b, 'w) IPCServer \<Rightarrow> ('b, 'w) IPCServer" where
  "is_accept_turn now conn s =
     (if is_acceptors s = 0 then s
      else if is_ctxDone s then s\<lparr>is_acceptors := is_acceptors s - 1\<rparr>
      else case conn of
        Err e \<Rightarrow> s
      | Ok k \<Rightarrow>
          (let i = ''client-'' @ int_dec now; a = length (is_heap s);
               c = \<lparr>ic_ID = i, ic_Conn = k, ic_Send = mk_chan (nat (ipc_BufferSize (is_config s))),
                    ic_Active = True, ic_closed = False\<rparr>
           in s\<lparr>is_heap := is_heap s @ [c], is_clients := gm_set i a (is_clients s),
                is_readers := is_readers s @ [a], is_senders := is_senders s @ [a]\<rparr>))"

definition is_routeMessage :: "IPCMessage \<Rightarrow> ('b, 'w) IPCServer \<Rightarrow> ('b, 'w) IPCServer" where
  "is_routeMessage msg s =
     (case gm_get (is_handlers s) (msg_Type msg) of
        None \<Rightarrow> s
      | Some h \<Rightarrow> s\<lparr>is_calls := is_calls s @ [(h, msg)]\<rparr>)"

text \<open>
  One pass of a reading goroutine; \<open>decoded\<close> is what the decoder delivers.  Whenever the goroutine
  ends, the deferred call closes the client.
\<close>

definition is_read_end :: "('b, 'w) net_ops \<Rightarrow> nat \<Rightarrow> ('b, 'w) IPCServer \<Rightarrow> ('b, 'w) IPCServer" where
  "is_read_end net a s = is_safeCloseClient net a (s\<lparr>is_readers := remove1 a (is_readers s)\<rparr>)"

definition is_read_turn ::
  "('b, 'w) net_ops \<Rightarrow> nat \<Rightarrow> IPCMessage result \<Rightarrow> ('b, 'w) IPCServer \<Rightarrow> ('b, 'w) IPCServer" where
  "is_read_turn net a decoded s =
     (let c = is_heap s ! a in
      if a \<notin> set (is_readers s) then s
      else if is_ctxDone s \<or> ic_closed c then is_read_end net a s
      else case no_set_deadline net (ic_Conn c) (is_world s) of
        (w, Some e) \<Rightarrow> is_read_end net a (s\<lparr>is_world := w\<rparr>)
      | (w, None) \<Rightarrow>
          (case decoded of
             Err e \<Rightarrow> is_read_end net a (s\<lparr>is_world := w\<rparr>)
           | Ok msg \<Rightarrow>
               is_routeMessage (msg\<lparr>msg_Source := ic_ID c\<rparr>)
                 (s\<lparr>is_world := fst (no_set_deadline net (ic_Conn c) w)\<rparr>)))"

text \<open>
  One pass of a sending goroutine.  \<open>prefer_data\<close> is the choice of the \<open>select\<close> when a frame is ready and
  the client or the server is closing.
\<close>

definition is_send_end :: "nat \<Rightarrow> ('b, 'w) IPCServer \<Rightarrow> ('b, 'w) IPCServer" where
  "is_send_end a s = s\<lparr>is_senders := remove1 a (is_senders s)\<rparr>"

definition is_send_turn ::
  "('b, 'w) net_ops \<Rightarrow> bool \<Rightarrow> nat \<Rightarrow> ('b, 'w) IPCServer \<Rightarrow> ('b, 'w) IPCServer" where
  "is_send_turn net prefer_data a s =
     (let c = is_heap s ! a in
      if a \<notin> set (is_senders s) then s
      else if (is_ctxDone s \<or> ic_closed c) \<and> (\<not> prefer_data \<or> ch_recv (ic_Send c) = None) then is_send_end a s
      else case ch_recv (ic_Send c) of
        None \<Rightarrow> s
      | Some (ch, d) \<Rightarrow>
          (let s1 = s\<lparr>is_heap := (is_heap s)[a := c\<lparr>ic_Send := ch\<rparr>]\<rparr> in
           case d of
             None \<Rightarrow> is_send_end a s1
           | Some frame \<Rightarrow>
               if \<not> ic_Active c then is_send_end a s1
               else case no_set_deadline net (ic_Conn c) (is_world s1) of
                 (w, Some e) \<Rightarrow> is_send_end a (s1\<lparr>is_world := w\<rparr>)
               | (w, None) \<Rightarrow>
                   (case no_send net (ic_Conn c) frame w of
                      (w', Some e) \<Rightarrow> is_send_end a (s1\<lparr>is_world := w'\<rparr>)
                    | (w', None) \<Rightarrow> s1\<lparr>is_world := fst (no_set_deadline net (ic_Conn c) w')\<rparr>)))"

section \<open>The server's calls\<close>

text \<open>
  \<open>Stop\<close> up to the point where it waits for the goroutines, and the wait: it ends when all are gone.
\<close>

definition is_Stop_begin :: "('b, 'w) net_ops \<Rightarrow> ('b, 'w) IPCServer \<Rightarrow> ('b, 'w) IPCServer" where
  "is_Stop_begin net s =
     (let s1 = s\<lparr>is_ctxDone := True, is_listening := False\<rparr>;
          s2 = fold (\<lambda>(i, a). is_safeCloseClient net a) (is_clients s1) s1
      in s2\<lparr>is_clients := []\<rparr>)"

definition is_Stop_finish :: "('b, 'w) IPCServer \<Rightarrow> ('b, 'w) IPCServer \<times> goerr option exec" where
  "is_Stop_finish s =
     (if is_acceptors s = 0 \<and> is_readers s = [] \<and> is_senders s = [] then (s, Ret None) else (s, Blocked))"

text \<open>One client of a broadcast.\<close>

definition is_broadcast_one :: "'b \<Rightarrow> nat \<Rightarrow> ('b, 'w) IPCServer \<Rightarrow> ('b, 'w) IPCServer \<times> unit exec" where
  "is_broadcast_one d a s =
     (let c = is_heap s ! a in
      if \<not> ic_Active c then (s, Ret ())
      else case ch_try_send d (ic_Send c) of
        (ch, Panic m) \<Rightarrow> (s, Panic m)
      | (ch, Blocked) \<Rightarrow> (s, Blocked)
      | (ch, Ret _) \<Rightarrow> (s\<lparr>is_heap := (is_heap s)[a := c\<lparr>ic_Send := ch\<rparr>]\<rparr>, Ret ()))"

fun is_broadcast_all :: "'b \<Rightarrow> nat list \<Rightarrow> ('b, 'w) IPCServer \<Rightarrow> ('b, 'w) IPCServer \<times> unit exec" where
  "is_broadcast_all d [] s = (s, Ret ())"
| "is_broadcast_all d (a # as) s = and_then (is_broadcast_one d a) (\<lambda>_. is_broadcast_all d as) s"

definition is_Broadcast ::
  "('b, 'w) net_ops \<Rightarrow> IPCMessage \<Rightarrow> ('b, 'w) IPCServer \<Rightarrow> ('b, 'w) IPCServer \<times> goerr option exec" where
  "is_Broadcast net msg s =
     (case no_marshal net msg of
        Err e \<Rightarrow> (s, Ret (Some (Errorf ''failed to marshal message: %w'' [AErr e])))
      | Ok d \<Rightarrow> and_then (is_broadcast_all d (map snd (is_clients s))) (\<lambda>_ s. (s, Ret None)) s)"

text \<open>
  \<open>SendToClient\<close> in two steps, since other goroutines run between its checks and its \<open>select\<close>.  The first
  step yields the frame and the client.  In the second, \<open>prefer_closed\<close> is the choice when the channel
  \<open>closed\<close> is ready as well as the send; a send on a closed channel is ready, and panics when chosen.
\<close>

definition is_send_check ::
  "('b, 'w) net_ops \<Rightarrow> string \<Rightarrow> IPCMessage \<Rightarrow> ('b, 'w) IPCServer \<Rightarrow> ('b \<times> nat) result" where
  "is_send_check net i msg s =
     (case no_marshal net msg of
        Err e \<Rightarrow> Err (Errorf ''failed to marshal message: %w'' [AErr e])
      | Ok d \<Rightarrow>
          (case gm_get (is_clients s) i of
             None \<Rightarrow> Err (Errorf ''client not found: %s'' [AStr i])
           | Some a \<Rightarrow>
               if \<not> ic_Active (is_heap s ! a) then Err (Errorf ''client not active: %s'' [AStr i]) else Ok (d, a)))"

definition is_send_select ::
  "bool \<Rightarrow> string \<Rightarrow> 'b \<Rightarrow> nat \<Rightarrow> ('b, 'w) IPCServer \<Rightarrow> ('b, 'w) IPCServer \<times> goerr option exec" where
  "is_send_select prefer_closed i d a s =
     (let c = is_heap s ! a in
      if ic_closed c \<and> prefer_closed then (s, Ret (Some (Errorf ''client closed: %s'' [AStr i])))
      else case ch_try_send d (ic_Send c) of
        (ch, Panic m) \<Rightarrow> (s, Panic m)
      | (ch, Blocked) \<Rightarrow> (s, Blocked)
      | (ch, Ret True) \<Rightarrow> (s\<lparr>is_heap := (is_heap s)[a := c\<lparr>ic_Send := ch\<rparr>]\<rparr>, Ret None)
      | (ch, Ret False) \<Rightarrow>
          if ic_closed c then (s, Ret (Some (Errorf ''client closed: %s'' [AStr i])))
          else (s, Ret (Some (Errorf ''send timeout for client: %s'' [AStr i]))))"

definition is_SendToClient ::
  "('b, 'w) net_ops \<Rightarrow> bool \<Rightarrow> string \<Rightarrow> IPCMessage \<Rightarrow> ('b, 'w) IPCServer \<Rightarrow> ('b, 'w) IPCServer \<times> goerr option exec" where
  "is_SendToClient net prefer_closed i msg s =
     (case is_send_check net i msg s of
        Err e \<Rightarrow> (s, Ret (Some e))
      | Ok (d, a) \<Rightarrow> is_send_select prefer_closed i d a s)"

definition is_RegisterHandler :: "string \<Rightarrow> nat \<Rightarrow> ('b, 'w) IPCServer \<Rightarrow> ('b, 'w) IPCServer" where
  "is_RegisterHandler ty h s = s\<lparr>is_handlers := gm_set ty h (is_handlers s)\<rparr>"

section \<open>The client\<close>

record ('b, 'w) IPCClient =
  cl_config :: IPCConfig
  cl_conn :: "nat option"
  cl_receiveChan :: "IPCMessage chan"
  cl_sendChan :: "'b chan"
  cl_handlers :: "(string, nat) gomap"
  cl_ctxDone :: bool
  cl_connected :: bool
  cl_readers :: nat
  cl_senders :: nat
  cl_calls :: "(nat \<times> IPCMessage) list"
  cl_world :: 'w

definition NewIPCClient :: "IPCConfig \<Rightarrow> 'w \<Rightarrow> ('b, 'w) IPCClient" where
  "NewIPCClient cfg w =
     \<lparr>cl_config = cfg, cl_conn = None, cl_receiveChan = mk_chan (nat (ipc_BufferSize cfg)),
      cl_sendChan = mk_chan (nat (ipc_BufferSize cfg)), cl_handlers = [], cl_ctxDone = False, cl_connected = False,
      cl_readers = 0, cl_senders = 0, cl_calls = [], cl_world = w\<rparr>"

definition cl_Connect :: "('b, 'w) net_ops \<Rightarrow> ('b, 'w) IPCClient \<Rightarrow> ('b, 'w) IPCClient \<times> goerr option" where
  "cl_Connect net c =
     (case no_dial net (ipc_Address (cl_config c)) (ipc_Port (cl_config c)) (ipc_Timeout (cl_config c)) (cl_world c) of
        (w, Err e) \<Rightarrow> (c\<lparr>cl_world := w, cl_conn := None\<rparr>, Some (Errorf ''failed to connect to IPC server: %w'' [AErr e]))
      | (w, Ok k) \<Rightarrow>
          (c\<lparr>cl_world := w, cl_conn := Some k, cl_connected := True, cl_readers := Suc (cl_readers c),
             cl_senders := Suc (cl_senders c)\<rparr>, None))"

text \<open>\<open>select { case <-ch: default: close(ch) }\<close>.\<close>

definition drain_or_close :: "'a chan \<Rightarrow> 'a chan" where
  "drain_or_close c = (case ch_recv c of Some (c', _) \<Rightarrow> c' | None \<Rightarrow> fst (ch_close c))"

text \<open>\<open>Disconnect\<close> waits three seconds at most for the goroutines, and returns in any case.\<close>

definition cl_Disconnect :: "('b, 'w) net_ops \<Rightarrow> ('b, 'w) IPCClient \<Rightarrow> ('b, 'w) IPCClient" where
  "cl_Disconnect net c =
     (if \<not> cl_connected c then c
      else c\<lparr>cl_ctxDone := True, cl_connected := False,
             cl_world := (case cl_conn c of
                 None \<Rightarrow> cl_world c
               | Some k \<Rightarrow> no_close net k (fst (no_set_deadline net k (cl_world c)))),
             cl_receiveChan := drain_or_close (cl_receiveChan c),
             cl_sendChan := drain_or_close (cl_sendChan c)\<rparr>)"

text \<open>\<open>prefer_done\<close> is the choice when the client is shutting down and the send is ready.\<close>

definition cl_Send ::
  "('b, 'w) net_ops \<Rightarrow> bool \<Rightarrow> IPCMessage \<Rightarrow> ('b, 'w) IPCClient \<Rightarrow> ('b, 'w) IPCClient \<times> goerr option exec" where
  "cl_Send net prefer_done msg c =
     (if \<not> cl_connected c then (c, Ret (Some (Errorf ''not connected to server'' [])))
      else case no_marshal net msg of
        Err e \<Rightarrow> (c, Ret (Some (Errorf ''failed to marshal message: %w'' [AErr e])))
      | Ok d \<Rightarrow>
          (if cl_ctxDone c \<and> prefer_done then (c, Ret (Some (Errorf ''client shutting down'' [])))
           else case ch_try_send d (cl_sendChan c) of
             (ch, Panic m) \<Rightarrow> (c, Panic m)
           | (ch, Blocked) \<Rightarrow> (c, Blocked)
           | (ch, Ret True) \<Rightarrow> (c\<lparr>cl_sendChan := ch\<rparr>, Ret None)
           | (ch, Ret False) \<Rightarrow>
               if cl_ctxDone c then (c, Ret (Some (Errorf ''client shutting down'' [])))
               else (c, Ret (Some (Errorf ''send timeout'' [])))))"

definition cl_RegisterHandler :: "string \<Rightarrow> nat \<Rightarrow> ('b, 'w) IPCClient \<Rightarrow> ('b, 'w) IPCClient" where
  "cl_RegisterHandler ty h c = c\<lparr>cl_handlers := gm_set ty h (cl_handlers c)\<rparr>"

definition cl_routeMessage ::
  "bool \<Rightarrow> IPCMessage \<Rightarrow> ('b, 'w) IPCClient \<Rightarrow> ('b, 'w) IPCClient \<times> unit exec" where
  "cl_routeMessage prefer_done msg c =
     (case gm_get (cl_handlers c) (msg_Type msg) of
        Some h \<Rightarrow> (c\<lparr>cl_calls := cl_calls c @ [(h, msg)]\<rparr>, Ret ())
      | None \<Rightarrow>
          (if cl_ctxDone c \<and> prefer_done then (c, Ret ())
           else case ch_try_send msg (cl_receiveChan c) of
             (ch, Panic m) \<Rightarrow> (c, Panic m)
           | (ch, Blocked) \<Rightarrow> (c, Blocked)
           | (ch, Ret _) \<Rightarrow> (c\<lparr>cl_receiveChan := ch\<rparr>, Ret ())))"

text \<open>
  One pass of the receiving goroutine.  Its \<open>select\<close> also receives from \<open>receiveChan\<close>: when a message is
  queued there, it is taken out and the goroutine ends.
\<close>

definition cl_receive_turn ::
  "('b, 'w) net_ops \<Rightarrow> bool \<Rightarrow> IPCMessage result \<Rightarrow> ('b, 'w) IPCClient \<Rightarrow> ('b, 'w) IPCClient \<times> unit exec" where
  "cl_receive_turn net prefer_done decoded c =
     (let stop = (\<lambda>c. (c\<lparr>cl_readers := cl_readers c - 1\<rparr>, Ret ())) in
      if cl_readers c = 0 then (c, Ret ())
      else if cl_ctxDone c \<and> (prefer_done \<or> ch_recv (cl_receiveChan c) = None) then stop c
      else case ch_recv (cl_receiveChan c) of
        Some (ch, _) \<Rightarrow> stop (c\<lparr>cl_receiveChan := ch\<rparr>)
      | None \<Rightarrow>
          (case cl_conn c of
             None \<Rightarrow> (c, Panic ''nil pointer dereference'')
           | Some k \<Rightarrow>
               (case no_set_deadline net k (cl_world c) of
                  (w, Some e) \<Rightarrow> stop (c\<lparr>cl_world := w, cl_connected := False\<rparr>)
                | (w, None) \<Rightarrow>
                    (case decoded of
                       Err e \<Rightarrow> stop (c\<lparr>cl_world := w, cl_connected := False\<rparr>)
                     | Ok msg \<Rightarrow>
                         cl_routeMessage prefer_done msg (c\<lparr>cl_world := fst (no_set_deadline net k w)\<rparr>)))))"

text \<open>
  One pass of the sending goroutine.  Two cases of its \<open>select\<close> receive from \<open>sendChan\<close>, and which one
  takes a queued frame is a random choice: the case written for a closed channel drops the frame and ends the
  goroutine.
\<close>

datatype send_case = CaseDone | CaseExit | CaseData

definition cl_send_turn ::
  "('b, 'w) net_ops \<Rightarrow> send_case \<Rightarrow> ('b, 'w) IPCClient \<Rightarrow> ('b, 'w) IPCClient \<times> unit exec" where
  "cl_send_turn net choice c =
     (let stop = (\<lambda>c. (c\<lparr>cl_senders := cl_senders c - 1\<rparr>, Ret ())) in
      if cl_senders c = 0 then (c, Ret ())
      else if cl_ctxDone c \<and> (choice = CaseDone \<or> ch_recv (cl_sendChan c) = None) then stop c
      else case ch_recv (cl_sendChan c) of
        None \<Rightarrow> (c, Ret ())
      | Some (ch, d) \<Rightarrow>
          (let c1 = c\<lparr>cl_sendChan := ch\<rparr> in
           if choice = CaseExit then stop c1
           else case d of
             None \<Rightarrow> stop c1
           | Some frame \<Rightarrow>
               if \<not> cl_connected c1 then stop c1
               else case cl_conn c1 of
                 None \<Rightarrow> (c1, Panic ''nil pointer dereference'')
               | Some k \<Rightarrow>
                   (case no_set_deadline net k (cl_world c1) of
                      (w, Some e) \<Rightarrow> stop (c1\<lparr>cl_world := w, cl_connected := False\<rparr>)
                    | (w, None) \<Rightarrow>
                        (case no_send net k frame w of
                           (w', Some e) \<Rightarrow> stop (c1\<lparr>cl_world := w', cl_connected := False\<rparr>)
                         | (w', None) \<Rightarrow> (c1\<lparr>cl_world := fst (no_set_deadline net k w')\<rparr>, Ret ())))))"

end
