(* ===== verification/IpcProps.thy ===== *)
theory IpcProps
  imports Ipc
begin

text \<open>
  The server as a step relation over the turns of its goroutines and its calls, with an invariant of every
  reachable state; the race between sending to a client and closing it; the client table, which only
  \<open>Stop\<close> empties; the client's goroutines, which take messages for the end of a channel.
\<close>

section \<open>Server steps\<close>

inductive is_step :: "('b, 'w) net_ops \<Rightarrow> ('b, 'w) IPCServer \<Rightarrow> ('b, 'w) IPCServer \<Rightarrow> bool" for net where
  StepStart: "is_step net s (fst (is_Start net s))"
| StepAccept: "is_step net s (is_accept_turn now conn s)"
| StepRead: "is_step net s (is_read_turn net a decoded s)"
| StepSend: "is_step net s (is_send_turn net prefer a s)"
| StepRegister: "is_step net s (is_RegisterHandler ty h s)"
| StepBroadcast: "is_step net s (fst (is_Broadcast net msg s))"
| StepSelect: "a < length (is_heap s) \<Longrightarrow> is_step net s (fst (is_send_select prefer i d a s))"
| StepStop: "is_step net s (is_Stop_begin net s)"

inductive_cases is_stepE: "is_step net s t"

definition is_conn_ok :: "'b ipc_conn \<Rightarrow> bool" where
  "is_conn_ok c \<longleftrightarrow> (if ic_closed c then \<not> ic_Active c else ic_Active c \<and> \<not> ch_closed (ic_Send c))"

definition is_wf :: "('b, 'w) IPCServer \<Rightarrow> bool" where
  "is_wf s \<longleftrightarrow>
     (\<forall>c \<in> set (is_heap s). is_conn_ok c) \<and> gm_wf (is_clients s) \<and>
     (\<forall>(i, a) \<in> set (is_clients s). a < length (is_heap s) \<and> ic_ID (is_heap s ! a) = i) \<and>
     (\<forall>a \<in> set (is_readers s) \<union> set (is_senders s). a < length (is_heap s)) \<and>
     (\<forall>(h, m) \<in> set (is_calls s). \<exists>c \<in> set (is_heap s). msg_Source m = ic_ID c)"

lemma is_wf_simps [simp]:
  "is_wf (s\<lparr>is_world := w\<rparr>) = is_wf s"
  "is_wf (s\<lparr>is_listening := b\<rparr>) = is_wf s"
  "is_wf (s\<lparr>is_ctxDone := b\<rparr>) = is_wf s"
  "is_wf (s\<lparr>is_acceptors := n\<rparr>) = is_wf s"
  "is_wf (s\<lparr>is_handlers := hs\<rparr>) = is_wf s"
  by (simp_all add: is_wf_def)

lemma is_wf_readers: "is_wf s \<Longrightarrow> is_wf (s\<lparr>is_readers := remove1 a (is_readers s)\<rparr>)"
  by (auto simp: is_wf_def ball_Un dest: notin_set_remove1)

lemma is_wf_senders: "is_wf s \<Longrightarrow> is_wf (s\<lparr>is_senders := remove1 a (is_senders s)\<rparr>)"
  by (auto simp: is_wf_def ball_Un dest: notin_set_remove1)

lemma is_wf_no_clients: "is_wf s \<Longrightarrow> is_wf (s\<lparr>is_clients := []\<rparr>)"
  by (simp add: is_wf_def)

text \<open>Replacing a client by one that is in order and has the same identity.\<close>

lemma is_wf_ids:
  "is_wf s \<longleftrightarrow>
     (let ids = map ic_ID (is_heap s) in
      (\<forall>c \<in> set (is_heap s). is_conn_ok c) \<and> gm_wf (is_clients s) \<and>
      (\<forall>p \<in> set (is_clients s). snd p < length ids \<and> ids ! snd p = fst p) \<and>
      (\<forall>a \<in> set (is_readers s) \<union> set (is_senders s). a < length ids) \<and>
      (\<forall>p \<in> set (is_calls s). msg_Source (snd p) \<in> set ids))"
  by (simp add: is_wf_def Let_def image_iff case_prod_beta cong: conj_cong ball_cong)

lemma is_wf_upd:
  assumes "is_wf s" "a < length (is_heap s)" "is_conn_ok c" "ic_ID c = ic_ID (is_heap s ! a)"
  shows "is_wf (s\<lparr>is_heap := (is_heap s)[a := c]\<rparr>)"
proof -
  have ids: "map ic_ID ((is_heap s)[a := c]) = map ic_ID (is_heap s)"
    using assms(2,4) by (simp add: map_update list_update_same_conv)
  have ok: "\<forall>d \<in> set ((is_heap s)[a := c]). is_conn_ok d"
    using assms(1,3) set_update_subset_insert[of "is_heap s" a c] by (auto simp: is_wf_def)
  show ?thesis
    using assms(1) ok unfolding is_wf_ids Let_def by (simp add: ids del: length_map)
qed

lemma is_wf_conn: "is_wf s \<Longrightarrow> a < length (is_heap s) \<Longrightarrow> is_conn_ok (is_heap s ! a)"
  by (auto simp: is_wf_def)

lemma ch_recv_closed: "ch_recv c = Some (c', d) \<Longrightarrow> ch_closed c' = ch_closed c"
  by (auto simp: ch_recv_def split: list.splits if_splits)

lemma safeClose_wf:
  assumes "is_wf s" "a < length (is_heap s)"
  shows "is_wf (is_safeCloseClient net a s)"
  using is_wf_upd[OF assms] assms
  by (auto simp: is_safeCloseClient_def Let_def is_conn_ok_def)

lemma safeClose_sizes [simp]:
  "length (is_heap (is_safeCloseClient net a s)) = length (is_heap s)"
  "is_clients (is_safeCloseClient net a s) = is_clients s"
  "is_calls (is_safeCloseClient net a s) = is_calls s"
  by (simp_all add: is_safeCloseClient_def Let_def)

lemma read_end_wf:
  assumes "is_wf s" "a < length (is_heap s)"
  shows "is_wf (is_read_end net a s)"
  unfolding is_read_end_def using assms by (intro safeClose_wf is_wf_readers) auto

lemma accept_wf:
  assumes "is_wf s"
  shows "is_wf (is_accept_turn now conn s)"
proof -
  let ?c = "\<lambda>i k. \<lparr>ic_ID = i, ic_Conn = k, ic_Send = mk_chan (nat (ipc_BufferSize (is_config s))), ic_Active = True,
               ic_closed = False\<rparr> :: 'a ipc_conn"
  have "is_wf (s\<lparr>is_heap := is_heap s @ [?c i k], is_clients := gm_set i (length (is_heap s)) (is_clients s),
                is_readers := is_readers s @ [length (is_heap s)], is_senders := is_senders s @ [length (is_heap s)]\<rparr>)" for i k
  proof -
    have tab: "a < Suc (length (is_heap s)) \<and> ic_ID ((is_heap s @ [?c i k]) ! a) = j"
      if "(j, a) \<in> set (gm_set i (length (is_heap s)) (is_clients s))" for j a
    proof -
      have "gm_get (gm_set i (length (is_heap s)) (is_clients s)) j = Some a"
        using that assms by (intro gm_in_set_get gm_wf_set) (auto simp: is_wf_def)
      then have "(j = i \<and> a = length (is_heap s)) \<or> (j, a) \<in> set (is_clients s)"
        by (auto split: if_splits dest: gm_get_in_set)
      then show ?thesis using assms by (auto simp: is_wf_def nth_append)
    qed
    then show ?thesis
      using assms by (auto simp: is_wf_def is_conn_ok_def less_SucI split: prod.splits)
  qed
  then show ?thesis
    using assms by (simp add: is_accept_turn_def Let_def split: result.split)
qed

lemma read_turn_wf:
  assumes "is_wf s"
  shows "is_wf (is_read_turn net a decoded s)"
proof (cases "a \<in> set (is_readers s)")
  case True
  then have a: "a < length (is_heap s)" using assms by (simp add: is_wf_def)
  have route: "is_wf (is_routeMessage (m\<lparr>msg_Source := ic_ID (is_heap s ! a)\<rparr>) (s\<lparr>is_world := w\<rparr>))" for m w
    using assms a by (auto simp: is_routeMessage_def is_wf_def split: option.split)
  show ?thesis
    using assms a True
    by (auto simp: is_read_turn_def Let_def intro!: read_end_wf route split: prod.split option.split result.split)
qed (simp add: is_read_turn_def assms)

lemma send_turn_wf:
  assumes "is_wf s"
  shows "is_wf (is_send_turn net p a s)"
proof (cases "a \<in> set (is_senders s)")
  case True
  then have a: "a < length (is_heap s)" using assms by (simp add: is_wf_def)
  have taken: "is_wf (s\<lparr>is_heap := (is_heap s)[a := (is_heap s ! a)\<lparr>ic_Send := ch\<rparr>]\<rparr>)"
    if "ch_recv (ic_Send (is_heap s ! a)) = Some (ch, d)" for ch d
    using is_wf_upd[OF assms a, of "(is_heap s ! a)\<lparr>ic_Send := ch\<rparr>"] is_wf_conn[OF assms a] ch_recv_closed[OF that]
    by (simp add: is_conn_ok_def split: if_splits)
  have ended: "is_wf (is_send_end a t)" if "is_wf t" for t :: "('a, 'b) IPCServer"
    using that is_wf_senders by (simp add: is_send_end_def)
  show ?thesis
    using assms True taken
    by (auto simp: is_send_turn_def Let_def intro!: ended split: prod.split option.split)
qed (simp add: is_send_turn_def assms)

lemma select_wf:
  assumes "is_wf s" "a < length (is_heap s)"
  shows "is_wf (fst (is_send_select p i d a s))"
proof -
  have "is_wf (s\<lparr>is_heap := (is_heap s)[a := (is_heap s ! a)\<lparr>ic_Send := fst (ch_try_send d (ic_Send (is_heap s ! a)))\<rparr>]\<rparr>)"
    using is_wf_upd[OF assms, of "(is_heap s ! a)\<lparr>ic_Send := fst (ch_try_send d (ic_Send (is_heap s ! a)))\<rparr>"]
      is_wf_conn[OF assms] by (simp add: is_conn_ok_def ch_try_send_def split: if_splits)
  then show ?thesis
    using assms(1) by (auto simp: is_send_select_def Let_def split: prod.split exec.split bool.split)
qed

lemma broadcast_one_wf:
  assumes "is_wf s" "a < length (is_heap s)"
  shows "is_wf (fst (is_broadcast_one d a s))" "snd (is_broadcast_one d a s) = Ret ()"
    "length (is_heap (fst (is_broadcast_one d a s))) = length (is_heap s)"
    "is_clients (fst (is_broadcast_one d a s)) = is_clients s"
proof -
  have c: "is_conn_ok (is_heap s ! a)" by (rule is_wf_conn[OF assms])
  define ch where "ch = fst (ch_try_send d (ic_Send (is_heap s ! a)))"
  have ch: "ch_closed ch = ch_closed (ic_Send (is_heap s ! a))"
    by (simp add: ch_def ch_try_send_def)
  have "is_broadcast_one d a s = (s, Ret ()) \<or>
      is_broadcast_one d a s = (s\<lparr>is_heap := (is_heap s)[a := (is_heap s ! a)\<lparr>ic_Send := ch\<rparr>]\<rparr>, Ret ())"
    using c by (auto simp: is_broadcast_one_def Let_def is_conn_ok_def ch_try_send_def ch_def split: if_splits)
  then show "is_wf (fst (is_broadcast_one d a s))" "snd (is_broadcast_one d a s) = Ret ()"
    "length (is_heap (fst (is_broadcast_one d a s))) = length (is_heap s)"
    "is_clients (fst (is_broadcast_one d a s)) = is_clients s"
    using assms is_wf_upd[OF assms, of "(is_heap s ! a)\<lparr>ic_Send := ch\<rparr>"] c ch by (auto simp: is_conn_ok_def split: if_splits)
qed

lemma broadcast_all_wf:
  assumes "is_wf s" "\<forall>a \<in> set as. a < length (is_heap s)"
  shows "is_wf (fst (is_broadcast_all d as s)) \<and> snd (is_broadcast_all d as s) = Ret () \<and>
    is_clients (fst (is_broadcast_all d as s)) = is_clients s"
  using assms
proof (induction as arbitrary: s)
  case (Cons a as)
  obtain t where t: "is_broadcast_one d a s = (t, Ret ())"
    using broadcast_one_wf(2)[of s a d] Cons.prems by (cases "is_broadcast_one d a s") auto
  then show ?case
    using Cons.IH[of t] broadcast_one_wf[of s a d] Cons.prems by (simp add: and_then_def)
qed simp

lemma is_wf_table: "is_wf s \<Longrightarrow> \<forall>a \<in> set (map snd (is_clients s)). a < length (is_heap s)"
  by (auto simp: is_wf_def)

lemma Broadcast_cases:
  assumes "is_wf s"
  shows "is_wf (fst (is_Broadcast net msg s))" "\<exists>r. snd (is_Broadcast net msg s) = Ret r"
    "is_clients (fst (is_Broadcast net msg s)) = is_clients s"
proof -
  have "is_wf (fst (is_Broadcast net msg s)) \<and> (\<exists>r. snd (is_Broadcast net msg s) = Ret r) \<and>
      is_clients (fst (is_Broadcast net msg s)) = is_clients s"
  proof (cases "no_marshal net msg")
    case (Ok d)
    obtain t where t: "is_broadcast_all d (map snd (is_clients s)) s = (t, Ret ())"
      using broadcast_all_wf[OF assms is_wf_table[OF assms], of d]
      by (cases "is_broadcast_all d (map snd (is_clients s)) s") auto
    then show ?thesis
      using Ok broadcast_all_wf[OF assms is_wf_table[OF assms], of d] by (simp add: is_Broadcast_def and_then_def)
  qed (simp add: is_Broadcast_def assms)
  then show "is_wf (fst (is_Broadcast net msg s))" "\<exists>r. snd (is_Broadcast net msg s) = Ret r"
    "is_clients (fst (is_Broadcast net msg s)) = is_clients s" by blast+
qed

lemma close_all_wf:
  "is_wf s \<Longrightarrow> \<forall>a \<in> set (map snd ps). a < length (is_heap s) \<Longrightarrow>
   is_wf (fold (\<lambda>(i, a). is_safeCloseClient net a) ps s)"
proof (induction ps arbitrary: s)
  case (Cons p ps)
  then show ?case
    using safeClose_wf[of s "snd p" net] by (cases p) simp
qed simp

lemma Stop_wf: "is_wf s \<Longrightarrow> is_wf (is_Stop_begin net s)"
  unfolding is_Stop_begin_def Let_def
  using is_wf_table by (intro is_wf_no_clients close_all_wf) auto

lemma Start_wf: "is_wf s \<Longrightarrow> is_wf (fst (is_Start net s))"
  by (auto simp: is_Start_def split: prod.split option.split)

lemma is_step_wf: "is_step net s t \<Longrightarrow> is_wf s \<Longrightarrow> is_wf t"
  by (induction rule: is_step.induct)
    (simp_all add: Start_wf accept_wf read_turn_wf send_turn_wf is_RegisterHandler_def Broadcast_cases select_wf Stop_wf)

lemma is_reachable_wf: "(is_step net)\<^sup>*\<^sup>* (NewIPCServer cfg w) s \<Longrightarrow> is_wf s"
  by (induction rule: rtranclp_induct) (auto simp: is_wf_def NewIPCServer_def dest: is_step_wf[unfolded is_wf_def])

section \<open>Properties of the server\<close>


text \<open>
  Sending to one client can panic: the check that the client is active and the send are two steps,
  and when the client is closed between them (its connection broke) with nothing left to send, the send
  meets a closed channel, which the \<open>select\<close> may choose.
\<close>

theorem ipc_send_races_close:
  assumes "is_send_check net i msg s = Ok (d, a)" "a < length (is_heap s)"
    and "\<not> ic_closed (is_heap s ! a)" "ch_buf (ic_Send (is_heap s ! a)) = []" "\<not> ch_closed (ic_Send (is_heap s ! a))"
  shows "let t = is_safeCloseClient net a s in
         snd (is_send_select False i d a t) = Panic ''send on closed channel'' \<and>
         is_send_select True i d a t = (t, Ret (Some (Errorf ''client closed: %s'' [AStr i]))) \<and>
         is_SendToClient net False i msg t = (t, Ret (Some (Errorf ''client not active: %s'' [AStr i])))"
proof -
  have tab: "gm_get (is_clients s) i = Some a" "no_marshal net msg = Ok d"
    using assms(1) by (auto simp: is_send_check_def split: result.splits option.splits if_splits)
  show ?thesis
    using assms(2-) tab
    by (simp add: is_safeCloseClient_def Let_def ch_recv_def ch_close_def is_send_select_def ch_try_send_def
        is_SendToClient_def is_send_check_def)
qed

lemma close_keeps_table: "is_clients (is_read_end net a s) = is_clients s"
  by (simp add: is_read_end_def)

lemma read_keeps_table: "is_clients (is_read_turn net a decoded s) = is_clients s"
  by (simp add: is_read_turn_def Let_def close_keeps_table is_routeMessage_def split: prod.split option.split result.split)

lemma send_keeps_table: "is_clients (is_send_turn net p a s) = is_clients s"
  by (simp add: is_send_turn_def Let_def is_send_end_def split: prod.split option.split)

lemma select_keeps_table: "is_clients (fst (is_send_select p i d a s)) = is_clients s"
  by (simp add: is_send_select_def Let_def split: prod.split exec.split bool.split)

lemma accept_keeps_keys: "gm_has (is_clients s) i \<Longrightarrow> gm_has (is_clients (is_accept_turn now conn s)) i"
  by (auto simp: is_accept_turn_def Let_def gm_has_def split: result.split)

text \<open>
  Apart from the stop of the server nothing takes a client out of its table: a client whose
  connection ended stays, inactive, for as long as the server runs, so the table grows with every
  connection ever made.
\<close>

theorem ipc_clients_never_leave:
  assumes "is_step net s t" "is_wf s" "gm_has (is_clients s) i"
  shows "gm_has (is_clients t) i \<or> t = is_Stop_begin net s"
  using assms
proof (cases rule: is_step.cases)
  case StepStart
  then show ?thesis using assms(3) by (simp add: is_Start_def split: prod.split option.split)
qed (simp_all add: accept_keeps_keys read_keeps_table send_keeps_table select_keeps_table is_RegisterHandler_def
      Broadcast_cases(3) assms)

text \<open>
  What is left to do once the server is stopping: a turn for every goroutine, and one for every frame a sender
  may still prefer to the end.
\<close>

definition is_work :: "('b, 'w) IPCServer \<Rightarrow> nat" where
  "is_work s = is_acceptors s + length (is_readers s) + length (is_senders s) +
     (\<Sum>c \<leftarrow> is_heap s. length (ch_buf (ic_Send c)))"

lemma is_work_world [simp]: "is_work (s\<lparr>is_world := w\<rparr>) = is_work s"
  by (simp add: is_work_def)

lemma is_work_ends:
  "a \<in> set (is_readers s) \<Longrightarrow> Suc (is_work (s\<lparr>is_readers := remove1 a (is_readers s)\<rparr>)) = is_work s"
  "a \<in> set (is_senders s) \<Longrightarrow> Suc (is_work (is_send_end a s)) = is_work s"
  using length_pos_if_in_set[of a] by (fastforce simp: is_work_def is_send_end_def length_remove1)+

lemma is_work_upd:
  assumes "a < length (is_heap s)"
  shows "is_work (s\<lparr>is_heap := (is_heap s)[a := c]\<rparr>) + length (ch_buf (ic_Send (is_heap s ! a))) =
    is_work s + length (ch_buf (ic_Send c))"
proof -
  let ?f = "\<lambda>c. length (ch_buf (ic_Send c))"
  have "?f (is_heap s ! a) \<le> sum_list (map ?f (is_heap s))"
    using assms by (intro member_le_sum_list) auto
  moreover have "sum_list ((map ?f (is_heap s))[a := ?f c]) = sum_list (map ?f (is_heap s)) + ?f c - ?f (is_heap s ! a)"
    using assms by (simp add: sum_list_update)
  ultimately show ?thesis by (simp add: is_work_def map_update)
qed

lemma ch_recv_shorter: "ch_recv c = Some (c', d) \<Longrightarrow> length (ch_buf c') + (case d of None \<Rightarrow> 0 | Some _ \<Rightarrow> 1) = length (ch_buf c)"
  by (auto simp: ch_recv_def split: list.splits if_splits)

lemma safeClose_work:
  assumes "a < length (is_heap s)"
  shows "is_work (is_safeCloseClient net a s) \<le> is_work s"
proof (cases "ic_closed (is_heap s ! a)")
  case False
  let ?c = "is_heap s ! a"
  define ch where "ch = (case ch_recv (ic_Send ?c) of Some (ch, _) \<Rightarrow> ch | None \<Rightarrow> fst (ch_close (ic_Send ?c)))"
  have "length (ch_buf ch) \<le> length (ch_buf (ic_Send ?c))"
    using ch_recv_shorter[of "ic_Send ?c"] by (fastforce simp: ch_def ch_close_def split: option.split)
  then have "is_work (s\<lparr>is_heap := (is_heap s)[a := ?c\<lparr>ic_closed := True, ic_Send := ch, ic_Active := False\<rparr>]\<rparr>) \<le> is_work s"
    using is_work_upd[OF assms, of "?c\<lparr>ic_closed := True, ic_Send := ch, ic_Active := False\<rparr>"] by simp
  moreover have "is_safeCloseClient net a s =
      s\<lparr>is_heap := (is_heap s)[a := ?c\<lparr>ic_closed := True, ic_Send := ch, ic_Active := False\<rparr>],
        is_world := no_close net (ic_Conn ?c) (is_world s)\<rparr>"
    using False by (simp add: is_safeCloseClient_def ch_def Let_def)
  ultimately show ?thesis by simp
qed (simp add: is_safeCloseClient_def)

lemma send_turn_work:
  fixes s :: "('b, 'w) IPCServer"
  assumes "is_wf s" "a \<in> set (is_senders s)" "is_ctxDone s"
  shows "is_work (is_send_turn net p a s) < is_work s"
proof -
  let ?c = "is_heap s ! a"
  have a: "a < length (is_heap s)" using assms(1,2) by (simp add: is_wf_def)
  have ended: "is_work (is_send_end a t) < n" if "is_work t \<le> n" "is_senders t = is_senders s" for t :: "('b, 'w) IPCServer" and n
    using is_work_ends(2)[where a = a and s = t] assms(2) that by simp
  show ?thesis
  proof (cases "\<not> p \<or> ch_recv (ic_Send ?c) = None")
    case True
    then show ?thesis using assms ended[of s] by (simp add: is_send_turn_def Let_def)
  next
    case False
    then obtain ch d where r: "ch_recv (ic_Send ?c) = Some (ch, d)" by auto
    let ?s1 = "s\<lparr>is_heap := (is_heap s)[a := ?c\<lparr>ic_Send := ch\<rparr>]\<rparr>"
    have w: "is_work ?s1 + (case d of None \<Rightarrow> 0 | Some _ \<Rightarrow> 1) = is_work s"
      using is_work_upd[OF a, of "?c\<lparr>ic_Send := ch\<rparr>"] ch_recv_shorter[OF r] by simp
    then show ?thesis
      using False r assms(2) ended[of ?s1 "is_work s"] ended[of "?s1\<lparr>is_world := x\<rparr>" "is_work s" for x]
      by (auto simp: is_send_turn_def Let_def split: option.split prod.split)
  qed
qed

text \<open>
  C11. The stop of the server returns: once it has begun, every turn of a goroutine of the server, whatever
  its connection delivers and whatever its \<open>select\<close> prefers, leaves less to do, and when nothing is left the
  wait is over; so it takes at most as many turns as there are goroutines and unsent frames.
\<close>

theorem ipc_stop_terminates:
  fixes s :: "('b, 'w) IPCServer"
  assumes "is_wf s" "is_ctxDone s"
  shows "(0 < is_acceptors s \<longrightarrow> is_work (is_accept_turn now conn s) < is_work s) \<and>
     (a \<in> set (is_readers s) \<longrightarrow> is_work (is_read_turn net a decoded s) < is_work s) \<and>
     (a \<in> set (is_senders s) \<longrightarrow> is_work (is_send_turn net p a s) < is_work s) \<and>
     (is_work s = 0 \<longrightarrow> is_Stop_finish s = (s, Ret None)) \<and> is_ctxDone (is_Stop_begin net s)"
proof (intro conjI impI)
  show "is_work (is_accept_turn now conn s) < is_work s" if "0 < is_acceptors s"
    using that assms(2) by (simp add: is_accept_turn_def is_work_def)
  show "is_work (is_send_turn net p a s) < is_work s" if "a \<in> set (is_senders s)"
    using send_turn_work[OF assms(1) that assms(2)] .
  show "is_work (is_read_turn net a decoded s) < is_work s" if r: "a \<in> set (is_readers s)"
  proof -
    have a: "a < length (is_heap s)" using assms(1) r by (simp add: is_wf_def)
    have "is_work (is_read_end net a s) < is_work s"
      using safeClose_work[of a "s\<lparr>is_readers := remove1 a (is_readers s)\<rparr>" net] a is_work_ends(1)[OF r]
      by (simp add: is_read_end_def)
    then show ?thesis using assms(2) r by (simp add: is_read_turn_def Let_def)
  qed
  show "is_Stop_finish s = (s, Ret None)" if "is_work s = 0"
    using that by (simp add: is_work_def is_Stop_finish_def)
  have "is_ctxDone (fold (\<lambda>(i, a). is_safeCloseClient net a) ps t) = is_ctxDone t"
    for ps :: "(string \<times> nat) list" and t :: "('b, 'w) IPCServer"
  proof (induction ps arbitrary: t)
    case (Cons q ps)
    then show ?case by (cases q) (simp add: is_safeCloseClient_def Let_def)
  qed simp
  then show "is_ctxDone (is_Stop_begin net s)" by (simp add: is_Stop_begin_def Let_def)
qed

section \<open>Properties of the client\<close>

text \<open>
  C40. The client's sending goroutine can throw a frame away and end, with the connection up: one case of
  its \<open>select\<close>, written to notice a closed channel, takes the frame. From then on the client still accepts
  frames while its buffer has room, and none of them is ever sent.
\<close>

theorem ipc_client_drops_frames:
  assumes "cl_connected c" "\<not> cl_ctxDone c" "cl_senders c = 1" "ch_buf (cl_sendChan c) = d # ds"
  shows "let c' = fst (cl_send_turn net CaseExit c) in
         cl_world c' = cl_world c \<and> ch_buf (cl_sendChan c') = ds \<and>
         (\<forall>choice. cl_send_turn net choice c' = (c', Ret ())) \<and>
         (\<forall>p msg b. no_marshal net msg = Ok b \<longrightarrow> \<not> ch_closed (cl_sendChan c) \<longrightarrow> length ds < ch_cap (cl_sendChan c) \<longrightarrow>
            snd (cl_Send net p msg c') = Ret None \<and> cl_senders (fst (cl_Send net p msg c')) = 0)"
proof -
  have turn: "cl_send_turn net CaseExit c = (c\<lparr>cl_sendChan := (cl_sendChan c)\<lparr>ch_buf := ds\<rparr>, cl_senders := 0\<rparr>, Ret ())"
    using assms by (simp add: cl_send_turn_def Let_def ch_recv_def)
  have "snd (cl_Send net p msg (c\<lparr>cl_sendChan := (cl_sendChan c)\<lparr>ch_buf := ds\<rparr>, cl_senders := 0\<rparr>)) = Ret None \<and>
      cl_senders (fst (cl_Send net p msg (c\<lparr>cl_sendChan := (cl_sendChan c)\<lparr>ch_buf := ds\<rparr>, cl_senders := 0\<rparr>))) = 0"
    if "no_marshal net msg = Ok b" "\<not> ch_closed (cl_sendChan c)" "length ds < ch_cap (cl_sendChan c)" for p msg b
    using assms that by (simp add: cl_Send_def ch_try_send_def)
  moreover have "cl_send_turn net choice (c\<lparr>cl_sendChan := (cl_sendChan c)\<lparr>ch_buf := ds\<rparr>, cl_senders := 0\<rparr>) =
      (c\<lparr>cl_sendChan := (cl_sendChan c)\<lparr>ch_buf := ds\<rparr>, cl_senders := 0\<rparr>, Ret ())" for choice
    by (simp add: cl_send_turn_def)
  ultimately show ?thesis unfolding turn fst_conv Let_def by auto
qed

text \<open>
  A message the client has no handler for ends its reception: the message is queued for the
  application, and the next pass of the receiving goroutine, unless the application was faster, takes
  it out of that queue itself, for the sign of a closed channel, and ends.  Later messages are not read.
\<close>

theorem ipc_client_stops_receiving:
  assumes "\<not> cl_ctxDone c" "cl_readers c = 1" "cl_conn c = Some k" "gm_get (cl_handlers c) (msg_Type msg) = None"
    and "ch_buf (cl_receiveChan c) = []" "\<not> ch_closed (cl_receiveChan c)" "0 < ch_cap (cl_receiveChan c)"
    and "no_set_deadline net k (cl_world c) = (w, None)"
  shows "let (c1, r1) = cl_receive_turn net p (Ok msg) c; (c2, r2) = cl_receive_turn net p (Ok msg2) c1 in
         r1 = Ret () \<and> ch_buf (cl_receiveChan c1) = [msg] \<and>
         r2 = Ret () \<and> ch_buf (cl_receiveChan c2) = [] \<and> cl_calls c2 = cl_calls c \<and>
         (\<forall>q decoded. cl_receive_turn net q decoded c2 = (c2, Ret ()))"
  using assms
  by (simp add: cl_receive_turn_def Let_def ch_recv_def cl_routeMessage_def ch_try_send_def)

section \<open>Concrete inputs\<close>

text \<open>A network that always works and counts what was sent.\<close>

definition demo_net :: "(string, nat) net_ops" where
  "demo_net = \<lparr>no_listen = (\<lambda>_ _ w. (w, None)), no_dial = (\<lambda>_ _ _ w. (w, Ok 0)), no_close = (\<lambda>_ w. w),
     no_set_deadline = (\<lambda>_ w. (w, None)), no_send = (\<lambda>_ _ w. (Suc w, None)), no_marshal = (\<lambda>m. Ok (msg_Type m))\<rparr>"

definition demo_ipc_config :: IPCConfig where
  "demo_ipc_config = \<lparr>ipc_Type = ''tcp'', ipc_Address = ''127.0.0.1'', ipc_Port = 18080, ipc_Timeout = 5000000000,
     ipc_BufferSize = 4\<rparr>"

definition demo_server :: "(string, nat) IPCServer" where
  "demo_server = is_accept_turn 7 (Ok 3) (fst (is_Start demo_net (NewIPCServer demo_ipc_config 0)))"

definition demo_status :: IPCMessage where
  "demo_status = \<lparr>msg_Type = ''status'', msg_Source = [], msg_Target = [], msg_Data = [], msg_Timestamp = 0,
     msg_ID = []\<rparr>"

definition demo_client :: "(string, nat) IPCClient" where
  "demo_client = fst (cl_Connect demo_net (NewIPCClient demo_ipc_config 0))"

lemma int_dec_7: "int_dec 7 = ''7''"
  by code_simp

lemmas demo_ipc_defs = demo_net_def demo_ipc_config_def demo_server_def demo_status_def demo_client_def
  is_accept_turn_def is_Start_def NewIPCServer_def cl_Connect_def NewIPCClient_def gm_set_def gm_get_def mk_chan_def

theorem ipc_send_races_close_witness:
  "snd (is_send_select False ''client-7'' ''status'' 0 (is_safeCloseClient demo_net 0 demo_server)) =
     Panic ''send on closed channel''"
  using ipc_send_races_close[of demo_net "''client-7''" demo_status demo_server "''status''" 0]
  by (simp add: is_send_check_def demo_ipc_defs Let_def int_dec_7)

lemma demo_server_wf: "is_wf demo_server"
  unfolding demo_server_def
  by (rule is_reachable_wf[of demo_net demo_ipc_config 0])
    (meson StepStart StepAccept rtranclp.rtrancl_into_rtrancl rtranclp.rtrancl_refl)

theorem ipc_clients_never_leave_witness:
  "gm_has (is_clients (is_read_turn demo_net 0 (Err (Errorf ''EOF'' [])) demo_server)) ''client-7''"
  using ipc_clients_never_leave[OF StepRead[of demo_net demo_server 0 "Err (Errorf ''EOF'' [])"] demo_server_wf,
      of "''client-7''"]
  by (simp add: read_keeps_table demo_ipc_defs Let_def int_dec_7 gm_has_def)

theorem ipc_client_drops_frames_witness:
  "cl_world (fst (cl_send_turn demo_net CaseExit (fst (cl_Send demo_net False demo_status demo_client)))) = 0"
  using ipc_client_drops_frames[of "fst (cl_Send demo_net False demo_status demo_client)" "''status''" "[]" demo_net]
  by (simp add: cl_Send_def demo_ipc_defs ch_try_send_def Let_def)

theorem ipc_client_stops_receiving_witness:
  "cl_readers (fst (cl_receive_turn demo_net False (Ok demo_status)
     (fst (cl_receive_turn demo_net False (Ok demo_status) demo_client)))) = 0"
  using ipc_client_stops_receiving[of demo_client 0 demo_status demo_net 0 False demo_status]
  by (simp add: cl_receive_turn_def cl_routeMessage_def demo_ipc_defs ch_try_send_def ch_recv_def Let_def)

theorem ipc_stop_terminates_witness:
  "is_work (is_send_turn demo_net True 0 (is_Stop_begin demo_net demo_server)) < is_work (is_Stop_begin demo_net demo_server)"
  using ipc_stop_terminates[OF Stop_wf[OF demo_server_wf], of demo_net 0 "Ok 0" 0 demo_net "Err CtxCanceled" True]
  by (simp add: is_Stop_begin_def is_safeCloseClient_def demo_ipc_defs Let_def)





end
