(* ===== verification/System.thy ===== *)
theory System
  imports HwFactory Devices ConfigMgr Ipc EventLoop Management
begin

text \<open>
  The infrastructure layer (\<open>internal/management/infrastructure_manager.go\<close>) and the program
  (\<open>cmd/control/main.go\<close>): how the configuration manager, the device manager over the hardware layer, the
  IPC server, the application and the event loop are put together, started and stopped, and the shutdown of
  \<open>main\<close> with its time limit.  Every part has its own outside world; what the goroutines of a part do while a
  stop waits for them is an argument.
\<close>

section \<open>The hardware layer behind the device manager\<close>

text \<open>
  The device package calls the hardware factory.  Its interface \<open>hardware_ops\<close> has an outcome that does not
  return only for \<open>Stop\<close>; the other calls return whenever the mutex of the hardware layer is free, which it is
  until that stop, and \<open>settled\<close> gives an error for the remaining cases.
\<close>

fun settled :: "(goerr \<Rightarrow> 'a) \<Rightarrow> 'a exec \<Rightarrow> 'a" where
  "settled fail (Ret a) = a"
| "settled fail (Panic m) = fail (Errorf m [])"
| "settled fail Blocked = fail CtxDeadlineExceeded"

definition factory_ops :: "'d bus_ops \<Rightarrow> bus_env \<Rightarrow> int \<Rightarrow> 'd HwManager hardware_ops" where
  "factory_ops bops env now =
     \<lparr>hw_Start = (\<lambda>h. map_prod id (settled Some) (hf_Start h)),
      hw_Stop = hf_Stop bops,
      hw_AddDeviceFromConfig = (\<lambda>i dc h. map_prod id (settled Some) (hf_AddDeviceFromConfig now i dc h)),
      hw_ConnectDevice = (\<lambda>i h. map_prod id (settled Some) (hf_ConnectDevice bops i h)),
      hw_WriteDevice = (\<lambda>i a d h. map_prod id (settled Some) (hf_WriteDevice bops env i a d h)),
      hw_ReadDevice = (\<lambda>i a n h. map_prod id (settled Err) (hf_ReadDevice bops env i a (int n) h)),
      hw_ListDevices = (\<lambda>h. settled (\<lambda>_. []) (snd (hf_ListDevices now h))),
      hw_CreateDeviceConfig = (\<lambda>i dc. case hf_CreateDeviceConfig i dc of Err e \<Rightarrow> Some e | Ok _ \<Rightarrow> None)\<rparr>"

section \<open>Infrastructure\<close>

record ('b, 'f, 'd, 'c, 'n) sys_ops =
  so_files :: "('b, 'f) cfg_ops"
  so_bus :: "'d bus_ops"
  so_bus_env :: bus_env
  so_net :: "('c, 'n) net_ops"

record ('f, 'd, 'c, 'n) InfrastructureManager =
  im_configManager :: "'f ConfigManager"
  im_deviceManager :: "'d HwManager DeviceManager"
  im_ipcServer :: "('c, 'n) IPCServer"

text \<open>The configuration manager, with the default configuration written when the file cannot be loaded.\<close>

definition open_config :: "('b, 'f) cfg_ops \<Rightarrow> int \<Rightarrow> string \<Rightarrow> 'f \<Rightarrow> 'f ConfigManager \<times> goerr option exec" where
  "open_config files now path f =
     and_then (cm_LoadConfig files now [])
       (\<lambda>r cm. case r of
          None \<Rightarrow> (cm, Ret None)
        | Some e \<Rightarrow>
            and_then (cm_CreateDefaultConfig files now)
              (\<lambda>r cm. (cm, Ret (map_option (\<lambda>e. Errorf ''failed to create default config: %w'' [AErr e]) r))) cm)
       (NewConfigManager path f)"

definition NewInfrastructureManager ::
  "('b, 'f) cfg_ops \<Rightarrow> int \<Rightarrow> string \<Rightarrow> SystemConfig \<Rightarrow> 'f \<Rightarrow> 'd \<Rightarrow> 'n \<Rightarrow>
   ('f, 'd, 'c, 'n) InfrastructureManager \<times> goerr option exec" where
  "NewInfrastructureManager files now path cfg f d n =
     (let (cm, r) = open_config files now path f
      in (\<lparr>im_configManager = cm, im_deviceManager = NewDeviceManager cfg (NewHardwareFactory d),
           im_ipcServer = NewIPCServer (cfg_IPC cfg) n\<rparr>, r))"

definition im_GetSystemConfig ::
  "('f, 'd, 'c, 'n) InfrastructureManager \<Rightarrow> ('f, 'd, 'c, 'n) InfrastructureManager \<times> SystemConfig exec" where
  "im_GetSystemConfig = on_part im_configManager im_configManager_update cm_GetConfig"

definition im_Start ::
  "('b, 'f, 'd, 'c, 'n) sys_ops \<Rightarrow> int \<Rightarrow> ('f, 'd, 'c, 'n) InfrastructureManager \<Rightarrow>
   ('f, 'd, 'c, 'n) InfrastructureManager \<times> goerr option" where
  "im_Start ops now im =
     (case dm_Start (factory_ops (so_bus ops) (so_bus_env ops) now) now (im_deviceManager im) of
        (dm, Some e) \<Rightarrow> (im\<lparr>im_deviceManager := dm\<rparr>, Some (Errorf ''failed to start device manager: %w'' [AErr e]))
      | (dm, None) \<Rightarrow>
          (let im1 = im\<lparr>im_deviceManager := dm\<rparr> in
           case is_Start (so_net ops) (im_ipcServer im1) of
             (s, Some e) \<Rightarrow> (im1\<lparr>im_ipcServer := s\<rparr>, Some (Errorf ''failed to start IPC server: %w'' [AErr e]))
           | (s, None) \<Rightarrow>
               (im1\<lparr>im_ipcServer := s, im_configManager := fst (cm_StartWatching (im_configManager im1))\<rparr>, None)))"

text \<open>The server's \<open>Stop\<close>; \<open>turns\<close> is what its goroutines do before the wait for them is over.\<close>

definition im_stop_ipc ::
  "('c, 'n) net_ops \<Rightarrow> (('c, 'n) IPCServer \<Rightarrow> ('c, 'n) IPCServer) \<Rightarrow> ('c, 'n) IPCServer \<Rightarrow> ('c, 'n) IPCServer \<times> goerr option exec" where
  "im_stop_ipc net turns s = is_Stop_finish (turns (is_Stop_begin net s))"

definition im_Stop ::
  "('b, 'f, 'd, 'c, 'n) sys_ops \<Rightarrow> int \<Rightarrow> (('c, 'n) IPCServer \<Rightarrow> ('c, 'n) IPCServer) \<Rightarrow>
   ('f, 'd, 'c, 'n) InfrastructureManager \<Rightarrow> ('f, 'd, 'c, 'n) InfrastructureManager \<times> goerr option exec" where
  "im_Stop ops now turns =
     and_then (on_part im_ipcServer im_ipcServer_update (im_stop_ipc (so_net ops) turns)) (\<lambda>r1.
     and_then (on_part im_deviceManager im_deviceManager_update
       (dm_Stop (factory_ops (so_bus ops) (so_bus_env ops) now) now)) (\<lambda>r2.
     and_then (on_part im_configManager im_configManager_update cm_StopWatching) (\<lambda>r3 im.
       (im, Ret (join_errors ''infrastructure stop errors: %v''
          (wrap_error ''IPC server stop error: %w'' r1 @ wrap_error ''device manager stop error: %w'' r2 @
           wrap_error ''config watcher stop error: %w'' r3))))))"

definition im_WatchConfigChanges ::
  "nat \<Rightarrow> ('f, 'd, 'c, 'n) InfrastructureManager \<Rightarrow> ('f, 'd, 'c, 'n) InfrastructureManager" where
  "im_WatchConfigChanges callback = im_configManager_update (cm_WatchChanges callback)"

section \<open>Modules of the event loop\<close>

datatype sys_module = ModTrigger | ModScheduler | ModExecutor

abbreviation am_on_trigger :: "(TaskTrigger \<Rightarrow> TaskTrigger \<times> 'a) \<Rightarrow> ApplicationManager \<Rightarrow> ApplicationManager \<times> 'a" where
  "am_on_trigger f \<equiv> on_part am_taskOrchestration am_put_tol (on_part tol_taskTrigger tol_taskTrigger_update f)"

abbreviation am_on_scheduler :: "(TaskScheduler \<Rightarrow> TaskScheduler \<times> 'a) \<Rightarrow> ApplicationManager \<Rightarrow> ApplicationManager \<times> 'a" where
  "am_on_scheduler f \<equiv> on_part am_taskOrchestration am_put_tol (on_part tol_taskScheduler tol_taskScheduler_update f)"

abbreviation am_on_executor :: "(CommandExecutor \<Rightarrow> CommandExecutor \<times> 'a) \<Rightarrow> ApplicationManager \<Rightarrow> ApplicationManager \<times> 'a" where
  "am_on_executor f \<equiv> on_part am_serviceCoordination am_put_scl (on_part scl_commandExecutor scl_commandExecutor_update f)"

definition sys_modules :: "(string \<Rightarrow> Task option) \<Rightarrow> int \<Rightarrow> (sys_module, ApplicationManager) module_ops" where
  "sys_modules fire now =
     \<lparr>mod_Name = (\<lambda>m. case m of ModTrigger \<Rightarrow> ''task_trigger'' | ModScheduler \<Rightarrow> ''task_scheduler''
                               | ModExecutor \<Rightarrow> ''command_executor''),
      mod_GetSubscribedEvents = (\<lambda>m. case m of ModTrigger \<Rightarrow> tt_GetSubscribedEvents
                               | ModScheduler \<Rightarrow> ts_GetSubscribedEvents | ModExecutor \<Rightarrow> ce_GetSubscribedEvents),
      mod_Start = (\<lambda>m. case m of ModTrigger \<Rightarrow> am_on_trigger tt_Start | ModScheduler \<Rightarrow> am_on_scheduler ts_Start
                               | ModExecutor \<Rightarrow> am_on_executor ce_Start),
      mod_Stop = (\<lambda>m. case m of ModTrigger \<Rightarrow> am_on_trigger tt_Stop | ModScheduler \<Rightarrow> am_on_scheduler ts_Stop
                               | ModExecutor \<Rightarrow> am_on_executor (ce_Stop now)),
      mod_HandleEvent = (\<lambda>m e. case m of ModTrigger \<Rightarrow> am_on_trigger (tt_HandleEvent fire now e)
                               | ModScheduler \<Rightarrow> am_on_scheduler (\<lambda>ts. map_prod id Ret (ts_HandleEvent now e ts))
                               | ModExecutor \<Rightarrow> am_on_executor (ce_HandleEvent e))\<rparr>"

section \<open>The system\<close>

record ('f, 'd, 'c, 'n) MotionControlSystem =
  mcs_eventLoop :: "sys_module EventLoop"
  mcs_infrastructure :: "('f, 'd, 'c, 'n) InfrastructureManager"
  mcs_application :: ApplicationManager
  mcs_cancelled :: bool
  mcs_running :: bool

text \<open>\<open>None\<close> is the nil system that comes with an error.  The configuration is loaded twice, by two managers.\<close>

definition NewMotionControlSystem ::
  "('b, 'f) cfg_ops \<Rightarrow> int \<Rightarrow> string \<Rightarrow> 'f \<Rightarrow> 'd \<Rightarrow> 'n \<Rightarrow> ('f, 'd, 'c, 'n) MotionControlSystem result exec" where
  "NewMotionControlSystem files now path f d n =
     (let (cm, r) = open_config files now path f in
      ebind r (\<lambda>e. case e of
        Some e \<Rightarrow> Ret (Err e)
      | None \<Rightarrow>
          ebind (snd (cm_GetConfig cm)) (\<lambda>cfg.
            let (im, r) = NewInfrastructureManager files now path cfg (cm_world cm) d n in
            ebind r (\<lambda>e. Ret (case e of
              Some e \<Rightarrow> Err (Errorf ''failed to create infrastructure manager: %w'' [AErr e])
            | None \<Rightarrow>
                Ok \<lparr>mcs_eventLoop = NewEventLoop (cfg_EventLoopInterval cfg), mcs_infrastructure = im,
                    mcs_application = NewApplicationManager cfg, mcs_cancelled = False, mcs_running = False\<rparr>)))))"

definition mcs_register ::
  "(sys_module, ApplicationManager) module_ops \<Rightarrow> string \<Rightarrow> sys_module \<Rightarrow> ('f, 'd, 'c, 'n) MotionControlSystem \<Rightarrow>
   ('f, 'd, 'c, 'n) MotionControlSystem \<times> goerr option exec" where
  "mcs_register mods name m s =
     (let ((el, am), r) = el_RegisterModule mods name m (mcs_eventLoop s) (mcs_application s)
      in (s\<lparr>mcs_eventLoop := el, mcs_application := am\<rparr>, r))"

definition mcs_setupEventHandlers ::
  "(sys_module, ApplicationManager) module_ops \<Rightarrow> ('f, 'd, 'c, 'n) MotionControlSystem \<Rightarrow>
   ('f, 'd, 'c, 'n) MotionControlSystem \<times> goerr option exec" where
  "mcs_setupEventHandlers mods =
     check_error ''failed to register task trigger: %w'' (mcs_register mods ''task_trigger'' ModTrigger)
    (check_error ''failed to register task scheduler: %w'' (mcs_register mods ''task_scheduler'' ModScheduler)
    (check_error ''failed to register command executor: %w'' (mcs_register mods ''command_executor'' ModExecutor)
       (\<lambda>s. (s, Ret None))))"

text \<open>
  The application's dependencies, which include its handler for business messages (number 0) at the IPC
  server.
\<close>

definition mcs_SetupDependencies ::
  "('f, 'd, 'c, 'n) MotionControlSystem \<Rightarrow> ('f, 'd, 'c, 'n) MotionControlSystem \<times> goerr option exec" where
  "mcs_SetupDependencies s =
     (let (am, r) = am_SetupDependencies (mcs_application s)
      in (s\<lparr>mcs_application := am,
            mcs_infrastructure := im_ipcServer_update (is_RegisterHandler ''business_command'' 0) (mcs_infrastructure s)\<rparr>,
          Ret r))"

definition mcs_setupConfigWatcher :: "('f, 'd, 'c, 'n) MotionControlSystem \<Rightarrow> ('f, 'd, 'c, 'n) MotionControlSystem" where
  "mcs_setupConfigWatcher = mcs_infrastructure_update (im_WatchConfigChanges 0)"

text \<open>Prints parts of the configuration, which it reads under the configuration's lock.\<close>

definition mcs_printSystemInfo ::
  "('f, 'd, 'c, 'n) MotionControlSystem \<Rightarrow> ('f, 'd, 'c, 'n) MotionControlSystem \<times> SystemConfig exec" where
  "mcs_printSystemInfo = on_part mcs_infrastructure mcs_infrastructure_update im_GetSystemConfig"

definition mcs_Start ::
  "('b, 'f, 'd, 'c, 'n) sys_ops \<Rightarrow> (sys_module, ApplicationManager) module_ops \<Rightarrow> int \<Rightarrow>
   ('f, 'd, 'c, 'n) MotionControlSystem \<Rightarrow> ('f, 'd, 'c, 'n) MotionControlSystem \<times> goerr option exec" where
  "mcs_Start ops mods now s =
     (if mcs_running s then (s, Ret (Some (Errorf ''system is already running'' [])))
      else
       (check_error ''failed to setup event handlers: %w'' (mcs_setupEventHandlers mods)
       (check_error ''failed to start infrastructure layer: %w''
          (on_part mcs_infrastructure mcs_infrastructure_update (\<lambda>im. map_prod id Ret (im_Start ops now im)))
       (check_error ''failed to setup application dependencies: %w'' mcs_SetupDependencies
       (check_error ''failed to start application layer: %w''
          (on_part mcs_application mcs_application_update (am_Start now))
       (check_error ''failed to start event loop: %w''
          (on_part mcs_eventLoop mcs_eventLoop_update (\<lambda>el. map_prod id Ret (el_Start now el)))
          (\<lambda>s. and_then mcs_printSystemInfo (\<lambda>_ s. (s, Ret None))
                 (mcs_setupConfigWatcher s\<lparr>mcs_running := True\<rparr>)))))))
       (s\<lparr>mcs_cancelled := False\<rparr>))"

text \<open>What goes on while \<open>Stop\<close> sleeps or waits: turns of the loop and of the server's goroutines.\<close>

record ('c, 'n) stop_env =
  se_loop_turns :: "sys_module EventLoop \<times> ApplicationManager \<Rightarrow> sys_module EventLoop \<times> ApplicationManager"
  se_ipc_turns :: "('c, 'n) IPCServer \<Rightarrow> ('c, 'n) IPCServer"

definition mcs_stop_loop ::
  "(sys_module, ApplicationManager) module_ops \<Rightarrow> ('c, 'n) stop_env \<Rightarrow> int \<Rightarrow> ('f, 'd, 'c, 'n) MotionControlSystem \<Rightarrow>
   ('f, 'd, 'c, 'n) MotionControlSystem \<times> goerr option exec" where
  "mcs_stop_loop mods env now s =
     (case el_Stop_begin now (mcs_eventLoop s) of
        (el, Some e) \<Rightarrow> (s\<lparr>mcs_eventLoop := el\<rparr>, Ret (Some e))
      | (el, None) \<Rightarrow>
          (let (el1, am1) = se_loop_turns env (el, mcs_application s);
               ((el2, am2), r) = el_Stop_finish mods el1 am1
           in (s\<lparr>mcs_eventLoop := el2, mcs_application := am2\<rparr>, r)))"

text \<open>The errors of the three parts are logged; the result is nil.\<close>

definition mcs_Stop ::
  "('b, 'f, 'd, 'c, 'n) sys_ops \<Rightarrow> (sys_module, ApplicationManager) module_ops \<Rightarrow> ('c, 'n) stop_env \<Rightarrow> int \<Rightarrow>
   ('f, 'd, 'c, 'n) MotionControlSystem \<Rightarrow> ('f, 'd, 'c, 'n) MotionControlSystem \<times> goerr option exec" where
  "mcs_Stop ops mods env now s =
     (if \<not> mcs_running s then (s, Ret (Some (Errorf ''system is not running'' [])))
      else
        and_then (mcs_stop_loop mods env now) (\<lambda>_.
        and_then (on_part mcs_application mcs_application_update (am_Stop now)) (\<lambda>_.
        and_then (on_part mcs_infrastructure mcs_infrastructure_update (im_Stop ops now (se_ipc_turns env))) (\<lambda>_ s.
          (s\<lparr>mcs_running := False\<rparr>, Ret None))))
        (s\<lparr>mcs_cancelled := True\<rparr>))"

section \<open>The program\<close>

text \<open>
  \<open>main\<close>: creation and start; a fatal error ends the program, a call that does not return leaves it where it
  is, before it listens for signals.
\<close>

datatype 's outcome = WaitsForSignal 's | ExitsNormally | ForcedExit | FatalExit goerr | Crashes string | HangsAtStart

definition main_startup ::
  "('b, 'f, 'd, 'c, 'n) sys_ops \<Rightarrow> (sys_module, ApplicationManager) module_ops \<Rightarrow> int \<Rightarrow> string \<Rightarrow> 'f \<Rightarrow> 'd \<Rightarrow> 'n \<Rightarrow>
   ('f, 'd, 'c, 'n) MotionControlSystem outcome" where
  "main_startup ops mods now path f d n =
     (case NewMotionControlSystem (so_files ops) now path f d n of
        Blocked \<Rightarrow> HangsAtStart
      | Panic m \<Rightarrow> Crashes m
      | Ret (Err e) \<Rightarrow> FatalExit (Errorf ''Failed to create motion control system: %v'' [AErr e])
      | Ret (Ok s) \<Rightarrow>
          (case mcs_Start ops mods now s of
             (_, Blocked) \<Rightarrow> HangsAtStart
           | (_, Panic m) \<Rightarrow> Crashes m
           | (_, Ret (Some e)) \<Rightarrow> FatalExit (Errorf ''Failed to start motion control system: %v'' [AErr e])
           | (s', Ret None) \<Rightarrow> WaitsForSignal s'))"

text \<open>
  After the signal, \<open>Stop\<close> runs in a goroutine and \<open>main\<close> waits for it for ten seconds at most, then ends
  the program with exit code 1.
\<close>

definition main_shutdown ::
  "('b, 'f, 'd, 'c, 'n) sys_ops \<Rightarrow> (sys_module, ApplicationManager) module_ops \<Rightarrow> ('c, 'n) stop_env \<Rightarrow> int \<Rightarrow>
   ('f, 'd, 'c, 'n) MotionControlSystem \<Rightarrow> ('f, 'd, 'c, 'n) MotionControlSystem outcome" where
  "main_shutdown ops mods env now s =
     (case mcs_Stop ops mods env now s of
        (_, Ret _) \<Rightarrow> ExitsNormally
      | (_, Panic m) \<Rightarrow> Crashes m
      | (_, Blocked) \<Rightarrow> ForcedExit)"

end
