(* ===== verification/SystemProps.thy ===== *)
theory SystemProps
  imports System HwProps ConfigMgrProps IpcProps ApplicationProps
begin

text \<open>
  The parts put together: the start of the program, its shutdown, motion commands on their way to the
  hardware, business messages on their way from a client to the application and back.
\<close>

section \<open>Starting\<close>

abbreviation sys_hw :: "('f, 'd, 'c, 'n) MotionControlSystem \<Rightarrow> 'd HwManager" where
  "sys_hw s \<equiv> dm_hardwareMgr (im_deviceManager (mcs_infrastructure s))"

lemma hf_AddDevice_scan:
  "hm_autoScan (fst (hf_AddDeviceFromConfig now i dc m)) = hm_autoScan m"
proof (cases "hf_CreateDeviceConfig i dc")
  case (Ok cfg)
  have emit: "hm_autoScan (fst (hm_emitEvent ev s)) = hm_autoScan s" for ev and s :: "'a HwManager"
    by (auto simp: hm_emitEvent_def split: prod.split exec.split)
  have "hm_autoScan (fst (hm_add_locked now cfg s)) = hm_autoScan s" for s :: "'a HwManager"
  proof -
    have "hm_autoScan (fst (and_then (hm_emitEvent ev) (\<lambda>_ m. (m, Ret (None :: goerr option))) s')) = hm_autoScan s"
      if "hm_autoScan s' = hm_autoScan s" for ev and s' :: "'a HwManager"
      using that emit[of ev s'] by (intro and_then_inv[where P = "\<lambda>m. hm_autoScan m = hm_autoScan s"]) simp_all
    then show ?thesis by (simp add: hm_add_locked_def Let_def split: result.split)
  qed
  then have "hm_autoScan (fst (hm_AddDevice now cfg m)) = b" if "hm_autoScan m = b" for b
    unfolding hm_AddDevice_def using that by (intro with_lock_inv[where P = "\<lambda>s. hm_autoScan s = b"]) simp_all
  then show ?thesis using Ok by (simp add: hf_AddDeviceFromConfig_def)
qed (simp add: hf_AddDeviceFromConfig_def)

lemma hf_ConnectDevice_scan: "hm_autoScan (fst (hf_ConnectDevice ops i m)) = hm_autoScan m"
  unfolding hf_ConnectDevice_def hm_ConnectDevice_def hm_on_device_def
  by (cases rule: hm_GetDevice_cases[of i m]) (simp_all add: hm_call_def case_prod_unfold Let_def)

lemma dm_start_device_scan:
  "hm_autoScan (dm_hardwareMgr (dm_start_device (factory_ops bops env now) now ic dm)) = hm_autoScan (dm_hardwareMgr dm)"
  using hf_AddDevice_scan[of now "fst ic" "snd ic" "dm_hardwareMgr dm"]
    hf_ConnectDevice_scan[of bops "fst ic" "fst (hf_AddDeviceFromConfig now (fst ic) (snd ic) (dm_hardwareMgr dm))"]
  by (auto simp: dm_start_device_def factory_ops_def map_prod_def split: prod.split option.split result.split)

lemma dm_start_fold_scan:
  "hm_autoScan (dm_hardwareMgr (fold (dm_start_device (factory_ops bops env now) now) ics dm)) = hm_autoScan (dm_hardwareMgr dm)"
  by (induction ics arbitrary: dm) (simp_all add: dm_start_device_scan)

lemma dm_Start_scan:
  assumes "hm_mu (dm_hardwareMgr dm) = Unlocked"
  shows "snd (dm_Start (factory_ops bops env now) now dm) = None"
    "hm_autoScan (dm_hardwareMgr (fst (dm_Start (factory_ops bops env now) now dm)))"
proof -
  have "hw_Start (factory_ops bops env now) h = (fst (hf_Start h), settled Some (snd (hf_Start h)))" for h
    by (simp add: factory_ops_def map_prod_def case_prod_unfold)
  then show "hm_autoScan (dm_hardwareMgr (fst (dm_Start (factory_ops bops env now) now dm)))"
    using hf_Start_result[OF assms] by (simp add: dm_Start_def Let_def dm_start_fold_scan)
qed (simp add: dm_Start_def Let_def)

section \<open>Stopping\<close>

lemma hf_Stop_blocked:
  assumes "hm_autoScan m"
  shows "snd (hf_Stop ops m) = Blocked"
proof (cases "hm_mu m = Unlocked")
  case True
  let ?s = "hm_mu_update (\<lambda>_. WLocked) (m\<lparr>hm_cancelled := True\<rparr>)"
  obtain s' where "hm_drop_all ops (map snd (hm_devices ?s)) ?s = (s', Ret ())" "same_tables ?s s'"
    using hm_drop_all_returns by blast
  moreover from this(2) have "hm_mu s' = WLocked" "hm_autoScan s'" using assms by (simp_all add: same_tables_def)
  ultimately show ?thesis
    using True by (simp add: hf_Stop_def hm_Stop_def with_lock_free hm_StopAutoScan_def with_lock_held and_then_def)
qed (simp add: hf_Stop_def hm_Stop_def with_lock_held)

lemma dm_Stop_blocked:
  "hm_autoScan (dm_hardwareMgr dm) \<Longrightarrow> snd (dm_Stop (factory_ops bops env now) now' dm) = Blocked"
  using hf_Stop_blocked[of "dm_hardwareMgr dm" bops]
  by (auto simp: dm_Stop_def factory_ops_def split: prod.split exec.split)

lemma and_then_RetE:
  assumes "snd (and_then f g s) = Ret b"
  obtains a s' where "f s = (s', Ret a)" "snd (g a s') = Ret b"
  using assms by (auto simp: and_then_def split: prod.splits exec.splits)

lemma on_part_snd: "snd (on_part get put f s) = snd (f (get s))"
  by (simp add: on_part_def case_prod_unfold Let_def)

lemma im_Stop_stuck:
  assumes "hm_autoScan (dm_hardwareMgr (im_deviceManager im))"
  shows "snd (im_Stop ops now turns im) \<noteq> Ret r"
proof
  assume "snd (im_Stop ops now turns im) = Ret r"
  then obtain r1 im1 r2 im2 where
    1: "on_part im_ipcServer im_ipcServer_update (im_stop_ipc (so_net ops) turns) im = (im1, Ret r1)" and
    2: "on_part im_deviceManager im_deviceManager_update
       (dm_Stop (factory_ops (so_bus ops) (so_bus_env ops) now) now) im1 = (im2, Ret r2)"
    unfolding im_Stop_def by (elim and_then_RetE)
  have "im_deviceManager im1 = im_deviceManager im"
    using 1 by (auto simp: on_part_def case_prod_unfold Let_def)
  then have "snd (dm_Stop (factory_ops (so_bus ops) (so_bus_env ops) now) now (im_deviceManager im1)) = Blocked"
    using assms by (simp add: dm_Stop_blocked)
  then show False using arg_cong[OF 2, of snd] by (simp add: on_part_snd)
qed

lemma mcs_Stop_stuck:
  assumes "mcs_running t" "hm_autoScan (sys_hw t)"
  shows "snd (mcs_Stop ops mods env now t) \<noteq> Ret r"
proof
  assume "snd (mcs_Stop ops mods env now t) = Ret r"
  then have "snd (and_then (mcs_stop_loop mods env now) (\<lambda>_.
        and_then (on_part mcs_application mcs_application_update (am_Stop now)) (\<lambda>_.
        and_then (on_part mcs_infrastructure mcs_infrastructure_update (im_Stop ops now (se_ipc_turns env))) (\<lambda>_ s.
          (s\<lparr>mcs_running := False\<rparr>, Ret None)))) (t\<lparr>mcs_cancelled := True\<rparr>)) = Ret r"
    using assms(1) by (simp add: mcs_Stop_def)
  then obtain r1 s1 r2 s2 r3 s3 where
    1: "mcs_stop_loop mods env now (t\<lparr>mcs_cancelled := True\<rparr>) = (s1, Ret r1)" and
    2: "on_part mcs_application mcs_application_update (am_Stop now) s1 = (s2, Ret r2)" and
    3: "on_part mcs_infrastructure mcs_infrastructure_update (im_Stop ops now (se_ipc_turns env)) s2 = (s3, Ret r3)"
    by (elim and_then_RetE)
  have "mcs_infrastructure s1 = mcs_infrastructure t"
    using 1 by (auto simp: mcs_stop_loop_def Let_def split: prod.splits option.splits)
  moreover have "mcs_infrastructure s2 = mcs_infrastructure s1"
    using 2 by (auto simp: on_part_def case_prod_unfold Let_def)
  moreover have "snd (im_Stop ops now (se_ipc_turns env) (mcs_infrastructure s2)) = Ret r3"
    using arg_cong[OF 3, of snd] by (simp add: on_part_snd)
  ultimately show False using im_Stop_stuck[of "mcs_infrastructure t" ops now "se_ipc_turns env" r3] assms(2) by simp
qed

section \<open>A start that succeeds\<close>

text \<open>When the configuration can be loaded.\<close>

definition loads :: "('b, 'f) cfg_ops \<Rightarrow> string \<Rightarrow> 'f \<Rightarrow> SystemConfig \<Rightarrow> bool" where
  "loads files path f c \<longleftrightarrow>
     (\<exists>b c0. fo_read files path f = Ok b \<and> fo_decode files b = Ok c0 \<and> cm_validateConfig c0 = (c, None))"

lemma open_config_loads:
  assumes "loads files path f c"
  shows "open_config files now path f = ((NewConfigManager path f)\<lparr>cm_config := c, cm_lastModified := now\<rparr>, Ret None)"
  using assms
  by (auto simp: loads_def open_config_def cm_LoadConfig_def with_lock_free NewConfigManager_def and_then_def)

lemma NewMotionControlSystem_loads:
  assumes "loads files path f c"
  shows "NewMotionControlSystem files now path f d n =
     Ret (Ok \<lparr>mcs_eventLoop = NewEventLoop (cfg_EventLoopInterval c),
              mcs_infrastructure =
                \<lparr>im_configManager = (NewConfigManager path f)\<lparr>cm_config := c, cm_lastModified := now\<rparr>,
                 im_deviceManager = NewDeviceManager c (NewHardwareFactory d),
                 im_ipcServer = NewIPCServer (cfg_IPC c) n\<rparr>,
              mcs_application = NewApplicationManager c, mcs_cancelled = False, mcs_running = False\<rparr>)"
proof -
  have "snd (cm_GetConfig ((NewConfigManager path f)\<lparr>cm_config := c, cm_lastModified := now\<rparr>)) = Ret c"
    by (simp add: cm_GetConfig_def with_rlock_free NewConfigManager_def)
  moreover have "cm_world ((NewConfigManager path f)\<lparr>cm_config := c, cm_lastModified := now\<rparr>) = f"
    by (simp add: NewConfigManager_def)
  ultimately show ?thesis
    by (simp add: NewMotionControlSystem_def NewInfrastructureManager_def open_config_loads[OF assms] Let_def)
qed

lemma register_stopped:
  assumes "\<not> el_running (mcs_eventLoop s)" "\<not> gm_has (el_modules (mcs_eventLoop s)) n"
  shows "\<exists>el. mcs_register mods n m s = (s\<lparr>mcs_eventLoop := el\<rparr>, Ret None) \<and> \<not> el_running el \<and>
    (\<forall>k. gm_has (el_modules el) k \<longleftrightarrow> k = n \<or> gm_has (el_modules (mcs_eventLoop s)) k)"
  by (rule exI[of _ "fold (\<lambda>ty el. fst (el_RegisterHandler ty m el)) (mod_GetSubscribedEvents mods m)
       ((mcs_eventLoop s)\<lparr>el_modules := gm_set n m (el_modules (mcs_eventLoop s))\<rparr>)"])
    (use assms in \<open>auto simp: mcs_register_def el_RegisterModule_def Let_def gm_has_def\<close>)

lemma setup_handlers_ok:
  assumes "\<not> el_running (mcs_eventLoop s)" "el_modules (mcs_eventLoop s) = []"
  shows "\<exists>el. mcs_setupEventHandlers mods s = (s\<lparr>mcs_eventLoop := el\<rparr>, Ret None) \<and> \<not> el_running el"
proof -
  have 0: "\<not> gm_has (el_modules (mcs_eventLoop s)) k" for k using assms(2) by (simp add: gm_has_def)
  obtain e1 where 1: "mcs_register mods ''task_trigger'' ModTrigger s = (s\<lparr>mcs_eventLoop := e1\<rparr>, Ret None)"
    "\<not> el_running e1" "\<And>k. gm_has (el_modules e1) k \<longleftrightarrow> k = ''task_trigger''"
    using register_stopped[OF assms(1) 0[of "''task_trigger''"], of mods ModTrigger] 0 by auto
  obtain e2 where 2: "mcs_register mods ''task_scheduler'' ModScheduler (s\<lparr>mcs_eventLoop := e1\<rparr>) =
      (s\<lparr>mcs_eventLoop := e2\<rparr>, Ret None)"
    "\<not> el_running e2" "\<And>k. gm_has (el_modules e2) k \<longleftrightarrow> k = ''task_scheduler'' \<or> k = ''task_trigger''"
    using register_stopped[of "s\<lparr>mcs_eventLoop := e1\<rparr>" "''task_scheduler''" mods ModScheduler] 1 by auto
  obtain e3 where 3: "mcs_register mods ''command_executor'' ModExecutor (s\<lparr>mcs_eventLoop := e2\<rparr>) =
      (s\<lparr>mcs_eventLoop := e3\<rparr>, Ret None)" "\<not> el_running e3"
    using register_stopped[of "s\<lparr>mcs_eventLoop := e2\<rparr>" "''command_executor''" mods ModExecutor] 2 by auto
  have "mcs_setupEventHandlers mods s = (s\<lparr>mcs_eventLoop := e3\<rparr>, Ret None)"
    unfolding mcs_setupEventHandlers_def by (simp add: check_error_def and_then_def 1(1) 2(1) 3(1))
  then show ?thesis using 3(2) by blast
qed

lemma im_Start_ok:
  assumes "hm_mu (dm_hardwareMgr (im_deviceManager im)) = Unlocked"
    and "no_listen (so_net ops) (ipc_Address (is_config (im_ipcServer im))) (ipc_Port (is_config (im_ipcServer im)))
           (is_world (im_ipcServer im)) = (w, None)"
  shows "\<exists>im'. im_Start ops now im = (im', None) \<and> hm_autoScan (dm_hardwareMgr (im_deviceManager im')) \<and>
     cm_configLock (im_configManager im') = cm_configLock (im_configManager im)"
proof -
  obtain dm where dm: "dm_Start (factory_ops (so_bus ops) (so_bus_env ops) now) now (im_deviceManager im) = (dm, None)"
    "hm_autoScan (dm_hardwareMgr dm)"
    using dm_Start_scan[OF assms(1), of "so_bus ops" "so_bus_env ops" now]
    by (cases "dm_Start (factory_ops (so_bus ops) (so_bus_env ops) now) now (im_deviceManager im)") simp
  have "cm_configLock (fst (cm_StartWatching cm)) = cm_configLock cm" for cm :: "'b ConfigManager"
    by (simp add: cm_StartWatching_def)
  then show ?thesis using dm assms(2) by (simp add: im_Start_def is_Start_def)
qed

lemma mcs_Start_ok:
  assumes "\<not> mcs_running s" "\<not> el_running (mcs_eventLoop s)" "el_modules (mcs_eventLoop s) = []"
    and "hm_mu (sys_hw s) = Unlocked" "cm_configLock (im_configManager (mcs_infrastructure s)) = Unlocked"
    and "mcs_application s = NewApplicationManager c"
    and "no_listen (so_net ops) (ipc_Address (is_config (im_ipcServer (mcs_infrastructure s))))
           (ipc_Port (is_config (im_ipcServer (mcs_infrastructure s)))) (is_world (im_ipcServer (mcs_infrastructure s))) = (w, None)"
  shows "\<exists>s'. mcs_Start ops mods now s = (s', Ret None) \<and> mcs_running s' \<and> hm_autoScan (sys_hw s') \<and>
     el_running (mcs_eventLoop s') \<and> am_up (mcs_application s')"
proof -
  let ?s0 = "s\<lparr>mcs_cancelled := False\<rparr>"
  obtain el where el: "mcs_setupEventHandlers mods ?s0 = (?s0\<lparr>mcs_eventLoop := el\<rparr>, Ret None)" "\<not> el_running el"
    using setup_handlers_ok[of ?s0 mods] assms(2,3) by auto
  let ?s1 = "?s0\<lparr>mcs_eventLoop := el\<rparr>"
  obtain im where im: "im_Start ops now (mcs_infrastructure s) = (im, None)" "hm_autoScan (dm_hardwareMgr (im_deviceManager im))"
    "cm_configLock (im_configManager im) = Unlocked"
    using im_Start_ok[OF assms(4,7)] assms(5) by auto
  let ?s2 = "?s1\<lparr>mcs_infrastructure := im\<rparr>"
  obtain am where am: "am_SetupDependencies (NewApplicationManager c) = (am, None)"
    by (simp add: am_SetupDependencies_def am_connectDevicesToHAL_def)
  let ?im3 = "im_ipcServer_update (is_RegisterHandler ''business_command'' 0) im"
  let ?s3 = "?s2\<lparr>mcs_application := am, mcs_infrastructure := ?im3\<rparr>"
  have "am_down am" "tol_open True (am_taskOrchestration am)" using am_new_down(1,3)[of c] am by simp_all
  then obtain am' where am': "am_Start now am = (am', Ret None)" "am_up am'" using am_Start_up by blast
  let ?s4 = "?s3\<lparr>mcs_application := am'\<rparr>"
  obtain el' where el': "el_Start now el = (el', None)" "el_running el'"
    using el(2) by (auto simp: el_Start_def Let_def el_EmitEvent_def)
  let ?s5 = "mcs_setupConfigWatcher (?s4\<lparr>mcs_eventLoop := el'\<rparr>)\<lparr>mcs_running := True\<rparr>"
  have lock: "cm_configLock (im_configManager (mcs_infrastructure ?s5)) = Unlocked"
    using im(3) by (simp add: mcs_setupConfigWatcher_def im_WatchConfigChanges_def cm_WatchChanges_def)
  obtain s6 c6 where s6: "mcs_printSystemInfo ?s5 = (s6, Ret c6)" "mcs_running s6" "sys_hw s6 = sys_hw ?s5"
    "mcs_eventLoop s6 = mcs_eventLoop ?s5" "mcs_application s6 = mcs_application ?s5"
    using lock by (auto simp: mcs_printSystemInfo_def im_GetSystemConfig_def on_part_def cm_GetConfig_def with_rlock_free Let_def)
  have "mcs_Start ops mods now s = (s6, Ret None)"
    unfolding mcs_Start_def using assms(1,6) el(1) im(1) am am'(1) el'(1) s6(1)
    by (simp add: check_error_def and_then_def on_part_def mcs_SetupDependencies_def)
  then show ?thesis
    using s6 im(2) am'(2) el'(2) by (simp add: mcs_setupConfigWatcher_def im_WatchConfigChanges_def)
qed

lemma start_loads:
  fixes ops :: "('b, 'f, 'd, 'c, 'n) sys_ops"
  assumes "loads (so_files ops) path f c" "no_listen (so_net ops) (ipc_Address (cfg_IPC c)) (ipc_Port (cfg_IPC c)) n = (w, None)"
  shows "\<exists>s. main_startup ops mods now path f d n = WaitsForSignal s \<and> mcs_running s \<and>
     el_running (mcs_eventLoop s) \<and> am_up (mcs_application s) \<and> hm_autoScan (sys_hw s)"
proof -
  let ?s = "\<lparr>mcs_eventLoop = NewEventLoop (cfg_EventLoopInterval c),
             mcs_infrastructure =
               \<lparr>im_configManager = (NewConfigManager path f)\<lparr>cm_config := c, cm_lastModified := now\<rparr>,
                im_deviceManager = NewDeviceManager c (NewHardwareFactory d), im_ipcServer = NewIPCServer (cfg_IPC c) n\<rparr>,
             mcs_application = NewApplicationManager c, mcs_cancelled = False, mcs_running = False\<rparr>
             :: ('f, 'd, 'c, 'n) MotionControlSystem"
  have "\<exists>s'. mcs_Start ops mods now ?s = (s', Ret None) \<and> mcs_running s' \<and> hm_autoScan (sys_hw s') \<and>
     el_running (mcs_eventLoop s') \<and> am_up (mcs_application s')"
    by (rule mcs_Start_ok)
      (use assms(2) in \<open>simp_all add: NewEventLoop_def NewDeviceManager_def NewHardwareFactory_def NewHwManager_def
          NewConfigManager_def NewIPCServer_def\<close>)
  then show ?thesis by (auto simp: main_startup_def NewMotionControlSystem_loads[OF assms(1)])
qed


lemma check_error_NoneE:
  assumes "check_error fm f g s = (t, Ret None)"
  obtains s' where "f s = (s', Ret None)" "g s' = (t, Ret None)"
  using assms by (auto simp: check_error_def and_then_def split: prod.splits exec.splits option.splits)

lemma register_keeps: "mcs_infrastructure (fst (mcs_register mods n m s)) = mcs_infrastructure s"
  by (simp add: mcs_register_def case_prod_unfold Let_def)

lemma setup_keeps: "mcs_setupEventHandlers mods s = (t, Ret None) \<Longrightarrow> mcs_infrastructure t = mcs_infrastructure s"
  unfolding mcs_setupEventHandlers_def
  by (elim check_error_NoneE) (metis fst_conv prod.inject register_keeps)

lemma new_system_hw:
  "NewMotionControlSystem files now path f d n = Ret (Ok s) \<Longrightarrow> sys_hw s = NewHardwareFactory d"
  by (auto simp: NewMotionControlSystem_def NewInfrastructureManager_def NewDeviceManager_def case_prod_unfold Let_def
      ebind_Ret split: option.splits)

lemma im_Start_scan:
  assumes "hm_mu (dm_hardwareMgr (im_deviceManager im)) = Unlocked" "im_Start ops now im = (im', None)"
  shows "hm_autoScan (dm_hardwareMgr (im_deviceManager im'))"
  using dm_Start_scan[OF assms(1), of "so_bus ops" "so_bus_env ops" now] assms(2)
  by (auto simp: im_Start_def Let_def split: prod.splits option.splits)

lemma started_scans:
  fixes ops :: "('b, 'f, 'd, 'c, 'n) sys_ops"
  assumes "main_startup ops mods now path f d n = WaitsForSignal s"
  shows "hm_autoScan (sys_hw s)"
proof -
  obtain s0 where s0: "NewMotionControlSystem (so_files ops) now path f d n = Ret (Ok s0)" "mcs_Start ops mods now s0 = (s, Ret None)"
    using assms by (auto simp: main_startup_def split: exec.splits result.splits prod.splits option.splits)
  have free: "hm_mu (sys_hw s0) = Unlocked"
    using new_system_hw[OF s0(1)] by (simp add: NewHardwareFactory_def NewHwManager_def)
  obtain s1 s2 s3 s4 s5 where
    1: "mcs_setupEventHandlers mods (s0\<lparr>mcs_cancelled := False\<rparr>) = (s1, Ret None)" and
    2: "on_part mcs_infrastructure mcs_infrastructure_update (\<lambda>im. map_prod id Ret (im_Start ops now im)) s1 = (s2, Ret None)" and
    3: "mcs_SetupDependencies s2 = (s3, Ret None)" and
    4: "on_part mcs_application mcs_application_update (am_Start now) s3 = (s4, Ret None)" and
    5: "on_part mcs_eventLoop mcs_eventLoop_update (\<lambda>el. map_prod id Ret (el_Start now el)) s4 = (s5, Ret None)" and
    6: "and_then mcs_printSystemInfo (\<lambda>_ s. (s, Ret (None :: goerr option))) (mcs_setupConfigWatcher s5\<lparr>mcs_running := True\<rparr>) = (s, Ret None)"
  proof -
    have idle: "\<not> mcs_running s0" using s0(2) by (auto simp: mcs_Start_def)
    show thesis using s0(2) unfolding mcs_Start_def if_not_P[OF idle] by (elim check_error_NoneE) (rule that)
  qed
  have "mcs_infrastructure s1 = mcs_infrastructure s0" using setup_keeps[OF 1] by simp
  then have "im_Start ops now (mcs_infrastructure s0) = (mcs_infrastructure s2, None)"
    using 2 by (cases "im_Start ops now (mcs_infrastructure s0)") (auto simp: on_part_def)
  then have scan: "hm_autoScan (sys_hw s2)" by (rule im_Start_scan[OF free])
  have "sys_hw s3 = sys_hw s2" using 3 by (auto simp: mcs_SetupDependencies_def case_prod_unfold Let_def)
  moreover have "sys_hw s4 = sys_hw s3" using 4 by (auto simp: on_part_def case_prod_unfold Let_def)
  moreover have "sys_hw s5 = sys_hw s4" using 5 by (auto simp: on_part_def case_prod_unfold Let_def)
  moreover have printed: "sys_hw (fst (mcs_printSystemInfo x)) = sys_hw x" for x :: "('f, 'd, 'c, 'n) MotionControlSystem"
    by (simp add: mcs_printSystemInfo_def on_part_def im_GetSystemConfig_def case_prod_unfold Let_def)
  have "sys_hw s = sys_hw (mcs_setupConfigWatcher s5\<lparr>mcs_running := True\<rparr>)"
  proof -
    obtain c where "mcs_printSystemInfo (mcs_setupConfigWatcher s5\<lparr>mcs_running := True\<rparr>) = (s, Ret c)"
      using 6 by (auto simp: and_then_def split: prod.splits exec.splits)
    then have "fst (mcs_printSystemInfo (mcs_setupConfigWatcher s5\<lparr>mcs_running := True\<rparr>)) = s" by (rule fstI)
    with printed[of "mcs_setupConfigWatcher s5\<lparr>mcs_running := True\<rparr>"]
    show "sys_hw s = sys_hw (mcs_setupConfigWatcher s5\<lparr>mcs_running := True\<rparr>)" by (simp only:)
  qed
  then have "sys_hw s = sys_hw s5" by (simp add: mcs_setupConfigWatcher_def im_WatchConfigChanges_def)
  ultimately show ?thesis using scan by simp
qed

text \<open>
  C1. Every shutdown is forced: from any state of a program that has started, as long as the scan of the
  hardware layer is on, which nothing but the stop of that layer ends, the shutdown does not end
  normally.  The stop of the hardware layer never returns, and after ten seconds \<open>main\<close> ends the program
  with exit code 1 (unless a panic of the stop ended it before).
\<close>

theorem every_shutdown_is_forced:
  assumes "main_startup ops mods now path f d n = WaitsForSignal s"
    and "mcs_running t" "hm_autoScan (sys_hw t) = hm_autoScan (sys_hw s)"
  shows "main_shutdown ops mods env later t = ForcedExit \<or> (\<exists>m. main_shutdown ops mods env later t = Crashes m)"
proof -
  have "hm_autoScan (sys_hw t)"
    using assms started_scans by metis
  then have "snd (mcs_Stop ops mods env later t) \<noteq> Ret r" for r by (rule mcs_Stop_stuck[OF assms(2)])
  then show ?thesis
    by (cases "mcs_Stop ops mods env later t"; cases "snd (mcs_Stop ops mods env later t)") (auto simp: main_shutdown_def)
qed


section \<open>Motion commands and the hardware\<close>




text \<open>
  With entries for the protocols \<open>mock\<close> and \<open>modbus\<close>, the two that the device package implements itself,
  and so with the shipped configuration, no device exists after the start: the hardware factory knows
  neither name, and its refusal keeps the device package from creating the device.
\<close>

theorem own_protocols_yield_no_device:
  assumes "\<And>i dc. (i, dc) \<in> set (cfg_Devices cfg) \<Longrightarrow>
     dc_Protocol dc \<in> {''mock'', ''modbus''} \<and> gm_get (dc_Parameters dc) ''type'' = None"
  shows "dm_devices (fst (dm_Start (factory_ops bops env t) now (NewDeviceManager cfg h))) = []"
proof (rule mock_entries_yield_no_device[OF _ assms])
  show "snd (hw_AddDeviceFromConfig (factory_ops bops env t) i dc h) \<noteq> None" if "\<exists>e. hf_CreateDeviceConfig i dc = Err e"
    for i dc and h :: "'a HwManager"
    using that by (auto simp: factory_ops_def hf_AddDeviceFromConfig_def)
qed

section \<open>The order of the stops\<close>

text \<open>
  The two halves of the shutdown stop the same things: the event loop stops the task trigger, the
  scheduler and the executor, its modules, and the application layer after it finds them not running, so
  that its stop reports an error each time, although nothing failed.
\<close>

theorem application_stop_after_loop_reports_error:
  assumes "am_up am" "scl_open (am_serviceCoordination am)" "tol_open True (am_taskOrchestration am)"
  shows "\<exists>am1. el_stop_modules (sys_modules fire now) [ModTrigger, ModScheduler, ModExecutor] am = (am1, Ret ()) \<and>
     tol_down (am_taskOrchestration am1) \<and>
     (\<exists>am2 e. am_Stop now am1 = (am2, Ret (Some e)) \<and> am_down am2)"
proof -
  let ?tol = "am_taskOrchestration am" and ?scl = "am_serviceCoordination am"
  let ?ce = "scl_commandExecutor ?scl"
  obtain q where q: "eq_Stop (scl_executionQueue ?scl) = (q, Ret None)" "\<not> eq_running q" "eq_idle q"
    using assms eq_life.stop_running[of "scl_executionQueue ?scl"] eq_life.stop_inv[of "scl_executionQueue ?scl"]
    by (cases "eq_Stop (scl_executionQueue ?scl)") (auto simp: am_up_def scl_up_def scl_open_def)
  obtain q' where q': "eq_Stop (ce_queue ?ce) = (q', Ret None)" "\<not> eq_running q'" "eq_idle q'"
    using assms eq_life.stop_running[of "ce_queue ?ce"] eq_life.stop_inv[of "ce_queue ?ce"]
    by (cases "eq_Stop (ce_queue ?ce)") (auto simp: am_up_def scl_up_def scl_open_def)
  obtain tt where tt: "tt_Stop (tol_taskTrigger ?tol) = (tt, Ret None)" "\<not> tt_running tt"
    using assms by (simp add: tt_Stop_def am_up_def tol_up_def tol_open_def ch_close_def Let_def)
  obtain ts where ts: "ts_Stop (tol_taskScheduler ?tol) = (ts, Ret None)" "\<not> ts_running ts"
    using assms by (simp add: ts_Stop_def am_up_def tol_up_def tol_open_def ch_close_def Let_def)
  obtain ce where ce: "ce_Stop now ?ce = (ce, Ret None)" "ce_queue ce = q'" "\<not> ce_running ce"
    using assms q' by (simp add: ce_Stop_def am_up_def scl_up_def Let_def)
  define tol1 where "tol1 = ?tol\<lparr>tol_taskTrigger := tt, tol_taskScheduler := ts,
      tol_serviceCoordination := ?scl\<lparr>scl_commandExecutor := ce\<rparr>\<rparr>"
  define am1 where "am1 = am_put_tol (\<lambda>_. tol1) am"
  have fields: "am_taskOrchestration am1 = tol1" "tol_taskTrigger tol1 = tt" "tol_taskScheduler tol1 = ts"
    "scl_commandExecutor (tol_serviceCoordination tol1) = ce"
    "scl_executionQueue (tol_serviceCoordination tol1) = scl_executionQueue ?scl"
    by (simp_all add: am1_def tol1_def)
  have loop: "el_stop_modules (sys_modules fire now) [ModTrigger, ModScheduler, ModExecutor] am = (am1, Ret ())"
    using tt(1) ts(1) ce(1)
    by (simp add: sys_modules_def on_part_def am_put_scl_def am_put_tol_def am1_def tol1_def)
  have stopped: "tt_Stop tt = (tt, Ret (Some (Errorf ''task trigger is not running'' [])))"
    "ts_Stop ts = (ts, Ret (Some (Errorf ''scheduler is not running'' [])))"
    "ce_Stop now ce = (ce, Ret (Some (Errorf ''command executor is not running'' [])))"
    using tt(2) ts(2) ce(3) by (simp_all add: tt_Stop_def ts_Stop_def ce_Stop_def)
  obtain e1 where e1: "tol_Stop tol1 = (tol1, Ret (Some e1))"
    using stopped fields by (simp add: tol_Stop_def and_then_def on_part_def wrap_error_def join_errors_def)
  have am1': "am_put_tol (\<lambda>_. tol1) am1 = am1"
    by (simp add: am1_def am_put_tol_def)
  let ?scl1 = "(tol_serviceCoordination tol1)\<lparr>scl_executionQueue := q\<rparr>"
  obtain e2 where e2: "scl_Stop now (tol_serviceCoordination tol1) = (?scl1, Ret (Some e2))"
    using stopped fields q(1) by (simp add: scl_Stop_def and_then_def on_part_def wrap_error_def join_errors_def)
  let ?am2 = "am_put_scl (\<lambda>_. ?scl1) am1"
  obtain hal r where hal: "hal_Stop (am_hal ?am2) = (hal, r)" by fastforce
  let ?am3 = "am_put_hal (\<lambda>_. hal) ?am2"
  obtain e where "am_Stop now am1 = (?am3, Ret (Some e))"
    using e1 e2 hal am1' fields(1)
    by (simp add: am_Stop_def and_then_def on_part_def bll_Stop_def wrap_error_def join_errors_def)
  moreover have "am_down ?am3"
    using tt(2) ts(2) q q' ce(2,3) fields by (simp add: am_down_def tol_down_def scl_down_def)
  moreover have "tol_down (am_taskOrchestration am1)" using fields tt(2) ts(2) by (simp add: tol_down_def)
  ultimately show ?thesis using loop by blast
qed

section \<open>A business message and its reply\<close>

text \<open>
  C5. A business message that arrives on a connection is handed to the application with that
  connection's identity as its source, whatever source the message claimed, and the reply, one for every
  message, malformed ones included, is put last into the send queue of that same connection when there is
  room for it.
\<close>

theorem business_reply_reaches_sender:
  assumes "is_wf s" "a \<in> set (is_readers s)" "\<not> is_ctxDone s" "\<not> ic_closed (is_heap s ! a)"
    and "no_set_deadline net (ic_Conn (is_heap s ! a)) (is_world s) = (w, None)"
    and "gm_get (is_handlers s) ''business_command'' = Some 0" "msg_Type msg = ''business_command''"
    and "gm_get (is_clients s) i = Some a" "i \<noteq> []"
    and "length (ch_buf (ic_Send (is_heap s ! a))) < ch_cap (ic_Send (is_heap s ! a))"
  shows "let s' = is_read_turn net a (Ok msg) s; msg' = msg\<lparr>msg_Source := i\<rparr> in
     is_calls s' = is_calls s @ [(0, msg')] \<and>
     (\<exists>reply. snd (am_handleBusinessCommand now msg' am) = Some (i, reply) \<and> msg_Target reply = i \<and>
        (\<forall>d. no_marshal net reply = Ok d \<longrightarrow>
           (\<exists>s''. is_SendToClient net pc i reply s' = (s'', Ret None) \<and>
              ch_buf (ic_Send (is_heap s'' ! a)) = ch_buf (ic_Send (is_heap s ! a)) @ [d])))"
proof -
  let ?c = "is_heap s ! a"
  have a: "a < length (is_heap s)" using assms(1,2) by (simp add: is_wf_def)
  have i: "ic_ID ?c = i" using assms(1,8) gm_get_in_set by (fastforce simp: is_wf_def)
  have ok: "ic_Active ?c" "\<not> ch_closed (ic_Send ?c)"
    using is_wf_conn[OF assms(1) a] assms(4) by (simp_all add: is_conn_ok_def)
  define s' where "s' = is_read_turn net a (Ok msg) s"
  have s': "is_calls s' = is_calls s @ [(0, msg\<lparr>msg_Source := i\<rparr>)]" "is_heap s' = is_heap s" "is_clients s' = is_clients s"
    using assms i by (simp_all add: s'_def is_read_turn_def is_routeMessage_def Let_def)
  have "\<exists>reply. snd (am_handleBusinessCommand now m am) = Some (i, reply) \<and> msg_Target reply = i"
    if "msg_Source m = i" for m
    using that assms(9)
    by (auto simp: am_handleBusinessCommand_def am_sendBusinessErrorResponse_def am_sendBusinessResponse_def case_prod_unfold
        Let_def split: result.split)
  from this[of "msg\<lparr>msg_Source := i\<rparr>"] obtain reply where reply: "snd (am_handleBusinessCommand now (msg\<lparr>msg_Source := i\<rparr>) am) = Some (i, reply)"
    "msg_Target reply = i" by auto
  have "\<exists>s''. is_SendToClient net pc i reply s' = (s'', Ret None) \<and>
      ch_buf (ic_Send (is_heap s'' ! a)) = ch_buf (ic_Send ?c) @ [d]" if "no_marshal net reply = Ok d" for d
    using that s' assms(4,8,10) ok a
    by (simp add: is_SendToClient_def is_send_check_def is_send_select_def ch_try_send_def Let_def)
  then show ?thesis using s' reply unfolding s'_def[symmetric] Let_def by blast
qed

section \<open>Concrete inputs\<close>

definition demo_sys :: "(SystemConfig, SystemConfig option, unit, string, nat) sys_ops" where
  "demo_sys = \<lparr>so_files = demo_fs, so_bus = demo_bus, so_bus_env = demo_bus_env, so_net = demo_net\<rparr>"

lemma demo_sys_simps [simp]: "so_files demo_sys = demo_fs" "so_net demo_sys = demo_net"
  by (simp_all add: demo_sys_def)

lemma demo_loads: "loads demo_fs path (Some default_config) default_config"
  by (simp add: loads_def demo_fs_def default_config_valid)

lemma demo_listens: "no_listen demo_net h p n = (n, None)"
  by (simp add: demo_net_def)

abbreviation demo_startup :: "(SystemConfig option, unit, string, nat) MotionControlSystem outcome" where
  "demo_startup \<equiv> main_startup demo_sys (sys_modules (\<lambda>_. None) 0) 0 ''config.yaml'' (Some default_config) () 0"


text \<open>The goroutines take no turn during the stop.\<close>

definition quiet :: "('c, 'n) stop_env" where
  "quiet = \<lparr>se_loop_turns = id, se_ipc_turns = id\<rparr>"

theorem every_shutdown_is_forced_witness:
  "\<exists>s. demo_startup = WaitsForSignal s \<and>
     main_shutdown demo_sys (sys_modules (\<lambda>_. None) 0) quiet 1 s \<noteq> ExitsNormally"
proof -
  obtain s where s: "demo_startup = WaitsForSignal s" "mcs_running s"
    using start_loads[of demo_sys "''config.yaml''" "Some default_config" default_config 0 0
      "sys_modules (\<lambda>_. None) 0" 0 "()"] demo_loads demo_listens by auto
  then show ?thesis
    using every_shutdown_is_forced[OF s(1) s(2) refl, of quiet 1] by auto
qed


theorem own_protocols_yield_no_device_witness:
  "dm_devices (fst (dm_Start (factory_ops demo_bus demo_bus_env 0) 0 (NewDeviceManager shipped_config (NewHardwareFactory ())))) = []"
  by (rule own_protocols_yield_no_device) (simp add: shipped_config_def shipped_devices_def)

theorem application_stop_after_loop_reports_error_witness:
  "\<exists>am am1 am2 e. am_Start 0 (fst (am_SetupDependencies (NewApplicationManager shipped_config))) = (am, Ret None) \<and>
     el_stop_modules (sys_modules (\<lambda>_. None) 1) [ModTrigger, ModScheduler, ModExecutor] am = (am1, Ret ()) \<and>
     am_Stop 1 am1 = (am2, Ret (Some e))"
proof -
  obtain am where am: "am_Start 0 (fst (am_SetupDependencies (NewApplicationManager shipped_config))) = (am, Ret None)"
    "am_up am" "scl_open (am_serviceCoordination am)" "tol_open True (am_taskOrchestration am)"
    using am_Start_up[OF am_new_down(1,3), of 0] am_new_down(2) by blast
  show ?thesis
    using am(1) application_stop_after_loop_reports_error[OF am(2-4), of "\<lambda>_. None" 1] by blast
qed

definition demo_command :: IPCMessage where
  "demo_command = \<lparr>msg_Type = ''business_command'', msg_Source = ''somebody'', msg_Target = [],
     msg_Data = [(''command'', VString CmdMove)], msg_Timestamp = 3, msg_ID = ''m1''\<rparr>"

definition demo_business_server :: "(string, nat) IPCServer" where
  "demo_business_server = is_RegisterHandler ''business_command'' 0 demo_server"

lemma demo_business_server_facts:
  "is_heap demo_business_server = is_heap demo_server"
  "is_readers demo_business_server = [0]" "\<not> is_ctxDone demo_business_server"
  "gm_get (is_handlers demo_business_server) ''business_command'' = Some 0"
  "gm_get (is_clients demo_business_server) ''client-7'' = Some 0"
  "is_calls demo_business_server = []"
  by (simp_all add: demo_business_server_def is_RegisterHandler_def demo_ipc_defs Let_def int_dec_7)

lemma demo_business_server_wf: "is_wf demo_business_server"
  using demo_server_wf by (simp add: demo_business_server_def is_RegisterHandler_def)

lemma demo_server_client: "is_heap demo_server = [\<lparr>ic_ID = ''client-7'', ic_Conn = 3, ic_Send = mk_chan 4, ic_Active = True, ic_closed = False\<rparr>]"
  by (simp add: demo_ipc_defs Let_def int_dec_7)

theorem business_reply_reaches_sender_witness:
  "is_calls (is_read_turn demo_net 0 (Ok demo_command) demo_business_server) =
     [(0, demo_command\<lparr>msg_Source := ''client-7''\<rparr>)]"
  using business_reply_reaches_sender[of demo_business_server 0 demo_net "is_world demo_business_server" demo_command "''client-7''"]
    demo_business_server_facts demo_business_server_wf demo_server_client
  by (simp add: demo_net_def demo_command_def Let_def)

end
