(* ===== verification/FloatArith.thy ===== *)
theory FloatArith
  imports Float64
begin

text \<open>
  The remaining arithmetic on \<open>float64\<close> that trajectory planning uses: sums, differences, quotients, the
  square root, absolute value and \<open>math.Ceil\<close>.  Each operation rounds its exact result once, as on a
  machine that does not fuse a product and a sum.  A zero divisor counts as \<open>+0\<close>.
\<close>

fun f64_add :: "f64 \<Rightarrow> f64 \<Rightarrow> f64" where
  "f64_add NaN _ = NaN"
| "f64_add _ NaN = NaN"
| "f64_add (Fin a) (Fin b) = f64_round (a + b)"
| "f64_add PInf NInf = NaN"
| "f64_add NInf PInf = NaN"
| "f64_add PInf _ = PInf"
| "f64_add _ PInf = PInf"
| "f64_add NInf _ = NInf"
| "f64_add _ NInf = NInf"

definition f64_sub :: "f64 \<Rightarrow> f64 \<Rightarrow> f64" where
  "f64_sub a b = f64_add a (f64_neg b)"

fun f64_div :: "f64 \<Rightarrow> f64 \<Rightarrow> f64" where
  "f64_div NaN _ = NaN"
| "f64_div _ NaN = NaN"
| "f64_div (Fin a) (Fin b) =
     (if b \<noteq> 0 then f64_round (a / b) else if a = 0 then NaN else if 0 < a then PInf else NInf)"
| "f64_div (Fin a) _ = Fin 0"
| "f64_div PInf (Fin b) = (if 0 \<le> b then PInf else NInf)"
| "f64_div NInf (Fin b) = (if 0 \<le> b then NInf else PInf)"
| "f64_div _ _ = NaN"

fun f64_abs :: "f64 \<Rightarrow> f64" where
  "f64_abs (Fin a) = Fin \<bar>a\<bar>"
| "f64_abs NaN = NaN"
| "f64_abs _ = PInf"

fun f64_ceil :: "f64 \<Rightarrow> f64" where
  "f64_ceil (Fin a) = Fin (of_int \<lceil>a\<rceil>)"
| "f64_ceil x = x"

section \<open>Square root\<close>

text \<open>The integer square root, two bits at a time.\<close>

function isqrt :: "int \<Rightarrow> int" where
  "isqrt n = (if n \<le> 0 then 0 else let r = 2 * isqrt (n div 4) in if (r + 1) * (r + 1) \<le> n then r + 1 else r)"
  by auto
termination by (relation "measure nat") auto

declare isqrt.simps [simp del]

lemma isqrt_bounds: "0 \<le> n \<Longrightarrow> 0 \<le> isqrt n \<and> isqrt n * isqrt n \<le> n \<and> n < (isqrt n + 1) * (isqrt n + 1)"
proof (induction n rule: isqrt.induct)
  case (1 n)
  show ?case
  proof (cases "n \<le> 0")
    case False
    define s where "s = isqrt (n div 4)"
    have s: "0 \<le> s" "s * s \<le> n div 4" "n div 4 < (s + 1) * (s + 1)" using 1(1)[OF False] False by (simp_all add: s_def)
    have "4 * (s * s) \<le> n" using s(2) by linarith
    moreover have "n < 4 * ((s + 1) * (s + 1))" using s(3) by linarith
    moreover have "isqrt n = (if (2 * s + 1) * (2 * s + 1) \<le> n then 2 * s + 1 else 2 * s)"
      using False by (subst isqrt.simps) (simp add: s_def Let_def)
    ultimately show ?thesis using s(1) by (simp add: algebra_simps)
  qed (use 1 in \<open>simp add: isqrt.simps\<close>)
qed

lemma isqrt_square [simp]:
  assumes "0 \<le> n"
  shows "isqrt (n * n) = n"
proof -
  have b: "0 \<le> isqrt (n * n)" "isqrt (n * n) * isqrt (n * n) \<le> n * n"
      "n * n < (isqrt (n * n) + 1) * (isqrt (n * n) + 1)"
    using isqrt_bounds[of "n * n"] by simp_all
  have "isqrt (n * n) \<le> n" using b(2) assms mult_strict_mono[of n "isqrt (n * n)" n "isqrt (n * n)"] by linarith
  moreover have "n < isqrt (n * n) + 1" using b(1,3) assms mult_mono[of "isqrt (n * n) + 1" n "isqrt (n * n) + 1" n] by linarith
  ultimately show ?thesis by simp
qed

text \<open>
  The root of a positive number, scaled by a power of four so that its integer part has 57 bits: if the
  scaled number is not a square, an odd last bit below the integer part stands for the rest, which is
  on the same side of every boundary of the rounding as the root itself.
\<close>

fun f64_sqrt :: "f64 \<Rightarrow> f64" where
  "f64_sqrt (Fin q) =
     (if q < 0 then NaN else if q = 0 then Fin 0
      else let k = 56 - floor_log2 q div 2; x = q * pow2 (2 * k); s = isqrt \<lfloor>x\<rfloor>
           in if of_int (s * s) = x then f64_round (of_int s * pow2 (- k))
              else f64_round (of_int (2 * s + 1) * pow2 (- k - 1)))"
| "f64_sqrt PInf = PInf"
| "f64_sqrt _ = NaN"

section \<open>Facts on exact values\<close>

lemma f64_round_one [simp]: "f64_round 1 = Fin 1"
  using f64_round_int[of 1] by simp

lemma f64_round_zero [simp]: "f64_round 0 = Fin 0"
  by (simp add: f64_round_def)

lemma f64_of_int_exact: "\<bar>n\<bar> < 2 ^ 53 \<Longrightarrow> f64_of_int n = Fin (of_int n)"
  by (simp add: f64_of_int_def f64_round_int)

lemma round_half_even_bounds: "\<lfloor>q\<rfloor> \<le> round_half_even q" "round_half_even q \<le> \<lfloor>q\<rfloor> + 1"
  by (simp_all add: round_half_even_def Let_def)

lemma pow2_le: "e \<le> int k \<Longrightarrow> pow2 e \<le> 2 ^ k"
proof (cases "0 \<le> e")
  case True
  then show "e \<le> int k \<Longrightarrow> ?thesis" by (auto simp: pow2_def intro!: power_increasing)
next
  case False
  then have "pow2 e \<le> 1" by (simp add: pow2_def)
  also have "1 \<le> (2::rat) ^ k" by simp
  finally show ?thesis .
qed

text \<open>A positive 64-bit integer becomes a positive finite number, however it is rounded.\<close>

lemma f64_of_int_pos:
  assumes "0 < n" "n < 2 ^ 64"
  obtains r where "0 < r" "f64_of_int n = Fin r"
proof (cases "n < 2 ^ 53")
  case True
  then show thesis using that[of "of_int n"] assms f64_of_int_exact[of n] by simp
next
  case False
  define q :: rat where "q = of_int n"
  define e where "e = max (floor_log2 q - 52) (- 1074)"
  define m where "m = round_half_even (q / pow2 e)"
  have q: "2 ^ 53 \<le> q" "q < 2 ^ 64"
    using False assms(2) unfolding q_def
    by (metis linorder_not_less of_int_le_iff of_int_numeral of_int_power)
       (metis assms(2) of_int_less_iff of_int_numeral of_int_power)
  have "0 < q" using q(1) by (rule less_le_trans[rotated]) simp
  then have "floor_log2 q < int 64" using floor_log2_less q(2) by blast
  then have pe: "pow2 e \<le> 2 ^ 12" by (intro pow2_le) (simp add: e_def)
  have "1 * pow2 e \<le> q" using pe q(1) by (simp add: power_eq_if) 
  then have "1 \<le> q / pow2 e" by (simp add: pos_le_divide_eq)
  then have m1: "1 \<le> m" using round_half_even_bounds(1)[of "q / pow2 e"] unfolding m_def by linarith
  have "of_int m \<le> q / pow2 e + 1" using round_half_even_bounds(2)[of "q / pow2 e"] unfolding m_def by linarith
  then have "of_int m * pow2 e \<le> (q / pow2 e + 1) * pow2 e" by (simp add: mult_right_mono less_imp_le)
  also have "\<dots> = q + pow2 e" by (simp add: field_simps less_imp_neq[OF pow2_pos, symmetric])
  also have "\<dots> < 2 ^ 64 + 2 ^ 12" using q(2) pe by linarith
  also have "\<dots> < (2::rat) ^ 1024" by simp
  finally have big: "of_int m * pow2 e < 2 ^ 1024" .
  have pos: "0 < of_int m * pow2 e" using m1 by simp
  have "f64_of_int n = Fin (of_int m * pow2 e)"
    using big pos \<open>0 < q\<close>
    by (simp add: f64_of_int_def f64_round_def q_def[symmetric] e_def[symmetric] m_def[symmetric] Let_def)
  with pos show thesis by (rule that)
qed

lemma f64_div_self: "0 < n \<Longrightarrow> n < 2 ^ 64 \<Longrightarrow> f64_div (f64_of_int n) (f64_of_int n) = Fin 1"
  by (erule (1) f64_of_int_pos) simp

lemma f64_of_int_0 [simp]: "f64_of_int 0 = Fin 0"
  by (simp add: f64_of_int_def)

text \<open>The root of the square of an integer of at most 53 bits is exact.\<close>

lemma f64_sqrt_square:
  assumes "0 \<le> m" "m < 2 ^ 53"
  shows "f64_sqrt (Fin (of_int (m * m))) = Fin (of_int m)"
proof (cases "m = 0")
  case False
  define q :: rat where "q = of_int (m * m)"
  have "m * m < 2 ^ 53 * 2 ^ 53" using assms mult_strict_mono[of m "2 ^ 53" m "2 ^ 53"] by simp
  then have "m * m < 2 ^ 106" by simp
  then have q: "0 < q" "q < 2 ^ 106"
    using False assms(1) unfolding q_def by (simp, metis of_int_less_iff of_int_numeral of_int_power)
  then have "floor_log2 q < int 106" by (rule floor_log2_less)
  then have "0 \<le> 56 - floor_log2 q div 2" by linarith
  then obtain k where k: "56 - floor_log2 q div 2 = int k" by (metis nonneg_int_cases)
  have p2: "pow2 (2 * int k) = 2 ^ k * 2 ^ k"
    by (simp only: pow2_def nat_mult_distrib) (simp flip: power_add mult_2)
  have x: "q * pow2 (2 * int k) = of_int ((m * 2 ^ k) * (m * 2 ^ k))"
    unfolding p2 q_def by simp
  have s: "isqrt \<lfloor>q * pow2 (2 * int k)\<rfloor> = m * 2 ^ k"
    unfolding x floor_of_int using assms(1) by (intro isqrt_square) simp
  have unscaled: "of_int (m * 2 ^ k) * pow2 (- int k) = (of_int m :: rat)"
    by (simp add: pow2_def)
  show ?thesis
    using q(1) f64_round_int[of m] assms unfolding q_def[symmetric]
    by (simp add: k s unscaled Let_def x del: of_int_mult of_int_power)
qed simp

end
