(* ===== verification/Planner.thy ===== *)
theory Planner
  imports DecomposerProps FloatArith
begin

text \<open>
  \<open>SimpleTrajectoryPlanner\<close> (\<open>internal/core/decomposer.go\<close>), the planner of every \<open>TaskDecomposer\<close>.  The
  arithmetic is that of \<open>float64\<close>, operation by operation.  \<open>pe_now i\<close> is the clock at the loop's \<open>i\<close>-th
  call of \<open>time.Now\<close>, \<open>pe_oob\<close> the value of an out-of-range conversion to an integer, \<open>pe_sin\<close> and
  \<open>pe_cos\<close> the functions of \<open>math\<close>; \<open>math.Pow(x, 2)\<close> is the rounded square.  The memory for the points is
  assumed to suffice.
\<close>

record plan_env =
  pe_oob :: "f64 \<Rightarrow> int"
  pe_now :: "nat \<Rightarrow> int"
  pe_sin :: "f64 \<Rightarrow> f64"
  pe_cos :: "f64 \<Rightarrow> f64"


definition f64_hundredth :: f64 where
  "f64_hundredth = f64_round (1 / 100)"


text \<open>\<open>float64(2 * math.Pi)\<close>.\<close>

definition f64_two_pi :: f64 where
  "f64_two_pi = Fin (884279719003555 / 140737488355328)"

definition f64_second :: f64 where
  "f64_second = Fin 1000000000"

text \<open>\<open>int(x)\<close> on a 64-bit machine; \<open>time.Duration(x)\<close> is the same conversion.\<close>

definition pe_int :: "plan_env \<Rightarrow> f64 \<Rightarrow> int" where
  "pe_int env x = f64_to_int (pe_oob env) (- (2 ^ 63)) (2 ^ 63 - 1) x"





text \<open>\<open>float64(i) / float64(steps)\<close>.\<close>

definition pl_t :: "int \<Rightarrow> nat \<Rightarrow> f64" where
  "pl_t steps i = f64_div (f64_of_int (int i)) (f64_of_int steps)"

definition pl_at_least :: "int \<Rightarrow> int \<Rightarrow> int" where
  "pl_at_least m steps = (if steps < m then m else steps)"

section \<open>Straight lines\<close>



section \<open>Arcs\<close>

definition pl_PlanCircular ::
  "plan_env \<Rightarrow> Point \<Rightarrow> f64 \<Rightarrow> f64 \<Rightarrow> f64 \<Rightarrow> Velocity \<Rightarrow> TrajectoryPoint list result" where
  "pl_PlanCircular env center radius startAngle endAngle v =
     (let angleDiff = f64_sub endAngle startAngle;
          circumference = f64_mul f64_two_pi radius;
          arcLength = f64_div (f64_mul circumference (f64_abs angleDiff)) f64_two_pi;
          steps = pl_at_least 20 (pe_int env (f64_ceil (f64_div arcLength (f64_mul (vel_Linear v) f64_hundredth))))
      in Ok (map (\<lambda>i. let t = pl_t steps i; angle = f64_add startAngle (f64_mul t angleDiff) in
           \<lparr>trp_Position = \<lparr>pt_X = f64_add (pt_X center) (f64_mul radius (pe_cos env angle)),
                            pt_Y = f64_add (pt_Y center) (f64_mul radius (pe_sin env angle)), pt_Z = pt_Z center\<rparr>,
            trp_Velocity = v,
            trp_Timestamp = pe_now env i + pe_int env
              (f64_mul (f64_mul t (f64_div arcLength (vel_Linear v))) f64_second)\<rparr>) [0..<nat steps + 1]))"

section \<open>Point to point\<close>








section \<open>What a plan reaches\<close>






















section \<open>Tasks that move to a point\<close>










section \<open>Straight lines and arcs reach their end\<close>




end
