(* ===== verification/Logging.thy ===== *)
theory Logging
  imports Interfaces
begin

text \<open>
  The logging package (\<open>internal/logging/logger.go\<close>, \<open>manager.go\<close>).  Configurations and loggers are shared
  through pointers, so both live in stores (\<open>lh_configs\<close>, \<open>lh_loggers\<close>) and a pointer is an index.
  A \<open>slog\<close> handler is the record of what it was made from: its file, level, format and the attributes and
  groups added to it.  The two file operations are a parameter over a world \<open>'w\<close>.
\<close>

record LogConfig =
  lc_Level :: string
  lc_Format :: string
  lc_Output :: string
  lc_OutputPath :: string
  lc_AddSource :: bool
  lc_TimeFormat :: string

datatype slog_level = LevelDebug | LevelInfo | LevelWarn | LevelError

datatype log_file = Stdout | Stderr | LogFile string

datatype log_scope = Attrs "(string \<times> string) list" | Group string

record slog_handler =
  hd_writer :: log_file
  hd_level :: slog_level
  hd_source :: bool
  hd_json :: bool
  hd_scope :: "log_scope list"

record Logger =
  lg_handler :: slog_handler
  lg_config :: nat

record 'w log_heap =
  lh_configs :: "LogConfig list"
  lh_loggers :: "Logger list"
  lh_fs :: 'w

record 'w file_ops =
  fo_MkdirAll :: "string \<Rightarrow> 'w \<Rightarrow> 'w \<times> goerr option"
  fo_OpenFile :: "string \<Rightarrow> 'w \<Rightarrow> 'w \<times> goerr option"

text \<open>
  \<open>strings.ToLower\<close>, as far as a comparison with an ASCII literal sees it: besides the ASCII capitals, the two
  code points whose lower case is ASCII (\<open>U+0130\<close> and \<open>U+212A\<close>).
\<close>

definition byte_lower :: "char \<Rightarrow> char" where
  "byte_lower c = (let n = of_char c :: nat in if 65 \<le> n \<and> n \<le> 90 then char_of (n + 32) else c)"

fun go_ToLower :: "string \<Rightarrow> string" where
  "go_ToLower [] = []"
| "go_ToLower (c # s) =
     (if c = CHR 0xC4 \<and> take 1 s = [CHR 0xB0] then CHR ''i'' # go_ToLower (drop 1 s)
      else if c = CHR 0xE2 \<and> take 2 s = [CHR 0x84, CHR 0xAA] then CHR ''k'' # go_ToLower (drop 2 s)
      else byte_lower c # go_ToLower s)"

section \<open>Loggers\<close>

definition log_DefaultConfig :: LogConfig where
  "log_DefaultConfig =
     \<lparr>lc_Level = ''info'', lc_Format = ''text'', lc_Output = ''stdout'', lc_OutputPath = [],
      lc_AddSource = False, lc_TimeFormat = ''2006-01-02T15:04:05Z07:00''\<rparr>"

definition log_parseLevel :: "string \<Rightarrow> slog_level" where
  "log_parseLevel level =
     (let s = go_ToLower level
      in if s = ''debug'' then LevelDebug
         else if s = ''info'' then LevelInfo
         else if s = ''warn'' \<or> s = ''warning'' then LevelWarn
         else if s = ''error'' then LevelError
         else LevelInfo)"

text \<open>The file a handler writes to; an empty path is replaced in the shared configuration itself.\<close>

definition log_writer :: "'w file_ops \<Rightarrow> nat \<Rightarrow> 'w log_heap \<Rightarrow> 'w log_heap \<times> log_file result" where
  "log_writer ops a h =
     (let c = lh_configs h ! a; out = go_ToLower (lc_Output c)
      in if out = ''stderr'' then (h, Ok Stderr)
         else if out = ''file''
         then let c1 = (if lc_OutputPath c = [] then c\<lparr>lc_OutputPath := ''logs/app.log''\<rparr> else c);
                  h1 = h\<lparr>lh_configs := (lh_configs h)[a := c1]\<rparr>
              in (case fo_MkdirAll ops ''logs'' (lh_fs h1) of
                    (w, Some e) \<Rightarrow> (h1\<lparr>lh_fs := w\<rparr>, Err e)
                  | (w, None) \<Rightarrow>
                      (case fo_OpenFile ops (lc_OutputPath c1) w of
                         (w', Some e) \<Rightarrow> (h1\<lparr>lh_fs := w'\<rparr>, Err e)
                       | (w', None) \<Rightarrow> (h1\<lparr>lh_fs := w'\<rparr>, Ok (LogFile (lc_OutputPath c1)))))
         else (h, Ok Stdout))"

definition log_createHandler ::
  "'w file_ops \<Rightarrow> nat \<Rightarrow> slog_level \<Rightarrow> 'w log_heap \<Rightarrow> 'w log_heap \<times> slog_handler result" where
  "log_createHandler ops a level h =
     (case log_writer ops a h of
        (h', Err e) \<Rightarrow> (h', Err e)
      | (h', Ok f) \<Rightarrow>
          (h', Ok \<lparr>hd_writer = f, hd_level = level, hd_source = lc_AddSource (lh_configs h' ! a),
                   hd_json = (go_ToLower (lc_Format (lh_configs h' ! a)) = ''json''), hd_scope = []\<rparr>))"

definition new_config :: "LogConfig \<Rightarrow> 'w log_heap \<Rightarrow> 'w log_heap \<times> nat" where
  "new_config c h = (h\<lparr>lh_configs := lh_configs h @ [c]\<rparr>, length (lh_configs h))"

definition new_logger :: "Logger \<Rightarrow> 'w log_heap \<Rightarrow> 'w log_heap \<times> nat" where
  "new_logger l h = (h\<lparr>lh_loggers := lh_loggers h @ [l]\<rparr>, length (lh_loggers h))"

definition log_NewLogger :: "'w file_ops \<Rightarrow> nat option \<Rightarrow> 'w log_heap \<Rightarrow> 'w log_heap \<times> nat result" where
  "log_NewLogger ops config h =
     (let (h1, a) = (case config of None \<Rightarrow> new_config log_DefaultConfig h | Some a \<Rightarrow> (h, a))
      in case log_createHandler ops a (log_parseLevel (lc_Level (lh_configs h1 ! a))) h1 of
           (h2, Err e) \<Rightarrow> (h2, Err e)
         | (h2, Ok hnd) \<Rightarrow> (let (h3, l) = new_logger \<lparr>lg_handler = hnd, lg_config = a\<rparr> h2 in (h3, Ok l)))"

definition lg_WithContext :: "nat \<Rightarrow> 'w log_heap \<Rightarrow> 'w log_heap \<times> nat" where
  "lg_WithContext l h = new_logger (lh_loggers h ! l) h"

definition with_scope :: "log_scope list \<Rightarrow> Logger \<Rightarrow> Logger" where
  "with_scope s l = l\<lparr>lg_handler := (lg_handler l)\<lparr>hd_scope := hd_scope (lg_handler l) @ s\<rparr>\<rparr>"

definition lg_With :: "(string \<times> string) list \<Rightarrow> nat \<Rightarrow> 'w log_heap \<Rightarrow> 'w log_heap \<times> nat" where
  "lg_With args l h = new_logger (with_scope (if args = [] then [] else [Attrs args]) (lh_loggers h ! l)) h"

definition lg_WithGroup :: "string \<Rightarrow> nat \<Rightarrow> 'w log_heap \<Rightarrow> 'w log_heap \<times> nat" where
  "lg_WithGroup name l h = new_logger (with_scope (if name = [] then [] else [Group name]) (lh_loggers h ! l)) h"


definition lg_GetConfig :: "nat \<Rightarrow> 'w log_heap \<Rightarrow> nat" where
  "lg_GetConfig l h = lg_config (lh_loggers h ! l)"

section \<open>The manager\<close>

record LogManager =
  lm_loggers :: "(string, nat) gomap"
  lm_config :: nat
  lm_closed :: bool

definition lm_NewManager ::
  "'w file_ops \<Rightarrow> nat option \<Rightarrow> 'w log_heap \<Rightarrow> 'w log_heap \<times> LogManager result" where
  "lm_NewManager ops config h =
     (let (h1, a) = (case config of None \<Rightarrow> new_config log_DefaultConfig h | Some a \<Rightarrow> (h, a))
      in case log_NewLogger ops (Some a) h1 of
           (h2, Err e) \<Rightarrow> (h2, Err (Errorf ''failed to create default logger: %w'' [AErr e]))
         | (h2, Ok l) \<Rightarrow> (h2, Ok \<lparr>lm_loggers = gm_set ''default'' l [], lm_config = a, lm_closed = False\<rparr>))"

text \<open>\<open>GetLogger\<close> looks the name up under the read lock, and again under the write lock before it creates one.\<close>

definition lm_lookup :: "string \<Rightarrow> LogManager \<Rightarrow> nat option" where
  "lm_lookup name m = gm_get (lm_loggers m) name"

definition lm_create ::
  "'w file_ops \<Rightarrow> string \<Rightarrow> LogManager \<times> 'w log_heap \<Rightarrow> (LogManager \<times> 'w log_heap) \<times> nat result" where
  "lm_create ops name s =
     (let (m, h) = s
      in case lm_lookup name m of
           Some l \<Rightarrow> ((m, h), Ok l)
         | None \<Rightarrow>
             (case log_NewLogger ops (Some (lm_config m)) h of
                (h1, Err e) \<Rightarrow> ((m, h1), Err (Errorf ''failed to create logger %s: %w'' [AStr name, AErr e]))
              | (h1, Ok l) \<Rightarrow>
                  (let (h2, l2) = (if name \<noteq> ''default'' then lg_With [(''module'', name)] l h1 else (h1, l))
                   in ((m\<lparr>lm_loggers := gm_set name l2 (lm_loggers m)\<rparr>, h2), Ok l2))))"

definition lm_GetLogger ::
  "'w file_ops \<Rightarrow> string \<Rightarrow> LogManager \<times> 'w log_heap \<Rightarrow> (LogManager \<times> 'w log_heap) \<times> nat result" where
  "lm_GetLogger ops name s =
     (case lm_lookup name (fst s) of Some l \<Rightarrow> (s, Ok l) | None \<Rightarrow> lm_create ops name s)"


definition lm_GetLoggerNames :: "LogManager \<Rightarrow> string list" where
  "lm_GetLoggerNames m = map fst (lm_loggers m)"

definition lm_RemoveLogger :: "string \<Rightarrow> LogManager \<Rightarrow> LogManager" where
  "lm_RemoveLogger name m =
     (if name = ''default'' then m else m\<lparr>lm_loggers := gm_del name (lm_loggers m)\<rparr>)"

text \<open>The loggers of a file are only told; the file stays open.\<close>

definition lm_Close :: "LogManager \<Rightarrow> LogManager exec" where
  "lm_Close m = (if lm_closed m then Panic ''close of closed channel'' else Ret (m\<lparr>lm_closed := True\<rparr>))"

section \<open>The package's own manager\<close>

text \<open>
  \<open>GetManager\<close> creates it on the first call (\<open>sync.Once\<close>) and drops the error.  The functions \<open>Debug\<close>,
  \<open>Info\<close>, \<open>Warn\<close> and \<open>Error\<close> only write a record.
\<close>

type_synonym 'w log_globals = "LogManager option \<times> 'w log_heap"

definition log_GetManager :: "'w file_ops \<Rightarrow> 'w log_globals \<Rightarrow> 'w log_globals" where
  "log_GetManager ops g =
     (case g of
        (Some m, h) \<Rightarrow> (Some m, h)
      | (None, h) \<Rightarrow>
          (case new_config log_DefaultConfig h of (h1, a) \<Rightarrow>
             (case lm_NewManager ops (Some a) h1 of
                (h2, Ok m) \<Rightarrow> (Some m, h2)
              | (h2, Err _) \<Rightarrow> (None, h2))))"

definition log_GetLogger :: "'w file_ops \<Rightarrow> string \<Rightarrow> 'w log_globals \<Rightarrow> 'w log_globals \<times> nat exec" where
  "log_GetLogger ops name g =
     (case log_GetManager ops g of
        (None, h) \<Rightarrow> ((None, h), Panic ''invalid memory address or nil pointer dereference'')
      | (Some m, h) \<Rightarrow>
          (case lm_GetLogger ops name (m, h) of
             ((m1, h1), Ok l) \<Rightarrow> ((Some m1, h1), Ret l)
           | ((m1, h1), Err _) \<Rightarrow>
               (case lm_GetLogger ops ''default'' (m1, h1) of
                  ((m2, h2), Ok l) \<Rightarrow> ((Some m2, h2), Ret l)
                | ((m2, h2), Err _) \<Rightarrow>
                    ((Some m2, h2), Panic ''invalid memory address or nil pointer dereference''))))"

definition log_Default :: "'w file_ops \<Rightarrow> 'w log_globals \<Rightarrow> 'w log_globals \<times> nat exec" where
  "log_Default ops g = log_GetLogger ops ''default'' g"

definition log_WithContext :: "'w file_ops \<Rightarrow> 'w log_globals \<Rightarrow> 'w log_globals \<times> nat exec" where
  "log_WithContext ops g =
     (case log_Default ops g of
        ((m, h), Ret l) \<Rightarrow> (case lg_WithContext l h of (h1, l1) \<Rightarrow> ((m, h1), Ret l1))
      | (g', e) \<Rightarrow> (g', e))"

section \<open>What the operations leave alone\<close>

definition config_kind :: "LogConfig \<Rightarrow> string \<times> string \<times> bool \<times> string" where
  "config_kind c = (lc_Format c, lc_Output c, lc_AddSource c, lc_TimeFormat c)"

definition same_kinds :: "'w log_heap \<Rightarrow> 'w log_heap \<Rightarrow> bool" where
  "same_kinds h h' \<longleftrightarrow> map config_kind (lh_configs h') = map config_kind (lh_configs h) \<and>
     map lg_config (lh_loggers h') = map lg_config (lh_loggers h)"

lemma same_kinds_lengths: "same_kinds h h' \<Longrightarrow>
    length (lh_configs h') = length (lh_configs h) \<and> length (lh_loggers h') = length (lh_loggers h)"
  unfolding same_kinds_def by (metis length_map)

lemma same_kinds_refl [simp]: "same_kinds h h"
  by (simp add: same_kinds_def)




lemma list_update_same_map: "f x = f (xs ! a) \<Longrightarrow> map f (xs[a := x]) = map f xs"
  by (metis list_update_id map_update)

definition files_open :: "'w file_ops \<Rightarrow> bool" where
  "files_open ops \<longleftrightarrow> (\<forall>p w. snd (fo_MkdirAll ops p w) = None \<and> snd (fo_OpenFile ops p w) = None)"

lemma log_writer_frame:
  assumes "log_writer ops a h = (h', r)"
  shows "same_kinds h h'" "lh_loggers h' = lh_loggers h"
    "lc_Level (lh_configs h' ! i) = lc_Level (lh_configs h ! i)"
    "files_open ops \<Longrightarrow> \<exists>f. r = Ok f"
proof -
  have "lc_Level ((lh_configs h)[a := (lh_configs h ! a)\<lparr>lc_OutputPath := s\<rparr>] ! i) = lc_Level (lh_configs h ! i)" for s
    by (cases "a < length (lh_configs h)"; cases "i = a") (auto simp: list_update_beyond)
  then show "lc_Level (lh_configs h' ! i) = lc_Level (lh_configs h ! i)"
    using assms by (auto simp: log_writer_def Let_def split: if_splits prod.splits option.splits)
qed (use assms in \<open>auto simp: log_writer_def Let_def same_kinds_def list_update_same_map config_kind_def files_open_def
    split: if_splits prod.splits option.splits; metis snd_conv option.distinct(1)\<close>)+

lemma log_createHandler_frame:
  assumes "log_createHandler ops a level h = (h', r)"
  shows "same_kinds h h'" "lh_loggers h' = lh_loggers h"
    "lc_Level (lh_configs h' ! i) = lc_Level (lh_configs h ! i)"
    "r = Ok hnd \<Longrightarrow> hd_level hnd = level \<and> hd_scope hnd = [] \<and>
       hd_json hnd = (go_ToLower (lc_Format (lh_configs h' ! a)) = ''json'')"
    "files_open ops \<Longrightarrow> \<exists>hnd. r = Ok hnd"
proof -
  obtain r' where w: "log_writer ops a h = (h', r')"
    using assms by (auto simp: log_createHandler_def split: prod.splits result.splits)
  note f = log_writer_frame[OF w]
  show "same_kinds h h'" "lh_loggers h' = lh_loggers h" "lc_Level (lh_configs h' ! i) = lc_Level (lh_configs h ! i)"
    by (fact f)+
  show "files_open ops \<Longrightarrow> \<exists>hnd. r = Ok hnd"
    using assms w f(4) by (auto simp: log_createHandler_def)
  show "r = Ok hnd \<Longrightarrow> hd_level hnd = level \<and> hd_scope hnd = [] \<and>
       hd_json hnd = (go_ToLower (lc_Format (lh_configs h' ! a)) = ''json'')"
    using assms w by (auto simp: log_createHandler_def split: result.splits)
qed


text \<open>Pointers of a store are valid, the manager's too, and the manager has a default logger.\<close>

definition heap_wf :: "'w log_heap \<Rightarrow> bool" where
  "heap_wf h \<longleftrightarrow> (\<forall>l \<in> set (lh_loggers h). lg_config l < length (lh_configs h))"

definition lm_wf :: "LogManager \<times> 'w log_heap \<Rightarrow> bool" where
  "lm_wf s \<longleftrightarrow> heap_wf (snd s) \<and> lm_config (fst s) < length (lh_configs (snd s)) \<and>
     gm_wf (lm_loggers (fst s)) \<and> (\<forall>l \<in> snd ` set (lm_loggers (fst s)). l < length (lh_loggers (snd s))) \<and>
     gm_has (lm_loggers (fst s)) ''default''"

lemma heap_wf_same_kinds: "same_kinds h h' \<Longrightarrow> heap_wf h \<Longrightarrow> heap_wf h'"
proof -
  assume s: "same_kinds h h'" and w: "heap_wf h"
  have "lg_config ` set (lh_loggers h') = lg_config ` set (lh_loggers h)"
    using s unfolding same_kinds_def by (metis set_map)
  then have "\<exists>k \<in> set (lh_loggers h). lg_config k = lg_config l" if "l \<in> set (lh_loggers h')" for l
    using that by (metis imageE imageI)
  then show "heap_wf h'"
    using w same_kinds_lengths[OF s] unfolding heap_wf_def by metis
qed





section \<open>Properties\<close>


definition demo_log_files :: "unit file_ops" where
  "demo_log_files = \<lparr>fo_MkdirAll = (\<lambda>_ w. (w, None)), fo_OpenFile = (\<lambda>_ w. (w, None))\<rparr>"

text \<open>A manager with one module's logger, and a second configuration in JSON.\<close>

definition demo_log :: "LogManager \<times> unit log_heap" where
  "demo_log =
     (let h0 = \<lparr>lh_configs = [log_DefaultConfig, log_DefaultConfig\<lparr>lc_Level := ''debug'', lc_Format := ''json''\<rparr>],
                lh_loggers = [], lh_fs = ()\<rparr>
      in case lm_NewManager demo_log_files (Some 0) h0 of
           (h1, Ok m) \<Rightarrow> fst (lm_GetLogger demo_log_files ''hal'' (m, h1))
         | (h1, Err _) \<Rightarrow> (\<lparr>lm_loggers = [], lm_config = 0, lm_closed = False\<rparr>, h1))"

lemma demo_log_eq: "demo_log =
    (\<lparr>lm_loggers = [(''default'', 0), (''hal'', 2)], lm_config = 0, lm_closed = False\<rparr>,
     \<lparr>lh_configs = [log_DefaultConfig, log_DefaultConfig\<lparr>lc_Level := ''debug'', lc_Format := ''json''\<rparr>],
      lh_loggers = map (\<lambda>s. \<lparr>lg_handler = \<lparr>hd_writer = Stdout, hd_level = LevelInfo, hd_source = False, hd_json = False,
        hd_scope = s\<rparr>, lg_config = 0\<rparr>) [[], [], [Attrs [(''module'', ''hal'')]]], lh_fs = ()\<rparr>)"
  by code_simp

lemma demo_log_wf: "lm_wf demo_log"
  by (simp add: demo_log_eq lm_wf_def heap_wf_def gm_wf_def gm_has_def gm_get_def)


subsection \<open>Looking a logger up\<close>

lemma log_NewLogger_wf:
  assumes "log_NewLogger ops (Some a) h = (h', r)" "heap_wf h" "a < length (lh_configs h)"
  shows "heap_wf h'" "length (lh_configs h') = length (lh_configs h)" "length (lh_loggers h) \<le> length (lh_loggers h')"
    "r = Ok l \<Longrightarrow> l < length (lh_loggers h')"
proof -
  obtain h2 r2 where c: "log_createHandler ops a (log_parseLevel (lc_Level (lh_configs h ! a))) h = (h2, r2)" by fastforce
  note f = log_createHandler_frame[OF c]
  have w: "heap_wf h2" using f(1) assms(2) by (rule heap_wf_same_kinds)
  note len = same_kinds_lengths[OF f(1)]
  show "heap_wf h'" "length (lh_configs h') = length (lh_configs h)" "length (lh_loggers h) \<le> length (lh_loggers h')"
    using assms w len by (auto simp: log_NewLogger_def c new_logger_def heap_wf_def split: result.splits)
  show "r = Ok l \<Longrightarrow> l < length (lh_loggers h')"
    using assms by (auto simp: log_NewLogger_def c new_logger_def split: result.splits)
qed

lemma lm_create_Ok_lookup: "lm_create ops name s = (s', Ok l) \<Longrightarrow> lm_lookup name (fst s') = Some l"
  by (auto simp: lm_create_def lm_lookup_def split: prod.splits option.splits result.splits if_splits)

lemma set_gm_set: "set (gm_set k v m) \<subseteq> insert (k, v) (set m)"
  unfolding gm_set_def by (induction m) auto

lemma lm_create_wf:
  assumes "lm_create ops name s = (s', r)" "lm_wf s"
  shows "lm_wf s'"
proof -
  obtain m h where s: "s = (m, h)" by fastforce
  have w: "heap_wf h" "lm_config m < length (lh_configs h)" "gm_wf (lm_loggers m)"
      "\<forall>l \<in> snd ` set (lm_loggers m). l < length (lh_loggers h)" "gm_has (lm_loggers m) ''default''"
    using assms(2) by (auto simp: lm_wf_def s)
  obtain h1 r1 where n: "log_NewLogger ops (Some (lm_config m)) h = (h1, r1)" by fastforce
  note f = log_NewLogger_wf[OF n w(1,2)]
  have old: "\<forall>l \<in> snd ` set (lm_loggers m). l < length (lh_loggers h1)" using w(4) f(3) by auto
  show ?thesis
  proof (cases "lm_lookup name m")
    case (Some l)
    then show ?thesis using assms by (simp add: lm_create_def s)
  next
    case None
    show ?thesis
    proof (cases r1)
      case (Err e)
      then have "s' = (m, h1)" using assms(1) None n by (simp add: lm_create_def s)
      then show ?thesis using f w old by (simp add: lm_wf_def)
    next
      case (Ok l)
      obtain h2 l2 where g: "s' = (m\<lparr>lm_loggers := gm_set name l2 (lm_loggers m)\<rparr>, h2)"
        and h2: "h2 = h1 \<or> h2 = h1\<lparr>lh_loggers := lh_loggers h1 @ [with_scope [Attrs [(''module'', name)]] (lh_loggers h1 ! l)]\<rparr>"
        and l2: "l2 < length (lh_loggers h2)"
        using assms(1) None n f(4)[OF Ok] Ok
        by (auto simp: lm_create_def s lg_With_def new_logger_def split: if_splits)
      have wf2: "heap_wf h2" "lh_configs h2 = lh_configs h1" "length (lh_loggers h1) \<le> length (lh_loggers h2)"
        using h2 f(1) f(4)[OF Ok] by (auto simp: heap_wf_def with_scope_def)
      have "\<forall>l \<in> snd ` set (gm_set name l2 (lm_loggers m)). l < length (lh_loggers h2)"
        using l2 old wf2(3) set_gm_set[of name l2 "lm_loggers m"] by fastforce
      then show ?thesis
        using wf2 f(2) w by (simp add: g lm_wf_def gm_has_def)
    qed
  qed
qed

text \<open>
  A name stands for one logger: two callers that both miss it under the read lock are given the same
  logger, and a later call finds that one and makes nothing; the manager keeps its default logger.
\<close>

theorem one_logger_per_name:
  assumes "lm_wf s" "lm_lookup name (fst s) = None" "lm_create ops name s = (s1, Ok l)"
  shows "lm_create ops name s1 = (s1, Ok l) \<and> lm_GetLogger ops name s1 = (s1, Ok l) \<and> lm_wf s1 \<and>
     lm_lookup ''default'' (lm_RemoveLogger name (fst s1)) \<noteq> None"
proof -
  have k: "lm_lookup name (fst s1) = Some l" using assms(3) by (rule lm_create_Ok_lookup)
  have w: "lm_wf s1" using lm_create_wf[OF assms(3,1)] .
  have "lm_lookup ''default'' (fst s1) \<noteq> None" using w by (simp add: lm_wf_def gm_has_def lm_lookup_def)
  then have "lm_lookup ''default'' (lm_RemoveLogger name (fst s1)) \<noteq> None"
    by (simp add: lm_RemoveLogger_def lm_lookup_def)
  then show ?thesis
    using k w by (auto simp: lm_create_def lm_GetLogger_def split: prod.splits)
qed

theorem one_logger_per_name_witness:
  "\<exists>s1 l. lm_create demo_log_files ''ipc'' demo_log = (s1, Ok l) \<and> lm_GetLogger demo_log_files ''ipc'' s1 = (s1, Ok l) \<and> l \<noteq> 0"
proof -
  have miss: "lm_lookup ''ipc'' (fst demo_log) = None" by (simp add: demo_log_eq lm_lookup_def gm_get_def)
  have "(case lm_create demo_log_files ''ipc'' demo_log of (s1, Ok l) \<Rightarrow> l = 4 | _ \<Rightarrow> False)" by code_simp
  then obtain s1 where c: "lm_create demo_log_files ''ipc'' demo_log = (s1, Ok 4)" by (auto split: prod.splits result.splits)
  from one_logger_per_name[OF demo_log_wf miss c] c show ?thesis by (intro exI[of _ s1] exI[of _ 4]) simp
qed

text \<open>The package's own manager exists after the first call, whatever the file system does.\<close>

lemma GetManager_exists: "\<exists>m. fst (log_GetManager ops g) = Some m"
proof (cases g)
  case (Pair mo h)
  have d: "log_parseLevel (lc_Level log_DefaultConfig) = LevelInfo" by code_simp
  have w: "go_ToLower (lc_Output log_DefaultConfig) \<noteq> ''stderr'' \<and> go_ToLower (lc_Output log_DefaultConfig) \<noteq> ''file''"
    by code_simp
  show ?thesis
    using w by (cases mo) (simp_all add: Pair log_GetManager_def lm_NewManager_def log_NewLogger_def log_createHandler_def
        log_writer_def new_config_def new_logger_def Let_def)
qed

text \<open>A second \<open>Close\<close> closes the channel again.\<close>

lemma close_twice: "lm_Close m = Ret m' \<Longrightarrow> lm_Close m' = Panic ''close of closed channel''"
  by (auto simp: lm_Close_def split: if_splits)

end
