(* ===== verification/Simulator.thy ===== *)
theory Simulator
  imports FloatArith Ipc ApplicationProps
begin

text \<open>
  The test client of the program (\<open>cmd/simulator/main.go\<close>): every two seconds it sends one of seven business
  commands over an \<open>IPCClient\<close>.  What \<open>math/rand\<close> yields is an argument: \<open>sc_Intn k\<close> is the next value of
  \<open>rand.Intn(k)\<close> and \<open>sc_Float64\<close> the successive values of \<open>rand.Float64()\<close>.  Printing is dropped, but for
  the branch that the handler of responses takes.  A simulator is started once, as \<open>main\<close> does: its context is
  the flag \<open>sim_cancelled\<close>.
\<close>

record sim_choice =
  sc_Intn :: "nat \<Rightarrow> nat"
  sc_mode :: nat
  sc_Float64 :: "nat \<Rightarrow> f64"

record ('b, 'w) Simulator =
  sim_ipcClient :: "('b, 'w) IPCClient"
  sim_clientID :: string
  sim_running :: bool
  sim_cancelled :: bool
  sim_loops :: nat

definition NewSimulator :: "IPCConfig \<Rightarrow> int \<Rightarrow> 'w \<Rightarrow> ('b, 'w) Simulator" where
  "NewSimulator cfg now w =
     \<lparr>sim_ipcClient = NewIPCClient cfg w, sim_clientID = ''simulator-'' @ int_dec now, sim_running = False,
      sim_cancelled = False, sim_loops = 0\<rparr>"

text \<open>Handler 0 is \<open>handleBusinessResponse\<close>.\<close>

definition sim_Start :: "('b, 'w) net_ops \<Rightarrow> ('b, 'w) Simulator \<Rightarrow> ('b, 'w) Simulator \<times> goerr option" where
  "sim_Start net s =
     (let s1 = s\<lparr>sim_cancelled := False\<rparr> in
      case cl_Connect net (sim_ipcClient s1) of
        (c, Some e) \<Rightarrow> (s1\<lparr>sim_ipcClient := c\<rparr>, Some (Errorf ''failed to connect to IPC server: %w'' [AErr e]))
      | (c, None) \<Rightarrow>
          (s1\<lparr>sim_ipcClient := cl_RegisterHandler ''business_response'' 0 c, sim_running := True,
              sim_loops := Suc (sim_loops s1)\<rparr>, None))"

definition sim_Stop :: "('b, 'w) net_ops \<Rightarrow> ('b, 'w) Simulator \<Rightarrow> ('b, 'w) Simulator \<times> goerr option" where
  "sim_Stop net s =
     (if \<not> sim_running s then (s, Some (Errorf ''simulator is not running'' []))
      else (s\<lparr>sim_cancelled := True, sim_ipcClient := cl_Disconnect net (sim_ipcClient s), sim_running := False\<rparr>, None))"

section \<open>The commands\<close>

definition sim_message :: "int \<Rightarrow> string \<Rightarrow> BusinessCommand \<Rightarrow> (string, goval) gomap \<Rightarrow> IPCMessage" where
  "sim_message now clientID command params =
     \<lparr>msg_Type = ''business_command'', msg_Source = clientID, msg_Target = ''control_system'',
      msg_Data = [(''command'', VString command), (''params'', VMap params)],
      msg_Timestamp = now, msg_ID = ''msg-'' @ int_dec now\<rparr>"

text \<open>A failed send is only reported.\<close>

definition sim_sendBusinessCommand ::
  "('b, 'w) net_ops \<Rightarrow> bool \<Rightarrow> int \<Rightarrow> BusinessCommand \<Rightarrow> (string, goval) gomap \<Rightarrow>
   ('b, 'w) Simulator \<Rightarrow> ('b, 'w) Simulator \<times> unit exec" where
  "sim_sendBusinessCommand net prefer_done now command params s =
     (case cl_Send net prefer_done (sim_message now (sim_clientID s) command params) (sim_ipcClient s) of
        (c, r) \<Rightarrow> (s\<lparr>sim_ipcClient := c\<rparr>, ebind r (\<lambda>_. Ret ())))"

definition sim_commands :: "BusinessCommand list" where
  "sim_commands =
     [CmdQueryStatus, CmdMove, CmdHome, CmdEmergencyStop, CmdSafetyCheck, CmdSelfCheck, CmdListTemplates]"

text \<open>\<open>rand.Float64()*k + d\<close>.\<close>

definition sim_scaled :: "sim_choice \<Rightarrow> nat \<Rightarrow> rat \<Rightarrow> rat \<Rightarrow> f64" where
  "sim_scaled ch i k d = f64_add (f64_mul (sc_Float64 ch i) (Fin k)) (Fin d)"

definition sim_target :: "sim_choice \<Rightarrow> Point" where
  "sim_target ch =
     \<lparr>pt_X = sim_scaled ch 0 200 (- 100), pt_Y = sim_scaled ch 1 200 (- 100), pt_Z = sim_scaled ch 2 100 (- 50)\<rparr>"

definition sim_velocity :: "sim_choice \<Rightarrow> Velocity" where
  "sim_velocity ch = \<lparr>vel_Linear = sim_scaled ch 3 50 10, vel_Angular = f64_mul (sc_Float64 ch 4) (Fin 10)\<rparr>"

definition sim_params :: "sim_choice \<Rightarrow> BusinessCommand \<Rightarrow> (string, goval) gomap" where
  "sim_params ch command =
     (if command = CmdQueryStatus then [(''query_type'', VString ''system_status'')]
      else if command = CmdMove then
        [(''target'', VPoint (sim_target ch)), (''velocity'', VVelocity (sim_velocity ch)),
         (''axes'', VStrings [''axis-x'', ''axis-y'']),
         (''mode'', VString ([''precise'', ''rapid'', ''simple''] ! sc_mode ch))]
      else if command = CmdHome then
        [(''axes'', VStrings [''axis-x'', ''axis-y'', ''axis-z'']), (''mode'', VString ''standard'')]
      else if command = CmdEmergencyStop then [(''reason'', VString ''simulated emergency'')]
      else if command = CmdSafetyCheck then [(''check_type'', VString ''full_system'')]
      else if command = CmdSelfCheck then [(''check_level'', VString ''comprehensive'')]
      else [])"

definition sim_simulateBusinessCommands ::
  "('b, 'w) net_ops \<Rightarrow> bool \<Rightarrow> int \<Rightarrow> sim_choice \<Rightarrow> ('b, 'w) Simulator \<Rightarrow> ('b, 'w) Simulator \<times> unit exec" where
  "sim_simulateBusinessCommands net prefer_done now ch s =
     (let command = sim_commands ! sc_Intn ch (length sim_commands)
      in sim_sendBusinessCommand net prefer_done now command (sim_params ch command) s)"

definition sim_simulateActivity ::
  "('b, 'w) net_ops \<Rightarrow> bool \<Rightarrow> int \<Rightarrow> sim_choice \<Rightarrow> ('b, 'w) Simulator \<Rightarrow> ('b, 'w) Simulator \<times> unit exec" where
  "sim_simulateActivity = sim_simulateBusinessCommands"

text \<open>
  One pass of \<open>runSimulation\<close>: with the context cancelled it may end even when the ticker has fired
  (\<open>prefer_done\<close>).
\<close>

definition sim_turn ::
  "('b, 'w) net_ops \<Rightarrow> bool \<Rightarrow> bool \<Rightarrow> int \<Rightarrow> sim_choice \<Rightarrow> ('b, 'w) Simulator \<Rightarrow> ('b, 'w) Simulator \<times> unit exec" where
  "sim_turn net prefer_done ticked now ch s =
     (if sim_loops s = 0 then (s, Ret ())
      else if sim_cancelled s \<and> (prefer_done \<or> \<not> ticked) then (s\<lparr>sim_loops := sim_loops s - 1\<rparr>, Ret ())
      else if ticked then sim_simulateActivity net prefer_done now ch s
      else (s, Ret ()))"

datatype sim_line =
    SimQuiet
  | SimData string string "(string, goval) gomap"
  | SimFailed string string
  | SimPlain string string

definition sim_handleBusinessResponse :: "IPCMessage \<Rightarrow> sim_line" where
  "sim_handleBusinessResponse message =
     (case gm_get (msg_Data message) ''request_id'' of
        Some (VString requestID) \<Rightarrow>
          (case gm_get (msg_Data message) ''status'' of
             Some (VString status) \<Rightarrow>
               (case gm_get (msg_Data message) ''data'' of
                  Some (VMap data) \<Rightarrow> SimData requestID status data
                | _ \<Rightarrow>
                    (case gm_get (msg_Data message) ''error'' of
                       Some (VString e) \<Rightarrow> SimFailed requestID e
                     | _ \<Rightarrow> SimPlain requestID status))
           | _ \<Rightarrow> SimQuiet)
      | _ \<Rightarrow> SimQuiet)"

definition sim_config :: "string \<Rightarrow> int \<Rightarrow> IPCConfig" where
  "sim_config address port =
     \<lparr>ipc_Type = ''tcp'', ipc_Address = address, ipc_Port = port, ipc_Timeout = 5 * Second, ipc_BufferSize = 1024\<rparr>"

section \<open>What the program makes of the commands\<close>

lemma simulated_commands_parse:
  "msg_Source (sim_message now i c ps) = i"
  "am_parseBusinessMessage t (sim_message now i c ps) =
     Ok \<lparr>bm_Command = c, bm_Params = ps, bm_RequestID = ''msg-'' @ int_dec now, bm_Source = i,
         bm_Target = ''control_system'', bm_Timestamp = t\<rparr>"
  by (simp_all add: am_parseBusinessMessage_def sim_message_def gm_get_def)

text \<open>
  Of the seven commands the simulator draws from, the program handles all but the move: a move is answered,
  under the identity of its message, with the error that no handler is registered, and changes nothing.
\<close>

theorem simulated_moves_are_refused:
  assumes "am_ready am" "i \<noteq> []"
  shows "filter (\<lambda>c. gm_get (cr_handlers (am_commandRouter am)) c = None) sim_commands = [CmdMove] \<and>
     (\<exists>r. am_handleBusinessCommand t (sim_message now i CmdMove (sim_params ch CmdMove)) am = (am, Some (i, r)) \<and>
        msg_Target r = i \<and> gm_get (msg_Data r) ''request_id'' = Some (VString (''msg-'' @ int_dec now)) \<and>
        gm_get (msg_Data r) ''error'' = Some (VString ''no handler registered for command: move''))"
proof
  show "filter (\<lambda>c. gm_get (cr_handlers (am_commandRouter am)) c = None) sim_commands = [CmdMove]"
    using assms(1) by (simp add: sim_commands_def cfh_GetHandledCommands_def bll_GetHandledCommands_def)
  have "gm_get (cr_handlers (am_commandRouter am)) CmdMove = None"
    using assms(1) by (simp add: cfh_GetHandledCommands_def bll_GetHandledCommands_def)
  then show "\<exists>r. am_handleBusinessCommand t (sim_message now i CmdMove (sim_params ch CmdMove)) am = (am, Some (i, r)) \<and>
        msg_Target r = i \<and> gm_get (msg_Data r) ''request_id'' = Some (VString (''msg-'' @ int_dec now)) \<and>
        gm_get (msg_Data r) ''error'' = Some (VString ''no handler registered for command: move'')"
    using assms(2)
    by (simp add: am_handleBusinessCommand_def simulated_commands_parse am_routeBusinessCommand_def on_part_def
        cr_RouteCommand_def error_response_def am_sendBusinessResponse_def gm_get_def)
qed

definition demo_choice :: sim_choice where
  "demo_choice = \<lparr>sc_Intn = (\<lambda>_. 1), sc_mode = 0, sc_Float64 = (\<lambda>_. Fin (1 / 2))\<rparr>"

theorem simulated_moves_are_refused_witness:
  "\<exists>r. am_handleBusinessCommand 9 (sim_message 8 ''simulator-1'' CmdMove (sim_params demo_choice CmdMove)) demo_am =
     (demo_am, Some (''simulator-1'', r))"
  using simulated_moves_are_refused[OF demo_am_ready, of "''simulator-1''" 9 8 demo_choice] by blast

end
