(* ===== verification/Spec2Isabelle.thy ===== *)
theory Spec2Isabelle
  imports EventLoop ApplicationProps HwProps ConfigMgrProps IpcProps SystemProps Planner Logging Simulator
begin

text \<open>
  A verification library of go_control, a motion-control system in Go (the paths below are relative to
  the repository).

  THE PROGRAM.  \<open>cmd/control/main.go\<close> loads a configuration, starts the infrastructure (hardware manager, IPC
  server), the application and an event loop, waits for a signal and stops them in reverse order.  A client
  sends business commands over IPC; the server hands each to the application manager, which routes it to a
  handler; the business logic makes a task of it; the scheduler orders the tasks by priority and feeds a task
  channel; the orchestration decomposes a task into motion commands; these go to the command executor and its
  execution queue, to a device, and through the hardware layer to a Modbus, serial or custom client.
  Triggers are a second source of tasks.

  CONVENTIONS (theory GoPrelude).  A function that mutates a structure takes it and returns it updated.  A call
  returns, panics or blocks for ever: \<open>Ret\<close>, \<open>Panic\<close>, \<open>Blocked\<close>.  Errors are values of \<open>goerr\<close>.  \<open>time.Now()\<close>
  is an argument, calls of the logger are dropped.  A Go map is an association list whose order is that of
  one iteration; where the order matters it is arbitrary.  Mutexes are explicit where some path takes one
  twice.  A goroutine is a set of rules of a step relation or a function that performs one turn of its loop,
  with the choices of its \<open>select\<close> as arguments.  Objects shared by pointers live in a store.  Code that is
  not in the repository (the YAML and JSON codecs, TCP, files, the Modbus and serial drivers) is a record of
  functions over a world type.

  THEORIES.
  Prelude: Float64, FloatArith (binary64 numbers, rounding to nearest, ties to even), GoFmt (\<open>%.2f\<close>, durations,
  parsing), GoPrelude (errors, outcomes, locks, maps, the collections \<open>locked_simps\<close>, \<open>map_simps\<close>, \<open>wf_intros\<close>),
  GoTypes (\<open>pkg/types/types.go\<close>, channels), Interfaces (the locales).
  Core (\<open>internal/core\<close>): EventLoop (\<open>events.go\<close>, \<open>eventloop.go\<close>), ExecQueue (\<open>queue.go\<close>), Executor (\<open>executor.go\<close>
  and the pipeline \<open>pl_step\<close> of both), Scheduler (\<open>scheduler.go\<close>), Trigger (\<open>trigger.go\<close>), Decomposer
  (\<open>decomposer.go\<close>, \<open>tasknode_decomposer.go\<close>), Planner (\<open>SimpleTrajectoryPlanner\<close>), TaskNode
  (\<open>pkg/types/tasknode.go\<close>).
  Devices and hardware: Devices (\<open>internal/device/device.go\<close>), Comm (\<open>internal/hardware/comm\<close>), Crc16, Serial,
  ModbusComm, Custom (\<open>internal/hardware/protocols\<close>), HwManager (\<open>internal/hardware/devices/manager.go\<close>), HwFactory
  (\<open>internal/hardware/factory.go\<close>).
  Hardware abstraction: ResourceManager, Hal (\<open>internal/hal\<close>).
  Application: Application (\<open>internal/application\<close>), Management (\<open>internal/core/command_handler.go\<close>,
  \<open>internal/management/config_handler.go\<close>, \<open>application_manager.go\<close>).
  Infrastructure: ConfigMgr (\<open>internal/config/manager.go\<close>), Ipc (\<open>internal/ipc\<close>), Logging (\<open>internal/logging\<close>),
  System (\<open>internal/management/infrastructure_manager.go\<close>, \<open>cmd/control/main.go\<close>), Simulator
  (\<open>cmd/simulator/main.go\<close>).
  A theory \<open>XProps\<close> holds the lemmas and theorems about X.

  In the names of definitions a prefix stands for the receiver: \<open>eq_\<close> ExecutionQueue, \<open>ts_\<close> TaskScheduler, \<open>tq_\<close>
  TaskQueue, \<open>el_\<close> EventLoop, \<open>tt_\<close> TaskTrigger, \<open>ce_\<close> CommandExecutor, \<open>td_\<close> and \<open>tnd_\<close> the decomposers, \<open>rm_\<close>
  ResourceManager, \<open>bc_\<close>, \<open>sc_\<close>, \<open>mc_\<close>, \<open>cpc_\<close> the communication clients, \<open>hm_\<close> and \<open>hf_\<close> the hardware manager and
  factory, \<open>bll_\<close>, \<open>tol_\<close>, \<open>scl_\<close>, \<open>am_\<close> the application, \<open>cm_\<close> the configuration manager, \<open>is_\<close> and \<open>cl_\<close> the IPC
  server and client, \<open>im_\<close> and \<open>mcs_\<close> the infrastructure and the program, \<open>lg_\<close> and \<open>lm_\<close> the loggers.

  INTERFACES.  \<open>kv_store\<close> (maps), \<open>registry\<close> (event loop modules, triggers), \<open>fifo\<close> (task queues), \<open>lifecycle\<close>
  (scheduler, trigger, execution queue), \<open>motion_device\<close> (mock and Modbus devices), \<open>command_handler\<close> and
  \<open>routed\<close> (business logic, configuration handler, the router over both), \<open>resource_pool\<close> (resource manager),
  \<open>comm_client\<close> (the three communication clients); each is interpreted on the model's own operations in the
  theory that provides them.

  WHAT IS PROVED.
  Queue and pipeline: a representation invariant that every operation keeps; the allowed status changes; a push
  that finds the channel full deadlocks; commands are indexed under a prefix no task has; no command gets as
  far as a device.
  Scheduler: the four queues refine a stable sort by priority; a cancellation between \<open>Size\<close> and \<open>Pop\<close> stalls
  it; no task is ever completed; an emergency stop is taken next.
  Events: dispatch in order, each handler exactly once per event.
  Tasks: what the decomposers produce, and that the tasks of business commands produce nothing; every node
  fails to execute; a straight line is planned to its end, the commands of a move task end elsewhere.
  Resources: allocation for a task is all or nothing, for requests without repetition.
  Communication: at most \<open>RetryCount + 1\<close> attempts; the CRC detects every burst within two adjacent bytes and
  its byte-wise check is the residue test; short serial reads return nothing; integers of the custom protocol
  round-trip in both byte orders.
  Hardware: the manager's invariant; no motion of the device package reaches a bus.
  Configuration: \<open>SetConfig\<close> returns exactly when it fails; a reload keeps the last good configuration.
  IPC: the source of a message cannot be forged; broadcasts return; once the server is stopping a measure
  decreases with every turn of its goroutines; a client loses frames.
  Program: it starts, given a valid configuration file; without one it hangs once; it never stops normally;
  the reply to a business command reaches the client that sent it.
  Logging: an update of the configuration changes levels only; one logger per name.

  BOUNDS AND FUEL.  \<open>parse_units\<close> has the length of its input as fuel, which suffices because each number
  consumes at least its unit (\<open>parse_units_fuel\<close>).  \<open>retry_loop\<close> counts down from \<open>RetryCount + 1\<close>, the
  bound of the Go loop.  All other recursions are structural or have a termination proof.  Word widths
  are those of the source; \<open>int\<close> and durations wrap at 64 bits where they are computed (\<open>wrap64\<close>).
  In \<open>float64\<close> the sign of zero and NaN payloads are not kept, a zero divisor counts as \<open>+0\<close>, and no product is
  fused with a sum; an out-of-range conversion to an integer type is a parameter.

  NOT MODELLED.  The contents of log records.  Locks and contexts that guard single accesses only.  The message
  handlers of \<open>main.go\<close>, which only log and which nothing calls; \<open>convertInterfaceParamsToString\<close>, which nothing
  calls; printing and flags of both programs; \<open>build.go\<close>, a wrapper of the go tool.  The own
  mutexes of the hardware manager's devices, which no call re-enters.  Memory exhaustion.
\<close>

end
